(* ===== verification/Prelude.thy ===== *)
theory Prelude
  imports Main "HOL-Library.Word"
begin

text \<open>
  Shared vocabulary of the development.

  \<^item> Types: a Rust \<open>u8\<close>, \<open>u16\<close>, \<open>u32\<close> is a word of its width, \<open>[u8; N]\<close> and \<open>&[u8]\<close> are
    lists of bytes, \<open>str\<close> is a list of characters (its UTF-8 bytes).
  \<^item> Results: \<open>Result<T, E>\<close> is the sum \<open>'e + 'a\<close> (\<open>Inl\<close> the error); \<open>bind_r\<close> is the
    question-mark operator.
  \<^item> Programs with a device: a computation reads and updates the device state and may
    panic; \<open>bind_p\<close> sequences two of them the way the code does.
  \<^item> Little-endian integers of 16, 24 and 32 bits, byte-wise XOR, and the locale \<open>codec\<close>
    that every encode/decode pair of the code is an instance of.
\<close>

unbundle bit_operations_syntax

type_synonym byte = "8 word"
type_synonym bytes = "byte list"
type_synonym u16 = "16 word"
type_synonym u32 = "32 word"
type_synonym ('e, 'a) result = "'e + 'a"

named_theorems unfold_prog \<open>defining equations of the device programs\<close>
named_theorems wire_simps \<open>byte layouts: lengths, projections and round trips\<close>
named_theorems inv_intros \<open>preservation of the component invariants\<close>


section \<open>Results\<close>

definition bind_r :: "('e, 'a) result \<Rightarrow> ('a \<Rightarrow> ('e, 'b) result) \<Rightarrow> ('e, 'b) result" where
  "bind_r r f = (case r of Inl e \<Rightarrow> Inl e | Inr a \<Rightarrow> f a)"

definition ok_or :: "'e \<Rightarrow> 'a option \<Rightarrow> ('e, 'a) result" where
  "ok_or e v = (case v of None \<Rightarrow> Inl e | Some a \<Rightarrow> Inr a)"

definition map_err :: "('e \<Rightarrow> 'f) \<Rightarrow> ('e, 'a) result \<Rightarrow> ('f, 'a) result" where
  "map_err f r = (case r of Inl e \<Rightarrow> Inl (f e) | Inr a \<Rightarrow> Inr a)"

lemma bind_r_simps [simp]:
  "bind_r (Inl e) f = Inl e"
  "bind_r (Inr a) f = f a"
  by (simp_all add: bind_r_def)

lemma bind_r_Inr_iff:
  "bind_r r f = Inr b \<longleftrightarrow> (\<exists>a. r = Inr a \<and> f a = Inr b)"
  by (cases r) auto

lemma ok_or_simps [simp]:
  "ok_or e None = Inl e"
  "ok_or e (Some a) = Inr a"
  by (simp_all add: ok_or_def)

lemma map_err_simps [simp]:
  "map_err f (Inl e) = Inl (f e)"
  "map_err f (Inr a) = Inr a"
  by (simp_all add: map_err_def)


section \<open>Programs over a device\<close>

text \<open>
  \<open>None\<close> is a panic; \<open>Some (r, s)\<close> a return with result \<open>r\<close> and device state \<open>s\<close>.
  An error return keeps the state reached so far, as a Rust method on \<open>&mut self\<close> does.
\<close>

type_synonym ('s, 'e, 'a) prog = "'s \<Rightarrow> (('e, 'a) result \<times> 's) option"

definition return_p :: "'a \<Rightarrow> ('s, 'e, 'a) prog" where
  "return_p a s = Some (Inr a, s)"

definition throw_p :: "'e \<Rightarrow> ('s, 'e, 'a) prog" where
  "throw_p e s = Some (Inl e, s)"

definition panic_p :: "('s, 'e, 'a) prog" where
  "panic_p s = None"

definition bind_p :: "('s, 'e, 'a) prog \<Rightarrow> ('a \<Rightarrow> ('s, 'e, 'b) prog) \<Rightarrow> ('s, 'e, 'b) prog" where
  "bind_p m f s =
    (case m s of
      None \<Rightarrow> None
    | Some (Inl e, s') \<Rightarrow> Some (Inl e, s')
    | Some (Inr a, s') \<Rightarrow> f a s')"

text \<open>\<open>catch_p\<close> hands the whole result to the continuation: a \<open>match\<close> on a fallible call.\<close>

definition catch_p :: "('s, 'e, 'a) prog \<Rightarrow> (('e, 'a) result \<Rightarrow> ('s, 'f, 'b) prog) \<Rightarrow> ('s, 'f, 'b) prog" where
  "catch_p m f s = (case m s of None \<Rightarrow> None | Some (r, s') \<Rightarrow> f r s')"

definition map_err_p :: "('e \<Rightarrow> 'f) \<Rightarrow> ('s, 'e, 'a) prog \<Rightarrow> ('s, 'f, 'a) prog" where
  "map_err_p g m s = (case m s of None \<Rightarrow> None | Some (r, s') \<Rightarrow> Some (map_err g r, s'))"

definition lift_r :: "('e, 'a) result \<Rightarrow> ('s, 'e, 'a) prog" where
  "lift_r r s = Some (r, s)"

lemma prog_simps [simp]:
  "return_p a s = Some (Inr a, s)"
  "throw_p e s = Some (Inl e, s)"
  "panic_p s = None"
  "lift_r r s = Some (r, s)"
  by (simp_all add: return_p_def throw_p_def panic_p_def lift_r_def)

lemma bind_p_ok: "m s = Some (Inr a, s') \<Longrightarrow> bind_p m f s = f a s'"
  by (simp add: bind_p_def)

lemma bind_p_err: "m s = Some (Inl e, s') \<Longrightarrow> bind_p m f s = Some (Inl e, s')"
  by (simp add: bind_p_def)

lemma bind_p_panic: "m s = None \<Longrightarrow> bind_p m f s = None"
  by (simp add: bind_p_def)

lemma catch_p_ok: "m s = Some (r, s') \<Longrightarrow> catch_p m f s = f r s'"
  by (simp add: catch_p_def)

lemma map_err_p_ok: "m s = Some (r, s') \<Longrightarrow> map_err_p g m s = Some (map_err g r, s')"
  by (simp add: map_err_p_def)

lemma bind_p_unit_simps [simp]:
  "bind_p (return_p a) f = f a"
  "bind_p (throw_p e) f = throw_p e"
  "bind_p (lift_r (Inr a)) f = f a"
  "bind_p (lift_r (Inl e)) f = throw_p e"
  by (rule ext, simp add: bind_p_def)+

lemma bind_p_assoc: "bind_p (bind_p m f) g = bind_p m (\<lambda>x. bind_p (f x) g)"
  by (rule ext) (auto simp: bind_p_def split: option.splits sum.splits)

lemma bind_p_SomeE:
  assumes "bind_p m f s = Some (Inr b, s')"
  obtains a s1 where "m s = Some (Inr a, s1)" "f a s1 = Some (Inr b, s')"
  using assms by (auto simp: bind_p_def split: option.splits sum.splits)


section \<open>Strings and bytes\<close>

definition as_bytes :: "string \<Rightarrow> bytes" where
  "as_bytes s = map of_char s"

definition str_of_bytes :: "bytes \<Rightarrow> string" where
  "str_of_bytes bs = map (\<lambda>b. char_of (unat b)) bs"

lemma length_as_bytes [simp]: "length (as_bytes s) = length s"
  by (simp add: as_bytes_def)

lemma length_str_of_bytes [simp]: "length (str_of_bytes s) = length s"
  by (simp add: str_of_bytes_def)

lemma as_bytes_append [simp]: "as_bytes (xs @ ys) = as_bytes xs @ as_bytes ys"
  by (simp add: as_bytes_def)

lemma as_bytes_Cons [simp]: "as_bytes (c # cs) = of_char c # as_bytes cs"
  by (simp add: as_bytes_def)

lemma as_bytes_Nil [simp]: "as_bytes [] = []"
  by (simp add: as_bytes_def)

lemma of_char_char_of_byte [simp]: "of_char (char_of (unat b)) = (b :: byte)"
proof -
  have "unat b < 2 ^ LENGTH(8)"
    by (rule unsigned_less)
  then have "unat b < 256"
    by simp
  then have "of_char (char_of (unat b)) = unat b"
    by simp
  then have "of_nat (of_char (char_of (unat b))) = (of_nat (unat b) :: byte)"
    by simp
  then show ?thesis
    by (simp add: of_char_def)
qed

lemma char_of_of_char_byte [simp]: "char_of (unat (of_char c :: byte)) = c"
proof -
  have "unat (of_char c :: byte) = of_char c"
  proof -
    have "(of_char c :: byte) = of_nat (of_char c)"
      by (simp add: of_char_def)
    moreover have "of_char c < (256 :: nat)"
      by simp
    ultimately show ?thesis
      by (simp add: unat_of_nat)
  qed
  then show ?thesis
    by simp
qed

lemma as_bytes_str_of_bytes [simp]: "as_bytes (str_of_bytes bs) = bs"
  by (simp add: as_bytes_def str_of_bytes_def comp_def)

lemma str_of_bytes_as_bytes [simp]: "str_of_bytes (as_bytes s) = s"
  by (simp add: as_bytes_def str_of_bytes_def comp_def)


definition strip_prefix :: "'a list \<Rightarrow> 'a list \<Rightarrow> 'a list option" where
  "strip_prefix pre s = (if take (length pre) s = pre then Some (drop (length pre) s) else None)"

lemma strip_prefix_append [simp]: "strip_prefix pre (pre @ s) = Some s"
  by (simp add: strip_prefix_def)

text \<open>Decimal text of an unsigned integer, as \<open>Display\<close> prints it.\<close>

fun dec_string :: "nat \<Rightarrow> string" where
  "dec_string n =
    (if n < 10 then [char_of (48 + n)] else dec_string (n div 10) @ [char_of (48 + n mod 10)])"

declare dec_string.simps [simp del]


section \<open>Slices\<close>

text \<open>\<open>slice a b xs\<close> is \<open>&xs[a..b]\<close>; the callers check that the bounds are in range.\<close>

definition slice :: "nat \<Rightarrow> nat \<Rightarrow> 'a list \<Rightarrow> 'a list" where
  "slice a b xs = take (b - a) (drop a xs)"

definition get_byte :: "'a list \<Rightarrow> nat \<Rightarrow> 'a option" where
  "get_byte xs i = (if i < length xs then Some (xs ! i) else None)"

lemma length_slice: "length (slice a b xs) = min (b - a) (length xs - a)"
  by (simp add: slice_def)

lemma slice_append_left [simp]:
  "b \<le> length xs \<Longrightarrow> slice a b (xs @ ys) = slice a b xs"
  by (cases "a \<le> b") (simp_all add: slice_def)

lemma slice_all [simp]: "slice 0 (length xs) xs = xs"
  by (simp add: slice_def)

lemma get_byte_Some [simp]: "i < length xs \<Longrightarrow> get_byte xs i = Some (xs ! i)"
  by (simp add: get_byte_def)

lemma get_byte_None [simp]: "length xs \<le> i \<Longrightarrow> get_byte xs i = None"
  by (simp add: get_byte_def)


section \<open>Byte-wise XOR\<close>

definition xor_bytes :: "bytes \<Rightarrow> bytes \<Rightarrow> bytes" where
  "xor_bytes xs ys = map2 (XOR) xs ys"

lemma length_xor_bytes [simp]: "length (xor_bytes xs ys) = min (length xs) (length ys)"
  by (simp add: xor_bytes_def)

lemma xor_bytes_Nil [simp]: "xor_bytes [] ys = []" "xor_bytes xs [] = []"
  by (simp_all add: xor_bytes_def)

lemma xor_bytes_Cons [simp]: "xor_bytes (x # xs) (y # ys) = (x XOR y) # xor_bytes xs ys"
  by (simp add: xor_bytes_def)

lemma byte_xor_cancel [simp]: "(x XOR y) XOR y = (x :: byte)"
  by (simp add: xor.assoc)

lemma xor_bytes_cancel:
  "length xs \<le> length ys \<Longrightarrow> xor_bytes (xor_bytes xs ys) ys = xs"
proof (induction xs arbitrary: ys)
  case (Cons x xs)
  then show ?case by (cases ys) simp_all
qed simp

lemma byte_xor_eq_0_iff: "x XOR y = 0 \<longleftrightarrow> x = (y :: byte)"
  by (metis byte_xor_cancel xor_self_eq xor.left_neutral)


section \<open>Little-endian integers\<close>

definition u16_le :: "u16 \<Rightarrow> bytes" where
  "u16_le w = [ucast w, ucast (drop_bit 8 w)]"

definition u16_of_le :: "byte \<Rightarrow> byte \<Rightarrow> u16" where
  "u16_of_le a b = ucast a OR push_bit 8 (ucast b)"

definition u24_le :: "u32 \<Rightarrow> bytes" where
  "u24_le w = [ucast w, ucast (drop_bit 8 w), ucast (drop_bit 16 w)]"

definition u32_le :: "u32 \<Rightarrow> bytes" where
  "u32_le w = [ucast w, ucast (drop_bit 8 w), ucast (drop_bit 16 w), ucast (drop_bit 24 w)]"

definition u32_of_le :: "byte \<Rightarrow> byte \<Rightarrow> byte \<Rightarrow> byte \<Rightarrow> u32" where
  "u32_of_le a b c d =
     ucast a OR push_bit 8 (ucast b) OR push_bit 16 (ucast c) OR push_bit 24 (ucast d)"

lemma length_u16_le [simp]: "length (u16_le w) = 2"
  by (simp add: u16_le_def)

lemma length_u24_le [simp]: "length (u24_le w) = 3"
  by (simp add: u24_le_def)

lemma length_u32_le [simp]: "length (u32_le w) = 4"
  by (simp add: u32_le_def)

lemma u16_le_roundtrip [wire_simps]:
  "u16_of_le (ucast w) (ucast (drop_bit 8 w)) = w"
  unfolding u16_of_le_def
  by (rule bit_word_eqI) (auto simp: bit_simps)

lemma u32_le_roundtrip [wire_simps]:
  "u32_of_le (ucast w) (ucast (drop_bit 8 w)) (ucast (drop_bit 16 w)) (ucast (drop_bit 24 w)) = w"
  (is "?L = w")
proof (rule bit_word_eqI)
  fix n :: nat
  assume "n < LENGTH(32)"
  then consider "n < 8" | "8 \<le> n \<and> n < 16" | "16 \<le> n \<and> n < 24" | "24 \<le> n \<and> n < 32"
    by auto linarith
  then show "bit ?L n = bit w n"
    by cases (auto simp: u32_of_le_def bit_simps)
qed


section \<open>Finite case analysis on bytes\<close>

definition all_bytes :: bytes where
  "all_bytes = map of_nat [0..<256]"

lemma byte_all_iff: "(\<forall>b :: byte. P b) \<longleftrightarrow> list_all P all_bytes"
proof
  assume "list_all P all_bytes"
  show "\<forall>b. P b"
  proof
    fix b :: byte
    have "unat b < 2 ^ LENGTH(8)"
      by (rule unsigned_less)
    then have "of_nat (unat b) \<in> set all_bytes"
      unfolding all_bytes_def by (simp only: set_map set_upt image_iff) force
    then show "P b"
      using \<open>list_all P all_bytes\<close> by (simp add: list_all_iff)
  qed
qed (simp add: list_all_iff)

lemma byte_allI: "list_all P all_bytes \<Longrightarrow> P b"
  using byte_all_iff [of P] by blast


section \<open>Encode and decode contracts\<close>

text \<open>
  The contract of an encoder and its decoder: on the values \<open>ok\<close> accepts, decoding an
  encoding gives the value back. Encodings of accepted values are then injective, and
  the decoder's answer on an encoding determines the value.
\<close>

locale codec =
  fixes enc :: "'a \<Rightarrow> 'b"
    and dec :: "'b \<Rightarrow> 'a option"
    and ok :: "'a \<Rightarrow> bool"
  assumes dec_enc: "ok x \<Longrightarrow> dec (enc x) = Some x"
begin

lemma enc_inj: "ok x \<Longrightarrow> ok y \<Longrightarrow> enc x = enc y \<Longrightarrow> x = y"
  by (metis dec_enc option.inject)

lemma enc_inj_on: "inj_on enc {x. ok x}"
  by (rule inj_onI) (auto intro: enc_inj)

lemma dec_enc_iff: "ok x \<Longrightarrow> dec (enc x) = Some y \<longleftrightarrow> y = x"
  using dec_enc [of x] by auto

end

lemma get_u16_le [wire_simps]:
  "u16_of_le (u16_le w ! 0) (u16_le w ! 1) = w"
  by (simp add: u16_le_def u16_le_roundtrip)

interpretation u16c: codec u16_le
  "\<lambda>bs. case bs of [a, b] \<Rightarrow> Some (u16_of_le a b) | _ \<Rightarrow> None" "\<lambda>_. True"
  by unfold_locales (simp add: u16_le_def u16_le_roundtrip)

interpretation u32c: codec u32_le
  "\<lambda>bs. case bs of [a, b, c, d] \<Rightarrow> Some (u32_of_le a b c d) | _ \<Rightarrow> None" "\<lambda>_. True"
  by unfold_locales (simp add: u32_le_def u32_le_roundtrip)

end
