(* ===== verification/Hex.thy ===== *)
theory Hex
  imports Prelude
begin

text \<open>
  Hexadecimal text, card identifiers and key material: \<open>bolty-core/src/util.rs\<close>,
  \<open>uid.rs\<close>, \<open>secret.rs\<close>, \<open>constants.rs\<close> and \<open>wifi_creds.rs\<close>. The decoder writes into a caller's
  buffer byte by byte and stops at the first bad character, so the model returns the
  buffer next to the result.
\<close>

section \<open>Constants\<close>

definition FACTORY_KEY :: bytes where
  "FACTORY_KEY = replicate 16 0"

definition KEY_VERSION_BLANK :: byte where
  "KEY_VERSION_BLANK = 0x00"

definition UID_LEN :: nat where
  "UID_LEN = 7"

definition NUM_KEYS :: nat where
  "NUM_KEYS = 5"

definition KEY_VERSION_PROVISIONED :: byte where
  "KEY_VERSION_PROVISIONED = 0x01"

definition KEY_VERSION_PROTECTED :: byte where
  "KEY_VERSION_PROTECTED = 0xFF"

section \<open>Decoding\<close>

datatype HexError = InvalidLength | InvalidHexCharacter

definition hex_error_message :: "HexError \<Rightarrow> string" where
  "hex_error_message e =
    (case e of
      InvalidLength \<Rightarrow> ''hex string has invalid length''
    | InvalidHexCharacter \<Rightarrow> ''hex string contains invalid character'')"

definition decode_hex_nibble :: "byte \<Rightarrow> byte option" where
  "decode_hex_nibble b =
    (if 0x30 \<le> b \<and> b \<le> 0x39 then Some (b - 0x30)
     else if 0x61 \<le> b \<and> b \<le> 0x66 then Some (b - 0x61 + 10)
     else if 0x41 \<le> b \<and> b \<le> 0x46 then Some (b - 0x41 + 10)
     else None)"

fun decode_hex_chunks :: "bytes \<Rightarrow> nat \<Rightarrow> bytes \<Rightarrow> (HexError, unit) result \<times> bytes" where
  "decode_hex_chunks (a # b # rest) idx out =
    (case decode_hex_nibble a of
      None \<Rightarrow> (Inl InvalidHexCharacter, out)
    | Some hi \<Rightarrow>
        (case decode_hex_nibble b of
          None \<Rightarrow> (Inl InvalidHexCharacter, out)
        | Some lo \<Rightarrow> decode_hex_chunks rest (Suc idx) (out[idx := push_bit 4 hi OR lo])))"
| "decode_hex_chunks _ idx out = (Inr (), out)"

definition decode_hex_into :: "string \<Rightarrow> bytes \<Rightarrow> (HexError, unit) result \<times> bytes" where
  "decode_hex_into hex out =
    (if length hex \<noteq> length out * 2 then (Inl InvalidLength, out)
     else decode_hex_chunks (as_bytes hex) 0 out)"

definition decode_hex :: "nat \<Rightarrow> string \<Rightarrow> (HexError, bytes) result" where
  "decode_hex n hex =
    (case decode_hex_into hex (replicate n 0) of
      (Inl e, _) \<Rightarrow> Inl e
    | (Inr _, out) \<Rightarrow> Inr out)"

section \<open>Encoding\<close>

definition HEX_LOWER :: string where
  "HEX_LOWER = ''0123456789abcdef''"

definition hex_byte :: "byte \<Rightarrow> string" where
  "hex_byte b = [HEX_LOWER ! unat (drop_bit 4 b), HEX_LOWER ! unat (b AND 0xf)]"

definition encode_hex :: "bytes \<Rightarrow> string" where
  "encode_hex input = concat (map hex_byte input)"

fun encode_hex_loop :: "bytes \<Rightarrow> nat \<Rightarrow> bytes \<Rightarrow> bytes" where
  "encode_hex_loop [] i out = out"
| "encode_hex_loop (b # bs) i out =
    encode_hex_loop bs (Suc i)
      (out[i * 2 := of_char (HEX_LOWER ! unat (drop_bit 4 b)),
           i * 2 + 1 := of_char (HEX_LOWER ! unat (b AND 0xf))])"

definition encode_hex_into :: "bytes \<Rightarrow> bytes \<Rightarrow> nat \<times> bytes" where
  "encode_hex_into input out =
    (let m = min (length input) (length out div 2)
     in (m * 2, encode_hex_loop (take m input) 0 out))"

section \<open>Card identifiers and keys\<close>

datatype CardUid = CardUid (uid_bytes: bytes)

definition uid_from_hex :: "string \<Rightarrow> (HexError, CardUid) result" where
  "uid_from_hex s = bind_r (decode_hex 7 s) (\<lambda>b. Inr (CardUid b))"

definition uid_display :: "CardUid \<Rightarrow> string" where
  "uid_display u = concat (map hex_byte (uid_bytes u))"

definition HEX_UPPER :: string where
  "HEX_UPPER = ''0123456789ABCDEF''"

definition uid_debug :: "CardUid \<Rightarrow> string" where
  "uid_debug u = ''CardUid('' @
    concat (map (\<lambda>b. [HEX_UPPER ! unat (drop_bit 4 b), HEX_UPPER ! unat (b AND 0xf)]) (uid_bytes u))
    @ '')''"

datatype AesKey = AesKey (key_bytes: bytes)

definition aes_key_from_hex :: "string \<Rightarrow> (HexError, AesKey) result" where
  "aes_key_from_hex s = bind_r (decode_hex 16 s) (\<lambda>b. Inr (AesKey b))"

definition aes_key_zeroed :: AesKey where
  "aes_key_zeroed = AesKey (replicate 16 0)"

definition aes_key_is_zero :: "AesKey \<Rightarrow> bool" where
  "aes_key_is_zero k = (key_bytes k = replicate 16 0)"

definition aes_key_debug :: "AesKey \<Rightarrow> string" where
  "aes_key_debug k = ''AesKey([REDACTED])''"

definition aes_key_drop :: "AesKey \<Rightarrow> AesKey" where
  "aes_key_drop k = AesKey (map (\<lambda>_. 0) (key_bytes k))"

record CardKeys =
  ck_k0 :: AesKey
  ck_k1 :: AesKey
  ck_k2 :: AesKey
  ck_k3 :: AesKey
  ck_k4 :: AesKey

definition card_keys_zeroed :: CardKeys where
  "card_keys_zeroed = \<lparr>ck_k0 = aes_key_zeroed, ck_k1 = aes_key_zeroed, ck_k2 = aes_key_zeroed,
    ck_k3 = aes_key_zeroed, ck_k4 = aes_key_zeroed\<rparr>"

definition card_keys_debug :: "CardKeys \<Rightarrow> string" where
  "card_keys_debug ks = ''CardKeys([REDACTED])''"


section \<open>Correctness of the hexadecimal codec\<close>

text \<open>The reference reading: every pair of digits is one byte, \<open>None\<close> on a bad digit.\<close>

fun hex_pairs :: "bytes \<Rightarrow> bytes option" where
  "hex_pairs (a # b # rest) =
    (case (decode_hex_nibble a, decode_hex_nibble b, hex_pairs rest) of
      (Some hi, Some lo, Some bs) \<Rightarrow> Some ((push_bit 4 hi OR lo) # bs)
    | _ \<Rightarrow> None)"
| "hex_pairs _ = Some []"

definition ascii_lower :: "char \<Rightarrow> char" where
  "ascii_lower c =
    (if of_char c \<ge> (0x41 :: nat) \<and> of_char c \<le> (0x5A :: nat)
     then char_of (of_char c + 0x20 :: nat) else c)"

lemma length_hex_byte [simp]: "length (hex_byte b) = 2"
  by (simp add: hex_byte_def)

lemma hex_byte_not_Nil [simp]: "hex_byte b \<noteq> []"
  by (simp add: hex_byte_def)

lemma length_encode_hex [simp]: "length (encode_hex bs) = 2 * length bs"
  by (induction bs) (simp_all add: encode_hex_def)

lemma encode_hex_simps [simp]:
  "encode_hex [] = []"
  "encode_hex (b # bs) = hex_byte b @ encode_hex bs"
  by (simp_all add: encode_hex_def)

lemma less_16_cases:
  "n < (16 :: nat) \<Longrightarrow> n \<in> {0, 1, 2, 3, 4, 5, 6, 7, 8, 9, 10, 11, 12, 13, 14, 15}"
  by (simp only: insert_iff empty_iff) presburger

lemma nibble_of_digit:
  assumes "unat v < 16"
  shows "decode_hex_nibble (of_char (HEX_LOWER ! unat v)) = Some v"
proof -
  have v: "v = of_nat (unat v)"
    by simp
  from less_16_cases [OF assms] have
    "decode_hex_nibble (of_char (HEX_LOWER ! unat v)) = Some (of_nat (unat v))"
    by (elim insertE) (simp_all add: HEX_LOWER_def decode_hex_nibble_def)
  then show ?thesis
    by simp
qed

lemma and_0xf_eq_take_bit: "(b :: byte) AND 0xf = take_bit 4 b"
  by (simp add: take_bit_eq_mask mask_eq_exp_minus_1)

lemma high_nibble_less: "unat (drop_bit 4 (b :: byte)) < 16"
proof -
  have "unat b < 2 ^ LENGTH(8)"
    by (rule unsigned_less)
  moreover have "unat (drop_bit 4 b) = unat b div 16"
    by (simp add: drop_bit_eq_div unat_div)
  ultimately show ?thesis
    by simp
qed

lemma low_nibble_less: "unat ((b :: byte) AND 0xf) < 16"
proof -
  have "b AND 0xf = take_bit 4 b"
    by (rule and_0xf_eq_take_bit)
  then show ?thesis
    by (simp add: take_bit_eq_mod unat_mod)
qed

lemma nibbles_join: "push_bit 4 (drop_bit 4 b) OR (b AND 0xf) = (b :: byte)"
  unfolding and_0xf_eq_take_bit by (rule bit_word_eqI) (auto simp: bit_simps)

lemma nibble_pair_of_hex_byte:
  "decode_hex_nibble (of_char (HEX_LOWER ! unat (drop_bit 4 b))) = Some (drop_bit 4 b)"
  "decode_hex_nibble (of_char (HEX_LOWER ! unat (b AND 0xf))) = Some (b AND 0xf)"
  by (simp_all only: nibble_of_digit high_nibble_less low_nibble_less)

lemma hex_pairs_encode [simp]: "hex_pairs (as_bytes (encode_hex bs)) = Some bs"
  by (induction bs) (simp_all add: hex_byte_def nibble_pair_of_hex_byte nibbles_join)

lemma decode_hex_chunks_spec:
  assumes "length bs = 2 * k" and "idx + k = length out"
  shows "case hex_pairs bs of
      None \<Rightarrow> fst (decode_hex_chunks bs idx out) = Inl InvalidHexCharacter
    | Some ds \<Rightarrow> decode_hex_chunks bs idx out = (Inr (), take idx out @ ds)"
  using assms
proof (induction bs idx out arbitrary: k rule: decode_hex_chunks.induct)
  case (1 a b rest idx out)
  then obtain k' where k: "k = Suc k'" "length rest = 2 * k'"
    by (cases k) auto
  then have idx: "idx < length out" "Suc idx + k' = length out"
    using 1 by auto
  then show ?case
    using 1(1) [OF _ _ k(2)] idx(2)
    by (auto simp: take_Suc_conv_app_nth split: option.splits)
qed auto

lemma decode_hex_eq:
  "decode_hex n s =
    (if length s \<noteq> 2 * n then Inl InvalidLength
     else case hex_pairs (as_bytes s) of None \<Rightarrow> Inl InvalidHexCharacter | Some bs \<Rightarrow> Inr bs)"
  using decode_hex_chunks_spec [of "as_bytes s" n 0 "replicate n 0"]
  by (cases "decode_hex_chunks (as_bytes s) 0 (replicate n 0)")
    (auto simp: decode_hex_def decode_hex_into_def split: option.splits)

lemma hex_pairs_length: "hex_pairs bs = Some ds \<Longrightarrow> even (length bs) \<Longrightarrow> length bs = 2 * length ds"
  by (induction bs arbitrary: ds rule: hex_pairs.induct) (auto split: option.splits)



lemma decode_hex_nibble_unat:
  "decode_hex_nibble b =
    (if unat b \<in> {48..57} then Some (of_nat (unat b - 48))
     else if unat b \<in> {97..102} then Some (of_nat (unat b - 87))
     else if unat b \<in> {65..70} then Some (of_nat (unat b - 55)) else None)"
  by (auto simp: decode_hex_nibble_def word_le_nat_alt of_nat_diff)

lemma nibble_of_code:
  assumes "n \<in> {48, 49, 50, 51, 52, 53, 54, 55, 56, 57, 97, 98, 99, 100, 101, 102,
      65, 66, 67, 68, 69, 70}"
  shows "\<exists>v. decode_hex_nibble (of_nat n) = Some v \<and> unat v < 16 \<and>
    ascii_lower (char_of n) = HEX_LOWER ! unat v"
  using assms
  by (elim insertE) (simp_all add: decode_hex_nibble_def ascii_lower_def HEX_LOWER_def char_of_eq_iff)

lemma decode_nibble_lower:
  assumes "decode_hex_nibble (of_char c) = Some v"
  shows "unat v < 16 \<and> ascii_lower c = HEX_LOWER ! unat v"
proof -
  let ?n = "unat (of_char c :: byte)"
  from assms have "?n \<in> {48..57} \<union> {97..102} \<union> {65..70}"
    by (auto simp: decode_hex_nibble_unat split: if_splits)
  then have "?n \<in> {48, 49, 50, 51, 52, 53, 54, 55, 56, 57, 97, 98, 99, 100, 101, 102,
      65, 66, 67, 68, 69, 70}"
    by (simp only: Un_iff atLeastAtMost_iff insert_iff empty_iff) presburger
  from nibble_of_code [OF this] assms show ?thesis
    by auto
qed

lemma HEX_LOWER_range:
  "k < 16 \<Longrightarrow> of_char (HEX_LOWER ! k) \<in> {48..57} \<union> {97..(102::nat)}"
  by (drule less_16_cases) (elim insertE; simp add: HEX_LOWER_def)

lemma nibble_of_lower:
  assumes "ascii_lower c = HEX_LOWER ! unat v" and "unat v < 16"
  shows "decode_hex_nibble (of_char c) = Some v"
proof (cases "of_char c \<in> {0x41..(0x5A::nat)}")
  case True
  let ?n = "of_char c :: nat"
  from True have low: "ascii_lower c = char_of (?n + 32)"
    by (simp add: ascii_lower_def)
  then have "of_char (char_of (?n + 32)) = (of_char (HEX_LOWER ! unat v) :: nat)"
    using assms(1) by simp
  then have "?n + 32 = of_char (HEX_LOWER ! unat v)"
    using True by (simp add: of_char_of)
  then have "?n \<in> {65, 66, 67, 68, 69, 70}"
    using HEX_LOWER_range [OF assms(2)] True
    by (simp only: Un_iff atLeastAtMost_iff insert_iff empty_iff) presburger
  from nibble_of_code [of ?n] this obtain w where
    "decode_hex_nibble (of_nat ?n) = Some w" "unat w < 16"
    "ascii_lower (char_of ?n) = HEX_LOWER ! unat w"
    by blast
  moreover have "distinct HEX_LOWER" "length HEX_LOWER = 16"
    by (simp_all add: HEX_LOWER_def)
  ultimately have "decode_hex_nibble (of_nat ?n) = Some w" "unat w = unat v"
    using assms by (auto simp: nth_eq_iff_index_eq)
  then have "decode_hex_nibble (of_nat ?n) = Some v"
    using unsigned_word_eqI [of w v] by simp
  then show ?thesis
    by (simp add: of_char_def)
next
  case False
  then have "c = HEX_LOWER ! unat v"
    using assms(1) by (auto simp: ascii_lower_def)
  then show ?thesis
    using assms(2) by (simp add: nibble_of_digit)
qed

lemma nibble_join_parts:
  assumes "unat hi < 16" "unat lo < 16"
  shows "drop_bit 4 (push_bit 4 hi OR lo) = (hi :: byte)"
    and "(push_bit 4 hi OR lo) AND 0xf = (lo :: byte)"
proof -
  have bits: "\<not> bit w n" if "unat w < 16" "4 \<le> n" for w :: byte and n
  proof -
    from that(1) have "unat (take_bit 4 w) = unat w"
      by (simp add: take_bit_eq_mod unat_mod)
    then have "take_bit 4 w = w"
      by (rule unsigned_word_eqI)
    then show ?thesis
      using that(2) by (metis bit_take_bit_iff not_le)
  qed
  show "drop_bit 4 (push_bit 4 hi OR lo) = hi"
    using bits [OF assms(1)] bits [OF assms(2)]
    by (intro bit_word_eqI) (auto simp: bit_simps, meson not_le)
  show "(push_bit 4 hi OR lo) AND 0xf = lo"
    unfolding and_0xf_eq_take_bit using bits [OF assms(2)]
    by (intro bit_word_eqI) (auto simp: bit_simps not_le)
qed

lemma hex_pairs_lower_iff:
  "even (length s) \<Longrightarrow>
    hex_pairs (as_bytes s) = Some bs \<longleftrightarrow> encode_hex bs = map ascii_lower s"
proof (induction s arbitrary: bs rule: induct_list012)
  case 1
  then show ?case by (cases bs) auto
next
  case (3 c d s)
  then have ev: "even (length s)" by simp
  show ?case
  proof
    assume "hex_pairs (as_bytes (c # d # s)) = Some bs"
    then obtain hi lo ds where *: "decode_hex_nibble (of_char c) = Some hi"
      "decode_hex_nibble (of_char d) = Some lo" "hex_pairs (as_bytes s) = Some ds"
      "bs = (push_bit 4 hi OR lo) # ds"
      by (auto split: option.splits)
    with 3(1) [OF ev, of ds] show "encode_hex bs = map ascii_lower (c # d # s)"
      using decode_nibble_lower [OF *(1)] decode_nibble_lower [OF *(2)]
      by (simp add: hex_byte_def nibble_join_parts del: drop_bit_or)
  next
    assume enc: "encode_hex bs = map ascii_lower (c # d # s)"
    then obtain b ds where b: "bs = b # ds"
      by (cases bs) auto
    with enc have "ascii_lower c = HEX_LOWER ! unat (drop_bit 4 b)"
      "ascii_lower d = HEX_LOWER ! unat (b AND 0xf)" "encode_hex ds = map ascii_lower s"
      by (auto simp: hex_byte_def)
    then show "hex_pairs (as_bytes (c # d # s)) = Some bs"
      using 3(1) [OF ev, of ds] b
      by (simp add: nibble_of_lower high_nibble_less low_nibble_less nibbles_join)
  qed
qed simp

text \<open>
  C32. Decoding accepts a text exactly when it is, up to letter case, the encoding of the
  returned bytes and has twice the requested number of characters.
\<close>
theorem decode_hex_correct:
  "decode_hex n s = Inr bs \<longleftrightarrow> length bs = n \<and> encode_hex bs = map ascii_lower s"
proof (cases "length s = 2 * n")
  case True
  then have "even (length s)" by simp
  then show ?thesis
    using hex_pairs_length [of "as_bytes s"] hex_pairs_lower_iff [of s bs] True
    by (auto simp: decode_hex_eq split: option.splits)
next
  case False
  then show ?thesis
    by (auto simp: decode_hex_eq dest: arg_cong [where f = length])
qed

lemma encode_hex_loop_eq:
  "2 * i + 2 * length bs \<le> length out \<Longrightarrow>
    encode_hex_loop bs i out =
      take (2 * i) out @ as_bytes (encode_hex bs) @ drop (2 * i + 2 * length bs) out"
proof (induction bs arbitrary: i out)
  case (Cons b bs)
  let ?out = "out[i * 2 := of_char (HEX_LOWER ! unat (drop_bit 4 b)),
           i * 2 + 1 := of_char (HEX_LOWER ! unat (b AND 0xf))]"
  have "take (2 * Suc i) ?out = take (2 * i) out @ as_bytes (hex_byte b)"
    using Cons.prems by (simp add: take_Suc_conv_app_nth hex_byte_def mult.commute)
  then show ?case
    using Cons by (simp add: mult.commute)
qed simp

lemma encode_hex_into_eq:
  "encode_hex_into bs out =
    (let m = min (length bs) (length out div 2)
     in (2 * m, as_bytes (encode_hex (take m bs)) @ drop (2 * m) out))"
  by (simp add: encode_hex_into_def Let_def encode_hex_loop_eq mult.commute)

interpretation hexc: codec encode_hex
  "\<lambda>s. case decode_hex (length s div 2) s of Inl _ \<Rightarrow> None | Inr bs \<Rightarrow> Some bs" "\<lambda>_. True"
  by unfold_locales (simp add: decode_hex_eq)

lemma uid_display_roundtrip:
  "length (uid_bytes u) = 7 \<Longrightarrow> uid_from_hex (uid_display u) = Inr u"
  by (cases u) (simp add: uid_from_hex_def uid_display_def decode_hex_eq flip: encode_hex_def)

lemma aes_key_from_hex_length:
  "aes_key_from_hex s = Inr k \<Longrightarrow> length (key_bytes k) = 16"
  by (auto simp: aes_key_from_hex_def bind_r_Inr_iff decode_hex_eq dest: hex_pairs_length
      split: if_splits option.splits)

end
