(* ===== verification/Derivation.thy ===== *)
theory Derivation
  imports Hex
begin

text \<open>
  Deterministic Bolt Card key derivation: \<open>bolty-core/src/derivation.rs\<close>, \<open>crypto.rs\<close>,
  \<open>provenance.rs\<close>, and the key-set helper of \<open>bolty-ntag/src/lib.rs\<close>. AES-CMAC comes from an
  external crate and is the parameter \<open>cmac\<close>, a function of key and message. The lemmas
  show that the derivation messages are injective, so two cards of an issuer can only
  share a key through a collision of \<open>cmac\<close> itself, and that K1 depends on the issuer only.
\<close>

type_synonym cmac_fun = "bytes \<Rightarrow> bytes \<Rightarrow> bytes"

definition cmac_len16 :: "cmac_fun \<Rightarrow> bool" where
  "cmac_len16 cmac \<longleftrightarrow> (\<forall>k m. length (cmac k m) = 16)"

definition DEFAULT_BOLTCARD_VERSION :: u32 where
  "DEFAULT_BOLTCARD_VERSION = 1"

definition TAG_CARD_KEY :: bytes where "TAG_CARD_KEY = [0x2D, 0x00, 0x3F, 0x75]"

definition TAG_K0 :: bytes where "TAG_K0 = [0x2D, 0x00, 0x3F, 0x76]"

definition TAG_K1 :: bytes where "TAG_K1 = [0x2D, 0x00, 0x3F, 0x77]"

definition TAG_K2 :: bytes where "TAG_K2 = [0x2D, 0x00, 0x3F, 0x78]"

definition TAG_K3 :: bytes where "TAG_K3 = [0x2D, 0x00, 0x3F, 0x79]"

definition TAG_K4 :: bytes where "TAG_K4 = [0x2D, 0x00, 0x3F, 0x7A]"

definition TAG_CARD_ID :: bytes where "TAG_CARD_ID = [0x2D, 0x00, 0x3F, 0x7B]"

datatype DerivationStrategy = BoltcardDeterministic | An10922

datatype DerivationError = UnsupportedStrategy

record CardKeySet =
  ks_card_key :: AesKey
  ks_k0 :: AesKey
  ks_k1 :: AesKey
  ks_k2 :: AesKey
  ks_k3 :: AesKey
  ks_k4 :: AesKey
  ks_card_id :: bytes

definition card_key_set_default :: CardKeySet where
  "card_key_set_default =
    \<lparr>ks_card_key = aes_key_zeroed, ks_k0 = aes_key_zeroed, ks_k1 = aes_key_zeroed,
     ks_k2 = aes_key_zeroed, ks_k3 = aes_key_zeroed, ks_k4 = aes_key_zeroed,
     ks_card_id = replicate 16 0\<rparr>"

definition card_key_set_drop :: "CardKeySet \<Rightarrow> CardKeySet" where
  "card_key_set_drop ks = ks\<lparr>ks_card_id := map (\<lambda>_. 0) (ks_card_id ks)\<rparr>"

definition card_key_message :: "CardUid \<Rightarrow> u32 \<Rightarrow> bytes" where
  "card_key_message uid version = TAG_CARD_KEY @ uid_bytes uid @ u32_le version"

definition derive_card_key :: "cmac_fun \<Rightarrow> bytes \<Rightarrow> CardUid \<Rightarrow> u32 \<Rightarrow> bytes" where
  "derive_card_key cmac issuer_key uid version = cmac issuer_key (card_key_message uid version)"

definition derive_card_id :: "cmac_fun \<Rightarrow> bytes \<Rightarrow> CardUid \<Rightarrow> bytes" where
  "derive_card_id cmac issuer_key uid = cmac issuer_key (TAG_CARD_ID @ uid_bytes uid)"

definition derive_keys :: "cmac_fun \<Rightarrow> bytes \<Rightarrow> CardUid \<Rightarrow> u32 \<Rightarrow> CardKeySet" where
  "derive_keys cmac issuer_key uid version =
    (let card_key = derive_card_key cmac issuer_key uid version
     in \<lparr>ks_card_key = AesKey card_key,
         ks_k0 = AesKey (cmac card_key TAG_K0),
         ks_k1 = AesKey (cmac issuer_key TAG_K1),
         ks_k2 = AesKey (cmac card_key TAG_K2),
         ks_k3 = AesKey (cmac card_key TAG_K3),
         ks_k4 = AesKey (cmac card_key TAG_K4),
         ks_card_id = derive_card_id cmac issuer_key uid\<rparr>)"

definition key_deriver_derive_keys ::
    "cmac_fun \<Rightarrow> CardUid \<Rightarrow> AesKey \<Rightarrow> DerivationStrategy \<Rightarrow> (DerivationError, CardKeys) result" where
  "key_deriver_derive_keys cmac uid issuer_key strategy =
    (case strategy of
      BoltcardDeterministic \<Rightarrow>
        (let d = derive_keys cmac (key_bytes issuer_key) uid DEFAULT_BOLTCARD_VERSION
         in Inr \<lparr>ck_k0 = ks_k0 d, ck_k1 = ks_k1 d, ck_k2 = ks_k2 d, ck_k3 = ks_k3 d, ck_k4 = ks_k4 d\<rparr>)
    | An10922 \<Rightarrow> Inl UnsupportedStrategy)"

section \<open>Key provenance\<close>

datatype KeyProvenance =
    FactoryDefault
  | DerivedIssuer (prov_version: byte)
  | StaticTestKey
  | ProxyIssued
  | UnknownExternal

definition to_audit_tag :: "KeyProvenance \<Rightarrow> string" where
  "to_audit_tag p =
    (case p of
      FactoryDefault \<Rightarrow> ''FactoryDefault''
    | DerivedIssuer v \<Rightarrow> ''DerivedIssuer('' @ dec_string (unat v) @ '')''
    | StaticTestKey \<Rightarrow> ''StaticTestKey''
    | ProxyIssued \<Rightarrow> ''ProxyIssued''
    | UnknownExternal \<Rightarrow> ''UnknownExternal'')"

definition as_json_name :: "KeyProvenance \<Rightarrow> string" where
  "as_json_name p =
    (case p of
      FactoryDefault \<Rightarrow> ''FactoryDefault''
    | DerivedIssuer v \<Rightarrow> ''DerivedIssuer''
    | StaticTestKey \<Rightarrow> ''StaticTestKey''
    | ProxyIssued \<Rightarrow> ''ProxyIssued''
    | UnknownExternal \<Rightarrow> ''UnknownExternal'')"

definition json_version :: "KeyProvenance \<Rightarrow> byte option" where
  "json_version p = (case p of DerivedIssuer v \<Rightarrow> Some v | _ \<Rightarrow> None)"

section \<open>Lemmas\<close>

lemmas tag_defs = TAG_CARD_KEY_def TAG_K0_def TAG_K1_def TAG_K2_def TAG_K3_def TAG_K4_def
  TAG_CARD_ID_def

interpretation card_msg: codec
  "\<lambda>(u, v). card_key_message u v"
  "\<lambda>m. case drop 11 m of
      [a, b, c, d] \<Rightarrow> Some (CardUid (slice 4 11 m), u32_of_le a b c d)
    | _ \<Rightarrow> None"
  "\<lambda>(u, v). length (uid_bytes u) = 7"
proof unfold_locales
  fix x :: "CardUid \<times> u32"
  assume "case x of (u, v) \<Rightarrow> length (uid_bytes u) = 7"
  then show "(case drop 11 (case x of (u, v) \<Rightarrow> card_key_message u v) of
      [a, b, c, d] \<Rightarrow> Some (CardUid (slice 4 11 (case x of (u, v) \<Rightarrow> card_key_message u v)),
        u32_of_le a b c d)
    | _ \<Rightarrow> None) = Some x"
    by (cases x)
      (simp add: card_key_message_def tag_defs slice_def u32_le_def u32_le_roundtrip)
qed

lemma derive_keys_lengths:
  assumes "cmac_len16 cmac"
  shows "length (key_bytes (ks_k0 (derive_keys cmac ik u v))) = 16"
    "length (key_bytes (ks_k1 (derive_keys cmac ik u v))) = 16"
    "length (key_bytes (ks_k2 (derive_keys cmac ik u v))) = 16"
    "length (key_bytes (ks_k3 (derive_keys cmac ik u v))) = 16"
    "length (key_bytes (ks_k4 (derive_keys cmac ik u v))) = 16"
    "length (ks_card_id (derive_keys cmac ik u v)) = 16"
  using assms
  by (simp_all add: derive_keys_def Let_def derive_card_id_def cmac_len16_def)

text \<open>
  C19. Two cards of one issuer, or two versions of one card, share K1; they share K0 (the
  same holds for K2, K3 and K4) only if \<open>cmac\<close> maps their two different card-key
  messages, or one tag under two different card keys, to the same value.
\<close>
theorem derived_keys_separate:
  assumes "length (uid_bytes u) = 7" "length (uid_bytes u') = 7" "(u, v) \<noteq> (u', v')"
  shows "let ks = derive_keys cmac ik u v; ks' = derive_keys cmac ik u' v' in
    ks_k1 ks = ks_k1 ks' \<and>
    (ks_k0 ks = ks_k0 ks' \<or> ks_k2 ks = ks_k2 ks' \<or> ks_k3 ks = ks_k3 ks' \<or> ks_k4 ks = ks_k4 ks'
      \<longrightarrow> (card_key_message u v \<noteq> card_key_message u' v' \<and>
            cmac ik (card_key_message u v) = cmac ik (card_key_message u' v')) \<or>
          (ks_card_key ks \<noteq> ks_card_key ks' \<and>
            (\<exists>tag \<in> {TAG_K0, TAG_K2, TAG_K3, TAG_K4}.
              cmac (key_bytes (ks_card_key ks)) tag = cmac (key_bytes (ks_card_key ks')) tag)))"
proof -
  have "card_key_message u v \<noteq> card_key_message u' v'"
    using card_msg.enc_inj [of "(u, v)" "(u', v')"] assms by auto
  then show ?thesis
    by (auto simp: derive_keys_def Let_def derive_card_key_def)
qed

theorem derived_keys_separate_witness:
  "ks_k1 (derive_keys (\<lambda>k m. k @ m) [7] (CardUid [1,2,3,4,5,6,7]) 1) =
   ks_k1 (derive_keys (\<lambda>k m. k @ m) [7] (CardUid [1,2,3,4,5,6,8]) 1)"
  using derived_keys_separate [of "CardUid [1,2,3,4,5,6,7]" "CardUid [1,2,3,4,5,6,8]" 1 1
      "\<lambda>k m. k @ m" "[7]"]
  by (simp add: Let_def)

end
