(* ===== verification/Assessment.thy ===== *)
theory Assessment
  imports Derivation
begin

text \<open>
  Card assessment and the issuer registry: \<open>bolty-core/src/assessment.rs\<close>, \<open>issuer.rs\<close> and
  \<open>config.rs\<close>, with the command-line twin of the classifier, \<open>bolty-cli/src/diagnose.rs\<close>.
  The lemmas give the registry's decision table, show that the two classifiers agree on
  every signal combination, and that the constant-time comparison is equality.
\<close>

section \<open>Configuration\<close>

record BoltyConfig =
  lnurl :: "string option"
  issuer_name :: "string option"
  pending_keys :: "CardKeys option"
  pending_issuer :: "AesKey option"
  rest_read_token :: "string option"
  rest_write_token :: "string option"
  force_unsafe :: bool

definition bolty_config_default :: BoltyConfig where
  "bolty_config_default = \<lparr>lnurl = None, issuer_name = None, pending_keys = None,
    pending_issuer = None, rest_read_token = None, rest_write_token = None, force_unsafe = False\<rparr>"

record IssuerConfig =
  ic_name :: "string option"
  issuer_key :: AesKey
  derivation_version :: u32
  key_version :: byte

definition issuer_config_default :: IssuerConfig where
  "issuer_config_default = \<lparr>ic_name = None, issuer_key = aes_key_zeroed,
    derivation_version = ucast KEY_VERSION_PROVISIONED, key_version = KEY_VERSION_PROVISIONED\<rparr>"

record CardConfig =
  cc_uid :: bytes
  cc_key_versions :: bytes

definition card_config_default :: CardConfig where
  "card_config_default = \<lparr>cc_uid = replicate UID_LEN 0,
    cc_key_versions = replicate NUM_KEYS KEY_VERSION_BLANK\<rparr>"

section \<open>Assessment\<close>

datatype CardState = StateUnknown | StateBlank | StateProvisioned nat | StateForeign

datatype IdleCardKind = KindNone | KindBlank | KindProvisioned | KindUnknown | KindInconsistent

datatype KeyConfidence = ConfNone | K1Only | Full

datatype CardLifecycleState = LcBlank | LcProvisioned | LcHalfWiped | LcAuthDelay | LcInconsistent

definition can_burn_from :: "CardLifecycleState \<Rightarrow> bool" where
  "can_burn_from s = (case s of LcBlank \<Rightarrow> True | LcProvisioned \<Rightarrow> True | _ \<Rightarrow> False)"

definition can_wipe_from :: "CardLifecycleState \<Rightarrow> bool" where
  "can_wipe_from s = (case s of LcProvisioned \<Rightarrow> True | _ \<Rightarrow> False)"

definition can_diagnose_from :: "CardLifecycleState \<Rightarrow> bool" where
  "can_diagnose_from s = (\<not> (case s of LcInconsistent \<Rightarrow> True | _ \<Rightarrow> False))"

definition lifecycle_as_str :: "CardLifecycleState \<Rightarrow> string" where
  "lifecycle_as_str s =
    (case s of
      LcBlank \<Rightarrow> ''BLANK''
    | LcProvisioned \<Rightarrow> ''PROVISIONED''
    | LcHalfWiped \<Rightarrow> ''HALF-WIPED''
    | LcAuthDelay \<Rightarrow> ''AUTH_DELAY''
    | LcInconsistent \<Rightarrow> ''INCONSISTENT'')"

definition from_signals :: "bool \<Rightarrow> bool \<Rightarrow> bool \<Rightarrow> bool \<Rightarrow> CardLifecycleState" where
  "from_signals auth_delay has_sdm has_ndef factory_auth =
    (if auth_delay then LcAuthDelay
     else if has_sdm \<and> has_ndef then LcProvisioned
     else if \<not> has_sdm \<and> \<not> has_ndef then (if factory_auth then LcBlank else LcInconsistent)
     else LcHalfWiped)"

record CardAssessment =
  ca_state :: CardState
  ca_present :: bool
  ca_is_ntag424 :: bool
  ca_uid :: "bytes option"
  ca_uid_len :: byte
  ca_kind :: IdleCardKind
  ca_key_versions :: bytes
  ca_key_confidence :: "KeyConfidence list"
  ca_zero_key_auth_ok :: bool
  ca_has_ndef :: bool
  ca_has_uri :: bool
  ca_looks_like_boltcard :: bool
  ca_deterministic_k1_match :: bool
  ca_deterministic_full_match :: bool
  ca_reset_eligible :: bool

definition assessment_default :: CardAssessment where
  "assessment_default =
    \<lparr>ca_state = StateUnknown, ca_present = False, ca_is_ntag424 = False, ca_uid = None,
     ca_uid_len = 0, ca_kind = KindUnknown, ca_key_versions = replicate 5 0,
     ca_key_confidence = replicate 5 ConfNone, ca_zero_key_auth_ok = False,
     ca_has_ndef = False, ca_has_uri = False, ca_looks_like_boltcard = False,
     ca_deterministic_k1_match = False, ca_deterministic_full_match = False,
     ca_reset_eligible = False\<rparr>"

definition assessment_reset :: "CardAssessment \<Rightarrow> CardAssessment" where
  "assessment_reset a =
    a\<lparr>ca_state := StateUnknown, ca_present := False, ca_is_ntag424 := False, ca_uid := None,
      ca_uid_len := 0, ca_kind := KindUnknown, ca_key_versions := replicate 5 0xFF,
      ca_key_confidence := replicate 5 ConfNone, ca_zero_key_auth_ok := False,
      ca_has_ndef := False, ca_has_uri := False, ca_looks_like_boltcard := False,
      ca_deterministic_k1_match := False, ca_deterministic_full_match := False,
      ca_reset_eligible := False\<rparr>"

text \<open>The accumulator loop \<open>result |= a[i] ^ b[i]\<close> of the constant-time comparisons.\<close>

definition xor_accumulate :: "nat \<Rightarrow> bytes \<Rightarrow> bytes \<Rightarrow> byte" where
  "xor_accumulate n a b = foldl (\<lambda>acc i. acc OR (a ! i XOR b ! i)) 0 [0..<n]"

definition same_uid :: "CardAssessment \<Rightarrow> bytes \<Rightarrow> bool" where
  "same_uid a uid =
    (if \<not> ca_present a \<or> ca_uid_len a \<noteq> 7 then False
     else case ca_uid a of
       Some stored \<Rightarrow> xor_accumulate 7 stored uid = 0
     | None \<Rightarrow> False)"

section \<open>Issuer registry\<close>

fun find_issuer ::
    "cmac_fun \<Rightarrow> nat \<Rightarrow> CardUid \<Rightarrow> byte \<Rightarrow> IssuerConfig list \<Rightarrow> (nat \<times> CardKeySet) option" where
  "find_issuer cmac idx uid kv [] = None"
| "find_issuer cmac idx uid kv (issuer # rest) =
    (let derived = derive_keys cmac (key_bytes (issuer_key issuer)) uid (derivation_version issuer)
     in if key_version issuer = kv then Some (idx, derived)
        else find_issuer cmac (Suc idx) uid kv rest)"

definition match_issuer ::
    "cmac_fun \<Rightarrow> CardUid \<Rightarrow> byte \<Rightarrow> IssuerConfig list \<Rightarrow> (nat \<times> CardKeySet) option" where
  "match_issuer cmac uid kv issuers = find_issuer cmac 0 uid kv issuers"

definition base_assessment :: "CardUid \<Rightarrow> bytes \<Rightarrow> CardAssessment" where
  "base_assessment uid kvs =
    assessment_default\<lparr>ca_present := True,
      ca_uid := Some (uid_bytes uid @ drop UID_LEN (replicate 12 0)),
      ca_uid_len := of_nat UID_LEN, ca_key_versions := kvs\<rparr>"

definition assess_card :: "cmac_fun \<Rightarrow> CardUid \<Rightarrow> bytes \<Rightarrow> IssuerConfig list \<Rightarrow> CardAssessment" where
  "assess_card cmac uid kvs issuers =
    (let a = base_assessment uid kvs
     in if list_all (\<lambda>v. v = KEY_VERSION_BLANK) kvs then
          a\<lparr>ca_state := StateBlank, ca_kind := KindBlank, ca_zero_key_auth_ok := True,
            ca_reset_eligible := True\<rparr>
        else case match_issuer cmac uid (kvs ! 1) issuers of
          Some (idx, _) \<Rightarrow>
            a\<lparr>ca_state := StateProvisioned idx, ca_kind := KindProvisioned,
              ca_key_confidence := replicate NUM_KEYS Full, ca_looks_like_boltcard := True,
              ca_deterministic_k1_match := True, ca_deterministic_full_match := True,
              ca_reset_eligible := True\<rparr>
        | None \<Rightarrow>
            a\<lparr>ca_state := StateForeign, ca_kind := KindUnknown, ca_looks_like_boltcard := True\<rparr>)"

section \<open>The command-line classifier\<close>

definition CARD_STATE_BLANK :: string where
  "CARD_STATE_BLANK = ''BLANK''"

definition CARD_STATE_PROVISIONED :: string where
  "CARD_STATE_PROVISIONED = ''PROVISIONED''"

definition classify_card_state :: "bool \<Rightarrow> bool \<Rightarrow> bool \<Rightarrow> bool \<Rightarrow> string" where
  "classify_card_state auth_delay has_sdm has_ndef_content factory_auth_ok =
    (if auth_delay then ''AUTH_DELAY''
     else if \<not> has_sdm \<and> \<not> has_ndef_content then
       (if factory_auth_ok then CARD_STATE_BLANK else ''INCONSISTENT'')
     else if has_sdm \<and> has_ndef_content then CARD_STATE_PROVISIONED
     else ''HALF-WIPED'')"

definition classify_key_provenance :: "bool \<Rightarrow> bool \<Rightarrow> bool \<Rightarrow> KeyProvenance" where
  "classify_key_provenance factory_auth_ok picc_ok static_test_auth_ok =
    (if factory_auth_ok then FactoryDefault
     else if picc_ok then DerivedIssuer 1
     else if static_test_auth_ok then StaticTestKey
     else UnknownExternal)"

definition bool_str :: "bool \<Rightarrow> string" where
  "bool_str b = (if b then ''true'' else ''false'')"

definition build_diagnose_json :: "string \<Rightarrow> string \<Rightarrow> bool \<Rightarrow> bool \<Rightarrow> KeyProvenance \<Rightarrow> string" where
  "build_diagnose_json uid_hex state has_sdm mac_valid provenance =
    ''{\"ok\":true,\"uid\":\"'' @ uid_hex @ ''\",\"state\":\"'' @ state
    @ ''\",\"sdm_active\":'' @ bool_str has_sdm @ '',\"mac_valid\":'' @ bool_str mac_valid
    @ '',\"key_provenance\":\"'' @ as_json_name provenance @ ''\"''
    @ (case json_version provenance of
        Some v \<Rightarrow> '',\"key_provenance_version\":'' @ dec_string (unat v)
      | None \<Rightarrow> [])
    @ ''}''"

section \<open>Lemmas\<close>

lemma byte_or_eq_0_iff: "x OR y = (0 :: byte) \<longleftrightarrow> x = 0 \<and> y = 0"
  by (metis or_eq_0_iff)

lemma foldl_or_eq_0_iff:
  "foldl (\<lambda>acc i. acc OR f i) acc xs = (0 :: byte) \<longleftrightarrow> acc = 0 \<and> (\<forall>i \<in> set xs. f i = 0)"
  by (induction xs arbitrary: acc) (auto simp: byte_or_eq_0_iff)

lemma xor_accumulate_eq_0_iff:
  assumes "n \<le> length a" "n \<le> length b"
  shows "xor_accumulate n a b = 0 \<longleftrightarrow> take n a = take n b"
  using assms
  by (auto simp: xor_accumulate_def foldl_or_eq_0_iff byte_xor_eq_0_iff list_eq_iff_nth_eq)

lemma find_issuer_Some_iff:
  "find_issuer cmac n uid kv issuers = Some (i, ks) \<longleftrightarrow>
    (\<exists>j < length issuers. i = n + j \<and> key_version (issuers ! j) = kv \<and>
      (\<forall>l < j. key_version (issuers ! l) \<noteq> kv) \<and>
      ks = derive_keys cmac (key_bytes (issuer_key (issuers ! j))) uid
        (derivation_version (issuers ! j)))"
proof (induction issuers arbitrary: n)
  case (Cons a issuers)
  show ?case
  proof (cases "key_version a = kv")
    case True
    then show ?thesis
      by (auto simp: Let_def Ex_less_Suc2)
  next
    case False
    then show ?thesis
      using Cons [of "Suc n"] by (simp add: Let_def All_less_Suc2 Ex_less_Suc2)
  qed
qed simp

lemma find_issuer_None_iff:
  "find_issuer cmac n uid kv issuers = None \<longleftrightarrow> (\<forall>a \<in> set issuers. key_version a \<noteq> kv)"
  by (induction issuers arbitrary: n) (auto simp: Let_def)

lemma assess_card_state_eq:
  "ca_state (assess_card cmac uid kvs issuers) =
    (if \<forall>v \<in> set kvs. v = KEY_VERSION_BLANK then StateBlank
     else case find_issuer cmac 0 uid (kvs ! 1) issuers of
       Some (idx, _) \<Rightarrow> StateProvisioned idx
     | None \<Rightarrow> StateForeign)"
  by (simp add: assess_card_def Let_def list_all_iff match_issuer_def split: option.splits)

lemma find_issuer_Some_first:
  "(\<exists>ks. find_issuer cmac 0 uid kv issuers = Some (i, ks)) \<longleftrightarrow>
    i < length issuers \<and> key_version (issuers ! i) = kv \<and>
    (\<forall>j < i. key_version (issuers ! j) \<noteq> kv)"
  by (auto simp: find_issuer_Some_iff)

text \<open>
  C33. The decision table of \<open>assess_card\<close>: blank exactly when every key version is zero,
  provisioned for the first issuer of the registry whose key version is the version of
  slot 1, foreign when the card is not blank and no issuer has that version.
\<close>
theorem assess_card_state:
  "(ca_state (assess_card cmac uid kvs issuers) = StateBlank \<longleftrightarrow> set kvs \<subseteq> {KEY_VERSION_BLANK}) \<and>
   (ca_state (assess_card cmac uid kvs issuers) = StateProvisioned i \<longleftrightarrow>
      \<not> set kvs \<subseteq> {KEY_VERSION_BLANK} \<and>
      i < length issuers \<and> key_version (issuers ! i) = kvs ! 1 \<and>
      (\<forall>j < i. key_version (issuers ! j) \<noteq> kvs ! 1)) \<and>
   (ca_state (assess_card cmac uid kvs issuers) = StateForeign \<longleftrightarrow>
      \<not> set kvs \<subseteq> {KEY_VERSION_BLANK} \<and> kvs ! 1 \<notin> key_version ` set issuers)"
proof -
  have blank: "set kvs \<subseteq> {KEY_VERSION_BLANK} \<longleftrightarrow> (\<forall>v \<in> set kvs. v = KEY_VERSION_BLANK)"
    by auto
  have none: "kvs ! 1 \<notin> key_version ` set issuers \<longleftrightarrow>
      find_issuer cmac 0 uid (kvs ! 1) issuers = None"
    unfolding find_issuer_None_iff by (metis image_iff)
  show ?thesis
    unfolding none find_issuer_Some_first [of cmac uid "kvs ! 1" issuers i, symmetric] blank
    by (auto simp: assess_card_state_eq split: option.splits)
qed

theorem assess_card_state_witness:
  "ca_state (assess_card (\<lambda>k m. k) (CardUid [1,2,3,4,5,6,7]) [1,1,1,1,1]
    [issuer_config_default\<lparr>key_version := 2\<rparr>, issuer_config_default]) = StateProvisioned 1"
  using assess_card_state [of "\<lambda>k m. k" "CardUid [1,2,3,4,5,6,7]" "[1,1,1,1,1]"
    "[issuer_config_default\<lparr>key_version := 2\<rparr>, issuer_config_default]" 1]
  by (simp add: KEY_VERSION_BLANK_def issuer_config_default_def KEY_VERSION_PROVISIONED_def)

text \<open>
  C34. The two classifiers, the enumeration of the core crate and the labels of the
  command line, agree on every combination of signals; a wipe is only offered where a
  burn is, and the factory probe never overrides what SDM and NDEF show.
\<close>
theorem classifiers_agree:
  "classify_card_state d s n f = lifecycle_as_str (from_signals d s n f) \<and>
   (can_wipe_from (from_signals d s n f) \<longrightarrow> can_burn_from (from_signals d s n f)) \<and>
   (can_burn_from (from_signals d s n f) \<longleftrightarrow> \<not> d \<and> (s \<and> n \<or> \<not> s \<and> \<not> n \<and> f))"
  by (simp add: classify_card_state_def lifecycle_as_str_def from_signals_def can_wipe_from_def
      can_burn_from_def CARD_STATE_BLANK_def CARD_STATE_PROVISIONED_def)

theorem classifiers_agree_witness:
  "classify_card_state False True True True = lifecycle_as_str LcProvisioned"
  using classifiers_agree [of False True True True] by (simp add: from_signals_def)

text \<open>
  The constant-time comparison recognises an assessed card by its identifier and
  nothing else.
\<close>
theorem same_uid_correct:
  assumes "length (uid_bytes u) = 7" "length v = 7"
  shows "same_uid (assess_card cmac u kvs issuers) v \<longleftrightarrow> v = uid_bytes u"
  using assms
  by (auto simp: same_uid_def assess_card_def base_assessment_def UID_LEN_def Let_def
      xor_accumulate_eq_0_iff split: option.splits)

theorem same_uid_correct_witness:
  "same_uid (assess_card (\<lambda>k m. k) (CardUid [1,2,3,4,5,6,7]) [0,0,0,0,0] []) [1,2,3,4,5,6,7] \<and>
   \<not> same_uid (assess_card (\<lambda>k m. k) (CardUid [1,2,3,4,5,6,7]) [0,0,0,0,0] []) [1,2,3,4,5,6,8]"
  using same_uid_correct [of "CardUid [1,2,3,4,5,6,7]" "[1,2,3,4,5,6,7]"]
    same_uid_correct [of "CardUid [1,2,3,4,5,6,7]" "[1,2,3,4,5,6,8]"]
  by simp

lemma same_uid_reset: "\<not> same_uid (assessment_reset a) v"
  by (simp add: same_uid_def assessment_reset_def)

end
