(* ===== verification/Picc.thy ===== *)
theory Picc
  imports Assessment
begin

text \<open>
  Secure Unique NFC verification of a tapped card: \<open>bolty-core/src/picc.rs\<close>. The callback
  URL carries the encrypted PICC data (\<open>p=\<close>) and the SDM MAC (\<open>c=\<close>). AES-CBC decryption and
  AES-CMAC come from external crates and are the parameters \<open>cbc_dec\<close> (key, IV, buffer) and
  \<open>cmac\<close>. The lemmas show that parsing inverts what a card mirrors into its URL, whatever
  text precedes the two parameters, and that a result marked valid carries the MAC of
  exactly the identifier and counter it reports.
\<close>

definition PICC_FORMAT_BOLTCARD :: byte where "PICC_FORMAT_BOLTCARD = 0xC7"

definition PICC_FORMAT_BOLTCARD_NO_UID :: byte where "PICC_FORMAT_BOLTCARD_NO_UID = 0x40"

definition PICC_FLAG_HAS_UID :: byte where "PICC_FLAG_HAS_UID = 0x80"

definition PICC_FLAG_HAS_COUNTER :: byte where "PICC_FLAG_HAS_COUNTER = 0x40"

definition PICC_UID_BYTE_LEN :: nat where "PICC_UID_BYTE_LEN = 7"

definition SV2_HEADER :: bytes where "SV2_HEADER = [0x3C, 0xC3, 0x00, 0x01, 0x00, 0x80]"

record PiccData =
  pd_valid :: bool
  pd_uid :: "bytes option"
  pd_counter :: u32
  pd_has_counter :: bool

definition picc_data_default :: PiccData where
  "picc_data_default = \<lparr>pd_valid = False, pd_uid = None, pd_counter = 0, pd_has_counter = False\<rparr>"

definition parse_param ::
    "string \<Rightarrow> string option \<times> string option \<Rightarrow> string option \<times> string option" where
  "parse_param segment pc =
    (case strip_prefix ''p='' segment of
      Some v \<Rightarrow> (Some v, snd pc)
    | None \<Rightarrow>
        (case strip_prefix ''c='' segment of
          Some v \<Rightarrow> (fst pc, Some v)
        | None \<Rightarrow> pc))"

definition is_url_delim :: "char \<Rightarrow> bool" where
  "is_url_delim ch \<longleftrightarrow> ch = CHR ''?'' \<or> ch = CHR ''&'' \<or> ch = CHR ''#''"

text \<open>\<open>seg\<close> is the slice \<open>url[start..idx]\<close> read so far.\<close>

fun extract_loop ::
    "string \<Rightarrow> string \<Rightarrow> string option \<times> string option \<Rightarrow> string option \<times> string option" where
  "extract_loop [] seg pc = parse_param seg pc"
| "extract_loop (ch # rest) seg pc =
    (if is_url_delim ch then extract_loop rest [] (parse_param seg pc)
     else extract_loop rest (seg @ [ch]) pc)"

definition extract_p_and_c :: "string \<Rightarrow> (string \<times> string) option" where
  "extract_p_and_c url =
    (case extract_loop url [] (None, None) of
      (Some p, Some c) \<Rightarrow> Some (p, c)
    | _ \<Rightarrow> None)"

type_synonym cbc_fun = "bytes \<Rightarrow> bytes \<Rightarrow> bytes \<Rightarrow> bytes option"

definition ctr_of_bytes :: "byte \<Rightarrow> byte \<Rightarrow> byte \<Rightarrow> u32" where
  "ctr_of_bytes a b c = ucast a OR push_bit 8 (ucast b) OR push_bit 16 (ucast c)"

definition picc_decrypt_p :: "cbc_fun \<Rightarrow> bytes \<Rightarrow> string \<Rightarrow> PiccData option" where
  "picc_decrypt_p cbc_dec k1 p_hex =
    (if length p_hex \<noteq> 32 then None
     else case decode_hex_into p_hex (replicate 16 0) of
       (Inl _, _) \<Rightarrow> None
     | (Inr _, buf0) \<Rightarrow>
        (case cbc_dec k1 (replicate 16 0) buf0 of
          None \<Rightarrow> None
        | Some buf \<Rightarrow>
            (let mk = \<lambda>uid c0 c1 c2.
                Some (picc_data_default\<lparr>pd_uid := uid, pd_has_counter := True,
                  pd_counter := ctr_of_bytes c0 c1 c2\<rparr>)
             in if buf ! 0 = PICC_FORMAT_BOLTCARD then
                  (if buf ! 0 AND PICC_FLAG_HAS_UID = 0 \<or> buf ! 0 AND PICC_FLAG_HAS_COUNTER = 0 \<or>
                      unat (buf ! 0 AND 0x07) \<noteq> PICC_UID_BYTE_LEN then None
                   else mk (Some (slice 1 (1 + PICC_UID_BYTE_LEN) buf)) (buf ! 8) (buf ! 9) (buf ! 10))
                else if buf ! 0 = PICC_FORMAT_BOLTCARD_NO_UID then
                  (if buf ! 0 AND PICC_FLAG_HAS_COUNTER = 0 then None
                   else mk None (buf ! 1) (buf ! 2) (buf ! 3))
                else None)))"

definition sdm_build_sv2 :: "bytes \<Rightarrow> u32 \<Rightarrow> bytes" where
  "sdm_build_sv2 uid counter =
    SV2_HEADER @ uid @ [ucast counter, ucast (drop_bit 8 counter), ucast (drop_bit 16 counter)]"

definition sdm_build_sv2_no_uid :: "u32 \<Rightarrow> bytes" where
  "sdm_build_sv2_no_uid counter =
    SV2_HEADER @ [ucast counter, ucast (drop_bit 8 counter), ucast (drop_bit 16 counter)]
      @ replicate 7 0"

definition truncate_odd_bytes :: "bytes \<Rightarrow> bytes" where
  "truncate_odd_bytes full_mac = map (\<lambda>idx. full_mac ! (idx * 2 + 1)) [0..<8]"

definition constant_time_eq :: "bytes \<Rightarrow> bytes \<Rightarrow> bool" where
  "constant_time_eq left right =
    (foldl (\<lambda>diff (lhs, rhs). diff OR (lhs XOR rhs)) 0 (zip left right) = 0)"

definition picc_verify_c :: "cmac_fun \<Rightarrow> bytes \<Rightarrow> PiccData \<Rightarrow> string \<Rightarrow> bool" where
  "picc_verify_c cmac k2 picc c_hex =
    (if \<not> pd_has_counter picc \<or> length c_hex \<noteq> 16 then False
     else case decode_hex_into c_hex (replicate 8 0) of
       (Inl _, _) \<Rightarrow> False
     | (Inr _, expected) \<Rightarrow>
        (let sv2 = (case pd_uid picc of
                      Some uid \<Rightarrow> sdm_build_sv2 uid (pd_counter picc)
                    | None \<Rightarrow> sdm_build_sv2_no_uid (pd_counter picc));
             derived_key = cmac k2 sv2;
             full_mac = cmac derived_key [];
             computed = truncate_odd_bytes full_mac
         in constant_time_eq computed expected))"

definition picc_parse_url :: "cbc_fun \<Rightarrow> cmac_fun \<Rightarrow> bytes \<Rightarrow> bytes \<Rightarrow> string \<Rightarrow> PiccData" where
  "picc_parse_url cbc_dec cmac k1 k2 url =
    (case extract_p_and_c url of
      None \<Rightarrow> picc_data_default
    | Some (p_hex, c_hex) \<Rightarrow>
        (case picc_decrypt_p cbc_dec k1 p_hex of
          None \<Rightarrow> picc_data_default
        | Some picc \<Rightarrow>
            if \<not> picc_verify_c cmac k2 picc c_hex then picc_data_default
            else picc\<lparr>pd_valid := True\<rparr>))"

section \<open>Lemmas\<close>

lemma constant_time_eq_iff:
  "length xs = length ys \<Longrightarrow> constant_time_eq xs ys \<longleftrightarrow> xs = ys"
proof -
  have gen: "foldl (\<lambda>diff (lhs, rhs). diff OR (lhs XOR rhs)) acc (zip xs ys) = (0 :: byte) \<longleftrightarrow>
      acc = 0 \<and> xs = ys" if "length xs = length ys" for acc and xs ys :: bytes
    using that
    by (induction xs ys arbitrary: acc rule: list_induct2)
      (auto simp: byte_or_eq_0_iff byte_xor_eq_0_iff)
  show "length xs = length ys \<Longrightarrow> ?thesis"
    by (simp add: constant_time_eq_def gen)
qed

lemma decode_hex_into_eq:
  "decode_hex_into s (replicate n 0) =
    (case decode_hex n s of
      Inl e \<Rightarrow> (Inl e, snd (decode_hex_into s (replicate n 0)))
    | Inr bs \<Rightarrow> (Inr (), bs))"
  by (cases "decode_hex_into s (replicate n 0)") (auto simp: decode_hex_def split: sum.splits)

lemma extract_loop_plain:
  "\<forall>ch \<in> set s. \<not> is_url_delim ch \<Longrightarrow> extract_loop (s @ rest) seg pc = extract_loop rest (seg @ s) pc"
  by (induction s arbitrary: seg) auto

lemma extract_loop_delim:
  "is_url_delim d \<Longrightarrow>
    extract_loop (pre @ d # rest) seg pc = extract_loop rest [] (extract_loop pre seg pc)"
  by (induction pre arbitrary: seg pc) auto

lemma encode_hex_no_delim: "ch \<in> set (encode_hex bs) \<Longrightarrow> \<not> is_url_delim ch"
proof -
  have "\<forall>c \<in> set HEX_LOWER. \<not> is_url_delim c" "length HEX_LOWER = 16"
    by (simp_all add: HEX_LOWER_def is_url_delim_def)
  then show "ch \<in> set (encode_hex bs) \<Longrightarrow> ?thesis"
    using high_nibble_less low_nibble_less
    by (auto simp: encode_hex_def hex_byte_def)
qed

lemma extract_p_and_c_url:
  assumes "is_url_delim d" "is_url_delim d'"
  shows "extract_p_and_c (pre @ d # ''p='' @ encode_hex ct @ d' # ''c='' @ encode_hex mac) =
    Some (encode_hex ct, encode_hex mac)"
proof -
  have "\<forall>ch \<in> set (''c='' @ encode_hex mac). \<not> is_url_delim ch"
       "\<forall>ch \<in> set (''p='' @ encode_hex ct). \<not> is_url_delim ch"
    using encode_hex_no_delim by (auto simp: is_url_delim_def)
  then have "extract_loop (''c='' @ encode_hex mac) [] pc = (fst pc, Some (encode_hex mac))"
       "extract_loop (''p='' @ encode_hex ct) [] pc = (Some (encode_hex ct), snd pc)" for pc
    using extract_loop_plain [of "''c='' @ encode_hex mac" "[]" "[]" pc]
      extract_loop_plain [of "''p='' @ encode_hex ct" "[]" "[]" pc]
    by (simp_all add: parse_param_def strip_prefix_def)
  then show ?thesis
    using extract_loop_delim [OF assms(1), of pre
        "''p='' @ encode_hex ct @ d' # ''c='' @ encode_hex mac" "[]" "(None, None)"]
      extract_loop_delim [OF assms(2), of "''p='' @ encode_hex ct" "''c='' @ encode_hex mac" "[]"]
    by (simp add: extract_p_and_c_def)
qed

lemma ctr_roundtrip [wire_simps]:
  "ctr_of_bytes (ucast w) (ucast (drop_bit 8 w)) (ucast (drop_bit 16 w)) = take_bit 24 w"
  (is "?L = _")
proof (rule bit_word_eqI)
  fix n :: nat
  assume "n < LENGTH(32)"
  then consider "n < 8" | "8 \<le> n \<and> n < 16" | "16 \<le> n \<and> n < 24" | "24 \<le> n \<and> n < 32"
    by auto linarith
  then show "bit ?L n = bit (take_bit 24 w) n"
    by cases (auto simp: ctr_of_bytes_def bit_simps)
qed

lemma ctr_of_bytes_24: "take_bit 24 (ctr_of_bytes a b c) = ctr_of_bytes a b c"
  by (rule bit_word_eqI) (auto simp: ctr_of_bytes_def bit_simps dest: bit_imp_le_length)

text \<open>What a card mirrors: the plain PICC block and the SDM MAC over an empty input.\<close>

definition card_picc_block :: "bytes option \<Rightarrow> u32 \<Rightarrow> bytes \<Rightarrow> bytes" where
  "card_picc_block uid ctr pad =
    (case uid of
      Some u \<Rightarrow> PICC_FORMAT_BOLTCARD # u @ u24_le ctr @ pad
    | None \<Rightarrow> PICC_FORMAT_BOLTCARD_NO_UID # u24_le ctr @ pad)"

definition card_sdm_mac :: "cmac_fun \<Rightarrow> bytes \<Rightarrow> bytes option \<Rightarrow> u32 \<Rightarrow> bytes" where
  "card_sdm_mac cmac k2 uid ctr =
    (let sv2 = [0x3C, 0xC3, 0x00, 0x01, 0x00, 0x80] @
           (case uid of Some u \<Rightarrow> u @ u24_le ctr | None \<Rightarrow> u24_le ctr @ replicate 7 0);
         mac = cmac (cmac k2 sv2) []
     in [mac ! 1, mac ! 3, mac ! 5, mac ! 7, mac ! 9, mac ! 11, mac ! 13, mac ! 15])"

lemma length_card_sdm_mac [simp]: "length (card_sdm_mac cmac k2 uid ctr) = 8"
  by (simp add: card_sdm_mac_def Let_def)

lemma card_sdm_mac_eq:
  "card_sdm_mac cmac k2 uid ctr =
    truncate_odd_bytes (cmac (cmac k2
      (case uid of Some u \<Rightarrow> sdm_build_sv2 u ctr | None \<Rightarrow> sdm_build_sv2_no_uid ctr)) [])"
  by (simp add: card_sdm_mac_def truncate_odd_bytes_def sdm_build_sv2_def sdm_build_sv2_no_uid_def SV2_HEADER_def
      u24_le_def Let_def upt_rec split: option.split)

lemma picc_verify_c_iff:
  "picc_verify_c cmac k2 picc c \<longleftrightarrow>
    pd_has_counter picc \<and> decode_hex 8 c = Inr (card_sdm_mac cmac k2 (pd_uid picc) (pd_counter picc))"
proof (cases "length c = 16")
  case True
  show ?thesis
  proof (cases "decode_hex 8 c")
    case (Inl e)
    then show ?thesis
      using decode_hex_into_eq [of c 8] True
      by (auto simp: picc_verify_c_def)
  next
    case (Inr bs)
    then have "length bs = 8"
      by (auto simp: decode_hex_eq dest!: hex_pairs_length split: if_splits option.splits)
    then show ?thesis
      using decode_hex_into_eq [of c 8] True Inr length_card_sdm_mac [of cmac k2 "pd_uid picc" "pd_counter picc"]
      by (auto simp: picc_verify_c_def Let_def constant_time_eq_iff simp flip: card_sdm_mac_eq)
  qed
next
  case False
  then show ?thesis
    by (simp add: picc_verify_c_def decode_hex_eq)
qed

lemma decode_hex_encode [simp]: "length bs = n \<Longrightarrow> decode_hex n (encode_hex bs) = Inr bs"
  by (simp add: decode_hex_eq)

lemma picc_flags:
  "PICC_FORMAT_BOLTCARD AND PICC_FLAG_HAS_UID \<noteq> 0"
  "PICC_FORMAT_BOLTCARD AND PICC_FLAG_HAS_COUNTER \<noteq> 0"
  "unat (PICC_FORMAT_BOLTCARD AND 0x07) = PICC_UID_BYTE_LEN"
  "PICC_FORMAT_BOLTCARD_NO_UID AND PICC_FLAG_HAS_COUNTER \<noteq> 0"
  "PICC_FORMAT_BOLTCARD_NO_UID \<noteq> PICC_FORMAT_BOLTCARD"
  by (simp_all add: PICC_FORMAT_BOLTCARD_def PICC_FLAG_HAS_UID_def PICC_FLAG_HAS_COUNTER_def
      PICC_FORMAT_BOLTCARD_NO_UID_def PICC_UID_BYTE_LEN_def)

lemma picc_decrypt_p_block:
  assumes "length ct = 16" "\<forall>u. uid = Some u \<longrightarrow> length u = 7" "take_bit 24 ctr = ctr"
    "cbc_dec k1 (replicate 16 0) ct = Some (card_picc_block uid ctr pad)"
  shows "picc_decrypt_p cbc_dec k1 (encode_hex ct) =
    Some \<lparr>pd_valid = False, pd_uid = uid, pd_counter = ctr, pd_has_counter = True\<rparr>"
proof -
  have into: "decode_hex_into (encode_hex ct) (replicate 16 0) = (Inr (), ct)"
    using decode_hex_into_eq [of "encode_hex ct" 16] assms(1) by simp
  show ?thesis
  proof (cases uid)
    case None
    then show ?thesis
      using assms into picc_flags
      by (simp add: picc_decrypt_p_def card_picc_block_def Let_def u24_le_def ctr_roundtrip
          picc_data_default_def)
  next
    case (Some u)
    then have "length u = 7" using assms(2) by simp
    then obtain a b c d e f g where "u = [a, b, c, d, e, f, g]"
      by (auto simp: numeral_eq_Suc length_Suc_conv)
    with Some show ?thesis
      using assms into picc_flags
      by (simp add: picc_decrypt_p_def card_picc_block_def Let_def u24_le_def ctr_roundtrip
          picc_data_default_def slice_def PICC_UID_BYTE_LEN_def)
  qed
qed

lemma picc_decrypt_p_shape:
  assumes "picc_decrypt_p cbc_dec k1 p = Some picc"
    and "\<forall>b p. cbc_dec k1 (replicate 16 0) b = Some p \<longrightarrow> length p = length b"
  shows "take_bit 24 (pd_counter picc) = pd_counter picc \<and>
    (\<forall>u. pd_uid picc = Some u \<longrightarrow> length u = 7)"
proof -
  from assms(1) obtain bs buf where
    "decode_hex_into p (replicate 16 0) = (Inr (), bs)"
    "cbc_dec k1 (replicate 16 0) bs = Some buf"
    by (auto simp: picc_decrypt_p_def split: if_splits prod.splits sum.splits option.splits)
  moreover from this have "decode_hex 16 p = Inr bs"
    by (simp add: decode_hex_def)
  then have "length bs = 16"
    by (auto simp: decode_hex_eq dest!: hex_pairs_length split: if_splits option.splits)
  ultimately show ?thesis
    using assms
    by (auto simp: picc_decrypt_p_def Let_def picc_data_default_def ctr_of_bytes_24 slice_def
        PICC_UID_BYTE_LEN_def split: if_splits)
qed

lemma picc_parse_mirrored:
  assumes "is_url_delim d" "is_url_delim d'" "length ct = 16"
    "\<forall>u. uid = Some u \<longrightarrow> length u = 7" "take_bit 24 ctr = ctr"
    "cbc_dec k1 (replicate 16 0) ct = Some (card_picc_block uid ctr pad)"
  shows "picc_parse_url cbc_dec cmac k1 k2
      (pre @ d # ''p='' @ encode_hex ct @ d' # ''c='' @ encode_hex (card_sdm_mac cmac k2 uid ctr)) =
    \<lparr>pd_valid = True, pd_uid = uid, pd_counter = ctr, pd_has_counter = True\<rparr>"
proof -
  have "picc_verify_c cmac k2 \<lparr>pd_valid = False, pd_uid = uid, pd_counter = ctr, pd_has_counter = True\<rparr>
      (encode_hex (card_sdm_mac cmac k2 uid ctr))"
    by (simp add: picc_verify_c_iff)
  then show ?thesis
    unfolding picc_parse_url_def extract_p_and_c_url [OF assms(1,2)]
    using picc_decrypt_p_block [of ct uid ctr cbc_dec k1 pad] assms by simp
qed

text \<open>
  C5. Parsing inverts mirroring: a URL that ends with the encrypted block of an identifier
  (or of none, for the privacy layout) and a counter, and with their SDM MAC, is accepted
  and gives back exactly that identifier and counter, whatever precedes the parameters.
\<close>
theorem picc_parse_card_url:
  assumes "is_url_delim d" "is_url_delim d'" "length ct = 16"
    "\<forall>u. uid = Some u \<longrightarrow> length u = 7" "take_bit 24 ctr = ctr"
    "cbc_dec k1 (replicate 16 0) ct = Some (card_picc_block uid ctr pad)"
  shows "picc_parse_url cbc_dec cmac k1 k2
      (pre @ d # ''p='' @ encode_hex ct @ d' # ''c='' @ encode_hex (card_sdm_mac cmac k2 uid ctr)) =
    \<lparr>pd_valid = True, pd_uid = uid, pd_counter = ctr, pd_has_counter = True\<rparr>"
  using assms by (rule picc_parse_mirrored)

theorem picc_parse_card_url_witness:
  "picc_parse_url (\<lambda>k iv b. Some b) (\<lambda>k m. replicate 16 5) [] []
     (''lnurlw://h?p=x'' @ CHR ''?'' # ''p='' @
       encode_hex (card_picc_block (Some [4,1,2,3,4,5,6]) 258 [0,0,0,0,0]) @ CHR ''&'' # ''c='' @
       encode_hex (card_sdm_mac (\<lambda>k m. replicate 16 5) [] (Some [4,1,2,3,4,5,6]) 258)) =
   \<lparr>pd_valid = True, pd_uid = Some [4,1,2,3,4,5,6], pd_counter = 258, pd_has_counter = True\<rparr>"
  by (rule picc_parse_card_url [of _ _ _ _ _ _ _ "[0,0,0,0,0]"])
    (simp_all add: is_url_delim_def card_picc_block_def u24_le_def)

text \<open>
  C13. A result marked valid is authenticated: the \<open>c=\<close> parameter of the URL decodes to the
  SDM MAC, under K2, of exactly the identifier and counter that are reported, the
  identifier has 7 bytes and the counter fits in 24 bits.
\<close>
theorem picc_valid_authentic:
  assumes "pd_valid (picc_parse_url cbc_dec cmac k1 k2 url)"
    and "\<forall>b p. cbc_dec k1 (replicate 16 0) b = Some p \<longrightarrow> length p = length b"
  shows "let r = picc_parse_url cbc_dec cmac k1 k2 url in
    \<exists>p c. extract_p_and_c url = Some (p, c) \<and>
      decode_hex 8 c = Inr (card_sdm_mac cmac k2 (pd_uid r) (pd_counter r)) \<and>
      take_bit 24 (pd_counter r) = pd_counter r \<and>
      (\<forall>u. pd_uid r = Some u \<longrightarrow> length u = 7)"
proof -
  from assms(1) obtain p c picc where
    *: "extract_p_and_c url = Some (p, c)" "picc_decrypt_p cbc_dec k1 p = Some picc"
      "picc_verify_c cmac k2 picc c"
    by (auto simp: picc_parse_url_def picc_data_default_def split: option.splits if_splits)
  then have "picc_parse_url cbc_dec cmac k1 k2 url = picc\<lparr>pd_valid := True\<rparr>"
    by (simp add: picc_parse_url_def)
  then show ?thesis
    using * picc_decrypt_p_shape [OF *(2) assms(2)] by (simp add: picc_verify_c_iff)
qed

theorem picc_valid_authentic_witness:
  "\<exists>p c. extract_p_and_c (''?p='' @ encode_hex (card_picc_block None 258 (replicate 12 0)) @
       ''&c='' @ encode_hex (card_sdm_mac (\<lambda>k m. replicate 16 5) [] None 258)) = Some (p, c) \<and>
     decode_hex 8 c = Inr (card_sdm_mac (\<lambda>k m. replicate 16 5) [] None 258)"
proof -
  let ?url = "''?p='' @ encode_hex (card_picc_block None 258 (replicate 12 0)) @
       ''&c='' @ encode_hex (card_sdm_mac (\<lambda>k m. replicate 16 5) [] None 258)"
  have "picc_parse_url (\<lambda>k iv b. Some b) (\<lambda>k m. replicate 16 5) [] [] ?url =
      \<lparr>pd_valid = True, pd_uid = None, pd_counter = 258, pd_has_counter = True\<rparr>"
    by code_simp
  then show ?thesis
    using picc_valid_authentic [of "\<lambda>k iv b. Some b" "\<lambda>k m. replicate 16 5" "[]" "[]" ?url]
    by (auto simp: Let_def)
qed

end
