(* ===== verification/Crypto.thy ===== *)
theory Crypto
  imports Derivation
begin

text \<open>
  AES secure messaging primitives of the driver: \<open>crypto/suite.rs\<close>, and the padding helper of
  \<open>commands/secure_channel.rs\<close>. The AES block cipher and AES-CMAC come from external crates and
  are the parameter \<open>A\<close>, a record of the three functions the code calls; \<open>aes_ok\<close> states what the
  code relies on. The lemmas show that CBC decryption inverts CBC encryption block by
  block, that Method 2 padding can be stripped again, and the lengths of all session values.
\<close>

record aes_crate =
  aes_enc :: "bytes \<Rightarrow> bytes \<Rightarrow> bytes"
  aes_dec :: "bytes \<Rightarrow> bytes \<Rightarrow> bytes"
  aes_mac :: cmac_fun

definition aes_ok :: "aes_crate \<Rightarrow> bool" where
  "aes_ok A \<longleftrightarrow>
    (\<forall>k x. length k = 16 \<and> length x = 16 \<longrightarrow>
      length (aes_enc A k x) = 16 \<and> length (aes_dec A k x) = 16 \<and> aes_dec A k (aes_enc A k x) = x) \<and>
    cmac_len16 (aes_mac A)"

datatype Direction = DirCommand | DirResponse

definition direction_label :: "Direction \<Rightarrow> bytes" where
  "direction_label d = (case d of DirCommand \<Rightarrow> [0xA5, 0x5A] | DirResponse \<Rightarrow> [0x5A, 0xA5])"

definition truncate_mac :: "bytes \<Rightarrow> bytes" where
  "truncate_mac full = map (\<lambda>i. full ! (2 * i + 1)) [0..<8]"

definition session_vector_aes :: "bytes \<Rightarrow> bytes \<Rightarrow> bytes \<Rightarrow> bytes" where
  "session_vector_aes label rnd_a rnd_b =
    label @ [0x00, 0x01, 0x00, 0x80] @ slice 0 2 rnd_a
    @ map (\<lambda>i. rnd_a ! (2 + i) XOR rnd_b ! i) [0..<6]
    @ slice 6 16 rnd_b @ slice 8 16 rnd_a"

fun cbc_encrypt_blocks :: "aes_crate \<Rightarrow> bytes \<Rightarrow> bytes \<Rightarrow> bytes \<Rightarrow> bytes" where
  "cbc_encrypt_blocks A key prev buf =
    (if length buf < 16 then buf
     else let out = aes_enc A key (xor_bytes (take 16 buf) prev)
          in out @ cbc_encrypt_blocks A key out (drop 16 buf))"

fun cbc_decrypt_blocks :: "aes_crate \<Rightarrow> bytes \<Rightarrow> bytes \<Rightarrow> bytes \<Rightarrow> bytes" where
  "cbc_decrypt_blocks A key prev buf =
    (if length buf < 16 then buf
     else xor_bytes (aes_dec A key (take 16 buf)) prev
          @ cbc_decrypt_blocks A key (take 16 buf) (drop 16 buf))"

declare cbc_encrypt_blocks.simps [simp del] cbc_decrypt_blocks.simps [simp del]

definition aes_cbc_encrypt :: "aes_crate \<Rightarrow> bytes \<Rightarrow> bytes \<Rightarrow> bytes \<Rightarrow> bytes option" where
  "aes_cbc_encrypt A key iv buf =
    (if buf = [] \<or> length buf mod 16 \<noteq> 0 then None else Some (cbc_encrypt_blocks A key iv buf))"

definition aes_cbc_decrypt :: "aes_crate \<Rightarrow> bytes \<Rightarrow> bytes \<Rightarrow> bytes \<Rightarrow> bytes option" where
  "aes_cbc_decrypt A key iv buf =
    (if buf = [] \<or> length buf mod 16 \<noteq> 0 then None else Some (cbc_decrypt_blocks A key iv buf))"

text \<open>The length-typed companions: the length is a compile-time positive multiple of 16.\<close>

definition aes_cbc_encrypt_n :: "aes_crate \<Rightarrow> bytes \<Rightarrow> bytes \<Rightarrow> bytes \<Rightarrow> bytes" where
  "aes_cbc_encrypt_n A key iv buf = the (aes_cbc_encrypt A key iv buf)"

definition aes_cbc_decrypt_n :: "aes_crate \<Rightarrow> bytes \<Rightarrow> bytes \<Rightarrow> bytes \<Rightarrow> bytes" where
  "aes_cbc_decrypt_n A key iv buf = the (aes_cbc_decrypt A key iv buf)"

record AesSuite =
  su_mac_key :: bytes
  su_enc_key :: bytes

definition suite_iv :: "aes_crate \<Rightarrow> AesSuite \<Rightarrow> Direction \<Rightarrow> bytes \<Rightarrow> u16 \<Rightarrow> bytes" where
  "suite_iv A s dir ti cmd_ctr =
    aes_enc A (su_enc_key s) (direction_label dir @ ti @ u16_le cmd_ctr @ replicate 8 0)"

definition suite_derive :: "aes_crate \<Rightarrow> bytes \<Rightarrow> bytes \<Rightarrow> bytes \<Rightarrow> AesSuite" where
  "suite_derive A kx rnd_a rnd_b =
    (let sv1 = session_vector_aes [0xA5, 0x5A] rnd_a rnd_b;
         sv2 = session_vector_aes [0x5A, 0xA5] rnd_a rnd_b
     in \<lparr>su_mac_key = aes_mac A kx sv2, su_enc_key = aes_mac A kx sv1\<rparr>)"

definition suite_mac :: "aes_crate \<Rightarrow> AesSuite \<Rightarrow> bytes \<Rightarrow> bytes" where
  "suite_mac A s data = truncate_mac (aes_mac A (su_mac_key s) data)"

definition suite_encrypt ::
    "aes_crate \<Rightarrow> AesSuite \<Rightarrow> Direction \<Rightarrow> bytes \<Rightarrow> u16 \<Rightarrow> bytes \<Rightarrow> bytes option" where
  "suite_encrypt A s dir ti cmd_ctr buf = aes_cbc_encrypt A (su_enc_key s) (suite_iv A s dir ti cmd_ctr) buf"

definition suite_decrypt ::
    "aes_crate \<Rightarrow> AesSuite \<Rightarrow> Direction \<Rightarrow> bytes \<Rightarrow> u16 \<Rightarrow> bytes \<Rightarrow> bytes option" where
  "suite_decrypt A s dir ti cmd_ctr buf = aes_cbc_decrypt A (su_enc_key s) (suite_iv A s dir ti cmd_ctr) buf"

text \<open>\<open>i\<close> counts down over the trailing zero bytes.\<close>

fun m2_scan :: "bytes \<Rightarrow> nat \<Rightarrow> nat" where
  "m2_scan plain 0 = 0"
| "m2_scan plain (Suc i) = (if plain ! i = 0x00 then m2_scan plain i else Suc i)"

definition strip_m2_padding :: "bytes \<Rightarrow> nat option" where
  "strip_m2_padding plain =
    (let i = m2_scan plain (length plain)
     in if i = 0 \<or> plain ! (i - 1) \<noteq> 0x80 then None else Some (i - 1))"

section \<open>Lemmas\<close>

lemma aes_okD:
  assumes "aes_ok A" "length k = 16" "length x = 16"
  shows "length (aes_enc A k x) = 16" "aes_dec A k (aes_enc A k x) = x" "length (aes_dec A k x) = 16"
  using assms by (auto simp: aes_ok_def)

lemma aes_mac_len [simp]: "aes_ok A \<Longrightarrow> length (aes_mac A k m) = 16"
  by (simp add: aes_ok_def cmac_len16_def)

lemma length_truncate_mac [simp]: "length (truncate_mac m) = 8"
  by (simp add: truncate_mac_def)

lemma length_suite_mac [simp]: "length (suite_mac A s d) = 8"
  by (simp add: suite_mac_def)

lemma suite_derive_lengths:
  "aes_ok A \<Longrightarrow> length (su_enc_key (suite_derive A k ra rb)) = 16"
  "aes_ok A \<Longrightarrow> length (su_mac_key (suite_derive A k ra rb)) = 16"
  by (simp_all add: suite_derive_def Let_def)

lemma length_suite_iv:
  "aes_ok A \<Longrightarrow> length (su_enc_key s) = 16 \<Longrightarrow> length ti = 4 \<Longrightarrow> length (suite_iv A s dir ti c) = 16"
  by (simp add: suite_iv_def direction_label_def aes_okD split: Direction.splits)

lemma length_cbc_encrypt_blocks:
  "aes_ok A \<Longrightarrow> length key = 16 \<Longrightarrow> length prev = 16 \<Longrightarrow>
    length (cbc_encrypt_blocks A key prev buf) = length buf"
proof (induction A key prev buf rule: cbc_encrypt_blocks.induct)
  case (1 A key prev buf)
  show ?case
  proof (cases "length buf < 16")
    case False
    then have "length (aes_enc A key (xor_bytes (take 16 buf) prev)) = 16"
      using 1 by (simp add: aes_okD)
    then show ?thesis
      using False 1 by (subst cbc_encrypt_blocks.simps) (simp add: Let_def)
  qed (simp add: cbc_encrypt_blocks.simps)
qed

lemma length_cbc_decrypt_blocks:
  "aes_ok A \<Longrightarrow> length key = 16 \<Longrightarrow> length prev = 16 \<Longrightarrow>
    length (cbc_decrypt_blocks A key prev buf) = length buf"
proof (induction A key prev buf rule: cbc_decrypt_blocks.induct)
  case (1 A key prev buf)
  show ?case
  proof (cases "length buf < 16")
    case False
    then have "length (aes_dec A key (take 16 buf)) = 16"
      using 1 by (simp add: aes_okD)
    then show ?thesis
      using False 1 by (subst cbc_decrypt_blocks.simps) simp
  qed (simp add: cbc_decrypt_blocks.simps)
qed

lemma cbc_decrypt_encrypt_blocks:
  "aes_ok A \<Longrightarrow> length key = 16 \<Longrightarrow> length prev = 16 \<Longrightarrow>
    cbc_decrypt_blocks A key prev (cbc_encrypt_blocks A key prev buf) = buf"
proof (induction A key prev buf rule: cbc_encrypt_blocks.induct)
  case (1 A key prev buf)
  show ?case
  proof (cases "length buf < 16")
    case True
    then show ?thesis
      by (simp add: cbc_encrypt_blocks.simps cbc_decrypt_blocks.simps)
  next
    case False
    let ?out = "aes_enc A key (xor_bytes (take 16 buf) prev)"
    have out: "length ?out = 16" "aes_dec A key ?out = xor_bytes (take 16 buf) prev"
      using 1 False by (simp_all add: aes_okD)
    have "cbc_encrypt_blocks A key prev buf = ?out @ cbc_encrypt_blocks A key ?out (drop 16 buf)"
      using False by (subst cbc_encrypt_blocks.simps) (simp add: Let_def)
    moreover have "cbc_decrypt_blocks A key ?out (cbc_encrypt_blocks A key ?out (drop 16 buf)) = drop 16 buf"
      using 1 False out by simp
    moreover have "xor_bytes (xor_bytes (take 16 buf) prev) prev = take 16 buf"
      using 1 False by (intro xor_bytes_cancel) simp
    ultimately show ?thesis
      using out by (subst cbc_decrypt_blocks.simps) simp
  qed
qed

lemma aes_cbc_roundtrip:
  assumes "aes_ok A" "length key = 16" "length iv = 16" "buf \<noteq> []" "length buf mod 16 = 0"
  shows "\<exists>ct. aes_cbc_encrypt A key iv buf = Some ct \<and> length ct = length buf \<and>
    aes_cbc_decrypt A key iv ct = Some buf"
proof -
  have "length (cbc_encrypt_blocks A key iv buf) = length buf"
    by (rule length_cbc_encrypt_blocks [OF assms(1-3)])
  then show ?thesis
    using assms cbc_decrypt_encrypt_blocks [OF assms(1-3), of buf]
    by (auto simp: aes_cbc_encrypt_def aes_cbc_decrypt_def)
qed

lemma m2_scan_zeros:
  "(\<And>j. j < k \<Longrightarrow> p ! (m + j) = 0) \<Longrightarrow> m2_scan p (m + k) = m2_scan p m"
  by (induction k) simp_all

lemma m2_scan_append_zeros:
  "m2_scan (xs @ replicate n 0) (length xs + n) = m2_scan (xs @ replicate n 0) (length xs)"
  by (rule m2_scan_zeros) (simp add: nth_append)

lemma strip_m2_padding_pad:
  "strip_m2_padding (msg @ 0x80 # replicate n 0) = Some (length msg)"
proof -
  have "m2_scan ((msg @ [0x80]) @ replicate n 0) (length (msg @ [0x80]) + n) =
      m2_scan ((msg @ [0x80]) @ replicate n 0) (length (msg @ [0x80]))"
    by (rule m2_scan_append_zeros)
  then show ?thesis
    by (simp add: strip_m2_padding_def Let_def nth_append)
qed

end
