(* ===== verification/FileSettings.thy ===== *)
theory FileSettings
  imports Prelude
begin

text \<open>
  File settings of the NTAG 424 DNA: \<open>types/file_settings/{access,sdm,codec,error}.rs\<close>,
  \<open>types/key_number.rs\<close> and \<open>types/file.rs\<close> of the vendored driver. The read cursor is kept as the
  bytes not read yet together with the position (so the buffer length the errors report is
  their sum), the write cursor as the capacity and the bytes written so far. The lemmas
  show that decoding inverts encoding for every update the constructors admit, that an
  encoded update always fits the fixed buffer, and what a rejected layout is.
\<close>

section \<open>Keys, files and access rights\<close>

datatype KeyNumber = Key0 | Key1 | Key2 | Key3 | Key4

definition key_as_byte :: "KeyNumber \<Rightarrow> byte" where
  "key_as_byte k = (case k of Key0 \<Rightarrow> 0x00 | Key1 \<Rightarrow> 0x01 | Key2 \<Rightarrow> 0x02 | Key3 \<Rightarrow> 0x03 | Key4 \<Rightarrow> 0x04)"

datatype NonMasterKeyNumber = NmKey1 | NmKey2 | NmKey3 | NmKey4

definition key_of_non_master :: "NonMasterKeyNumber \<Rightarrow> KeyNumber" where
  "key_of_non_master k = (case k of NmKey1 \<Rightarrow> Key1 | NmKey2 \<Rightarrow> Key2 | NmKey3 \<Rightarrow> Key3 | NmKey4 \<Rightarrow> Key4)"

datatype File = CapabilityContainer | Ndef | Proprietary

definition short_file_id :: "File \<Rightarrow> byte" where
  "short_file_id f = (case f of CapabilityContainer \<Rightarrow> 0x01 | Ndef \<Rightarrow> 0x02 | Proprietary \<Rightarrow> 0x03)"

definition file_id :: "File \<Rightarrow> u16" where
  "file_id f = (case f of CapabilityContainer \<Rightarrow> 0xE103 | Ndef \<Rightarrow> 0xE104 | Proprietary \<Rightarrow> 0xE105)"

definition file_size_of :: "File \<Rightarrow> u32" where
  "file_size_of f = (case f of CapabilityContainer \<Rightarrow> 32 | Ndef \<Rightarrow> 256 | Proprietary \<Rightarrow> 128)"

definition file_no :: "File \<Rightarrow> byte" where
  "file_no f = (case f of CapabilityContainer \<Rightarrow> 0x01 | Ndef \<Rightarrow> 0x02 | Proprietary \<Rightarrow> 0x03)"

datatype NibbleSlot =
    SlotRead | SlotWrite | SlotReadWrite | SlotChange | SlotSdmMetaRead | SlotSdmFileRead | SlotSdmCtrRet

datatype OverlapKind =
    UidAndRCtr | UidAndTamper | RCtrAndTamper | UidAndMac | RCtrAndMac | TamperAndMac
  | EncAndUid | EncAndRCtr | TamperInCiphertextHalf | PiccAndTamper | PiccAndMac | PiccAndEnc

datatype ReservedByte = FileOption | SdmOptions | SdmAccessRights0

datatype FileSettingsError =
    BufferTooShort (fse_needed: nat) (fse_have: nat)
  | TrailingBytes nat
  | UnknownFileType byte
  | InvalidAccessNibble NibbleSlot byte
  | OffsetOutOfRange u32
  | EncLengthInvalid u32
  | MacInputAfterMac
  | EncOutsideMacWindow
  | ReservedBitSet ReservedByte byte
  | EncRequiresBothMirrors
  | MirrorsOverlap OverlapKind
  | InvalidSdmFlags

datatype FileType = StandardData

definition file_type_from_byte :: "byte \<Rightarrow> (FileSettingsError, FileType) result" where
  "file_type_from_byte b = (if b = 0x00 then Inr StandardData else Inl (UnknownFileType b))"

datatype CommMode = CommPlain | CommMac | CommFull

definition comm_from_bits :: "byte \<Rightarrow> CommMode" where
  "comm_from_bits b =
    (if b AND 0b11 = 0b01 then CommMac else if b AND 0b11 = 0b11 then CommFull else CommPlain)"

definition comm_to_bits :: "CommMode \<Rightarrow> byte" where
  "comm_to_bits m = (case m of CommPlain \<Rightarrow> 0b00 | CommMac \<Rightarrow> 0b01 | CommFull \<Rightarrow> 0b11)"

datatype Access = AccKey KeyNumber | AccFree | AccNoAccess

definition access_from_nibble :: "byte \<Rightarrow> NibbleSlot \<Rightarrow> (FileSettingsError, Access) result" where
  "access_from_nibble n slot =
    (if n = 0x0 then Inr (AccKey Key0) else if n = 0x1 then Inr (AccKey Key1)
     else if n = 0x2 then Inr (AccKey Key2) else if n = 0x3 then Inr (AccKey Key3)
     else if n = 0x4 then Inr (AccKey Key4) else if n = 0xE then Inr AccFree
     else if n = 0xF then Inr AccNoAccess
     else Inl (InvalidAccessNibble slot n))"

definition access_to_nibble :: "Access \<Rightarrow> byte" where
  "access_to_nibble a = (case a of AccKey k \<Rightarrow> key_as_byte k | AccFree \<Rightarrow> 0xE | AccNoAccess \<Rightarrow> 0xF)"

datatype CtrRetAccess = CtrKey KeyNumber | CtrFree | CtrNoAccess

definition ctr_ret_from_nibble :: "byte \<Rightarrow> (FileSettingsError, CtrRetAccess) result" where
  "ctr_ret_from_nibble n =
    (if n = 0x0 then Inr (CtrKey Key0) else if n = 0x1 then Inr (CtrKey Key1)
     else if n = 0x2 then Inr (CtrKey Key2) else if n = 0x3 then Inr (CtrKey Key3)
     else if n = 0x4 then Inr (CtrKey Key4) else if n = 0xE then Inr CtrFree
     else if n = 0xF then Inr CtrNoAccess
     else Inl (InvalidAccessNibble SlotSdmCtrRet n))"

definition ctr_ret_to_nibble :: "CtrRetAccess \<Rightarrow> byte" where
  "ctr_ret_to_nibble a = (case a of CtrKey k \<Rightarrow> key_as_byte k | CtrFree \<Rightarrow> 0xE | CtrNoAccess \<Rightarrow> 0xF)"

record AccessRights =
  ar_read :: Access
  ar_write :: Access
  ar_read_write :: Access
  ar_change :: Access

definition nibble_at :: "nat \<Rightarrow> u16 \<Rightarrow> byte" where
  "nibble_at i v = ucast (drop_bit (4 * i) v AND 0xF)"

definition access_rights_from_le_bytes :: "byte \<Rightarrow> byte \<Rightarrow> (FileSettingsError, AccessRights) result" where
  "access_rights_from_le_bytes b0 b1 =
    (let v = u16_of_le b0 b1
     in bind_r (access_from_nibble (nibble_at 3 v) SlotRead) (\<lambda>rd.
        bind_r (access_from_nibble (nibble_at 2 v) SlotWrite) (\<lambda>wr.
        bind_r (access_from_nibble (nibble_at 1 v) SlotReadWrite) (\<lambda>rw.
        bind_r (access_from_nibble (nibble_at 0 v) SlotChange) (\<lambda>ch.
          Inr \<lparr>ar_read = rd, ar_write = wr, ar_read_write = rw, ar_change = ch\<rparr>)))))"

definition pack_nibbles :: "byte \<Rightarrow> byte \<Rightarrow> byte \<Rightarrow> byte \<Rightarrow> u16" where
  "pack_nibbles a b c d =
    push_bit 12 (ucast a) OR push_bit 8 (ucast b) OR push_bit 4 (ucast c) OR ucast d"

definition access_rights_to_le_bytes :: "AccessRights \<Rightarrow> bytes" where
  "access_rights_to_le_bytes r =
    u16_le (pack_nibbles (access_to_nibble (ar_read r)) (access_to_nibble (ar_write r))
      (access_to_nibble (ar_read_write r)) (access_to_nibble (ar_change r)))"

section \<open>SDM configuration\<close>

datatype CryptoMode = Aes | Lrp

definition UID_PLACEHOLDER_LEN :: u32 where "UID_PLACEHOLDER_LEN = 14"

definition RCTR_PLACEHOLDER_LEN :: u32 where "RCTR_PLACEHOLDER_LEN = 6"

definition TT_PLACEHOLDER_LEN :: u32 where "TT_PLACEHOLDER_LEN = 2"

definition MAC_PLACEHOLDER_LEN :: u32 where "MAC_PLACEHOLDER_LEN = 16"

definition PICC_BLOB_LEN_AES :: u32 where "PICC_BLOB_LEN_AES = 32"

definition PICC_BLOB_LEN_LRP :: u32 where "PICC_BLOB_LEN_LRP = 48"

definition picc_blob_ascii_len :: "CryptoMode \<Rightarrow> u32" where
  "picc_blob_ascii_len m = (case m of Aes \<Rightarrow> PICC_BLOB_LEN_AES | Lrp \<Rightarrow> PICC_BLOB_LEN_LRP)"

type_synonym offset = u32

definition offset_new :: "u32 \<Rightarrow> (FileSettingsError, offset) result" where
  "offset_new v = (if v > 0x00FFFFFF then Inl (OffsetOutOfRange v) else Inr v)"

type_synonym enc_length = u32

definition enc_length_new :: "u32 \<Rightarrow> (FileSettingsError, enc_length) result" where
  "enc_length_new v =
    (if v = 0 \<or> v mod 32 \<noteq> 0 \<or> v > 0x00FFFFFF then Inl (EncLengthInvalid v) else Inr v)"

record ReadCtrFeatures =
  rc_limit :: "u32 option"
  rc_ret_access :: CtrRetAccess

record ReadCtrMirror =
  rm_offset :: offset
  rm_features :: ReadCtrFeatures

datatype PlainMirror =
    PmUid offset
  | PmRCtr ReadCtrMirror
  | PmBoth offset ReadCtrMirror

datatype EncryptedContent =
    EcUid
  | EcRCtr ReadCtrFeatures
  | EcBoth ReadCtrFeatures

datatype SdmPiccData =
    PdNone
  | PdPlain PlainMirror
  | PdEncrypted KeyNumber offset EncryptedContent

definition includes_uid :: "SdmPiccData \<Rightarrow> bool" where
  "includes_uid p =
    (case p of
      PdPlain (PmUid _) \<Rightarrow> True | PdPlain (PmBoth _ _) \<Rightarrow> True
    | PdEncrypted _ _ EcUid \<Rightarrow> True | PdEncrypted _ _ (EcBoth _) \<Rightarrow> True
    | _ \<Rightarrow> False)"

definition includes_rctr :: "SdmPiccData \<Rightarrow> bool" where
  "includes_rctr p =
    (case p of
      PdPlain (PmRCtr _) \<Rightarrow> True | PdPlain (PmBoth _ _) \<Rightarrow> True
    | PdEncrypted _ _ (EcRCtr _) \<Rightarrow> True | PdEncrypted _ _ (EcBoth _) \<Rightarrow> True
    | _ \<Rightarrow> False)"

definition read_ctr_limit :: "SdmPiccData \<Rightarrow> u32 option" where
  "read_ctr_limit p =
    (case p of
      PdPlain (PmRCtr m) \<Rightarrow> rc_limit (rm_features m)
    | PdPlain (PmBoth _ m) \<Rightarrow> rc_limit (rm_features m)
    | PdEncrypted _ _ (EcRCtr f) \<Rightarrow> rc_limit f
    | PdEncrypted _ _ (EcBoth f) \<Rightarrow> rc_limit f
    | _ \<Rightarrow> None)"

definition picc_ctr_ret :: "SdmPiccData \<Rightarrow> CtrRetAccess" where
  "picc_ctr_ret p =
    (case p of
      PdPlain (PmRCtr m) \<Rightarrow> rc_ret_access (rm_features m)
    | PdPlain (PmBoth _ m) \<Rightarrow> rc_ret_access (rm_features m)
    | PdEncrypted _ _ (EcRCtr f) \<Rightarrow> rc_ret_access f
    | PdEncrypted _ _ (EcBoth f) \<Rightarrow> rc_ret_access f
    | _ \<Rightarrow> CtrNoAccess)"

record MacWindow =
  mw_input :: offset
  mw_mac :: offset

record EncFileData =
  ef_start :: offset
  ef_length :: enc_length

datatype FileRead =
    MacOnly KeyNumber MacWindow
  | MacAndEnc KeyNumber MacWindow EncFileData

definition fr_key :: "FileRead \<Rightarrow> KeyNumber" where
  "fr_key fr = (case fr of MacOnly k _ \<Rightarrow> k | MacAndEnc k _ _ \<Rightarrow> k)"

definition fr_window :: "FileRead \<Rightarrow> MacWindow" where
  "fr_window fr = (case fr of MacOnly _ w \<Rightarrow> w | MacAndEnc _ w _ \<Rightarrow> w)"

definition fr_enc :: "FileRead \<Rightarrow> EncFileData option" where
  "fr_enc fr = (case fr of MacOnly _ _ \<Rightarrow> None | MacAndEnc _ _ e \<Rightarrow> Some e)"

definition ranges_overlap :: "u32 \<Rightarrow> u32 \<Rightarrow> u32 \<Rightarrow> u32 \<Rightarrow> bool" where
  "ranges_overlap a a_len b b_len = (\<not> (a + a_len \<le> b \<or> b + b_len \<le> a))"

record Sdm =
  sdm_picc_data :: SdmPiccData
  sdm_file_read :: "FileRead option"
  sdm_tamper_status :: "offset option"

definition sdm_disabled :: Sdm where
  "sdm_disabled = \<lparr>sdm_picc_data = PdNone, sdm_file_read = None, sdm_tamper_status = None\<rparr>"

text \<open>The placeholder ranges, as start and length.\<close>

definition uid_range :: "SdmPiccData \<Rightarrow> (u32 \<times> u32) option" where
  "uid_range p =
    (case p of
      PdPlain (PmUid u) \<Rightarrow> Some (u, UID_PLACEHOLDER_LEN)
    | PdPlain (PmBoth u _) \<Rightarrow> Some (u, UID_PLACEHOLDER_LEN)
    | _ \<Rightarrow> None)"

definition rctr_range :: "SdmPiccData \<Rightarrow> (u32 \<times> u32) option" where
  "rctr_range p =
    (case p of
      PdPlain (PmRCtr m) \<Rightarrow> Some (rm_offset m, RCTR_PLACEHOLDER_LEN)
    | PdPlain (PmBoth _ m) \<Rightarrow> Some (rm_offset m, RCTR_PLACEHOLDER_LEN)
    | _ \<Rightarrow> None)"

definition tt_range :: "offset option \<Rightarrow> (u32 \<times> u32) option" where
  "tt_range t = map_option (\<lambda>tt. (tt, TT_PLACEHOLDER_LEN)) t"

definition mac_range :: "FileRead option \<Rightarrow> (u32 \<times> u32) option" where
  "mac_range fr = map_option (\<lambda>f. (mw_mac (fr_window f), MAC_PLACEHOLDER_LEN)) fr"

definition enc_range :: "FileRead option \<Rightarrow> (u32 \<times> u32) option" where
  "enc_range fr =
    (case fr of Some (MacAndEnc _ _ e) \<Rightarrow> Some (ef_start e, ef_length e) | _ \<Rightarrow> None)"

definition check_overlap ::
    "(u32 \<times> u32) option \<Rightarrow> (u32 \<times> u32) option \<Rightarrow> OverlapKind \<Rightarrow> (FileSettingsError, unit) result" where
  "check_overlap x y kind =
    (case (x, y) of
      (Some (a, al), Some (b, bl)) \<Rightarrow>
        if ranges_overlap a al b bl then Inl (MirrorsOverlap kind) else Inr ()
    | _ \<Rightarrow> Inr ())"

definition try_new_inner ::
    "SdmPiccData \<Rightarrow> FileRead option \<Rightarrow> offset option \<Rightarrow> (FileSettingsError, Sdm) result" where
  "try_new_inner picc fr tt =
    bind_r (case fr of
        Some f \<Rightarrow> if mw_input (fr_window f) > mw_mac (fr_window f) then Inl MacInputAfterMac else Inr ()
      | None \<Rightarrow> Inr ()) (\<lambda>_.
    bind_r (case fr of
        Some (MacAndEnc _ w e) \<Rightarrow>
          if ef_start e < mw_input w \<or> ef_start e + ef_length e > mw_mac w then Inl EncOutsideMacWindow
          else if \<not> includes_uid picc \<or> \<not> includes_rctr picc then Inl EncRequiresBothMirrors
          else Inr ()
      | _ \<Rightarrow> Inr ()) (\<lambda>_.
    bind_r (check_overlap (uid_range picc) (rctr_range picc) UidAndRCtr) (\<lambda>_.
    bind_r (check_overlap (uid_range picc) (tt_range tt) UidAndTamper) (\<lambda>_.
    bind_r (check_overlap (rctr_range picc) (tt_range tt) RCtrAndTamper) (\<lambda>_.
    bind_r (check_overlap (uid_range picc) (mac_range fr) UidAndMac) (\<lambda>_.
    bind_r (check_overlap (rctr_range picc) (mac_range fr) RCtrAndMac) (\<lambda>_.
    bind_r (check_overlap (tt_range tt) (mac_range fr) TamperAndMac) (\<lambda>_.
    bind_r (check_overlap (enc_range fr) (uid_range picc) EncAndUid) (\<lambda>_.
    bind_r (check_overlap (enc_range fr) (rctr_range picc) EncAndRCtr) (\<lambda>_.
    bind_r (case (tt_range tt, enc_range fr) of
        (Some (t, t_len), Some (es, e_len)) \<Rightarrow>
          if ranges_overlap t t_len es e_len \<and> t + t_len > es + e_len div 2
          then Inl (MirrorsOverlap TamperInCiphertextHalf) else Inr ()
      | _ \<Rightarrow> Inr ()) (\<lambda>_.
    Inr \<lparr>sdm_picc_data = picc, sdm_file_read = fr, sdm_tamper_status = tt\<rparr>)))))))))))"

definition try_new_from_wire ::
    "SdmPiccData \<Rightarrow> FileRead option \<Rightarrow> offset option \<Rightarrow> (FileSettingsError, Sdm) result" where
  "try_new_from_wire picc fr tt = try_new_inner picc fr tt"

definition sdm_try_new ::
    "SdmPiccData \<Rightarrow> FileRead option \<Rightarrow> offset option \<Rightarrow> CryptoMode \<Rightarrow> (FileSettingsError, Sdm) result" where
  "sdm_try_new picc fr tt mode =
    bind_r (try_new_inner picc fr tt) (\<lambda>_.
    bind_r (case picc of
        PdEncrypted _ off _ \<Rightarrow>
          (let blob = Some (off, picc_blob_ascii_len mode)
           in bind_r (check_overlap blob (tt_range tt) PiccAndTamper) (\<lambda>_.
              bind_r (check_overlap blob (mac_range fr) PiccAndMac) (\<lambda>_.
              check_overlap blob (enc_range fr) PiccAndEnc)))
      | _ \<Rightarrow> Inr ()) (\<lambda>_.
    Inr \<lparr>sdm_picc_data = picc, sdm_file_read = fr, sdm_tamper_status = tt\<rparr>))"

section \<open>Cursors\<close>

record Cursor =
  c_rest :: bytes
  c_pos :: nat

definition cur_new :: "bytes \<Rightarrow> Cursor" where
  "cur_new buf = \<lparr>c_rest = buf, c_pos = 0\<rparr>"

definition cur_need :: "Cursor \<Rightarrow> nat \<Rightarrow> (FileSettingsError, unit) result" where
  "cur_need r n =
    (if n > length (c_rest r) then Inl (BufferTooShort (c_pos r + n) (c_pos r + length (c_rest r)))
     else Inr ())"

definition cur_array :: "nat \<Rightarrow> Cursor \<Rightarrow> (FileSettingsError, bytes \<times> Cursor) result" where
  "cur_array n r = bind_r (cur_need r n) (\<lambda>_.
    Inr (take n (c_rest r), \<lparr>c_rest = drop n (c_rest r), c_pos = c_pos r + n\<rparr>))"

definition cur_u8 :: "Cursor \<Rightarrow> (FileSettingsError, byte \<times> Cursor) result" where
  "cur_u8 r = bind_r (cur_need r 1) (\<lambda>_.
    Inr (hd (c_rest r), \<lparr>c_rest = tl (c_rest r), c_pos = c_pos r + 1\<rparr>))"

definition u24_of_le :: "byte \<Rightarrow> byte \<Rightarrow> byte \<Rightarrow> u32" where
  "u24_of_le a b c = ucast a OR push_bit 8 (ucast b) OR push_bit 16 (ucast c)"

definition cur_u24_le :: "Cursor \<Rightarrow> (FileSettingsError, u32 \<times> Cursor) result" where
  "cur_u24_le r = bind_r (cur_array 3 r) (\<lambda>(b, r). Inr (u24_of_le (b ! 0) (b ! 1) (b ! 2), r))"

definition cur_remaining :: "Cursor \<Rightarrow> nat" where
  "cur_remaining r = length (c_rest r)"

text \<open>\<open>if cond { Some(read()?) } else { None }\<close>\<close>

definition cur_opt ::
    "bool \<Rightarrow> (Cursor \<Rightarrow> (FileSettingsError, 'a \<times> Cursor) result) \<Rightarrow> Cursor \<Rightarrow>
      (FileSettingsError, 'a option \<times> Cursor) result" where
  "cur_opt c rd r = (if c then bind_r (rd r) (\<lambda>(x, r). Inr (Some x, r)) else Inr (None, r))"

record WCursor =
  w_cap :: nat
  w_out :: bytes

definition w_array :: "bytes \<Rightarrow> WCursor \<Rightarrow> (FileSettingsError, WCursor) result" where
  "w_array src w =
    (if length (w_out w) + length src > w_cap w
     then Inl (BufferTooShort (length (w_out w) + length src) (w_cap w))
     else Inr (w\<lparr>w_out := w_out w @ src\<rparr>))"

definition w_u8 :: "byte \<Rightarrow> WCursor \<Rightarrow> (FileSettingsError, WCursor) result" where
  "w_u8 v w = w_array [v] w"

definition w_u24_le :: "u32 \<Rightarrow> WCursor \<Rightarrow> (FileSettingsError, WCursor) result" where
  "w_u24_le v w =
    (if v > 0x00FFFFFF then Inl (OffsetOutOfRange v)
     else w_array [ucast (v AND 0xFF), ucast (drop_bit 8 v AND 0xFF), ucast (drop_bit 16 v AND 0xFF)] w)"

section \<open>Settings views and updates\<close>

record FileSettingsView =
  fv_file_type :: FileType
  fv_file_size :: u32
  fv_comm_mode :: CommMode
  fv_access_rights :: AccessRights
  fv_sdm :: "Sdm option"

record FileSettingsUpdate =
  fu_comm_mode :: CommMode
  fu_access_rights :: AccessRights
  fu_sdm :: "Sdm option"

definition update_new :: "CommMode \<Rightarrow> AccessRights \<Rightarrow> FileSettingsUpdate" where
  "update_new m r = \<lparr>fu_comm_mode = m, fu_access_rights = r, fu_sdm = None\<rparr>"

definition with_sdm :: "FileSettingsUpdate \<Rightarrow> Sdm \<Rightarrow> FileSettingsUpdate" where
  "with_sdm u s = u\<lparr>fu_sdm := Some s\<rparr>"

definition without_sdm :: "FileSettingsUpdate \<Rightarrow> FileSettingsUpdate" where
  "without_sdm u = u\<lparr>fu_sdm := None\<rparr>"

definition into_update :: "FileSettingsView \<Rightarrow> FileSettingsUpdate" where
  "into_update v =
    (let patch = update_new (fv_comm_mode v) (fv_access_rights v)
     in case fv_sdm v of Some s \<Rightarrow> with_sdm patch s | None \<Rightarrow> patch)"

definition factory_settings :: "File \<Rightarrow> FileSettingsView" where
  "factory_settings f =
    (case f of
      CapabilityContainer \<Rightarrow>
        \<lparr>fv_file_type = StandardData, fv_file_size = file_size_of f, fv_comm_mode = CommPlain,
         fv_access_rights = \<lparr>ar_read = AccFree, ar_write = AccKey Key0,
           ar_read_write = AccKey Key0, ar_change = AccKey Key0\<rparr>, fv_sdm = None\<rparr>
    | Ndef \<Rightarrow>
        \<lparr>fv_file_type = StandardData, fv_file_size = file_size_of f, fv_comm_mode = CommPlain,
         fv_access_rights = \<lparr>ar_read = AccFree, ar_write = AccFree,
           ar_read_write = AccFree, ar_change = AccKey Key0\<rparr>, fv_sdm = None\<rparr>
    | Proprietary \<Rightarrow>
        \<lparr>fv_file_type = StandardData, fv_file_size = file_size_of f, fv_comm_mode = CommFull,
         fv_access_rights = \<lparr>ar_read = AccKey Key2, ar_write = AccKey Key3,
           ar_read_write = AccKey Key3, ar_change = AccKey Key0\<rparr>, fv_sdm = None\<rparr>)"

definition key_from_nibble :: "byte \<Rightarrow> NibbleSlot \<Rightarrow> (FileSettingsError, KeyNumber) result" where
  "key_from_nibble n slot =
    (if n = 0x0 then Inr Key0 else if n = 0x1 then Inr Key1 else if n = 0x2 then Inr Key2
     else if n = 0x3 then Inr Key3 else if n = 0x4 then Inr Key4
     else Inl (InvalidAccessNibble slot n))"

section \<open>Decoding\<close>

definition decode_picc_data ::
    "byte \<Rightarrow> KeyNumber option \<Rightarrow> bool \<Rightarrow> bool \<Rightarrow> offset option \<Rightarrow> u32 option \<Rightarrow> offset option \<Rightarrow>
      ReadCtrFeatures \<Rightarrow> (FileSettingsError, SdmPiccData) result" where
  "decode_picc_data meta_nibble meta_key uid_mirror ctr_mirror uid_off ctr_off enc_off feats =
    (if meta_nibble = 0xE then
       (case (uid_off, ctr_off) of
         (Some u, Some c) \<Rightarrow> Inr (PdPlain (PmBoth u \<lparr>rm_offset = c, rm_features = feats\<rparr>))
       | (Some u, None) \<Rightarrow> Inr (PdPlain (PmUid u))
       | (None, Some c) \<Rightarrow> Inr (PdPlain (PmRCtr \<lparr>rm_offset = c, rm_features = feats\<rparr>))
       | (None, None) \<Rightarrow> Inl InvalidSdmFlags)
     else case meta_key of
       Some key \<Rightarrow>
         bind_r (ok_or InvalidSdmFlags enc_off) (\<lambda>off.
           (if uid_mirror \<and> ctr_mirror then Inr (PdEncrypted key off (EcBoth feats))
            else if uid_mirror then Inr (PdEncrypted key off EcUid)
            else if ctr_mirror then Inr (PdEncrypted key off (EcRCtr feats))
            else Inl InvalidSdmFlags))
     | None \<Rightarrow>
         if meta_nibble \<noteq> 0xF then Inl (InvalidAccessNibble SlotSdmMetaRead meta_nibble)
         else Inr PdNone)"

definition decode_file_read ::
    "KeyNumber option \<Rightarrow> u32 option \<Rightarrow> u32 option \<Rightarrow> (offset \<times> enc_length) option \<Rightarrow>
      (FileSettingsError, FileRead option) result" where
  "decode_file_read key mac_input mac enc =
    (case (key, mac_input, mac) of
      (Some k, Some i, Some m) \<Rightarrow>
        (let window = \<lparr>mw_input = i, mw_mac = m\<rparr>
         in case enc of
              Some (s, l) \<Rightarrow> Inr (Some (MacAndEnc k window \<lparr>ef_start = s, ef_length = l\<rparr>))
            | None \<Rightarrow> Inr (Some (MacOnly k window)))
    | (None, None, None) \<Rightarrow> Inr None
    | _ \<Rightarrow> Inl InvalidSdmFlags)"

definition cur_enc_range :: "Cursor \<Rightarrow> (FileSettingsError, (offset \<times> enc_length) \<times> Cursor) result" where
  "cur_enc_range r =
    bind_r (cur_u24_le r) (\<lambda>(start, r).
    bind_r (cur_u24_le r) (\<lambda>(len, r).
    bind_r (enc_length_new len) (\<lambda>el. Inr ((start, el), r))))"

definition decode_file_read_key :: "byte \<Rightarrow> (FileSettingsError, KeyNumber option) result" where
  "decode_file_read_key n =
    (if n \<le> 0x4 then bind_r (key_from_nibble n SlotSdmFileRead) (\<lambda>k. Inr (Some k))
     else if n = 0xF then Inr None
     else Inl (InvalidAccessNibble SlotSdmFileRead n))"

definition decode_ctr_limit ::
    "bool \<Rightarrow> bool \<Rightarrow> Cursor \<Rightarrow> (FileSettingsError, u32 option \<times> Cursor) result" where
  "decode_ctr_limit enabled mirrored r =
    (if enabled then
       (if \<not> mirrored then Inl InvalidSdmFlags
        else bind_r (cur_u24_le r) (\<lambda>(v, r). Inr (if v \<noteq> 0x00FFFFFF then Some v else None, r)))
     else Inr (None, r))"

text \<open>The offsets and the constructors behind the SDM option and access-right bytes.\<close>

definition decode_sdm_fields ::
    "byte \<Rightarrow> u16 \<Rightarrow> Cursor \<Rightarrow> (FileSettingsError, Sdm \<times> Cursor) result" where
  "decode_sdm_fields opts v r =
    (let uid_mirror = (opts AND 0x80 \<noteq> 0); ctr_mirror = (opts AND 0x40 \<noteq> 0);
         limit_enabled = (opts AND 0x20 \<noteq> 0); enc_file_data = (opts AND 0x10 \<noteq> 0);
         tt_mirror = (opts AND 0x08 \<noteq> 0);
         meta_nibble = nibble_at 3 v; read_nibble = nibble_at 2 v; ret_nibble = nibble_at 0 v;
         meta_plain = (meta_nibble = 0xE); meta_enc = (meta_nibble \<le> 0x4)
     in bind_r (if meta_enc then bind_r (key_from_nibble meta_nibble SlotSdmMetaRead) (\<lambda>k. Inr (Some k))
                else Inr None) (\<lambda>meta_key.
        bind_r (decode_file_read_key read_nibble) (\<lambda>read_key.
        bind_r (ctr_ret_from_nibble ret_nibble) (\<lambda>ctr_ret.
        if \<not> ctr_mirror \<and> ctr_ret \<noteq> CtrNoAccess then Inl InvalidSdmFlags
        else
        bind_r (cur_opt (uid_mirror \<and> meta_plain) cur_u24_le r) (\<lambda>(uid_off, r).
        bind_r (cur_opt (ctr_mirror \<and> meta_plain) cur_u24_le r) (\<lambda>(ctr_off, r).
        bind_r (cur_opt meta_enc cur_u24_le r) (\<lambda>(enc_off, r).
        bind_r (cur_opt tt_mirror cur_u24_le r) (\<lambda>(tt_off, r).
        bind_r (cur_opt (read_key \<noteq> None) cur_u24_le r) (\<lambda>(mac_input, r).
        bind_r (cur_opt (read_key \<noteq> None \<and> enc_file_data) cur_enc_range r) (\<lambda>(enc, r).
        bind_r (cur_opt (read_key \<noteq> None) cur_u24_le r) (\<lambda>(mac, r).
        bind_r (decode_ctr_limit limit_enabled ctr_mirror r) (\<lambda>(limit, r).
        bind_r (decode_picc_data meta_nibble meta_key uid_mirror ctr_mirror uid_off ctr_off enc_off
                 \<lparr>rc_limit = limit, rc_ret_access = ctr_ret\<rparr>) (\<lambda>picc.
        bind_r (decode_file_read read_key mac_input mac enc) (\<lambda>fr.
        bind_r (try_new_from_wire picc fr tt_off) (\<lambda>sdm.
        Inr (sdm, r))))))))))))))))"

definition decode_sdm :: "Cursor \<Rightarrow> (FileSettingsError, Sdm \<times> Cursor) result" where
  "decode_sdm r =
    bind_r (cur_u8 r) (\<lambda>(opts, r).
    bind_r (cur_array 2 r) (\<lambda>(ar, r).
    if opts AND 0b111 \<noteq> 0b001 then Inl (ReservedBitSet SdmOptions (opts AND 0b111))
    else if ar ! 0 AND 0xF0 \<noteq> 0xF0 then Inl (ReservedBitSet SdmAccessRights0 0xF0)
    else decode_sdm_fields opts (u16_of_le (ar ! 0) (ar ! 1)) r))"

definition decode_settings :: "bytes \<Rightarrow> (FileSettingsError, FileSettingsView) result" where
  "decode_settings buf =
    bind_r (cur_u8 (cur_new buf)) (\<lambda>(ft, r).
    bind_r (file_type_from_byte ft) (\<lambda>file_type.
    bind_r (cur_u8 r) (\<lambda>(opt, r).
    bind_r (cur_array 2 r) (\<lambda>(ar, r).
    bind_r (access_rights_from_le_bytes (ar ! 0) (ar ! 1)) (\<lambda>rights.
    bind_r (cur_u24_le r) (\<lambda>(size, r).
    if opt AND 0b10111100 \<noteq> 0 then Inl (ReservedBitSet FileOption (opt AND 0b10111100))
    else
    bind_r (cur_opt (opt AND 0x40 \<noteq> 0) decode_sdm r) (\<lambda>(sdm, r).
    if cur_remaining r \<noteq> 0 then Inl (TrailingBytes (cur_remaining r))
    else Inr \<lparr>fv_file_type = file_type, fv_file_size = size, fv_comm_mode = comm_from_bits opt,
      fv_access_rights = rights, fv_sdm = sdm\<rparr>)))))))"

section \<open>Encoding\<close>

definition MAX_CHANGE_FILE_SETTINGS_LEN :: nat where
  "MAX_CHANGE_FILE_SETTINGS_LEN = 1 + 2 + 1 + 2 + 9 * 3"

definition sdm_options_byte :: "Sdm \<Rightarrow> byte" where
  "sdm_options_byte s =
    (if includes_uid (sdm_picc_data s) then 0x80 else 0)
    OR (if includes_rctr (sdm_picc_data s) then 0x40 else 0)
    OR (if read_ctr_limit (sdm_picc_data s) \<noteq> None then 0x20 else 0)
    OR (case sdm_file_read s of Some (MacAndEnc _ _ _) \<Rightarrow> 0x10 | _ \<Rightarrow> 0)
    OR (if sdm_tamper_status s \<noteq> None then 0x08 else 0)
    OR 1"

definition picc_nibble :: "SdmPiccData \<Rightarrow> byte" where
  "picc_nibble p = (case p of PdNone \<Rightarrow> 0xF | PdPlain _ \<Rightarrow> 0xE | PdEncrypted key _ _ \<Rightarrow> key_as_byte key)"

definition file_read_nibble :: "FileRead option \<Rightarrow> byte" where
  "file_read_nibble fr = (case fr of None \<Rightarrow> 0xF | Some f \<Rightarrow> key_as_byte (fr_key f))"

definition w_picc_offsets :: "SdmPiccData \<Rightarrow> WCursor \<Rightarrow> (FileSettingsError, WCursor) result" where
  "w_picc_offsets p w =
    (case p of
      PdNone \<Rightarrow> Inr w
    | PdPlain (PmUid u) \<Rightarrow> w_u24_le u w
    | PdPlain (PmRCtr m) \<Rightarrow> w_u24_le (rm_offset m) w
    | PdPlain (PmBoth u m) \<Rightarrow> bind_r (w_u24_le u w) (w_u24_le (rm_offset m))
    | PdEncrypted _ off _ \<Rightarrow> w_u24_le off w)"

definition w_file_read :: "FileRead \<Rightarrow> WCursor \<Rightarrow> (FileSettingsError, WCursor) result" where
  "w_file_read fr w =
    bind_r (w_u24_le (mw_input (fr_window fr)) w) (\<lambda>w.
    bind_r (case fr_enc fr of
        Some e \<Rightarrow> bind_r (w_u24_le (ef_start e) w) (w_u24_le (ef_length e))
      | None \<Rightarrow> Inr w) (\<lambda>w.
    w_u24_le (mw_mac (fr_window fr)) w))"

definition w_opt ::
    "('a \<Rightarrow> WCursor \<Rightarrow> (FileSettingsError, WCursor) result) \<Rightarrow> 'a option \<Rightarrow> WCursor \<Rightarrow>
      (FileSettingsError, WCursor) result" where
  "w_opt f v w = (case v of Some x \<Rightarrow> f x w | None \<Rightarrow> Inr w)"

definition encode_sdm :: "Sdm \<Rightarrow> WCursor \<Rightarrow> (FileSettingsError, WCursor) result" where
  "encode_sdm s w =
    bind_r (w_u8 (sdm_options_byte s) w) (\<lambda>w.
    bind_r (w_array (u16_le (pack_nibbles (picc_nibble (sdm_picc_data s))
        (file_read_nibble (sdm_file_read s)) 0xF
        (ctr_ret_to_nibble (picc_ctr_ret (sdm_picc_data s))))) w) (\<lambda>w.
    bind_r (w_picc_offsets (sdm_picc_data s) w) (\<lambda>w.
    bind_r (w_opt w_u24_le (sdm_tamper_status s) w) (\<lambda>w.
    bind_r (w_opt w_file_read (sdm_file_read s) w) (\<lambda>w.
    w_opt w_u24_le (read_ctr_limit (sdm_picc_data s)) w)))))"

text \<open>The result is the written prefix of a buffer of \<open>cap\<close> bytes.\<close>

definition encode_update :: "FileSettingsUpdate \<Rightarrow> nat \<Rightarrow> (FileSettingsError, bytes) result" where
  "encode_update u cap =
    bind_r (w_u8 (comm_to_bits (fu_comm_mode u) OR (if fu_sdm u \<noteq> None then 0x40 else 0))
      \<lparr>w_cap = cap, w_out = []\<rparr>) (\<lambda>w.
    bind_r (w_array (access_rights_to_le_bytes (fu_access_rights u)) w) (\<lambda>w.
    bind_r (w_opt encode_sdm (fu_sdm u) w) (\<lambda>w.
    Inr (w_out w))))"

section \<open>Nibbles and 24-bit fields\<close>

lemma bit_nibble: "bit a n \<Longrightarrow> a < 16 \<Longrightarrow> n < 4" for a :: byte
proof (rule ccontr)
  assume "bit a n" "a < 16" "\<not> n < 4"
  then have "unat a < 16"
    by (simp add: word_less_nat_alt)
  then have "unat (take_bit 4 a) = unat a"
    by (simp add: take_bit_eq_mod unat_mod)
  then have "take_bit 4 a = a"
    by (rule unsigned_word_eqI)
  then show False
    using \<open>bit a n\<close> \<open>\<not> n < 4\<close> by (metis bit_take_bit_iff)
qed

lemma mask_0xF: "(x :: u16) AND 0xF = take_bit 4 x"
  by (simp add: take_bit_eq_mask mask_eq_exp_minus_1)

lemma nibble_at_pack [wire_simps]:
  assumes "a < 16" "b < 16" "c < 16" "d < 16"
  shows "nibble_at 3 (pack_nibbles a b c d) = a"
    "nibble_at 2 (pack_nibbles a b c d) = b"
    "nibble_at 1 (pack_nibbles a b c d) = c"
    "nibble_at 0 (pack_nibbles a b c d) = d"
  unfolding nibble_at_def pack_nibbles_def mask_0xF
  by ((rule bit_word_eqI,
      auto simp: bit_simps dest: bit_nibble [OF _ assms(1)] bit_nibble [OF _ assms(2)]
        bit_nibble [OF _ assms(3)] bit_nibble [OF _ assms(4)]); fail)+

lemma key_as_byte_less: "key_as_byte k < 16" "key_as_byte k \<le> 4"
  by (cases k; simp add: key_as_byte_def)+

lemma access_nibble_less: "access_to_nibble a < 16" "ctr_ret_to_nibble c < 16"
  by (cases a; simp add: access_to_nibble_def key_as_byte_less)
    (cases c; simp add: ctr_ret_to_nibble_def key_as_byte_less)

lemma access_nibble_roundtrip [wire_simps]:
  "access_from_nibble (access_to_nibble a) slot = Inr a"
proof (cases a)
  case (AccKey k)
  then show ?thesis
    by (cases k) (simp_all add: access_from_nibble_def access_to_nibble_def key_as_byte_def)
qed (simp_all add: access_from_nibble_def access_to_nibble_def)

lemma ctr_ret_nibble_roundtrip [wire_simps]:
  "ctr_ret_from_nibble (ctr_ret_to_nibble c) = Inr c"
proof (cases c)
  case (CtrKey k)
  then show ?thesis
    by (cases k) (simp_all add: ctr_ret_from_nibble_def ctr_ret_to_nibble_def key_as_byte_def)
qed (simp_all add: ctr_ret_from_nibble_def ctr_ret_to_nibble_def)

lemma key_nibble_roundtrip [wire_simps]: "key_from_nibble (key_as_byte k) slot = Inr k"
  by (cases k) (simp_all add: key_from_nibble_def key_as_byte_def)

lemma access_rights_roundtrip:
  "access_rights_from_le_bytes (access_rights_to_le_bytes r ! 0) (access_rights_to_le_bytes r ! 1) = Inr r"
  unfolding access_rights_to_le_bytes_def access_rights_from_le_bytes_def get_u16_le Let_def
  by (simp add: nibble_at_pack access_nibble_less access_nibble_roundtrip del: One_nat_def)

interpretation arc: codec access_rights_to_le_bytes
  "\<lambda>bs. case access_rights_from_le_bytes (bs ! 0) (bs ! 1) of Inl _ \<Rightarrow> None | Inr r \<Rightarrow> Some r" "\<lambda>_. True"
  by unfold_locales (simp add: access_rights_roundtrip del: One_nat_def)

definition u24w :: "u32 \<Rightarrow> bytes" where
  "u24w v = [ucast (v AND 0xFF), ucast (drop_bit 8 v AND 0xFF), ucast (drop_bit 16 v AND 0xFF)]"

lemma length_u24w [simp]: "length (u24w v) = 3"
  by (simp add: u24w_def)

lemma u24w_roundtrip:
  assumes "v \<le> 0xFFFFFF"
  shows "u24_of_le (u24w v ! 0) (u24w v ! 1) (u24w v ! 2) = v"
proof -
  have m: "(x :: u32) AND 0xFF = take_bit 8 x" for x
    by (simp add: take_bit_eq_mask mask_eq_exp_minus_1)
  have "unat v < 2 ^ 24"
    using assms by (simp add: word_le_nat_alt)
  then have "unat (take_bit 24 v) = unat v"
    by (simp add: take_bit_eq_mod unat_mod)
  then have v: "take_bit 24 v = v"
    by (rule unsigned_word_eqI)
  have "bit (u24_of_le (u24w v ! 0) (u24w v ! 1) (u24w v ! 2)) n = bit (take_bit 24 v) n"
    if "n < LENGTH(32)" for n
  proof -
    consider "n < 8" | "8 \<le> n \<and> n < 16" | "16 \<le> n \<and> n < 24" | "24 \<le> n \<and> n < 32"
      using \<open>n < LENGTH(32)\<close> by auto linarith
    then show ?thesis
      by cases (auto simp: u24_of_le_def u24w_def m bit_simps)
  qed
  then show ?thesis
    unfolding v by (rule bit_word_eqI)
qed

lemma cur_u24_le_u24w [wire_simps]:
  "v \<le> 0xFFFFFF \<Longrightarrow>
    cur_u24_le \<lparr>c_rest = u24w v @ rest, c_pos = p\<rparr> = Inr (v, \<lparr>c_rest = rest, c_pos = p + 3\<rparr>)"
  using u24w_roundtrip [of v]
  by (simp add: cur_u24_le_def cur_array_def cur_need_def)

lemma cur_u8_Cons [wire_simps]:
  "cur_u8 \<lparr>c_rest = b # rest, c_pos = p\<rparr> = Inr (b, \<lparr>c_rest = rest, c_pos = p + 1\<rparr>)"
  by (simp add: cur_u8_def cur_need_def)

lemma cur_array_2 [wire_simps]:
  "length bs = 2 \<Longrightarrow>
    cur_array 2 \<lparr>c_rest = bs @ rest, c_pos = p\<rparr> = Inr (bs, \<lparr>c_rest = rest, c_pos = p + 2\<rparr>)"
  by (simp add: cur_array_def cur_need_def)

lemma w_array_ok [wire_simps]:
  "length (w_out w) + length bs \<le> w_cap w \<Longrightarrow> w_array bs w = Inr (w\<lparr>w_out := w_out w @ bs\<rparr>)"
  by (simp add: w_array_def)

lemma w_u24_le_ok [wire_simps]:
  "v \<le> 0xFFFFFF \<Longrightarrow> length (w_out w) + 3 \<le> w_cap w \<Longrightarrow>
    w_u24_le v w = Inr (w\<lparr>w_out := w_out w @ u24w v\<rparr>)"
  by (simp add: w_u24_le_def w_array_def u24w_def not_less)

section \<open>Decoding inverts encoding\<close>

definition picc_bytes :: "SdmPiccData \<Rightarrow> bytes" where
  "picc_bytes p =
    (case p of
      PdNone \<Rightarrow> []
    | PdPlain (PmUid u) \<Rightarrow> u24w u
    | PdPlain (PmRCtr m) \<Rightarrow> u24w (rm_offset m)
    | PdPlain (PmBoth u m) \<Rightarrow> u24w u @ u24w (rm_offset m)
    | PdEncrypted _ off _ \<Rightarrow> u24w off)"

definition opt_bytes :: "('a \<Rightarrow> bytes) \<Rightarrow> 'a option \<Rightarrow> bytes" where
  "opt_bytes f v = (case v of None \<Rightarrow> [] | Some x \<Rightarrow> f x)"

definition fr_bytes :: "FileRead \<Rightarrow> bytes" where
  "fr_bytes fr =
    u24w (mw_input (fr_window fr)) @
    opt_bytes (\<lambda>e. u24w (ef_start e) @ u24w (ef_length e)) (fr_enc fr) @
    u24w (mw_mac (fr_window fr))"

definition sdm_bytes :: "Sdm \<Rightarrow> bytes" where
  "sdm_bytes s =
    [sdm_options_byte s] @
    u16_le (pack_nibbles (picc_nibble (sdm_picc_data s)) (file_read_nibble (sdm_file_read s)) 0xF
      (ctr_ret_to_nibble (picc_ctr_ret (sdm_picc_data s)))) @
    picc_bytes (sdm_picc_data s) @ opt_bytes u24w (sdm_tamper_status s) @
    opt_bytes fr_bytes (sdm_file_read s) @ opt_bytes u24w (read_ctr_limit (sdm_picc_data s))"

definition update_bytes :: "FileSettingsUpdate \<Rightarrow> bytes" where
  "update_bytes u =
    [comm_to_bits (fu_comm_mode u) OR (if fu_sdm u \<noteq> None then 0x40 else 0)] @
    access_rights_to_le_bytes (fu_access_rights u) @ opt_bytes sdm_bytes (fu_sdm u)"

text \<open>The values the constructors of the crate admit: 24-bit offsets and a valid layout.\<close>

definition picc_wire_ok :: "SdmPiccData \<Rightarrow> bool" where
  "picc_wire_ok p \<longleftrightarrow>
    (case p of
      PdNone \<Rightarrow> True
    | PdPlain (PmUid u) \<Rightarrow> u \<le> 0xFFFFFF
    | PdPlain (PmRCtr m) \<Rightarrow> rm_offset m \<le> 0xFFFFFF
    | PdPlain (PmBoth u m) \<Rightarrow> u \<le> 0xFFFFFF \<and> rm_offset m \<le> 0xFFFFFF
    | PdEncrypted _ off _ \<Rightarrow> off \<le> 0xFFFFFF) \<and>
    (\<forall>l. read_ctr_limit p = Some l \<longrightarrow> l < 0xFFFFFF)"

definition fr_wire_ok :: "FileRead \<Rightarrow> bool" where
  "fr_wire_ok fr \<longleftrightarrow> mw_input (fr_window fr) \<le> 0xFFFFFF \<and> mw_mac (fr_window fr) \<le> 0xFFFFFF \<and>
    (\<forall>e. fr_enc fr = Some e \<longrightarrow> ef_start e \<le> 0xFFFFFF \<and> enc_length_new (ef_length e) = Inr (ef_length e))"

definition sdm_wire_ok :: "Sdm \<Rightarrow> bool" where
  "sdm_wire_ok s \<longleftrightarrow> picc_wire_ok (sdm_picc_data s) \<and>
    (\<forall>fr. sdm_file_read s = Some fr \<longrightarrow> fr_wire_ok fr) \<and>
    (\<forall>t. sdm_tamper_status s = Some t \<longrightarrow> t \<le> 0xFFFFFF) \<and>
    try_new_inner (sdm_picc_data s) (sdm_file_read s) (sdm_tamper_status s) = Inr s"

lemma enc_length_le: "enc_length_new l = Inr l' \<Longrightarrow> l \<le> 0xFFFFFF"
  by (auto simp: enc_length_new_def not_less split: if_splits)

lemma lengths_bytes:
  "length (picc_bytes p) \<le> 6" "length (fr_bytes fr) \<le> 12"
  "length (opt_bytes u24w t) \<le> 3" "length (opt_bytes fr_bytes f) \<le> 12"
  "length (sdm_bytes s) \<le> 27"
proof -
  show p: "length (picc_bytes p) \<le> 6" for p
    by (simp add: picc_bytes_def split: SdmPiccData.splits PlainMirror.splits)
  show f: "length (fr_bytes fr) \<le> 12" for fr
    by (simp add: fr_bytes_def opt_bytes_def split: option.splits)
  show t: "length (opt_bytes u24w t) \<le> 3" for t
    by (simp add: opt_bytes_def split: option.splits)
  show g: "length (opt_bytes fr_bytes f) \<le> 12" for f
    using f by (simp add: opt_bytes_def split: option.splits)
  show "length (sdm_bytes s) \<le> 27"
    using p [of "sdm_picc_data s"] t [of "sdm_tamper_status s"] g [of "sdm_file_read s"]
      t [of "read_ctr_limit (sdm_picc_data s)"]
    by (simp add: sdm_bytes_def)
qed

lemma w_picc_offsets_ok:
  "picc_wire_ok p \<Longrightarrow> length (w_out w) + 6 \<le> w_cap w \<Longrightarrow>
    w_picc_offsets p w = Inr (w\<lparr>w_out := w_out w @ picc_bytes p\<rparr>)"
  by (auto simp: w_picc_offsets_def picc_bytes_def picc_wire_ok_def wire_simps
      split: SdmPiccData.splits PlainMirror.splits)

lemma w_opt_u24_ok:
  "(\<And>x. v = Some x \<Longrightarrow> x \<le> 0xFFFFFF) \<Longrightarrow> length (w_out w) + 3 \<le> w_cap w \<Longrightarrow>
    w_opt w_u24_le v w = Inr (w\<lparr>w_out := w_out w @ opt_bytes u24w v\<rparr>)"
  by (cases v) (simp_all add: w_opt_def opt_bytes_def wire_simps)

lemma w_opt_file_read_ok:
  "(\<And>fr. v = Some fr \<Longrightarrow> fr_wire_ok fr) \<Longrightarrow> length (w_out w) + 12 \<le> w_cap w \<Longrightarrow>
    w_opt w_file_read v w = Inr (w\<lparr>w_out := w_out w @ opt_bytes fr_bytes v\<rparr>)"
  by (cases v)
    (auto simp: w_opt_def opt_bytes_def w_file_read_def fr_wire_ok_def fr_bytes_def wire_simps
      enc_length_le split: option.splits)

lemma encode_sdm_ok:
  assumes "sdm_wire_ok s" "length (w_out w) + 27 \<le> w_cap w"
  shows "encode_sdm s w = Inr (w\<lparr>w_out := w_out w @ sdm_bytes s\<rparr>)"
proof -
  have lim: "x \<le> 0xFFFFFF" if "read_ctr_limit (sdm_picc_data s) = Some x" for x
    using assms(1) that by (auto simp: sdm_wire_ok_def picc_wire_ok_def order_less_imp_le)
  show ?thesis
    using assms lengths_bytes(1) [of "sdm_picc_data s"]
      lengths_bytes(3) [of "sdm_tamper_status s"] lengths_bytes(4) [of "sdm_file_read s"]
    by (simp add: encode_sdm_def w_u8_def sdm_bytes_def w_array_ok w_picc_offsets_ok w_opt_u24_ok
        w_opt_file_read_ok lim sdm_wire_ok_def)
qed

lemma encode_update_ok:
  assumes "\<And>s. fu_sdm u = Some s \<Longrightarrow> sdm_wire_ok s"
  shows "encode_update u MAX_CHANGE_FILE_SETTINGS_LEN = Inr (update_bytes u)"
    "length (update_bytes u) \<le> MAX_CHANGE_FILE_SETTINGS_LEN"
proof -
  show "encode_update u MAX_CHANGE_FILE_SETTINGS_LEN = Inr (update_bytes u)"
    using assms
    by (cases "fu_sdm u")
      (simp_all add: encode_update_def update_bytes_def MAX_CHANGE_FILE_SETTINGS_LEN_def w_u8_def
        w_array_ok w_opt_def opt_bytes_def encode_sdm_ok access_rights_to_le_bytes_def)
  show "length (update_bytes u) \<le> MAX_CHANGE_FILE_SETTINGS_LEN"
    using lengths_bytes(5) [of "the (fu_sdm u)"]
    by (cases "fu_sdm u")
      (simp_all add: update_bytes_def MAX_CHANGE_FILE_SETTINGS_LEN_def opt_bytes_def
        access_rights_to_le_bytes_def)
qed

lemma options_bits:
  "sdm_options_byte s AND 0x80 \<noteq> 0 \<longleftrightarrow> includes_uid (sdm_picc_data s)"
  "sdm_options_byte s AND 0x40 \<noteq> 0 \<longleftrightarrow> includes_rctr (sdm_picc_data s)"
  "sdm_options_byte s AND 0x20 \<noteq> 0 \<longleftrightarrow> read_ctr_limit (sdm_picc_data s) \<noteq> None"
  "sdm_options_byte s AND 0x10 \<noteq> 0 \<longleftrightarrow> (\<exists>k w e. sdm_file_read s = Some (MacAndEnc k w e))"
  "sdm_options_byte s AND 0x08 \<noteq> 0 \<longleftrightarrow> sdm_tamper_status s \<noteq> None"
  "sdm_options_byte s AND 0b111 = 0b001"
  by (simp_all add: sdm_options_byte_def split: option.splits FileRead.splits)

lemma nibbles_less:
  "picc_nibble p < 16" "file_read_nibble fr < 16"
  by (simp_all add: picc_nibble_def file_read_nibble_def key_as_byte_less
      split: SdmPiccData.splits option.splits)

lemma decode_file_read_key_roundtrip [wire_simps]:
  "decode_file_read_key (file_read_nibble fr) = Inr (map_option fr_key fr)"
  by (cases fr)
    (simp_all add: decode_file_read_key_def file_read_nibble_def key_as_byte_less key_nibble_roundtrip)

lemma cur_enc_range_u24w [wire_simps]:
  "s \<le> 0xFFFFFF \<Longrightarrow> enc_length_new l = Inr l \<Longrightarrow>
    cur_enc_range \<lparr>c_rest = u24w s @ u24w l @ rest, c_pos = p\<rparr> =
      Inr ((s, l), \<lparr>c_rest = rest, c_pos = p + 6\<rparr>)"
  using enc_length_le [of l l] by (simp add: cur_enc_range_def wire_simps)

lemma picc_limit_rctr: "read_ctr_limit p \<noteq> None \<Longrightarrow> includes_rctr p"
  by (simp add: read_ctr_limit_def includes_rctr_def
      split: SdmPiccData.splits PlainMirror.splits EncryptedContent.splits)

lemma picc_ret_rctr: "\<not> includes_rctr p \<Longrightarrow> picc_ctr_ret p = CtrNoAccess"
  by (simp add: picc_ctr_ret_def includes_rctr_def
      split: SdmPiccData.splits PlainMirror.splits EncryptedContent.splits)

text \<open>The offset fields of the three groups, read back in wire order.\<close>

lemma decode_ctr_limit_roundtrip:
  assumes "picc_wire_ok p"
  shows "decode_ctr_limit (read_ctr_limit p \<noteq> None) (includes_rctr p)
      \<lparr>c_rest = opt_bytes u24w (read_ctr_limit p) @ rest, c_pos = n\<rparr> =
    Inr (read_ctr_limit p, \<lparr>c_rest = rest, c_pos = n + length (opt_bytes u24w (read_ctr_limit p))\<rparr>)"
proof (cases "read_ctr_limit p")
  case (Some l)
  with assms have "l < 0xFFFFFF"
    by (simp add: picc_wire_ok_def)
  then show ?thesis
    using Some picc_limit_rctr [of p]
    by (auto simp: decode_ctr_limit_def opt_bytes_def wire_simps order_less_imp_le)
qed (simp add: decode_ctr_limit_def opt_bytes_def)

lemma cur_opt_u24_roundtrip:
  assumes "\<And>x. v = Some x \<Longrightarrow> x \<le> 0xFFFFFF"
  shows "cur_opt (v \<noteq> None) cur_u24_le \<lparr>c_rest = opt_bytes u24w v @ rest, c_pos = n\<rparr> =
    Inr (v, \<lparr>c_rest = rest, c_pos = n + length (opt_bytes u24w v)\<rparr>)"
  using assms by (cases v) (simp_all add: cur_opt_def opt_bytes_def wire_simps)

lemma file_read_fields:
  assumes "\<And>fr. v = Some fr \<Longrightarrow> fr_wire_ok fr"
  shows "bind_r (cur_opt (v \<noteq> None) cur_u24_le
        \<lparr>c_rest = opt_bytes fr_bytes v @ rest, c_pos = n\<rparr>) (\<lambda>(mi, r).
      bind_r (cur_opt (v \<noteq> None \<and> (\<exists>k w e. v = Some (MacAndEnc k w e)))
        cur_enc_range r) (\<lambda>(enc, r).
      bind_r (cur_opt (v \<noteq> None) cur_u24_le r) (\<lambda>(mac, r). f mi enc mac r))) =
    f (map_option (\<lambda>fr. mw_input (fr_window fr)) v)
      (Option.bind v (\<lambda>fr. map_option (\<lambda>e. (ef_start e, ef_length e)) (fr_enc fr)))
      (map_option (\<lambda>fr. mw_mac (fr_window fr)) v)
      \<lparr>c_rest = rest, c_pos = n + length (opt_bytes fr_bytes v)\<rparr>"
proof (cases v)
  case (Some fr)
  then show ?thesis
    using assms [OF Some]
    by (cases fr)
      (simp_all add: cur_opt_def opt_bytes_def fr_bytes_def fr_wire_ok_def fr_enc_def fr_window_def
        wire_simps add.assoc)
qed (simp add: cur_opt_def opt_bytes_def)

lemma decode_file_read_roundtrip:
  "decode_file_read (map_option fr_key v) (map_option (\<lambda>fr. mw_input (fr_window fr)) v)
    (map_option (\<lambda>fr. mw_mac (fr_window fr)) v)
    (Option.bind v (\<lambda>fr. map_option (\<lambda>e. (ef_start e, ef_length e)) (fr_enc fr))) = Inr v"
  by (cases v)
    (simp_all add: decode_file_read_def fr_key_def fr_window_def fr_enc_def Let_def
      split: FileRead.splits)

lemma key_not_plain: "key_as_byte k \<noteq> 0xE"
  by (cases k) (simp_all add: key_as_byte_def)

lemma picc_fields:
  assumes "picc_wire_ok p"
  shows "bind_r (if picc_nibble p \<le> 0x4
        then bind_r (key_from_nibble (picc_nibble p) SlotSdmMetaRead) (\<lambda>k. Inr (Some k)) else Inr None)
      (\<lambda>meta_key. g meta_key) =
      g (case p of PdEncrypted k _ _ \<Rightarrow> Some k | _ \<Rightarrow> None)"
    and "bind_r (cur_opt (includes_uid p \<and> picc_nibble p = 0xE) cur_u24_le
        \<lparr>c_rest = picc_bytes p @ rest, c_pos = n\<rparr>) (\<lambda>(uid_off, r).
      bind_r (cur_opt (includes_rctr p \<and> picc_nibble p = 0xE) cur_u24_le r) (\<lambda>(ctr_off, r).
      bind_r (cur_opt (picc_nibble p \<le> 0x4) cur_u24_le r) (\<lambda>(enc_off, r). f uid_off ctr_off enc_off r))) =
    f (case p of PdPlain (PmUid u) \<Rightarrow> Some u | PdPlain (PmBoth u _) \<Rightarrow> Some u | _ \<Rightarrow> None)
      (case p of PdPlain (PmRCtr m) \<Rightarrow> Some (rm_offset m) | PdPlain (PmBoth _ m) \<Rightarrow> Some (rm_offset m)
        | _ \<Rightarrow> None)
      (case p of PdEncrypted _ off _ \<Rightarrow> Some off | _ \<Rightarrow> None)
      \<lparr>c_rest = rest, c_pos = n + length (picc_bytes p)\<rparr>"
  using assms
  by (auto simp: picc_nibble_def includes_uid_def includes_rctr_def picc_bytes_def picc_wire_ok_def
      cur_opt_def wire_simps key_as_byte_less key_not_plain add.commute [of n 6]
      split: SdmPiccData.splits PlainMirror.splits EncryptedContent.splits)

lemma decode_picc_data_roundtrip:
  "decode_picc_data (picc_nibble p) (case p of PdEncrypted k _ _ \<Rightarrow> Some k | _ \<Rightarrow> None)
      (includes_uid p) (includes_rctr p)
      (case p of PdPlain (PmUid u) \<Rightarrow> Some u | PdPlain (PmBoth u _) \<Rightarrow> Some u | _ \<Rightarrow> None)
      (case p of PdPlain (PmRCtr m) \<Rightarrow> Some (rm_offset m) | PdPlain (PmBoth _ m) \<Rightarrow> Some (rm_offset m)
        | _ \<Rightarrow> None)
      (case p of PdEncrypted _ off _ \<Rightarrow> Some off | _ \<Rightarrow> None)
      \<lparr>rc_limit = read_ctr_limit p, rc_ret_access = picc_ctr_ret p\<rparr> = Inr p"
  by (simp add: decode_picc_data_def picc_nibble_def includes_uid_def includes_rctr_def
      read_ctr_limit_def picc_ctr_ret_def key_not_plain
      split: SdmPiccData.splits PlainMirror.splits EncryptedContent.splits)

lemma decode_sdm_fields_roundtrip:
  assumes "sdm_wire_ok s"
  shows "\<exists>m. decode_sdm_fields (sdm_options_byte s)
      (pack_nibbles (picc_nibble (sdm_picc_data s)) (file_read_nibble (sdm_file_read s)) 0xF
        (ctr_ret_to_nibble (picc_ctr_ret (sdm_picc_data s))))
      \<lparr>c_rest = picc_bytes (sdm_picc_data s) @ opt_bytes u24w (sdm_tamper_status s) @
        opt_bytes fr_bytes (sdm_file_read s) @ opt_bytes u24w (read_ctr_limit (sdm_picc_data s)) @ rest,
       c_pos = n\<rparr> = Inr (s, \<lparr>c_rest = rest, c_pos = m\<rparr>)"
proof -
  let ?p = "sdm_picc_data s"
  have ok: "picc_wire_ok ?p" "\<And>fr. sdm_file_read s = Some fr \<Longrightarrow> fr_wire_ok fr"
    "\<And>t. sdm_tamper_status s = Some t \<Longrightarrow> t \<le> 0xFFFFFF"
    "try_new_inner ?p (sdm_file_read s) (sdm_tamper_status s) = Inr s"
    using assms by (auto simp: sdm_wire_ok_def)
  have ret: "\<not> (\<not> includes_rctr ?p \<and> picc_ctr_ret ?p \<noteq> CtrNoAccess)"
    using picc_ret_rctr by blast
  have nib: "nibble_at 3 (pack_nibbles (picc_nibble p) (file_read_nibble fr) 0xF (ctr_ret_to_nibble c)) =
      picc_nibble p"
    "nibble_at 2 (pack_nibbles (picc_nibble p) (file_read_nibble fr) 0xF (ctr_ret_to_nibble c)) =
      file_read_nibble fr"
    "nibble_at 0 (pack_nibbles (picc_nibble p) (file_read_nibble fr) 0xF (ctr_ret_to_nibble c)) =
      ctr_ret_to_nibble c" for p fr c
    by (simp_all add: nibble_at_pack nibbles_less access_nibble_less)
  show ?thesis
    unfolding decode_sdm_fields_def Let_def options_bits nib
      picc_fields [OF ok(1)] decode_file_read_key_roundtrip ctr_ret_nibble_roundtrip bind_r_simps
      if_not_P [OF ret]
    by (simp add: cur_opt_u24_roundtrip ok file_read_fields decode_ctr_limit_roundtrip
        decode_picc_data_roundtrip decode_file_read_roundtrip try_new_from_wire_def del: not_None_eq)
qed

lemma decode_sdm_roundtrip:
  assumes "sdm_wire_ok s"
  shows "\<exists>m. decode_sdm \<lparr>c_rest = sdm_bytes s @ rest, c_pos = n\<rparr> =
    Inr (s, \<lparr>c_rest = rest, c_pos = m\<rparr>)"
proof -
  let ?w = "pack_nibbles (picc_nibble (sdm_picc_data s)) (file_read_nibble (sdm_file_read s)) 0xF
    (ctr_ret_to_nibble (picc_ctr_ret (sdm_picc_data s)))"
  have hi: "u16_le (pack_nibbles a b 0xF d) ! 0 AND 0xF0 = 0xF0" for a b d
  proof -
    have "ucast (pack_nibbles a b 0xF d) = push_bit 4 (0xF :: byte) OR d"
      unfolding pack_nibbles_def by (rule bit_word_eqI) (auto simp: bit_simps)
    then have "u16_le (pack_nibbles a b 0xF d) ! 0 = 0xF0 OR d"
      by (simp add: u16_le_def)
    moreover have "(0xF0 OR d) AND 0xF0 = (0xF0 :: byte)"
      by (rule bit_word_eqI) (auto simp: bit_simps)
    ultimately show ?thesis
      by simp
  qed
  show ?thesis
    using decode_sdm_fields_roundtrip [OF assms, of rest "n + 1 + 2"]
    by (simp add: decode_sdm_def sdm_bytes_def cur_u8_Cons cur_array_2 options_bits hi
        access_nibble_less get_u16_le del: One_nat_def)
qed

lemma comm_option_bits:
  "(comm_to_bits m OR (if c then 0x40 else 0)) AND 0b10111100 = 0"
  "(comm_to_bits m OR (if c then 0x40 else 0)) AND 0x40 \<noteq> 0 \<longleftrightarrow> c"
  "comm_from_bits (comm_to_bits m OR (if c then 0x40 else 0)) = m"
  by (cases m; cases c; simp add: comm_to_bits_def comm_from_bits_def)+

lemma decode_stored_settings:
  assumes "\<And>s. fu_sdm u = Some s \<Longrightarrow> sdm_wire_ok s" and "sz \<le> 0xFFFFFF"
  shows "decode_settings (0x00 # take 3 (update_bytes u) @ u24w sz @ drop 3 (update_bytes u)) =
      Inr \<lparr>fv_file_type = StandardData, fv_file_size = sz, fv_comm_mode = fu_comm_mode u,
        fv_access_rights = fu_access_rights u, fv_sdm = fu_sdm u\<rparr>"
proof -
  let ?o = "comm_to_bits (fu_comm_mode u) OR (if fu_sdm u \<noteq> None then 0x40 else 0)"
  let ?a = "access_rights_to_le_bytes (fu_access_rights u)"
  have len: "length ?a = 2"
    by (simp add: access_rights_to_le_bytes_def)
  have rec: "0x00 # take 3 (update_bytes u) @ u24w sz @ drop 3 (update_bytes u) =
      0x00 # ?o # ?a @ u24w sz @ opt_bytes sdm_bytes (fu_sdm u)"
    using len by (simp add: update_bytes_def numeral_3_eq_3)
  have "\<exists>m. cur_opt (fu_sdm u \<noteq> None) decode_sdm
      \<lparr>c_rest = opt_bytes sdm_bytes (fu_sdm u), c_pos = 7\<rparr> =
      Inr (fu_sdm u, \<lparr>c_rest = [], c_pos = m\<rparr>)"
    using assms(1) decode_sdm_roundtrip [where rest = "[]" and n = 7]
    by (cases "fu_sdm u") (force simp: cur_opt_def opt_bytes_def)+
  then have "decode_settings (0x00 # ?o # ?a @ u24w sz @ opt_bytes sdm_bytes (fu_sdm u)) =
      Inr \<lparr>fv_file_type = StandardData, fv_file_size = sz, fv_comm_mode = fu_comm_mode u,
        fv_access_rights = fu_access_rights u, fv_sdm = fu_sdm u\<rparr>"
    unfolding decode_settings_def cur_new_def cur_u8_Cons bind_r_simps prod.case
      file_type_from_byte_def
    by (auto simp: cur_u8_Cons cur_array_2 len access_rights_roundtrip cur_u24_le_u24w assms(2)
        comm_option_bits comm_option_bits(3) [of _ True, simplified]
        comm_option_bits(3) [of _ False, simplified] cur_remaining_def simp del: One_nat_def not_None_eq)
  then show ?thesis
    using rec by simp
qed



section \<open>Accepted layouts do not overlap\<close>

definition span :: "(u32 \<times> u32) option \<Rightarrow> nat set" where
  "span x = (case x of None \<Rightarrow> {} | Some (a, l) \<Rightarrow> {unat a ..< unat a + unat l})"

definition picc_blob_range :: "SdmPiccData \<Rightarrow> CryptoMode \<Rightarrow> (u32 \<times> u32) option" where
  "picc_blob_range p mode =
    (case p of PdEncrypted _ off _ \<Rightarrow> Some (off, picc_blob_ascii_len mode) | _ \<Rightarrow> None)"

lemma unat_add_24:
  fixes a b :: u32
  assumes "a \<le> 0xFFFFFF" "b \<le> 0xFFFFFF"
  shows "unat (a + b) = unat a + unat b"
proof -
  have "unat a \<le> 0xFFFFFF" "unat b \<le> 0xFFFFFF"
    using assms by (simp_all add: word_le_nat_alt)
  then show ?thesis
    by (simp add: unat_word_ariths)
qed

definition range_ok :: "(u32 \<times> u32) option \<Rightarrow> bool" where
  "range_ok x \<longleftrightarrow> (case x of None \<Rightarrow> True | Some (a, l) \<Rightarrow> a \<le> 0xFFFFFF \<and> l \<le> 0xFFFFFF)"

lemma check_overlap_disjoint:
  assumes "check_overlap x y k = Inr ()" "range_ok x" "range_ok y"
  shows "span x \<inter> span y = {}"
proof (cases x; cases y)
  fix p q assume x: "x = Some p" and y: "y = Some q"
  obtain a al b bl where p: "p = (a, al)" "q = (b, bl)"
    by fastforce
  with x y assms have "a + al \<le> b \<or> b + bl \<le> a"
    and le: "a \<le> 0xFFFFFF" "al \<le> 0xFFFFFF" "b \<le> 0xFFFFFF" "bl \<le> 0xFFFFFF"
    by (auto simp: check_overlap_def ranges_overlap_def range_ok_def split: if_splits)
  then have "unat a + unat al \<le> unat b \<or> unat b + unat bl \<le> unat a"
    by (auto simp: word_le_nat_alt unat_add_24 simp flip: unat_add_24)
  then show ?thesis
    using x y p by (auto simp: span_def)
qed (auto simp: span_def)

lemma ranges_ok:
  assumes "picc_wire_ok p" "\<And>f. fr = Some f \<Longrightarrow> fr_wire_ok f" "\<And>t. tt = Some t \<Longrightarrow> t \<le> 0xFFFFFF"
  shows "range_ok (uid_range p)" "range_ok (rctr_range p)" "range_ok (tt_range tt)"
    "range_ok (mac_range fr)" "range_ok (enc_range fr)" "range_ok (picc_blob_range p mode)"
proof -
  show "range_ok (uid_range p)" "range_ok (rctr_range p)" "range_ok (picc_blob_range p mode)"
    using assms(1)
    by (auto simp: range_ok_def uid_range_def rctr_range_def picc_blob_range_def picc_wire_ok_def
        UID_PLACEHOLDER_LEN_def RCTR_PLACEHOLDER_LEN_def picc_blob_ascii_len_def
        PICC_BLOB_LEN_AES_def PICC_BLOB_LEN_LRP_def
        split: SdmPiccData.splits PlainMirror.splits CryptoMode.splits)
  show "range_ok (tt_range tt)"
    using assms(3) by (cases tt) (auto simp: range_ok_def tt_range_def TT_PLACEHOLDER_LEN_def)
  show "range_ok (mac_range fr)"
    using assms(2) by (cases fr) (auto simp: range_ok_def mac_range_def fr_wire_ok_def MAC_PLACEHOLDER_LEN_def)
  show "range_ok (enc_range fr)"
    using assms(2)
    by (auto simp: range_ok_def enc_range_def fr_wire_ok_def fr_enc_def dest: enc_length_le
        split: option.splits FileRead.splits)
qed

lemma try_new_inner_checks:
  assumes "try_new_inner p fr tt = Inr s"
  shows "check_overlap (uid_range p) (rctr_range p) UidAndRCtr = Inr ()"
    "check_overlap (uid_range p) (tt_range tt) UidAndTamper = Inr ()"
    "check_overlap (rctr_range p) (tt_range tt) RCtrAndTamper = Inr ()"
    "check_overlap (uid_range p) (mac_range fr) UidAndMac = Inr ()"
    "check_overlap (rctr_range p) (mac_range fr) RCtrAndMac = Inr ()"
    "check_overlap (tt_range tt) (mac_range fr) TamperAndMac = Inr ()"
    "check_overlap (enc_range fr) (uid_range p) EncAndUid = Inr ()"
    "check_overlap (enc_range fr) (rctr_range p) EncAndRCtr = Inr ()"
  using assms unfolding try_new_inner_def
  by (auto simp: bind_r_Inr_iff)

lemma try_new_inner_enc_window:
  assumes "try_new_inner p fr tt = Inr s" "\<And>f. fr = Some f \<Longrightarrow> fr_wire_ok f"
  shows "span (enc_range fr) \<inter> span (mac_range fr) = {}"
proof (cases fr)
  case (Some f)
  show ?thesis
  proof (cases f)
    case (MacAndEnc k w e)
    with Some assms have "ef_start e + ef_length e \<le> mw_mac w" "fr_wire_ok f"
      by (auto simp: try_new_inner_def bind_r_Inr_iff not_less split: if_splits)
    moreover from this have "unat (ef_start e + ef_length e) = unat (ef_start e) + unat (ef_length e)"
      using MacAndEnc by (auto simp: fr_wire_ok_def fr_enc_def intro!: unat_add_24 dest: enc_length_le)
    ultimately show ?thesis
      using Some MacAndEnc
      by (auto simp: span_def enc_range_def mac_range_def fr_window_def word_le_nat_alt)
  qed (simp add: Some span_def enc_range_def)
qed (simp add: span_def enc_range_def)

fun pairwise_disjoint :: "nat set list \<Rightarrow> bool" where
  "pairwise_disjoint [] = True"
| "pairwise_disjoint (x # xs) \<longleftrightarrow> list_all (\<lambda>y. x \<inter> y = {}) xs \<and> pairwise_disjoint xs"

lemma blob_excludes_plain:
  "span (picc_blob_range p mode) = {} \<or> span (uid_range p) = {} \<and> span (rctr_range p) = {}"
  by (simp add: span_def picc_blob_range_def uid_range_def rctr_range_def split: SdmPiccData.splits)

lemma sdm_try_new_checks:
  assumes "sdm_try_new p fr tt mode = Inr s"
  shows "try_new_inner p fr tt = Inr s"
    "check_overlap (picc_blob_range p mode) (tt_range tt) PiccAndTamper = Inr ()"
    "check_overlap (picc_blob_range p mode) (mac_range fr) PiccAndMac = Inr ()"
    "check_overlap (picc_blob_range p mode) (enc_range fr) PiccAndEnc = Inr ()"
proof -
  have "\<exists>s'. try_new_inner p fr tt = Inr s'"
    using assms by (auto simp: sdm_try_new_def bind_r_Inr_iff)
  moreover have "s' = \<lparr>sdm_picc_data = p, sdm_file_read = fr, sdm_tamper_status = tt\<rparr>"
    if "try_new_inner p fr tt = Inr s'" for s'
    using that by (auto simp: try_new_inner_def bind_r_Inr_iff)
  ultimately show "try_new_inner p fr tt = Inr s"
    using assms by (auto simp: sdm_try_new_def bind_r_Inr_iff)
  show "check_overlap (picc_blob_range p mode) (tt_range tt) PiccAndTamper = Inr ()"
    "check_overlap (picc_blob_range p mode) (mac_range fr) PiccAndMac = Inr ()"
    "check_overlap (picc_blob_range p mode) (enc_range fr) PiccAndEnc = Inr ()"
    using assms
    by (auto simp: sdm_try_new_def bind_r_Inr_iff picc_blob_range_def Let_def check_overlap_def
        split: SdmPiccData.splits)
qed

text \<open>
  C15. A layout that \<open>Sdm::try_new\<close> accepts has pairwise disjoint placeholders: the identifier,
  the counter, the encrypted PICC blob, the encrypted file data and the MAC never share a
  byte, and the tamper status shares bytes with none of them but the encrypted file data.
\<close>
theorem sdm_placeholders_disjoint:
  assumes "sdm_try_new p fr tt mode = Inr s" "picc_wire_ok p"
    "\<And>f. fr = Some f \<Longrightarrow> fr_wire_ok f" "\<And>t. tt = Some t \<Longrightarrow> t \<le> 0xFFFFFF"
  shows "pairwise_disjoint [span (uid_range p), span (rctr_range p), span (picc_blob_range p mode),
      span (enc_range fr), span (mac_range fr)] \<and>
    pairwise_disjoint [span (uid_range p), span (rctr_range p), span (picc_blob_range p mode),
      span (mac_range fr), span (tt_range tt)]"
proof -
  note inner = sdm_try_new_checks(1) [OF assms(1)]
  note ok = ranges_ok(1-5) [of p fr tt, OF assms(2-4)] ranges_ok(6) [of p fr tt mode, OF assms(2-4)]
  note d = check_overlap_disjoint [OF try_new_inner_checks(1) [OF inner] ok(1,2)]
    check_overlap_disjoint [OF try_new_inner_checks(2) [OF inner] ok(1,3)]
    check_overlap_disjoint [OF try_new_inner_checks(3) [OF inner] ok(2,3)]
    check_overlap_disjoint [OF try_new_inner_checks(4) [OF inner] ok(1,4)]
    check_overlap_disjoint [OF try_new_inner_checks(5) [OF inner] ok(2,4)]
    check_overlap_disjoint [OF try_new_inner_checks(6) [OF inner] ok(3,4)]
    check_overlap_disjoint [OF try_new_inner_checks(7) [OF inner] ok(5,1)]
    check_overlap_disjoint [OF try_new_inner_checks(8) [OF inner] ok(5,2)]
    check_overlap_disjoint [OF sdm_try_new_checks(2) [OF assms(1)] ok(6,3)]
    check_overlap_disjoint [OF sdm_try_new_checks(3) [OF assms(1)] ok(6,4)]
    check_overlap_disjoint [OF sdm_try_new_checks(4) [OF assms(1)] ok(6,5)]
    try_new_inner_enc_window [OF inner assms(3)]
  show ?thesis
    using blob_excludes_plain [of p mode] d by auto
qed

theorem sdm_placeholders_disjoint_witness:
  "pairwise_disjoint [{}, {}, {20 ..< 52}, {}, {60 ..< 76}]"
proof -
  let ?p = "PdEncrypted Key1 20 (EcBoth \<lparr>rc_limit = None, rc_ret_access = CtrNoAccess\<rparr>)"
  let ?fr = "Some (MacOnly Key2 \<lparr>mw_input = 60, mw_mac = 60\<rparr>)"
  have "sdm_try_new ?p ?fr None Aes =
      Inr \<lparr>sdm_picc_data = ?p, sdm_file_read = ?fr, sdm_tamper_status = None\<rparr>"
    by code_simp
  then show ?thesis
    using sdm_placeholders_disjoint [of ?p ?fr None Aes]
    by (simp add: picc_wire_ok_def fr_wire_ok_def fr_window_def fr_enc_def read_ctr_limit_def
        span_def uid_range_def rctr_range_def picc_blob_range_def enc_range_def mac_range_def
        MAC_PLACEHOLDER_LEN_def picc_blob_ascii_len_def PICC_BLOB_LEN_AES_def)
qed

end
