(* ===== verification/Channel.thy ===== *)
theory Channel
  imports Crypto FileSettings
begin

text \<open>
  The driver's wire layer: \<open>transport.rs\<close>, \<open>types/response_code.rs\<close>, the secure channel of
  \<open>commands/secure_channel.rs\<close> and the commands built on it (authentication, key change,
  key version, file settings, plain read and write, ISO select and read, version). A reader or
  card is a \<open>link\<close>: the two methods of the \<open>Transport\<close> trait as programs over the device state,
  together with the AES crate and the process-wide compatibility flag the driver reads.

  A command that takes the authenticated state by \<open>&mut\<close> returns it beside its value; on an
  error the session is dropped by every caller, so no state is returned there. The lemmas
  describe each command by the single APDU it sends and by what it makes of the response.
\<close>

record Response =
  rs_data :: bytes
  rs_sw1 :: byte
  rs_sw2 :: byte

record ('t, 'e) link =
  lk_aes :: aes_crate
  lk_transmit :: "bytes \<Rightarrow> ('t, 'e, Response) prog"
  lk_get_uid :: "('t, 'e, bytes) prog"
  lk_compat :: bool

section \<open>Status words\<close>

datatype ResponseStatus =
    OperationOk | IllegalCommandCode | IntegrityError | NoSuchKey | LengthError
  | PermissionDenied | ParameterError | AuthenticationDelay | AuthenticationError
  | AdditionalFrame | BoundaryError | CommandAborted | MemoryError | FileNotFound
  | WrongLength | SecurityStatusNotSatisfied | ConditionsOfUseNotSatisfied
  | IncorrectParametersInTheCommandDataField | FileOrApplicationNotFound
  | IncorrectParametersP1P2 | LcInconsistentWithParametersP1P2 | WrongLeField
  | WrongLeFieldExpected byte | InstructionCodeNotSupportedOrInvalid | ClassNotSupported
  | NormalProcessing | UnknownStatus u16

datatype ResponseCode = Iso byte byte | Desfire byte byte

definition rc_ok :: "ResponseCode \<Rightarrow> bool" where
  "rc_ok c = (case c of Iso sw1 sw2 \<Rightarrow> sw1 = 0x90 \<and> sw2 = 0x00 | Desfire sw1 sw2 \<Rightarrow> sw1 = 0x91 \<and> sw2 = 0x00)"

definition rc_code :: "ResponseCode \<Rightarrow> u16" where
  "rc_code c =
    (case c of Iso sw1 sw2 \<Rightarrow> push_bit 8 (ucast sw1) OR ucast sw2
     | Desfire sw1 sw2 \<Rightarrow> push_bit 8 (ucast sw1) OR ucast sw2)"

definition desfire_status :: "u16 \<Rightarrow> ResponseStatus" where
  "desfire_status c =
    (if c = 0x9100 then OperationOk
     else if c = 0x911C then IllegalCommandCode
     else if c = 0x911E then IntegrityError
     else if c = 0x9140 then NoSuchKey
     else if c = 0x917E then LengthError
     else if c = 0x919D then PermissionDenied
     else if c = 0x919E then ParameterError
     else if c = 0x91AD then AuthenticationDelay
     else if c = 0x91AE then AuthenticationError
     else if c = 0x91AF then AdditionalFrame
     else if c = 0x91BE then BoundaryError
     else if c = 0x91CA then CommandAborted
     else if c = 0x91EE then MemoryError
     else if c = 0x91F0 then FileNotFound
     else UnknownStatus c)"

definition iso_status :: "u16 \<Rightarrow> ResponseStatus" where
  "iso_status c =
    (if c = 0x6700 then WrongLength
     else if c = 0x6982 then SecurityStatusNotSatisfied
     else if c = 0x6985 then ConditionsOfUseNotSatisfied
     else if c = 0x6A80 then IncorrectParametersInTheCommandDataField
     else if c = 0x6A82 then FileOrApplicationNotFound
     else if c = 0x6A86 then IncorrectParametersP1P2
     else if c = 0x6A87 then LcInconsistentWithParametersP1P2
     else if c = 0x6C00 then WrongLeField
     else if 0x6C01 \<le> c \<and> c \<le> 0x6CFF then WrongLeFieldExpected (ucast (c AND 0xFF))
     else if c = 0x6D00 then InstructionCodeNotSupportedOrInvalid
     else if c = 0x6E00 then ClassNotSupported
     else if c = 0x9000 then NormalProcessing
     else UnknownStatus c)"

definition rc_status :: "ResponseCode \<Rightarrow> ResponseStatus" where
  "rc_status c =
    (case c of Desfire _ _ \<Rightarrow> desfire_status (rc_code c) | Iso _ _ \<Rightarrow> iso_status (rc_code c))"

definition desfire_of :: "Response \<Rightarrow> ResponseCode" where
  "desfire_of r = Desfire (rs_sw1 r) (rs_sw2 r)"

definition iso_of :: "Response \<Rightarrow> ResponseCode" where
  "iso_of r = Iso (rs_sw1 r) (rs_sw2 r)"

section \<open>Session errors and the authenticated state\<close>

datatype 'e SessionError =
    SeTransport 'e
  | ErrorResponse ResponseStatus
  | UnexpectedLength (ul_got: nat) (ul_expected: nat)
  | InvalidCommandParameter (icp_parameter: string) (icp_value: nat) (icp_reason: string)
  | ApduBodyTooLarge (abl_got: nat) (abl_max: nat)
  | SeFileSettings FileSettingsError
  | AuthenticationMismatch
  | ResponseMacMismatch
  | NotBlockAligned nat
  | NotFactoryState string

record AuthResult =
  ar_suite :: AesSuite
  ar_ti :: bytes
  ar_pd_cap2 :: bytes
  ar_pcd_cap2 :: bytes

record Authenticated =
  au_result :: AuthResult
  au_key_number :: KeyNumber
  au_cmd_counter :: u16

definition with_auth_result :: "AuthResult \<Rightarrow> KeyNumber \<Rightarrow> Authenticated" where
  "with_auth_result r k = \<lparr>au_result = r, au_key_number = k, au_cmd_counter = 0\<rparr>"

definition advance_counter :: "Authenticated \<Rightarrow> Authenticated" where
  "advance_counter st = st\<lparr>au_cmd_counter := au_cmd_counter st + 1\<rparr>"

definition au_suite :: "Authenticated \<Rightarrow> AesSuite" where
  "au_suite st = ar_suite (au_result st)"

definition au_ti :: "Authenticated \<Rightarrow> bytes" where
  "au_ti st = ar_ti (au_result st)"

definition transmit_s :: "('t, 'e) link \<Rightarrow> bytes \<Rightarrow> ('t, 'e SessionError, Response) prog" where
  "transmit_s E apdu = map_err_p SeTransport (lk_transmit E apdu)"

section \<open>The secure channel\<close>

definition MAC_LEN :: nat where "MAC_LEN = 8"

definition MAX_APDU_BODY :: nat where "MAX_APDU_BODY = 255"

definition MAC_INPUT_CAP :: nat where "MAC_INPUT_CAP = 1 + 2 + 4 + MAX_APDU_BODY"

definition MAX_RESPONSE_DATA :: nat where "MAX_RESPONSE_DATA = MAX_APDU_BODY - MAC_LEN"

text \<open>\<open>None\<close>: a slice of the fixed buffer is out of range, which panics.\<close>

definition fill_mac_input :: "byte \<Rightarrow> bytes \<Rightarrow> bytes \<Rightarrow> bytes \<Rightarrow> bytes \<Rightarrow> bytes option" where
  "fill_mac_input prefix ctr ti part1 part2 =
    (if 7 + length part1 + length part2 > MAC_INPUT_CAP then None
     else Some (prefix # ctr @ ti @ part1 @ part2))"

definition compute_cmd_mac ::
    "('t, 'e) link \<Rightarrow> Authenticated \<Rightarrow> byte \<Rightarrow> bytes \<Rightarrow> bytes \<Rightarrow> ('t, 'e SessionError, bytes) prog" where
  "compute_cmd_mac E st cmd header data =
    (case fill_mac_input cmd (u16_le (au_cmd_counter st)) (au_ti st) header data of
      None \<Rightarrow> panic_p
    | Some buf \<Rightarrow> return_p (suite_mac (lk_aes E) (au_suite st) buf))"

definition encrypt_command ::
    "('t, 'e) link \<Rightarrow> Authenticated \<Rightarrow> bytes \<Rightarrow> ('e SessionError, bytes) result" where
  "encrypt_command E st buf =
    ok_or (NotBlockAligned (length buf))
      (suite_encrypt (lk_aes E) (au_suite st) DirCommand (au_ti st) (au_cmd_counter st) buf)"

definition decrypt_response ::
    "('t, 'e) link \<Rightarrow> Authenticated \<Rightarrow> bytes \<Rightarrow> ('e SessionError, bytes) result" where
  "decrypt_response E st buf =
    ok_or (NotBlockAligned (length buf))
      (suite_decrypt (lk_aes E) (au_suite st) DirResponse (au_ti st) (au_cmd_counter st) buf)"

definition verify_response_mac_and_advance ::
    "('t, 'e) link \<Rightarrow> Authenticated \<Rightarrow> byte \<Rightarrow> bytes \<Rightarrow> ('t, 'e SessionError, bytes \<times> Authenticated) prog" where
  "verify_response_mac_and_advance E st rc body =
    (if length body < MAC_LEN then
       if lk_compat E then return_p ([], advance_counter st)
       else throw_p (UnexpectedLength (length body) MAC_LEN)
     else
       let data = take (length body - MAC_LEN) body;
           received = drop (length body - MAC_LEN) body;
           next_ctr = au_cmd_counter st + 1
       in case fill_mac_input rc (u16_le next_ctr) (au_ti st) data [] of
            None \<Rightarrow> panic_p
          | Some buf \<Rightarrow>
              if suite_mac (lk_aes E) (au_suite st) buf \<noteq> received then throw_p ResponseMacMismatch
              else return_p (data, advance_counter st))"

definition decrypt_full_fixed ::
    "('t, 'e) link \<Rightarrow> Authenticated \<Rightarrow> nat \<Rightarrow> nat \<Rightarrow> byte \<Rightarrow> bytes \<Rightarrow>
      ('t, 'e SessionError, bytes \<times> Authenticated) prog" where
  "decrypt_full_fixed E st CT P rc body =
    bind_p (verify_response_mac_and_advance E st rc body) (\<lambda>(ciphertext, st').
      if length ciphertext \<noteq> CT then throw_p (UnexpectedLength (length ciphertext) CT)
      else bind_p (lift_r (decrypt_response E st' ciphertext)) (\<lambda>buf.
        if strip_m2_padding buf \<noteq> Some P then throw_p ResponseMacMismatch
        else return_p (take P buf, st')))"

definition send_mac ::
    "('t, 'e) link \<Rightarrow> Authenticated \<Rightarrow> byte \<Rightarrow> byte \<Rightarrow> byte \<Rightarrow> bytes \<Rightarrow> bytes \<Rightarrow>
      ('t, 'e SessionError, bytes \<times> Authenticated) prog" where
  "send_mac E st cmd p1 p2 header data =
    (let body_len = length header + length data + MAC_LEN
     in if body_len > MAX_APDU_BODY then throw_p (ApduBodyTooLarge body_len MAX_APDU_BODY)
        else bind_p (compute_cmd_mac E st cmd header data) (\<lambda>mac.
          bind_p (transmit_s E ([0x90, cmd, p1, p2, of_nat body_len] @ header @ data @ mac @ [0x00])) (\<lambda>resp.
            if rc_status (desfire_of resp) \<noteq> OperationOk
            then throw_p (ErrorResponse (rc_status (desfire_of resp)))
            else bind_p (verify_response_mac_and_advance E st (rs_sw2 resp) (rs_data resp)) (\<lambda>(plain, st').
              if length plain > MAX_RESPONSE_DATA
              then throw_p (UnexpectedLength (length plain) MAX_RESPONSE_DATA)
              else return_p (plain, st')))))"

section \<open>What an accepted response proves\<close>

lemma split_tail: "length xs \<ge> n \<Longrightarrow> xs = take (length xs - n) xs @ drop (length xs - n) xs"
  by simp

lemma verify_response_sound:
  assumes "verify_response_mac_and_advance E st rc body t = Some (Inr (d, st'), t')"
  shows "st' = advance_counter st \<and> t' = t \<and>
    (body = d @ suite_mac (lk_aes E) (au_suite st) (rc # u16_le (au_cmd_counter st + 1) @ au_ti st @ d) \<or>
     lk_compat E \<and> length body < 8 \<and> d = [])"
proof (cases "length body < MAC_LEN")
  case True
  then show ?thesis
    using assms by (auto simp: verify_response_mac_and_advance_def MAC_LEN_def split: if_splits)
next
  case False
  then show ?thesis
    using assms split_tail [of MAC_LEN body]
    by (auto simp: verify_response_mac_and_advance_def Let_def fill_mac_input_def split: if_splits)
qed

text \<open>
  C4. No unauthenticated response is accepted, whatever the transport does: when a MACed command
  returns data, the card answered \<open>9100\<close> and its answer was that data followed by the session MAC over
  status, next counter, transaction identifier and data; the counter advanced by one. The
  only exception is the emulator compatibility flag, and then the data are empty.
\<close>
theorem send_mac_authentic:
  assumes "send_mac E st cmd p1 p2 h d t = Some (Inr (plain, st'), t')"
  shows "st' = advance_counter st \<and>
    (\<exists>resp. transmit_s E ([0x90, cmd, p1, p2, of_nat (length h + length d + 8)] @ h @ d @
        suite_mac (lk_aes E) (au_suite st) (cmd # u16_le (au_cmd_counter st) @ au_ti st @ h @ d) @ [0x00]) t =
        Some (Inr resp, t') \<and>
      rc_status (desfire_of resp) = OperationOk \<and>
      (rs_data resp = plain @ suite_mac (lk_aes E) (au_suite st)
          (rs_sw2 resp # u16_le (au_cmd_counter st + 1) @ au_ti st @ plain) \<or>
       lk_compat E \<and> length (rs_data resp) < 8 \<and> plain = []))"
proof -
  have len: "length h + length d + 8 \<le> 255"
    using assms by (auto simp: send_mac_def Let_def MAC_LEN_def MAX_APDU_BODY_def split: if_splits)
  then have mac: "compute_cmd_mac E st cmd h d =
      return_p (suite_mac (lk_aes E) (au_suite st) (cmd # u16_le (au_cmd_counter st) @ au_ti st @ h @ d))"
    by (simp add: compute_cmd_mac_def fill_mac_input_def MAC_INPUT_CAP_def MAX_APDU_BODY_def)
  obtain resp t1 where resp: "transmit_s E ([0x90, cmd, p1, p2, of_nat (length h + length d + 8)] @ h @ d @
        suite_mac (lk_aes E) (au_suite st) (cmd # u16_le (au_cmd_counter st) @ au_ti st @ h @ d) @ [0x00]) t =
        Some (Inr resp, t1)" "rc_status (desfire_of resp) = OperationOk"
    and ver: "verify_response_mac_and_advance E st (rs_sw2 resp) (rs_data resp) t1 = Some (Inr (plain, st'), t')"
    using assms len unfolding send_mac_def Let_def MAC_LEN_def MAX_APDU_BODY_def mac
    by (auto elim!: bind_p_SomeE split: if_splits)
  show ?thesis
    using resp verify_response_sound [OF ver] by auto
qed

theorem send_mac_authentic_witness:
  "\<exists>plain st' t'. send_mac \<lparr>lk_aes = \<lparr>aes_enc = (\<lambda>k x. x), aes_dec = (\<lambda>k x. x), aes_mac = (\<lambda>k m. replicate 16 7)\<rparr>,
      lk_transmit = (\<lambda>_ t. Some (Inr \<lparr>rs_data = 5 # replicate 8 7, rs_sw1 = 0x91, rs_sw2 = 0\<rparr>, t)),
      lk_get_uid = (\<lambda>t. Some (Inl (), t)), lk_compat = False\<rparr>
    (with_auth_result \<lparr>ar_suite = \<lparr>su_mac_key = [], su_enc_key = []\<rparr>, ar_ti = [0, 0, 0, 0], ar_pd_cap2 = [], ar_pcd_cap2 = []\<rparr> Key0)
    0x64 0 0 [0] [] () = Some (Inr (plain, st'), t') \<and> plain = [5] \<and> au_cmd_counter st' = 1"
  (is "\<exists>plain st' t'. send_mac ?E ?st _ _ _ _ _ _ = _ \<and> _ \<and> _")
proof -
  have run: "send_mac ?E ?st 0x64 0 0 [0] [] () = Some (Inr ([5], advance_counter ?st), ())"
    by code_simp
  show ?thesis
    using run send_mac_authentic [OF run] by (auto simp: advance_counter_def with_auth_result_def)
qed

end
