(* ===== verification/Commands.thy ===== *)
theory Commands
  imports Channel
begin

text \<open>
  The card commands of the driver, one definition per function of \<open>commands/\<close>:
  \<open>AuthenticateEV2First\<close> and \<open>NonFirst\<close>, \<open>ChangeKey\<close>, \<open>GetKeyVersion\<close>, \<open>GetFileSettings\<close>,
  \<open>ChangeFileSettings\<close>, \<open>GetVersion\<close>, plain \<open>ReadData\<close> and \<open>WriteData\<close>, ISO select and
  read. A caller's buffer is represented by its length, and the bytes a call stores in its
  prefix are the value returned.
\<close>

section \<open>Authentication\<close>

definition aes_decrypt_auth :: "aes_crate \<Rightarrow> bytes \<Rightarrow> bytes \<Rightarrow> bytes" where
  "aes_decrypt_auth A key enc = aes_cbc_decrypt_n A key (replicate 16 0) enc"

definition build_part2_apdu :: "aes_crate \<Rightarrow> bytes \<Rightarrow> bytes \<Rightarrow> bytes \<Rightarrow> bytes" where
  "build_part2_apdu A key rnd_a rnd_b =
    (let ct = rnd_a @ drop 1 rnd_b @ [rnd_b ! 0]
     in [0x90, 0xAF, 0x00, 0x00, 0x20] @ aes_cbc_encrypt_n A key (replicate 16 0) ct @ [0x00])"

definition finish_auth ::
    "aes_crate \<Rightarrow> bytes \<Rightarrow> bytes \<Rightarrow> bytes \<Rightarrow> bytes \<Rightarrow> ('e SessionError, AuthResult) result" where
  "finish_auth A key rnd_a rnd_b enc =
    (let resp = aes_decrypt_auth A key enc;
         rnd_a_prime = slice 4 20 resp;
         rnd_a_received = rnd_a_prime ! 15 # take 15 rnd_a_prime
     in if rnd_a_received \<noteq> rnd_a then Inl AuthenticationMismatch
        else Inr \<lparr>ar_suite = suite_derive A key rnd_a rnd_b, ar_ti = slice 0 4 resp,
                  ar_pd_cap2 = slice 20 26 resp, ar_pcd_cap2 = slice 26 32 resp\<rparr>)"

definition authenticate_ev2_first ::
    "('t, 'e) link \<Rightarrow> KeyNumber \<Rightarrow> bytes \<Rightarrow> bytes \<Rightarrow> ('t, 'e SessionError, AuthResult) prog" where
  "authenticate_ev2_first E key_no key rnd_a =
    bind_p (transmit_s E [0x90, 0x71, 0x00, 0x00, 0x05, key_as_byte key_no, 0x03, 0x00, 0x00, 0x00, 0x00]) (\<lambda>r1.
      if rc_status (desfire_of r1) \<noteq> AdditionalFrame
      then throw_p (ErrorResponse (rc_status (desfire_of r1)))
      else if length (rs_data r1) \<noteq> 16 then throw_p (UnexpectedLength (length (rs_data r1)) 16)
      else let rnd_b = aes_decrypt_auth (lk_aes E) key (rs_data r1)
        in bind_p (transmit_s E (build_part2_apdu (lk_aes E) key rnd_a rnd_b)) (\<lambda>r2.
          if \<not> rc_ok (desfire_of r2) then throw_p (ErrorResponse (rc_status (desfire_of r2)))
          else if length (rs_data r2) \<noteq> 32 then throw_p (UnexpectedLength (length (rs_data r2)) 32)
          else lift_r (finish_auth (lk_aes E) key rnd_a rnd_b (rs_data r2))))"

section \<open>Key management\<close>

definition crc32_step :: "u32 \<Rightarrow> u32" where
  "crc32_step crc = (if crc AND 1 \<noteq> 0 then drop_bit 1 crc XOR 0xEDB88320 else drop_bit 1 crc)"

definition crc32_byte :: "byte \<Rightarrow> u32 \<Rightarrow> u32" where
  "crc32_byte b crc = (crc32_step ^^ 8) (crc XOR ucast b)"

definition crc32 :: "bytes \<Rightarrow> bytes" where
  "crc32 data = u32_le (fold crc32_byte data 0xFFFFFFFF)"

definition change_key_transmit ::
    "('t, 'e) link \<Rightarrow> Authenticated \<Rightarrow> KeyNumber \<Rightarrow> bytes \<Rightarrow> bool \<Rightarrow>
      ('t, 'e SessionError, Authenticated) prog" where
  "change_key_transmit E st key_no plaintext expect_mact =
    bind_p (lift_r (encrypt_command E st plaintext)) (\<lambda>ct.
      bind_p (compute_cmd_mac E st 0xC4 [key_as_byte key_no] ct) (\<lambda>mac.
        bind_p (transmit_s E ([0x90, 0xC4, 0x00, 0x00, 0x29, key_as_byte key_no] @ ct @ mac @ [0x00])) (\<lambda>resp.
          if rc_status (desfire_of resp) \<noteq> OperationOk
          then throw_p (ErrorResponse (rc_status (desfire_of resp)))
          else if expect_mact then
            bind_p (verify_response_mac_and_advance E st (rs_sw2 resp) (rs_data resp)) (\<lambda>(_, st').
              return_p st')
          else if rs_data resp \<noteq> [] then throw_p (UnexpectedLength (length (rs_data resp)) 0)
          else return_p (advance_counter st))))"

definition change_key ::
    "('t, 'e) link \<Rightarrow> Authenticated \<Rightarrow> NonMasterKeyNumber \<Rightarrow> bytes \<Rightarrow> byte \<Rightarrow> bytes \<Rightarrow>
      ('t, 'e SessionError, Authenticated) prog" where
  "change_key E st key_no new_key new_key_version old_key =
    (let plaintext = xor_bytes new_key old_key @ [new_key_version] @ crc32 new_key @ [0x80] @ replicate 10 0
     in change_key_transmit E st (key_of_non_master key_no) plaintext True)"

definition change_master_key ::
    "('t, 'e) link \<Rightarrow> Authenticated \<Rightarrow> bytes \<Rightarrow> byte \<Rightarrow> ('t, 'e SessionError, Authenticated) prog" where
  "change_master_key E st new_key new_key_version =
    (let plaintext = new_key @ [new_key_version, 0x80] @ replicate 14 0
     in change_key_transmit E st Key0 plaintext False)"

definition get_key_version ::
    "('t, 'e) link \<Rightarrow> Authenticated \<Rightarrow> KeyNumber \<Rightarrow> ('t, 'e SessionError, byte \<times> Authenticated) prog" where
  "get_key_version E st key_no =
    bind_p (send_mac E st 0x64 0x00 0x00 [key_as_byte key_no] []) (\<lambda>(plain, st').
      if length plain \<noteq> 1 then throw_p (UnexpectedLength (length plain) 1)
      else return_p (plain ! 0, st'))"

section \<open>File settings\<close>

definition get_file_settings ::
    "('t, 'e) link \<Rightarrow> byte \<Rightarrow> ('t, 'e SessionError, FileSettingsView) prog" where
  "get_file_settings E fno =
    bind_p (transmit_s E [0x90, 0xF5, 0x00, 0x00, 0x01, fno, 0x00]) (\<lambda>resp.
      if rc_status (desfire_of resp) \<noteq> OperationOk
      then throw_p (ErrorResponse (rc_status (desfire_of resp)))
      else lift_r (map_err SeFileSettings (decode_settings (rs_data resp))))"

definition get_file_settings_mac ::
    "('t, 'e) link \<Rightarrow> Authenticated \<Rightarrow> byte \<Rightarrow> ('t, 'e SessionError, FileSettingsView \<times> Authenticated) prog" where
  "get_file_settings_mac E st fno =
    bind_p (send_mac E st 0xF5 0x00 0x00 [fno] []) (\<lambda>(plain, st').
      bind_p (lift_r (map_err SeFileSettings (decode_settings plain))) (\<lambda>v. return_p (v, st')))"

definition m2_pad :: "bytes \<Rightarrow> bytes" where
  "m2_pad raw =
    (let padded_len = (length raw + 1 + 15) div 16 * 16
     in raw @ 0x80 # replicate (padded_len - (length raw + 1)) 0)"

definition change_file_settings ::
    "('t, 'e) link \<Rightarrow> Authenticated \<Rightarrow> byte \<Rightarrow> FileSettingsUpdate \<Rightarrow> ('t, 'e SessionError, Authenticated) prog" where
  "change_file_settings E st fno settings =
    bind_p (lift_r (map_err SeFileSettings (encode_update settings MAX_CHANGE_FILE_SETTINGS_LEN))) (\<lambda>raw.
      bind_p (lift_r (encrypt_command E st (m2_pad raw))) (\<lambda>ct.
        bind_p (compute_cmd_mac E st 0x5F [fno] ct) (\<lambda>mac.
          bind_p (transmit_s E
              ([0x90, 0x5F, 0x00, 0x00, of_nat (1 + length ct + MAC_LEN), fno] @ ct @ mac @ [0x00])) (\<lambda>resp.
            if rc_status (desfire_of resp) \<noteq> OperationOk
            then throw_p (ErrorResponse (rc_status (desfire_of resp)))
            else bind_p (verify_response_mac_and_advance E st (rs_sw2 resp) (rs_data resp)) (\<lambda>(_, st').
              return_p st')))))"

section \<open>Version\<close>

record Version =
  vn_part1 :: bytes
  vn_part2 :: bytes
  vn_part3 :: bytes

definition hw_vendor_id :: "Version \<Rightarrow> byte" where "hw_vendor_id v = vn_part1 v ! 0"

definition hw_type :: "Version \<Rightarrow> byte" where "hw_type v = vn_part1 v ! 1"

definition request_intermediate_part ::
    "('t, 'e) link \<Rightarrow> bytes \<Rightarrow> ('t, 'e SessionError, bytes) prog" where
  "request_intermediate_part E apdu =
    bind_p (transmit_s E apdu) (\<lambda>resp.
      if rc_status (desfire_of resp) \<noteq> AdditionalFrame
      then throw_p (ErrorResponse (rc_status (desfire_of resp)))
      else if length (rs_data resp) \<noteq> 7 then throw_p (UnexpectedLength (length (rs_data resp)) 7)
      else return_p (rs_data resp))"

definition drive_chain ::
    "('t, 'e) link \<Rightarrow> bytes \<Rightarrow> ('t, 'e SessionError, bytes \<times> bytes \<times> bytes) prog" where
  "drive_chain E head =
    bind_p (request_intermediate_part E head) (\<lambda>part1.
      bind_p (request_intermediate_part E [0x90, 0xAF, 0x00, 0x00, 0x00]) (\<lambda>part2.
        bind_p (transmit_s E [0x90, 0xAF, 0x00, 0x00, 0x00]) (\<lambda>r3.
          if \<not> rc_ok (desfire_of r3) then throw_p (ErrorResponse (rc_status (desfire_of r3)))
          else return_p (part1, part2, rs_data r3))))"

definition extract_part3 :: "bytes \<Rightarrow> ('e SessionError, bytes) result" where
  "extract_part3 data =
    (if length data < 14 then Inl (UnexpectedLength (length data) 14) else Inr (take 14 data))"

definition get_version :: "('t, 'e) link \<Rightarrow> ('t, 'e SessionError, Version) prog" where
  "get_version E =
    bind_p (drive_chain E [0x90, 0x60, 0x00, 0x00, 0x00]) (\<lambda>(part1, part2, last).
      bind_p (lift_r (extract_part3 last)) (\<lambda>part3.
        return_p \<lparr>vn_part1 = part1, vn_part2 = part2, vn_part3 = part3\<rparr>))"

definition get_version_mac ::
    "('t, 'e) link \<Rightarrow> Authenticated \<Rightarrow> ('t, 'e SessionError, Version \<times> Authenticated) prog" where
  "get_version_mac E st =
    bind_p (compute_cmd_mac E st 0x60 [] []) (\<lambda>cmd_mac.
      bind_p (drive_chain E ([0x90, 0x60, 0x00, 0x00, 0x08] @ cmd_mac @ [0x00])) (\<lambda>(part1, part2, last).
        if length last \<noteq> 14 + 8 then throw_p (UnexpectedLength (length last) 22)
        else bind_p (verify_response_mac_and_advance E st 0x00 (part1 @ part2 @ last)) (\<lambda>(verified, st').
          return_p (\<lparr>vn_part1 = part1, vn_part2 = part2, vn_part3 = slice 14 28 verified\<rparr>, st'))))"

section \<open>Plain file access\<close>

definition U24_MAX :: u32 where "U24_MAX = 0x00FFFFFF"

definition READ_DATA_RESP_CAP :: nat where "READ_DATA_RESP_CAP = 256"

definition validate_request :: "byte \<Rightarrow> u32 \<Rightarrow> u32 \<Rightarrow> nat \<Rightarrow> ('e SessionError, unit) result" where
  "validate_request fno off len buf_len =
    (if fno > 0x1F then Inl (InvalidCommandParameter ''file_no'' (unat fno) ''must fit 5 bits'')
     else if off > U24_MAX then Inl (InvalidCommandParameter ''offset'' (unat off) ''must fit 24 bits'')
     else if len > U24_MAX then Inl (InvalidCommandParameter ''length'' (unat len) ''must fit 24 bits'')
     else if buf_len = 0 then Inl (InvalidCommandParameter ''buf.len()'' 0 ''must be non-zero'')
     else if len \<noteq> 0 \<and> buf_len < unat len
       then Inl (InvalidCommandParameter ''buf.len()'' buf_len ''must be at least the requested length'')
     else Inr ())"

definition data_header :: "byte \<Rightarrow> u32 \<Rightarrow> u32 \<Rightarrow> bytes" where
  "data_header fno off len = fno # take 3 (u32_le off) @ take 3 (u32_le len)"

definition want_plain_bytes :: "u32 \<Rightarrow> nat \<Rightarrow> nat" where
  "want_plain_bytes len buf_len = min (if len = 0 then buf_len else unat len) READ_DATA_RESP_CAP"

definition read_data_plain ::
    "('t, 'e) link \<Rightarrow> byte \<Rightarrow> u32 \<Rightarrow> u32 \<Rightarrow> nat \<Rightarrow> ('t, 'e SessionError, bytes) prog" where
  "read_data_plain E fno off len buf_len =
    bind_p (lift_r (validate_request fno off len buf_len)) (\<lambda>_.
      let want = want_plain_bytes len buf_len
      in bind_p (transmit_s E ([0x90, 0xAD, 0x00, 0x00, 0x07] @ data_header fno off len @ [0x00])) (\<lambda>resp.
        if rc_status (desfire_of resp) \<noteq> OperationOk
        then throw_p (ErrorResponse (rc_status (desfire_of resp)))
        else return_p (take (min (min (length (rs_data resp)) want) buf_len) (rs_data resp))))"

definition validate_header :: "byte \<Rightarrow> u32 \<Rightarrow> nat \<Rightarrow> ('e SessionError, unit) result" where
  "validate_header fno off len =
    (if fno > 0x1F then Inl (InvalidCommandParameter ''file_no'' (unat fno) ''must fit 5 bits'')
     else if off > U24_MAX then Inl (InvalidCommandParameter ''offset'' (unat off) ''must fit 24 bits'')
     else if len = 0 then Inl (InvalidCommandParameter ''data.len()'' 0 ''must be non-zero'')
     else if len > unat U24_MAX
       then Inl (InvalidCommandParameter ''data.len()'' len ''must fit the 24-bit Length field'')
     else Inr ())"

definition validate_body_len :: "nat \<Rightarrow> ('e SessionError, unit) result" where
  "validate_body_len body_len =
    (if body_len > MAX_APDU_BODY then Inl (ApduBodyTooLarge body_len MAX_APDU_BODY) else Inr ())"

definition write_data_plain ::
    "('t, 'e) link \<Rightarrow> byte \<Rightarrow> u32 \<Rightarrow> bytes \<Rightarrow> ('t, 'e SessionError, unit) prog" where
  "write_data_plain E fno off data =
    bind_p (lift_r (validate_header fno off (length data))) (\<lambda>_.
      bind_p (lift_r (validate_body_len (7 + length data))) (\<lambda>_.
        bind_p (transmit_s E ([0x90, 0x8D, 0x00, 0x00, of_nat (7 + length data)]
            @ data_header fno off (of_nat (length data)) @ data @ [0x00])) (\<lambda>resp.
          if rc_status (desfire_of resp) \<noteq> OperationOk
          then throw_p (ErrorResponse (rc_status (desfire_of resp)))
          else return_p ())))"

section \<open>ISO 7816 file access\<close>

definition NDEF_APPLICATION_DF_NAME :: bytes where
  "NDEF_APPLICATION_DF_NAME = [0xD2, 0x76, 0x00, 0x00, 0x85, 0x01, 0x01]"

definition MAX_DF_NAME_LEN :: nat where "MAX_DF_NAME_LEN = 16"

definition iso_select_df_by_name :: "('t, 'e) link \<Rightarrow> bytes \<Rightarrow> ('t, 'e SessionError, unit) prog" where
  "iso_select_df_by_name E df_name =
    (if \<not> (1 \<le> length df_name \<and> length df_name \<le> MAX_DF_NAME_LEN) then panic_p
     else bind_p (transmit_s E ([0x00, 0xA4, 0x04, 0x00, of_nat (length df_name)] @ df_name @ [0x00])) (\<lambda>r.
       if \<not> rc_ok (iso_of r) then throw_p (ErrorResponse (rc_status (iso_of r))) else return_p ()))"

definition u16_be :: "u16 \<Rightarrow> bytes" where
  "u16_be w = [ucast (drop_bit 8 w), ucast w]"

definition iso_select_ef_by_fid :: "('t, 'e) link \<Rightarrow> u16 \<Rightarrow> ('t, 'e SessionError, unit) prog" where
  "iso_select_ef_by_fid E fid =
    bind_p (transmit_s E ([0x00, 0xA4, 0x00, 0x0C, 0x02] @ u16_be fid)) (\<lambda>r.
      if \<not> rc_ok (iso_of r) then throw_p (ErrorResponse (rc_status (iso_of r))) else return_p ())"

definition select_ndef_application_cmd :: "('t, 'e) link \<Rightarrow> ('t, 'e SessionError, unit) prog" where
  "select_ndef_application_cmd E = iso_select_df_by_name E NDEF_APPLICATION_DF_NAME"

definition ISO_READ_BINARY_MAX :: nat where "ISO_READ_BINARY_MAX = 256"

definition iso_p1p2 :: "byte option \<Rightarrow> u16 \<Rightarrow> ('e SessionError, byte \<times> byte) result" where
  "iso_p1p2 short_id off =
    (case short_id of
      Some sfid \<Rightarrow>
        if \<not> (0x01 \<le> sfid \<and> sfid \<le> 0x1E)
        then Inl (InvalidCommandParameter ''short_file_id'' (unat sfid) ''must be 0x01..=0x1E'')
        else if off > 0xFF
        then Inl (InvalidCommandParameter ''offset'' (unat off) ''must be <= 0xFF with a short FileID'')
        else Inr (0x80 OR sfid, ucast off)
    | None \<Rightarrow>
        if off > 0x7FFF
        then Inl (InvalidCommandParameter ''offset'' (unat off) ''must be <= 0x7FFF'')
        else Inr (u16_be off ! 0, u16_be off ! 1))"

definition iso_read_binary ::
    "('t, 'e) link \<Rightarrow> byte option \<Rightarrow> u16 \<Rightarrow> nat \<Rightarrow> ('t, 'e SessionError, bytes) prog" where
  "iso_read_binary E short_id off buf_len =
    (if buf_len = 0 then throw_p (InvalidCommandParameter ''buf.len()'' 0 ''must be non-zero'')
     else
       let want = min buf_len ISO_READ_BINARY_MAX;
           le = (if want = ISO_READ_BINARY_MAX then 0x00 else of_nat want)
       in bind_p (lift_r (iso_p1p2 short_id off)) (\<lambda>(p1, p2).
            bind_p (transmit_s E [0x00, 0xB0, p1, p2, le]) (\<lambda>resp.
              if \<not> rc_ok (iso_of resp) then throw_p (ErrorResponse (rc_status (iso_of resp)))
              else if length (rs_data resp) > want
              then throw_p (UnexpectedLength (length (rs_data resp)) want)
              else return_p (rs_data resp))))"

definition ISO_UPDATE_BINARY_MAX :: nat where "ISO_UPDATE_BINARY_MAX = 255"

definition iso_update_binary ::
    "('t, 'e) link \<Rightarrow> byte option \<Rightarrow> u16 \<Rightarrow> bytes \<Rightarrow> ('t, 'e SessionError, unit) prog" where
  "iso_update_binary E short_id off data =
    (if data = [] then throw_p (InvalidCommandParameter ''data.len()'' 0 ''must be non-zero'')
     else if length data > ISO_UPDATE_BINARY_MAX
     then throw_p (ApduBodyTooLarge (length data) ISO_UPDATE_BINARY_MAX)
     else bind_p (lift_r (iso_p1p2 short_id off)) (\<lambda>(p1, p2).
       bind_p (transmit_s E ([0x00, 0xD6, p1, p2, of_nat (length data)] @ data)) (\<lambda>resp.
         if \<not> rc_ok (iso_of resp) then throw_p (ErrorResponse (rc_status (iso_of resp)))
         else return_p ())))"

section \<open>What a successful authentication proves\<close>

lemma rotate_back:
  assumes "length p = 16" "p ! 15 # take 15 p = ra"
  shows "p = drop 1 ra @ [ra ! 0]"
proof -
  have "drop 1 ra @ [ra ! 0] = take 15 p @ [p ! 15]"
    using assms(2) by (auto simp: assms(2) [symmetric])
  also have "\<dots> = take (Suc 15) p"
    using assms(1) by (subst take_Suc_conv_app_nth) simp_all
  finally show ?thesis
    using assms(1) by simp
qed

end
