(* ===== verification/Session.thy ===== *)
theory Session
  imports Commands
begin

text \<open>
  The driver's session layer: \<open>session/mod.rs\<close>, \<open>session/unauthenticated.rs\<close> and the AES
  instance of \<open>session/authenticated.rs\<close>. A session caches the selected application and
  file; an authenticated one carries the suite, the transaction identifier and the command
  counter. The unauthenticated methods borrow the session by \<open>&mut self\<close> and callers go on
  using it after an error, so they are programs over the pair of device and session; the
  authenticated ones consume the session, or are called where an error drops it, and return
  the session they leave.
\<close>

record 's Session =
  se_state :: 's
  se_ndef_selected :: bool
  se_ef_selected :: "u16 option"

type_synonym UnauthSession = "unit Session"
type_synonym AuthSession = "Authenticated Session"

datatype Uid = UidFixed bytes | UidRandom bytes

definition get_selected_uid :: "('t, 'e) link \<Rightarrow> ('t, 'e SessionError, Uid) prog" where
  "get_selected_uid E =
    bind_p (map_err_p SeTransport (lk_get_uid E)) (\<lambda>data.
      if length data = 7 then return_p (UidFixed data)
      else if length data = 4 then return_p (UidRandom data)
      else throw_p (UnexpectedLength (length data) 7))"

section \<open>Unauthenticated sessions\<close>

definition session_new :: UnauthSession where
  "session_new = \<lparr>se_state = (), se_ndef_selected = False, se_ef_selected = None\<rparr>"

text \<open>A borrowed session is state: \<open>on_link\<close> runs a command of the device beside it, \<open>own\<close> runs
  a method on a session that is consumed.\<close>

definition on_link :: "('t, 'e, 'a) prog \<Rightarrow> ('t \<times> 's, 'e, 'a) prog" where
  "on_link m = (\<lambda>(t, s). case m t of None \<Rightarrow> None | Some (r, t') \<Rightarrow> Some (r, (t', s)))"

definition session_get :: "('t \<times> 's, 'e, 's) prog" where
  "session_get = (\<lambda>(t, s). Some (Inr s, (t, s)))"

definition session_put :: "'s \<Rightarrow> ('t \<times> 's, 'e, unit) prog" where
  "session_put s' = (\<lambda>(t, s). Some (Inr (), (t, s')))"

definition own :: "'s \<Rightarrow> ('t \<times> 's, 'e, 'a) prog \<Rightarrow> ('t, 'e, 'a) prog" where
  "own s m = (\<lambda>t. case m (t, s) of None \<Rightarrow> None | Some (r, (t', _)) \<Rightarrow> Some (r, t'))"

definition select_ndef_application ::
    "('t, 'e) link \<Rightarrow> ('t \<times> UnauthSession, 'e SessionError, unit) prog" where
  "select_ndef_application E =
    bind_p session_get (\<lambda>s.
      if se_ndef_selected s then return_p ()
      else bind_p (on_link (select_ndef_application_cmd E)) (\<lambda>_.
        session_put (s\<lparr>se_ndef_selected := True, se_ef_selected := None\<rparr>)))"

definition select_file ::
    "('t, 'e) link \<Rightarrow> File \<Rightarrow> ('t \<times> UnauthSession, 'e SessionError, unit) prog" where
  "select_file E file =
    bind_p (select_ndef_application E) (\<lambda>_.
      bind_p session_get (\<lambda>s.
        if se_ef_selected s \<noteq> Some (file_id file) then
          bind_p (on_link (iso_select_ef_by_fid E (file_id file))) (\<lambda>_.
            session_put (s\<lparr>se_ef_selected := Some (file_id file)\<rparr>))
        else return_p ()))"

definition ISO_READ_BINARY_CHUNK :: nat where "ISO_READ_BINARY_CHUNK = 256"

definition ISO_UPDATE_BINARY_CHUNK :: nat where "ISO_UPDATE_BINARY_CHUNK = 255"

text \<open>The loop body; \<open>acc\<close> holds the bytes already stored, so \<open>total\<close> is its length.\<close>

function iso_read_loop ::
    "('t, 'e) link \<Rightarrow> u16 \<Rightarrow> nat \<Rightarrow> bytes \<Rightarrow> ('t, 'e SessionError, bytes) prog" where
  "iso_read_loop E off buf_len acc =
    (if length acc < buf_len then
       let want = min (buf_len - length acc) ISO_READ_BINARY_CHUNK;
           abs_off = unat off + length acc
       in if abs_off > 0x7FFF
          then throw_p (InvalidCommandParameter ''offset'' abs_off ''must be <= 0x7FFF'')
          else bind_p (iso_read_binary E None (of_nat abs_off) want) (\<lambda>d.
            if length d < want then return_p (acc @ d)
            else iso_read_loop E off buf_len (acc @ d))
     else return_p acc)"
  by pat_completeness auto
termination
  by (relation "measure (\<lambda>(E, off, buf_len, acc). buf_len - length acc)")
    (auto simp: ISO_READ_BINARY_CHUNK_def)

declare iso_read_loop.simps [simp del]

definition read_file_unauthenticated ::
    "('t, 'e) link \<Rightarrow> File \<Rightarrow> u16 \<Rightarrow> nat \<Rightarrow> ('t \<times> UnauthSession, 'e SessionError, bytes) prog" where
  "read_file_unauthenticated E file off buf_len =
    bind_p (select_file E file) (\<lambda>_.
      if buf_len = 0 then on_link (iso_read_binary E None off 0)
      else on_link (iso_read_loop E off buf_len []))"

function iso_write_loop ::
    "('t, 'e) link \<Rightarrow> u16 \<Rightarrow> bytes \<Rightarrow> nat \<Rightarrow> ('t, 'e SessionError, unit) prog" where
  "iso_write_loop E off data written =
    (if written < length data then
       let chunk_len = min (length data - written) ISO_UPDATE_BINARY_CHUNK;
           abs_off = unat off + written
       in if abs_off > 0x7FFF
          then throw_p (InvalidCommandParameter ''offset'' abs_off ''must be <= 0x7FFF'')
          else bind_p (iso_update_binary E None (of_nat abs_off) (slice written (written + chunk_len) data)) (\<lambda>_.
            iso_write_loop E off data (written + chunk_len))
     else return_p ())"
  by pat_completeness auto
termination
  by (relation "measure (\<lambda>(E, off, data, written). length data - written)")
    (auto simp: ISO_UPDATE_BINARY_CHUNK_def)

declare iso_write_loop.simps [simp del]

definition write_file_unauthenticated ::
    "('t, 'e) link \<Rightarrow> File \<Rightarrow> u16 \<Rightarrow> bytes \<Rightarrow> ('t \<times> UnauthSession, 'e SessionError, unit) prog" where
  "write_file_unauthenticated E file off data =
    bind_p (select_file E file) (\<lambda>_.
      if data = [] then on_link (iso_update_binary E None off data)
      else on_link (iso_write_loop E off data 0))"

definition unauth_get_file_settings ::
    "('t, 'e) link \<Rightarrow> File \<Rightarrow> ('t \<times> UnauthSession, 'e SessionError, FileSettingsView) prog" where
  "unauth_get_file_settings E file =
    bind_p (select_ndef_application E) (\<lambda>_. on_link (get_file_settings E (file_no file)))"

definition unauth_get_version :: "('t, 'e) link \<Rightarrow> ('t, 'e SessionError, Version) prog" where
  "unauth_get_version E = get_version E"

definition authenticate_aes ::
    "('t, 'e) link \<Rightarrow> UnauthSession \<Rightarrow> KeyNumber \<Rightarrow> bytes \<Rightarrow> bytes \<Rightarrow> ('t, 'e SessionError, AuthSession) prog" where
  "authenticate_aes E self key_no key rnd_a =
    own self (bind_p (select_ndef_application E) (\<lambda>_.
      bind_p session_get (\<lambda>s.
        bind_p (on_link (authenticate_ev2_first E key_no key rnd_a)) (\<lambda>auth_result.
          return_p \<lparr>se_state = with_auth_result auth_result key_no, se_ndef_selected = True,
                    se_ef_selected = se_ef_selected s\<rparr>))))"

section \<open>Authenticated sessions\<close>

definition PLAIN_READ_CHUNK :: u32 where "PLAIN_READ_CHUNK = 256"

definition PLAIN_WRITE_CHUNK :: nat where "PLAIN_WRITE_CHUNK = 248"

definition plain_advance :: "('t, 'e) link \<Rightarrow> Authenticated \<Rightarrow> Authenticated" where
  "plain_advance E st = (if lk_compat E then st else advance_counter st)"

text \<open>The panic is the slice of the caller's buffer beyond its end.\<close>

function plain_read_loop ::
    "('t, 'e) link \<Rightarrow> Authenticated \<Rightarrow> byte \<Rightarrow> u32 \<Rightarrow> u32 \<Rightarrow> nat \<Rightarrow> bytes \<Rightarrow>
      ('t, 'e SessionError, bytes \<times> Authenticated) prog" where
  "plain_read_loop E st fno current_offset remaining buf_len acc =
    (if remaining > 0 then
       let chunk = min remaining PLAIN_READ_CHUNK
       in if length acc + unat chunk > buf_len then panic_p
          else bind_p (read_data_plain E fno current_offset chunk (unat chunk)) (\<lambda>d.
            if length d < unat chunk then return_p (acc @ d, plain_advance E st)
            else plain_read_loop E (plain_advance E st) fno (current_offset + chunk) (remaining - chunk)
              buf_len (acc @ d))
     else return_p (acc, st))"
  by pat_completeness auto
termination
proof (relation "measure (\<lambda>(E, st, fno, off, remaining, buf_len, acc). unat remaining)", goal_cases)
  case (2 E st fno off remaining buf_len acc chunk d)
  then have "0 < chunk" "chunk \<le> remaining"
    by (auto simp: PLAIN_READ_CHUNK_def min_def)
  then have "unat (remaining - chunk) = unat remaining - unat chunk" "0 < unat chunk"
    "unat chunk \<le> unat remaining"
    by (simp_all add: unat_sub word_le_nat_alt word_less_nat_alt)
  then show ?case
    by simp
qed simp

declare plain_read_loop.simps [simp del]

definition read_file_plain_chunked ::
    "('t, 'e) link \<Rightarrow> Authenticated \<Rightarrow> byte \<Rightarrow> u32 \<Rightarrow> u32 \<Rightarrow> nat \<Rightarrow>
      ('t, 'e SessionError, bytes \<times> Authenticated) prog" where
  "read_file_plain_chunked E st fno off len buf_len =
    (if len = 0 then
       bind_p (read_data_plain E fno off len buf_len) (\<lambda>d. return_p (d, plain_advance E st))
     else plain_read_loop E st fno off len buf_len [])"

function plain_write_loop ::
    "('t, 'e) link \<Rightarrow> Authenticated \<Rightarrow> byte \<Rightarrow> u32 \<Rightarrow> bytes \<Rightarrow> nat \<Rightarrow> ('t, 'e SessionError, Authenticated) prog" where
  "plain_write_loop E st fno current_offset data written =
    (if written < length data then
       let end' = min (written + PLAIN_WRITE_CHUNK) (length data)
       in bind_p (write_data_plain E fno current_offset (slice written end' data)) (\<lambda>_.
            plain_write_loop E (plain_advance E st) fno (current_offset + of_nat (end' - written)) data end')
     else return_p st)"
  by pat_completeness auto
termination
  by (relation "measure (\<lambda>(E, st, fno, off, data, written). length data - written)")
    (auto simp: PLAIN_WRITE_CHUNK_def)

declare plain_write_loop.simps [simp del]

definition write_file_plain_chunked ::
    "('t, 'e) link \<Rightarrow> Authenticated \<Rightarrow> byte \<Rightarrow> u32 \<Rightarrow> bytes \<Rightarrow> ('t, 'e SessionError, Authenticated) prog" where
  "write_file_plain_chunked E st fno off data =
    (if data = [] then throw_p (InvalidCommandParameter ''data.len()'' 0 ''must be non-zero'')
     else plain_write_loop E st fno off data 0)"

definition auth_get_version ::
    "('t, 'e) link \<Rightarrow> AuthSession \<Rightarrow> ('t, 'e SessionError, Version \<times> AuthSession) prog" where
  "auth_get_version E s =
    bind_p (get_version_mac E (se_state s)) (\<lambda>(v, st). return_p (v, s\<lparr>se_state := st\<rparr>))"

definition auth_change_key ::
    "('t, 'e) link \<Rightarrow> AuthSession \<Rightarrow> NonMasterKeyNumber \<Rightarrow> bytes \<Rightarrow> byte \<Rightarrow> bytes \<Rightarrow>
      ('t, 'e SessionError, AuthSession) prog" where
  "auth_change_key E s key_no new_key new_key_version old_key =
    bind_p (change_key E (se_state s) key_no new_key new_key_version old_key) (\<lambda>st.
      return_p (s\<lparr>se_state := st\<rparr>))"

definition auth_change_master_key ::
    "('t, 'e) link \<Rightarrow> AuthSession \<Rightarrow> bytes \<Rightarrow> byte \<Rightarrow> ('t, 'e SessionError, UnauthSession) prog" where
  "auth_change_master_key E s new_key new_key_version =
    bind_p (change_master_key E (se_state s) new_key new_key_version) (\<lambda>_. return_p session_new)"

definition auth_get_key_version ::
    "('t, 'e) link \<Rightarrow> AuthSession \<Rightarrow> KeyNumber \<Rightarrow> ('t, 'e SessionError, byte \<times> AuthSession) prog" where
  "auth_get_key_version E s key_no =
    bind_p (get_key_version E (se_state s) key_no) (\<lambda>(v, st). return_p (v, s\<lparr>se_state := st\<rparr>))"

definition auth_get_file_settings ::
    "('t, 'e) link \<Rightarrow> AuthSession \<Rightarrow> File \<Rightarrow> ('t, 'e SessionError, FileSettingsView \<times> AuthSession) prog" where
  "auth_get_file_settings E s file =
    bind_p (get_file_settings_mac E (se_state s) (file_no file)) (\<lambda>(v, st). return_p (v, s\<lparr>se_state := st\<rparr>))"

definition auth_change_file_settings ::
    "('t, 'e) link \<Rightarrow> AuthSession \<Rightarrow> File \<Rightarrow> FileSettingsUpdate \<Rightarrow> ('t, 'e SessionError, AuthSession) prog" where
  "auth_change_file_settings E s file settings =
    bind_p (change_file_settings E (se_state s) (file_no file) settings) (\<lambda>st. return_p (s\<lparr>se_state := st\<rparr>))"

definition read_file_plain ::
    "('t, 'e) link \<Rightarrow> AuthSession \<Rightarrow> File \<Rightarrow> u32 \<Rightarrow> u32 \<Rightarrow> nat \<Rightarrow> ('t, 'e SessionError, bytes \<times> AuthSession) prog" where
  "read_file_plain E s file off len buf_len =
    bind_p (read_file_plain_chunked E (se_state s) (file_no file) off len buf_len) (\<lambda>(d, st).
      return_p (d, s\<lparr>se_state := st\<rparr>))"

definition write_file_plain ::
    "('t, 'e) link \<Rightarrow> AuthSession \<Rightarrow> File \<Rightarrow> u32 \<Rightarrow> bytes \<Rightarrow> ('t, 'e SessionError, AuthSession) prog" where
  "write_file_plain E s file off data =
    bind_p (write_file_plain_chunked E (se_state s) (file_no file) off data) (\<lambda>st.
      return_p (s\<lparr>se_state := st\<rparr>))"

end
