(* ===== verification/Utf8.thy ===== *)
theory Utf8
  imports Prelude
begin

text \<open>
  Well-formed UTF-8, the check behind \<open>core::str::from_utf8\<close>: the byte ranges of the
  Unicode standard, table 3-7. The lemmas place character boundaries in a text.
\<close>

definition utf8_cont :: "byte \<Rightarrow> bool" where
  "utf8_cont b = (0x80 \<le> b \<and> b \<le> 0xBF)"

definition utf8_width :: "byte \<Rightarrow> nat" where
  "utf8_width a = (if a < 0x80 then 1 else if a \<le> 0xDF then 2 else if a \<le> 0xEF then 3 else 4)"

text \<open>The bytes that may follow a lead byte.\<close>

definition utf8_tail_ok :: "byte \<Rightarrow> bytes \<Rightarrow> bool" where
  "utf8_tail_ok a t =
    (if a < 0x80 then t = []
     else if 0xC2 \<le> a \<and> a \<le> 0xF4 then
       length t = utf8_width a - 1 \<and> list_all utf8_cont t \<and>
       (a = 0xE0 \<longrightarrow> 0xA0 \<le> hd t) \<and> (a = 0xED \<longrightarrow> hd t \<le> 0x9F) \<and>
       (a = 0xF0 \<longrightarrow> 0x90 \<le> hd t) \<and> (a = 0xF4 \<longrightarrow> hd t \<le> 0x8F)
     else False)"

fun utf8_valid :: "bytes \<Rightarrow> bool" where
  "utf8_valid [] = True"
| "utf8_valid (a # r) \<longleftrightarrow>
    utf8_tail_ok a (take (utf8_width a - 1) r) \<and> utf8_valid (drop (utf8_width a - 1) r)"

lemma utf8_width_pos [simp]: "0 < utf8_width a"
  by (simp add: utf8_width_def)

lemma utf8_tail_length: "utf8_tail_ok a t \<Longrightarrow> length t = utf8_width a - 1"
  by (auto simp: utf8_tail_ok_def utf8_width_def split: if_splits)

lemma utf8_tail_cont: "utf8_tail_ok a t \<Longrightarrow> list_all utf8_cont t"
  by (auto simp: utf8_tail_ok_def split: if_splits)

lemma utf8_valid_append: "utf8_valid xs \<Longrightarrow> utf8_valid (xs @ ys) = utf8_valid ys"
proof (induction xs rule: utf8_valid.induct)
  case (2 a r)
  then have "utf8_width a - 1 \<le> length r"
    using utf8_tail_length [of a "take (utf8_width a - 1) r"] by simp
  with 2 show ?case
    by simp
qed simp

lemma utf8_ascii: "list_all (\<lambda>b. b < 0x80) xs \<Longrightarrow> utf8_valid xs"
  by (induction xs) (auto simp: utf8_width_def utf8_tail_ok_def)

lemma utf8_first_char:
  assumes "utf8_valid (a # r)"
  shows "utf8_width a \<le> length (a # r)" "utf8_valid (take (utf8_width a) (a # r))" "utf8_valid (drop (utf8_width a) (a # r))"
  using assms utf8_tail_length [of a "take (utf8_width a - 1) r"]
  by (cases "utf8_width a"; simp)+

lemma utf8_later_bytes:
  assumes "utf8_valid (a # r)" "0 < j" "j < utf8_width a"
  shows "0x80 \<le> (a # r) ! j"
proof -
  let ?t = "take (utf8_width a - 1) r"
  have "list_all utf8_cont ?t" "j - 1 < length ?t"
    using assms utf8_tail_cont [of a ?t] utf8_tail_length [of a ?t] by auto
  then have "utf8_cont (?t ! (j - 1))"
    by (simp add: list_all_length)
  then show ?thesis
    using assms(2,3) by (cases j) (simp_all add: utf8_cont_def)
qed

text \<open>An ASCII byte of a well-formed text is a character of its own.\<close>

lemma utf8_boundary:
  "utf8_valid xs \<Longrightarrow> i < length xs \<Longrightarrow> xs ! i < 0x80 \<Longrightarrow> utf8_valid (drop (Suc i) xs)"
proof (induction "length xs" arbitrary: xs i rule: less_induct)
  case less
  then obtain a r where xs: "xs = a # r"
    by (cases xs) auto
  let ?w = "utf8_width a"
  have first: "?w \<le> length xs" "utf8_valid (drop ?w xs)" "0 < ?w"
    using utf8_first_char [of a r] less.prems(1) xs by (auto simp: utf8_width_def)
  show ?case
  proof (cases "i < ?w")
    case True
    then have "i = 0"
      using utf8_later_bytes [of a r i] less.prems(1,3) True xs by (cases "i = 0") (auto dest: leD)
    then show ?thesis
      using less.prems xs by (simp add: utf8_width_def)
  next
    case False
    then have "utf8_valid (drop (Suc (i - ?w)) (drop ?w xs))"
      using less.hyps [of "drop ?w xs" "i - ?w"] less.prems first xs by simp
    then show ?thesis
      using False by (simp add: Suc_diff_le)
  qed
qed

section \<open>Trimming\<close>

text \<open>\<open>str::trim\<close>: the UTF-8 forms of the characters with the property \<open>White_Space\<close>.\<close>

definition WHITE_SPACE :: "bytes list" where
  "WHITE_SPACE =
    [[0x09], [0x0A], [0x0B], [0x0C], [0x0D], [0x20], [0xC2, 0x85], [0xC2, 0xA0], [0xE1, 0x9A, 0x80],
     [0xE2, 0x80, 0x80], [0xE2, 0x80, 0x81], [0xE2, 0x80, 0x82], [0xE2, 0x80, 0x83], [0xE2, 0x80, 0x84],
     [0xE2, 0x80, 0x85], [0xE2, 0x80, 0x86], [0xE2, 0x80, 0x87], [0xE2, 0x80, 0x88], [0xE2, 0x80, 0x89],
     [0xE2, 0x80, 0x8A], [0xE2, 0x80, 0xA8], [0xE2, 0x80, 0xA9], [0xE2, 0x80, 0xAF], [0xE2, 0x81, 0x9F],
     [0xE3, 0x80, 0x80]]"

primrec first_prefix :: "'a list list \<Rightarrow> 'a list \<Rightarrow> nat" where
  "first_prefix [] s = 0"
| "first_prefix (w # ws) s = (if w \<noteq> [] \<and> take (length w) s = w then length w else first_prefix ws s)"

function trim_prefixes :: "'a list list \<Rightarrow> 'a list \<Rightarrow> 'a list" where
  "trim_prefixes ws s =
    (if first_prefix ws s = 0 \<or> s = [] then s else trim_prefixes ws (drop (first_prefix ws s) s))"
  by pat_completeness auto
termination
  by (relation "measure (\<lambda>(ws, s). length s)") auto

declare trim_prefixes.simps [simp del]

definition str_trim_start :: "string \<Rightarrow> string" where
  "str_trim_start s = trim_prefixes (map str_of_bytes WHITE_SPACE) s"

definition str_trim_end :: "string \<Rightarrow> string" where
  "str_trim_end s = rev (trim_prefixes (map (rev \<circ> str_of_bytes) WHITE_SPACE) (rev s))"

definition str_trim :: "string \<Rightarrow> string" where
  "str_trim s = str_trim_end (str_trim_start s)"

lemma trim_prefixes_same: "first_prefix ws s = 0 \<Longrightarrow> trim_prefixes ws s = s"
  by (subst trim_prefixes.simps) simp

lemma first_prefix_none: "\<forall>w \<in> set ws. w \<noteq> [] \<longrightarrow> hd w \<notin> set s \<Longrightarrow> first_prefix ws s = 0"
proof (induction ws)
  case (Cons w ws)
  then have "take (length w) s \<noteq> w" if "w \<noteq> []"
    using that by (cases s; cases w) auto
  with Cons show ?case
    by auto
qed simp

lemma str_trim_plain:
  assumes "list_all (\<lambda>c. 32 < (of_char c :: nat) \<and> of_char c < (128 :: nat)) s"
  shows "str_trim s = s"
proof -
  have "list_all (\<lambda>w. w \<noteq> [] \<and> (hd w \<le> 0x20 \<or> 0x80 \<le> hd w) \<and> (last w \<le> 0x20 \<or> 0x80 \<le> last w)) WHITE_SPACE"
    by (simp add: WHITE_SPACE_def)
  moreover have "char_of (unat b) \<notin> set s" if "b \<le> 0x20 \<or> 0x80 \<le> b" for b :: byte
  proof
    assume "char_of (unat b) \<in> set s"
    then have "32 < unat b mod 256 \<and> unat b mod 256 < 128"
      using assms by (auto simp: list_all_iff of_char_of)
    then show False
      using that unsigned_less [of b, where 'a = nat] by (auto simp: word_le_nat_alt)
  qed
  ultimately have "first_prefix (map str_of_bytes WHITE_SPACE) s = 0" "first_prefix (map (rev \<circ> str_of_bytes) WHITE_SPACE) (rev s) = 0"
    by (auto intro!: first_prefix_none simp: list_all_iff str_of_bytes_def hd_map hd_rev last_map)
  then show ?thesis
    by (simp add: str_trim_def str_trim_start_def str_trim_end_def trim_prefixes_same)
qed

lemma first_prefix_hd: "\<forall>w \<in> set ws. w \<noteq> [] \<longrightarrow> hd w \<noteq> hd s \<Longrightarrow> s \<noteq> [] \<Longrightarrow> first_prefix ws s = 0"
proof (induction ws)
  case (Cons w ws)
  then have "take (length w) s \<noteq> w" if "w \<noteq> []"
    using that by (cases s; cases w) auto
  with Cons show ?case
    by auto
qed simp

lemma str_trim_ends:
  assumes "s \<noteq> []" "32 < (of_char (hd s) :: nat) \<and> of_char (hd s) < (128 :: nat)"
    "32 < (of_char (last s) :: nat) \<and> of_char (last s) < (128 :: nat)"
  shows "str_trim s = s"
proof -
  have "list_all (\<lambda>w. w \<noteq> [] \<and> (hd w \<le> 0x20 \<or> 0x80 \<le> hd w) \<and> (last w \<le> 0x20 \<or> 0x80 \<le> last w)) WHITE_SPACE"
    by (simp add: WHITE_SPACE_def)
  moreover have "char_of (unat b) \<noteq> c" if "b \<le> 0x20 \<or> 0x80 \<le> b" "32 < (of_char c :: nat) \<and> of_char c < (128 :: nat)"
    for b :: byte and c
    using that unsigned_less [of b, where 'a = nat] by (auto simp: word_le_nat_alt of_char_of)
  ultimately have "first_prefix (map str_of_bytes WHITE_SPACE) s = 0" "first_prefix (map (rev \<circ> str_of_bytes) WHITE_SPACE) (rev s) = 0"
    using assms by (auto intro!: first_prefix_hd simp: list_all_iff str_of_bytes_def hd_map hd_rev last_map)
  then show ?thesis
    by (simp add: str_trim_def str_trim_start_def str_trim_end_def trim_prefixes_same)
qed

end
