(* ===== verification/SdmUrl.thy ===== *)
theory SdmUrl
  imports FileSettings Utf8
begin

text \<open>
  The SDM URL planner of the driver, \<open>sdm_url.rs\<close>: a URL template with placeholders becomes the
  bytes of an NDEF file and the SDM configuration that mirrors card data into it. A template is a
  \<open>&str\<close>, hence valid UTF-8, so a character never runs past the end of the text.

  The lemmas show that every plan fits the file, that its configuration is one the file-settings
  codec can carry, and what the plan of a Bolt Card template is.
\<close>

section \<open>Buffers and templates\<close>

definition URI_AT :: u32 where "URI_AT = 7"

definition DEFAULT_CONST_PLAN_CAPACITY :: nat where "DEFAULT_CONST_PLAN_CAPACITY = 256"

datatype PiccContent = PcUid | PcCtr | PcBoth

datatype Placeholder = PhUid | PhCtr | PhPicc PiccContent | PhTt | PhMac

datatype TemplateCoreError =
    TcMissingMac
  | TcPiccWithPlainMirrors
  | TcNoMirror
  | TcDuplicatePlaceholder string
  | TcEncFileDataRequiresUidAndCtr
  | TcInvalidEncRangeLength u32
  | TcInvalidPlaceholder (tc_start: nat) (tc_end: nat)
  | TcUnterminated string
  | TcUnexpectedMarker string
  | TcDuplicateRange string
  | TcPlaceholderInEncRange string
  | TcNestedRange string
  | TcMacStartAfterMac
  | TcOutputBufferTooSmall (tc_needed: nat) (tc_capacity: nat)
  | TcFileTooLong (tc_got: nat) (tc_max: u16)
  | TcFileSettings string

datatype SdmUrlError =
    SuMissingMac
  | SuPiccWithPlainMirrors
  | SuNoMirror
  | SuDuplicatePlaceholder string
  | SuEncFileDataRequiresUidAndCtr
  | SuInvalidEncRangeLength u32
  | SuInvalidPlaceholder string
  | SuUnterminated string
  | SuUnexpectedMarker string
  | SuDuplicateRange string
  | SuPlaceholderInEncRange string
  | SuNestedRange string
  | SuMacStartAfterMac
  | SuFileTooLong (su_got: nat) (su_max: u16)
  | SuFileSettings FileSettingsError

record SdmUrlOptions =
  so_picc_key :: KeyNumber
  so_mac_key :: KeyNumber
  so_ctr_ret :: CtrRetAccess
  so_max_file_size :: u16

definition sdm_url_options_new :: SdmUrlOptions where
  "sdm_url_options_new = \<lparr>so_picc_key = Key2, so_mac_key = Key2, so_ctr_ret = CtrNoAccess, so_max_file_size = 256\<rparr>"

record SdmUrlConfig =
  pl_ndef_bytes :: bytes
  pl_sdm_settings :: Sdm
  pl_offset :: nat
  pl_prefix_len :: nat
  pl_prefix_code :: byte

text \<open>The fixed-capacity buffer; \<open>cap\<close> is its capacity \<open>N\<close>.\<close>

definition nb_push :: "nat \<Rightarrow> bytes \<Rightarrow> byte \<Rightarrow> (TemplateCoreError, bytes) result" where
  "nb_push cap buf b =
    (if length buf = cap then Inl (TcOutputBufferTooSmall (length buf + 1) cap) else Inr (buf @ [b]))"

primrec nb_extend :: "nat \<Rightarrow> bytes \<Rightarrow> bytes \<Rightarrow> (TemplateCoreError, bytes) result" where
  "nb_extend cap [] buf = Inr buf"
| "nb_extend cap (b # bs) buf = bind_r (nb_push cap buf b) (nb_extend cap bs)"

definition nb_push_zeroes :: "nat \<Rightarrow> nat \<Rightarrow> bytes \<Rightarrow> (TemplateCoreError, bytes) result" where
  "nb_push_zeroes cap count buf = nb_extend cap (replicate count 0x30) buf"

definition placeholder_fill_len :: "Placeholder \<Rightarrow> CryptoMode \<Rightarrow> nat" where
  "placeholder_fill_len p mode =
    (case p of PhUid \<Rightarrow> 14 | PhCtr \<Rightarrow> 6 | PhTt \<Rightarrow> 2 | PhMac \<Rightarrow> 16 | PhPicc _ \<Rightarrow> unat (picc_blob_ascii_len mode))"

definition picc_content_includes_uid :: "PiccContent \<Rightarrow> bool" where
  "picc_content_includes_uid c = (case c of PcUid \<Rightarrow> True | PcBoth \<Rightarrow> True | PcCtr \<Rightarrow> False)"

definition picc_content_includes_ctr :: "PiccContent \<Rightarrow> bool" where
  "picc_content_includes_ctr c = (case c of PcCtr \<Rightarrow> True | PcBoth \<Rightarrow> True | PcUid \<Rightarrow> False)"

definition NDEF_URI_PREFIXES :: "(byte \<times> string) list" where
  "NDEF_URI_PREFIXES =
    [(0x01, ''http://www.''), (0x02, ''https://www.''), (0x03, ''http://''), (0x04, ''https://''),
     (0x05, ''tel:''), (0x06, ''mailto:''), (0x07, ''ftp://anonymous:anonymous@''), (0x08, ''ftp://ftp.''),
     (0x09, ''ftps://''), (0x0A, ''sftp://''), (0x0B, ''smb://''), (0x0C, ''nfs://''), (0x0D, ''ftp://''),
     (0x0E, ''dav://''), (0x0F, ''news:''), (0x10, ''telnet://''), (0x11, ''imap:''), (0x12, ''rtsp://''),
     (0x13, ''urn:''), (0x14, ''pop:''), (0x15, ''sip:''), (0x16, ''sips:''), (0x17, ''tftp:''),
     (0x18, ''btspp://''), (0x19, ''btl2cap://''), (0x1A, ''btgoep://''), (0x1B, ''tcpobex://''),
     (0x1C, ''irdaobex://''), (0x1D, ''file://''), (0x1E, ''urn:epc:id:''), (0x1F, ''urn:epc:tag:''),
     (0x20, ''urn:epc:pat:''), (0x21, ''urn:epc:raw:''), (0x22, ''urn:epc:''), (0x23, ''urn:nfc:'')]"

definition bytes_eq_at :: "bytes \<Rightarrow> nat \<Rightarrow> bytes \<Rightarrow> bool" where
  "bytes_eq_at haystack start needle =
    (if length haystack < start + length needle then False
     else slice start (start + length needle) haystack = needle)"

fun detect_prefix_in :: "(byte \<times> string) list \<Rightarrow> bytes \<Rightarrow> byte \<times> nat" where
  "detect_prefix_in [] url = (0x00, 0)"
| "detect_prefix_in ((code, prefix) # rest) url =
    (if bytes_eq_at url 0 (as_bytes prefix) then (code, length prefix) else detect_prefix_in rest url)"

definition detect_uri_prefix :: "bytes \<Rightarrow> byte \<times> nat" where
  "detect_uri_prefix url = detect_prefix_in NDEF_URI_PREFIXES url"

definition utf8_char_width :: "byte \<Rightarrow> nat" where
  "utf8_char_width b =
    (if b < 0x80 then 1 else if b AND 0xE0 = 0xC0 then 2 else if b AND 0xF0 = 0xE0 then 3 else 4)"

definition escaped_width :: "bytes \<Rightarrow> nat \<Rightarrow> (TemplateCoreError, nat) result" where
  "escaped_width url backslash =
    (if backslash + 1 \<ge> length url then Inl (TcUnterminated ''escape sequence'')
     else Inr (utf8_char_width (url ! (backslash + 1))))"

definition current_file_offset_len :: "nat \<Rightarrow> u32" where
  "current_file_offset_len uri_len = URI_AT + of_nat uri_len"

definition placeholder_of_spec :: "bytes \<Rightarrow> (Placeholder \<times> string) option" where
  "placeholder_of_spec spec =
    (if spec = as_bytes ''uid'' then Some (PhUid, ''{uid}'')
     else if spec = as_bytes ''ctr'' then Some (PhCtr, ''{ctr}'')
     else if spec = as_bytes ''tt'' then Some (PhTt, ''{tt}'')
     else if spec = as_bytes ''mac'' then Some (PhMac, ''{mac}'')
     else if spec = as_bytes ''picc'' then Some (PhPicc PcBoth, ''{picc}'')
     else if spec = as_bytes ''picc:uid'' then Some (PhPicc PcUid, ''{picc}'')
     else if spec = as_bytes ''picc:ctr'' then Some (PhPicc PcCtr, ''{picc}'')
     else if spec = as_bytes ''picc:uid+ctr'' \<or> spec = as_bytes ''picc:ctr+uid'' then Some (PhPicc PcBoth, ''{picc}'')
     else None)"

text \<open>The scan for the closing brace, then the table of placeholders.\<close>

function find_brace :: "bytes \<Rightarrow> nat \<Rightarrow> nat option" where
  "find_brace url i = (if i < length url then if url ! i = 0x7D then Some i else find_brace url (i + 1) else None)"
  by pat_completeness auto
termination
  by (relation "measure (\<lambda>(url, i). length url - i)") auto

declare find_brace.simps [simp del]

definition parse_placeholder :: "bytes \<Rightarrow> nat \<Rightarrow> (TemplateCoreError, Placeholder \<times> nat \<times> string) result" where
  "parse_placeholder url start =
    (case find_brace url (start + 1) of
      None \<Rightarrow> Inl (TcUnterminated ''placeholder'')
    | Some e \<Rightarrow>
        (case placeholder_of_spec (slice (start + 1) e url) of
          None \<Rightarrow> Inl (TcInvalidPlaceholder start (e + 1))
        | Some (p, display) \<Rightarrow> Inr (p, e + 1 - start, display)))"

definition set_once :: "'a option \<Rightarrow> 'a \<Rightarrow> string \<Rightarrow> (TemplateCoreError, 'a option) result" where
  "set_once slot v name = (if slot \<noteq> None then Inl (TcDuplicatePlaceholder name) else Inr (Some v))"

section \<open>The template parser\<close>

record ParserState =
  ps_uri_content :: bytes
  ps_uid_offset :: "u32 option"
  ps_ctr_offset :: "u32 option"
  ps_picc :: "(u32 \<times> PiccContent) option"
  ps_tt_offset :: "u32 option"
  ps_mac_offset :: "u32 option"
  ps_saw_mac_start :: bool
  ps_mac_start :: "u32 option"
  ps_in_enc_range :: bool
  ps_enc_range_start :: "u32 option"
  ps_enc_range_end :: "u32 option"

definition enc_range_string :: string where
  "enc_range_string = CHR 0x5B # ''...'' @ [CHR 0x5D]"

definition parser_init :: ParserState where
  "parser_init = \<lparr>ps_uri_content = [], ps_uid_offset = None, ps_ctr_offset = None, ps_picc = None,
    ps_tt_offset = None, ps_mac_offset = None, ps_saw_mac_start = False, ps_mac_start = None,
    ps_in_enc_range = False, ps_enc_range_start = None, ps_enc_range_end = None\<rparr>"

definition here :: "ParserState \<Rightarrow> u32" where
  "here st = current_file_offset_len (length (ps_uri_content st))"

text \<open>One turn of the loop inside an encrypted range, and one outside; the new index comes first.\<close>

definition enc_step :: "nat \<Rightarrow> bytes \<Rightarrow> CryptoMode \<Rightarrow> nat \<Rightarrow> ParserState \<Rightarrow> (TemplateCoreError, nat \<times> ParserState) result" where
  "enc_step cap url mode i st =
    (let b = url ! i
     in if b = 0x5D then Inr (i + 1, st\<lparr>ps_enc_range_end := Some (here st), ps_in_enc_range := False\<rparr>)
        else if b = 0x5B \<and> i + 1 < length url \<and> url ! (i + 1) = 0x5B
        then Inl (TcNestedRange (CHR 0x5B # CHR 0x5B # '' inside '' @ enc_range_string))
        else if b = 0x5B then Inl (TcNestedRange enc_range_string)
        else if b = 0x5C then
          bind_r (escaped_width url i) (\<lambda>width.
            bind_r (nb_push_zeroes cap width (ps_uri_content st)) (\<lambda>c.
              Inr (i + 1 + width, st\<lparr>ps_uri_content := c\<rparr>)))
        else if b = 0x7B then
          bind_r (parse_placeholder url i) (\<lambda>(p, consumed, display).
            if p = PhTt then
                bind_r (set_once (ps_tt_offset st) (here st) ''{tt}'') (\<lambda>tt.
                  bind_r (nb_push_zeroes cap (placeholder_fill_len p mode) (ps_uri_content st)) (\<lambda>c.
                    Inr (i + consumed, st\<lparr>ps_tt_offset := tt, ps_uri_content := c\<rparr>)))
            else Inl (TcPlaceholderInEncRange display))
        else
          bind_r (nb_push_zeroes cap (utf8_char_width b) (ps_uri_content st)) (\<lambda>c.
            Inr (i + utf8_char_width b, st\<lparr>ps_uri_content := c\<rparr>)))"

definition record_placeholder :: "Placeholder \<Rightarrow> string \<Rightarrow> ParserState \<Rightarrow> (TemplateCoreError, ParserState) result" where
  "record_placeholder p display st =
    (case p of
      PhUid \<Rightarrow> bind_r (set_once (ps_uid_offset st) (here st) display) (\<lambda>v. Inr (st\<lparr>ps_uid_offset := v\<rparr>))
    | PhCtr \<Rightarrow> bind_r (set_once (ps_ctr_offset st) (here st) display) (\<lambda>v. Inr (st\<lparr>ps_ctr_offset := v\<rparr>))
    | PhPicc content \<Rightarrow> bind_r (set_once (ps_picc st) (here st, content) ''{picc}'') (\<lambda>v. Inr (st\<lparr>ps_picc := v\<rparr>))
    | PhTt \<Rightarrow> bind_r (set_once (ps_tt_offset st) (here st) display) (\<lambda>v. Inr (st\<lparr>ps_tt_offset := v\<rparr>))
    | PhMac \<Rightarrow> bind_r (set_once (ps_mac_offset st) (here st) display) (\<lambda>v. Inr (st\<lparr>ps_mac_offset := v\<rparr>)))"

definition plain_step :: "nat \<Rightarrow> bytes \<Rightarrow> CryptoMode \<Rightarrow> nat \<Rightarrow> ParserState \<Rightarrow> (TemplateCoreError, nat \<times> ParserState) result" where
  "plain_step cap url mode i st =
    (let b = url ! i
     in if b = 0x5B \<and> i + 1 < length url \<and> url ! (i + 1) = 0x5B then
          if ps_saw_mac_start st then Inl (TcDuplicateRange [CHR 0x5B, CHR 0x5B])
          else Inr (i + 2, st\<lparr>ps_saw_mac_start := True, ps_mac_start := Some (here st)\<rparr>)
        else if b = 0x5B then
          if ps_enc_range_start st \<noteq> None then Inl (TcDuplicateRange enc_range_string)
          else Inr (i + 1, st\<lparr>ps_in_enc_range := True, ps_enc_range_start := Some (here st)\<rparr>)
        else if b = 0x5D then Inl (TcUnexpectedMarker [CHR 0x5D])
        else if b = 0x5C then
          bind_r (escaped_width url i) (\<lambda>width.
            bind_r (nb_extend cap (slice (i + 1) (i + 1 + width) url) (ps_uri_content st)) (\<lambda>c.
              Inr (i + 1 + width, st\<lparr>ps_uri_content := c\<rparr>)))
        else if b = 0x7B then
          bind_r (parse_placeholder url i) (\<lambda>(p, consumed, display).
            bind_r (record_placeholder p display st) (\<lambda>st'.
              bind_r (nb_push_zeroes cap (placeholder_fill_len p mode) (ps_uri_content st')) (\<lambda>c.
                Inr (i + consumed, st'\<lparr>ps_uri_content := c\<rparr>))))
        else
          bind_r (nb_extend cap (slice i (i + utf8_char_width b) url) (ps_uri_content st)) (\<lambda>c.
            Inr (i + utf8_char_width b, st\<lparr>ps_uri_content := c\<rparr>)))"

definition parse_step :: "nat \<Rightarrow> bytes \<Rightarrow> CryptoMode \<Rightarrow> nat \<Rightarrow> ParserState \<Rightarrow> (TemplateCoreError, nat \<times> ParserState) result" where
  "parse_step cap url mode i st =
    (if ps_in_enc_range st then enc_step cap url mode i st else plain_step cap url mode i st)"

lemma utf8_char_width_pos: "0 < utf8_char_width b"
  by (simp add: utf8_char_width_def)

lemma find_brace_ge: "find_brace url i = Some e \<Longrightarrow> i \<le> e \<and> e < length url"
  by (induction url i rule: find_brace.induct) (subst (asm) find_brace.simps, auto split: if_splits)

lemma parse_placeholder_consumed: "parse_placeholder url i = Inr (p, n, d) \<Longrightarrow> 0 < n"
  by (auto simp: parse_placeholder_def dest!: find_brace_ge split: option.splits)

lemma enc_step_advances: "enc_step cap url mode i st = Inr (i', st') \<Longrightarrow> i < i'"
  by (auto simp: enc_step_def Let_def bind_r_Inr_iff utf8_char_width_pos
      dest!: parse_placeholder_consumed split: if_splits)

lemma plain_step_advances: "plain_step cap url mode i st = Inr (i', st') \<Longrightarrow> i < i'"
  by (auto simp: plain_step_def Let_def bind_r_Inr_iff utf8_char_width_pos
      dest!: parse_placeholder_consumed split: if_splits)

lemma parse_step_advances: "parse_step cap url mode i st = Inr (i', st') \<Longrightarrow> i < i'"
  by (auto simp: parse_step_def enc_step_advances plain_step_advances split: if_splits)

lemma bind_r_cong [fundef_cong]:
  "r = r' \<Longrightarrow> (\<And>a. r' = Inr a \<Longrightarrow> f a = f' a) \<Longrightarrow> bind_r r f = bind_r r' f'"
  by (cases r') simp_all

function parse_loop :: "nat \<Rightarrow> bytes \<Rightarrow> CryptoMode \<Rightarrow> nat \<Rightarrow> ParserState \<Rightarrow> (TemplateCoreError, ParserState) result" where
  "parse_loop cap url mode i st =
    (if i < length url then bind_r (parse_step cap url mode i st) (\<lambda>(i', st'). parse_loop cap url mode i' st')
     else Inr st)"
  by pat_completeness auto
termination
  by (relation "measure (\<lambda>(cap, url, mode, i, st). length url - i)") (auto dest!: parse_step_advances)

declare parse_loop.simps [simp del]

record ParsedTemplate =
  pt_uri_content :: bytes
  pt_uid_offset :: "u32 option"
  pt_ctr_offset :: "u32 option"
  pt_picc :: "(u32 \<times> PiccContent) option"
  pt_tt_offset :: "u32 option"
  pt_mac_offset :: u32
  pt_mac_input :: u32
  pt_enc_range :: "(u32 \<times> u32) option"

definition check_enc_range :: "bool \<Rightarrow> ParserState \<Rightarrow> (TemplateCoreError, (u32 \<times> u32) option) result" where
  "check_enc_range both st =
    (if ps_enc_range_start st \<noteq> None \<or> ps_enc_range_end st \<noteq> None then
      bind_r (ok_or (TcUnterminated enc_range_string) (ps_enc_range_start st)) (\<lambda>start.
      bind_r (ok_or (TcUnterminated enc_range_string) (ps_enc_range_end st)) (\<lambda>e.
        let len = (if e < start then 0 else e - start)
        in if len = 0 \<or> len mod 32 \<noteq> 0 then Inl (TcInvalidEncRangeLength len)
           else if \<not> both then Inl TcEncFileDataRequiresUidAndCtr
           else Inr (Some (start, e))))
     else Inr None)"

text \<open>The checks after the loop.\<close>

definition finish_template :: "ParserState \<Rightarrow> (TemplateCoreError, ParsedTemplate) result" where
  "finish_template st =
    (if ps_in_enc_range st then Inl (TcUnterminated enc_range_string)
     else
      bind_r (ok_or TcMissingMac (ps_mac_offset st)) (\<lambda>mac_offset.
        if ps_picc st \<noteq> None \<and> (ps_uid_offset st \<noteq> None \<or> ps_ctr_offset st \<noteq> None) then Inl TcPiccWithPlainMirrors
        else if ps_picc st = None \<and> ps_uid_offset st = None \<and> ps_ctr_offset st = None \<and> ps_tt_offset st = None
        then Inl TcNoMirror
        else
          let has_uid = (case ps_picc st of Some (_, content) \<Rightarrow> picc_content_includes_uid content
                | None \<Rightarrow> ps_uid_offset st \<noteq> None);
              has_ctr = (case ps_picc st of Some (_, content) \<Rightarrow> picc_content_includes_ctr content
                | None \<Rightarrow> ps_ctr_offset st \<noteq> None)
          in bind_r (check_enc_range (has_uid \<and> has_ctr) st) (\<lambda>range.
            let mac_input = (case ps_mac_start st of Some start \<Rightarrow> start | None \<Rightarrow> URI_AT)
            in if mac_input > mac_offset then Inl TcMacStartAfterMac
               else Inr \<lparr>pt_uri_content = ps_uri_content st, pt_uid_offset = ps_uid_offset st,
                 pt_ctr_offset = ps_ctr_offset st, pt_picc = ps_picc st, pt_tt_offset = ps_tt_offset st,
                 pt_mac_offset = mac_offset, pt_mac_input = mac_input, pt_enc_range = range\<rparr>)))"

definition parse_template :: "nat \<Rightarrow> bytes \<Rightarrow> nat \<Rightarrow> CryptoMode \<Rightarrow> (TemplateCoreError, ParsedTemplate) result" where
  "parse_template cap url start mode = bind_r (parse_loop cap url mode start parser_init) finish_template"

section \<open>The plan\<close>

definition try_offset :: "string \<Rightarrow> u32 \<Rightarrow> (TemplateCoreError, offset) result" where
  "try_offset name v = map_err (\<lambda>_. TcFileSettings (name @ '' out of range'')) (offset_new v)"

definition try_offset_opt :: "string \<Rightarrow> u32 option \<Rightarrow> (TemplateCoreError, offset option) result" where
  "try_offset_opt name v =
    (case v of None \<Rightarrow> Inr None | Some w \<Rightarrow> bind_r (try_offset name w) (\<lambda>off. Inr (Some off)))"

definition ctr_features :: "SdmUrlOptions \<Rightarrow> ReadCtrFeatures" where
  "ctr_features opts = \<lparr>rc_limit = None, rc_ret_access = so_ctr_ret opts\<rparr>"

definition enc_content_of :: "SdmUrlOptions \<Rightarrow> PiccContent \<Rightarrow> EncryptedContent" where
  "enc_content_of opts c =
    (case c of PcUid \<Rightarrow> EcUid | PcCtr \<Rightarrow> EcRCtr (ctr_features opts) | PcBoth \<Rightarrow> EcBoth (ctr_features opts))"

definition plan_picc_data :: "SdmUrlOptions \<Rightarrow> ParsedTemplate \<Rightarrow> (TemplateCoreError, SdmPiccData) result" where
  "plan_picc_data opts p =
    (case pt_picc p of
      Some (off, content) \<Rightarrow>
        bind_r (try_offset ''picc_offset'' off) (\<lambda>off. Inr (PdEncrypted (so_picc_key opts) off (enc_content_of opts content)))
    | None \<Rightarrow>
        bind_r (try_offset_opt ''uid_offset'' (pt_uid_offset p)) (\<lambda>uid_off.
        bind_r (try_offset_opt ''ctr_offset'' (pt_ctr_offset p)) (\<lambda>ctr_off.
          Inr (case (uid_off, ctr_off) of
              (Some u, Some c) \<Rightarrow> PdPlain (PmBoth u \<lparr>rm_offset = c, rm_features = ctr_features opts\<rparr>)
            | (Some u, None) \<Rightarrow> PdPlain (PmUid u)
            | (None, Some c) \<Rightarrow> PdPlain (PmRCtr \<lparr>rm_offset = c, rm_features = ctr_features opts\<rparr>)
            | (None, None) \<Rightarrow> PdNone))))"

definition plan_file_read :: "SdmUrlOptions \<Rightarrow> ParsedTemplate \<Rightarrow> (TemplateCoreError, FileRead) result" where
  "plan_file_read opts p =
    bind_r (try_offset ''mac_input'' (pt_mac_input p)) (\<lambda>input.
    bind_r (try_offset ''mac_offset'' (pt_mac_offset p)) (\<lambda>mac.
      let window = \<lparr>mw_input = input, mw_mac = mac\<rparr>
      in case pt_enc_range p of
          Some (enc_start, enc_end) \<Rightarrow>
            bind_r (try_offset ''enc_start'' enc_start) (\<lambda>start.
            bind_r (map_err (\<lambda>_. TcFileSettings ''enc_length invalid'') (enc_length_new (enc_end - enc_start))) (\<lambda>len.
              Inr (MacAndEnc (so_mac_key opts) window \<lparr>ef_start = start, ef_length = len\<rparr>)))
        | None \<Rightarrow> Inr (MacOnly (so_mac_key opts) window)))"

definition plan_sdm_error :: "FileSettingsError \<Rightarrow> TemplateCoreError" where
  "plan_sdm_error e =
    (case e of
      MacInputAfterMac \<Rightarrow> TcFileSettings ''mac_input > mac''
    | EncOutsideMacWindow \<Rightarrow> TcFileSettings ''enc outside mac window''
    | EncRequiresBothMirrors \<Rightarrow> TcEncFileDataRequiresUidAndCtr
    | _ \<Rightarrow> TcFileSettings ''sdm_settings'')"

definition ndef_header :: "nat \<Rightarrow> byte \<Rightarrow> bytes" where
  "ndef_header payload_len prefix_code =
    (let ndef_msg_len = (of_nat (4 + payload_len) :: u16)
     in [ucast (drop_bit 8 ndef_msg_len), ucast ndef_msg_len, 0xD1, 0x01, of_nat payload_len, 0x55, prefix_code])"

definition build_sdm_ndef_plan_core ::
    "nat \<Rightarrow> string \<Rightarrow> CryptoMode \<Rightarrow> SdmUrlOptions \<Rightarrow> (TemplateCoreError, SdmUrlConfig) result" where
  "build_sdm_ndef_plan_core cap url mode opts =
    (let (prefix_code, abbrev_start) = detect_uri_prefix (as_bytes url)
     in bind_r (parse_template cap (as_bytes url) abbrev_start mode) (\<lambda>parsed.
      let payload_len = 1 + length (pt_uri_content parsed);
          total_len = 2 + (4 + payload_len)
      in if payload_len > 255 then Inl (TcFileTooLong total_len (so_max_file_size opts))
         else if total_len > unat (so_max_file_size opts) then Inl (TcFileTooLong total_len (so_max_file_size opts))
         else
          bind_r (nb_extend cap (ndef_header payload_len prefix_code) []) (\<lambda>header.
          bind_r (nb_extend cap (pt_uri_content parsed) header) (\<lambda>ndef_bytes.
          bind_r (plan_picc_data opts parsed) (\<lambda>picc_data.
          bind_r (plan_file_read opts parsed) (\<lambda>file_read.
          bind_r (try_offset_opt ''tt_offset'' (pt_tt_offset parsed)) (\<lambda>tamper_status.
          bind_r (map_err plan_sdm_error (sdm_try_new picc_data (Some file_read) tamper_status mode)) (\<lambda>sdm_settings.
            Inr \<lparr>pl_ndef_bytes = ndef_bytes, pl_sdm_settings = sdm_settings, pl_offset = unat URI_AT,
              pl_prefix_len = abbrev_start, pl_prefix_code = prefix_code\<rparr>))))))))"

definition map_runtime_error :: "string \<Rightarrow> TemplateCoreError \<Rightarrow> SdmUrlError" where
  "map_runtime_error url e =
    (case e of
      TcMissingMac \<Rightarrow> SuMissingMac
    | TcPiccWithPlainMirrors \<Rightarrow> SuPiccWithPlainMirrors
    | TcNoMirror \<Rightarrow> SuNoMirror
    | TcDuplicatePlaceholder name \<Rightarrow> SuDuplicatePlaceholder name
    | TcEncFileDataRequiresUidAndCtr \<Rightarrow> SuEncFileDataRequiresUidAndCtr
    | TcInvalidEncRangeLength len \<Rightarrow> SuInvalidEncRangeLength len
    | TcInvalidPlaceholder start stop \<Rightarrow> SuInvalidPlaceholder (slice start stop url)
    | TcUnterminated name \<Rightarrow> SuUnterminated name
    | TcUnexpectedMarker name \<Rightarrow> SuUnexpectedMarker name
    | TcDuplicateRange name \<Rightarrow> SuDuplicateRange name
    | TcPlaceholderInEncRange name \<Rightarrow> SuPlaceholderInEncRange name
    | TcNestedRange name \<Rightarrow> SuNestedRange name
    | TcMacStartAfterMac \<Rightarrow> SuMacStartAfterMac
    | TcOutputBufferTooSmall needed capacity \<Rightarrow> SuFileTooLong needed (of_nat capacity)
    | TcFileTooLong got max_size \<Rightarrow> SuFileTooLong got max_size
    | TcFileSettings _ \<Rightarrow> SuFileSettings MacInputAfterMac)"

definition sdm_url_config :: "string \<Rightarrow> CryptoMode \<Rightarrow> SdmUrlOptions \<Rightarrow> (SdmUrlError, SdmUrlConfig) result" where
  "sdm_url_config url mode opts =
    map_err (map_runtime_error url) (build_sdm_ndef_plan_core DEFAULT_CONST_PLAN_CAPACITY url mode opts)"

section \<open>Plans fit the file and the codec\<close>

definition plan_ok :: "SdmUrlConfig \<Rightarrow> bool" where
  "plan_ok plan \<longleftrightarrow> pl_ndef_bytes plan \<noteq> [] \<and> length (pl_ndef_bytes plan) \<le> 256 \<and> sdm_wire_ok (pl_sdm_settings plan)"

lemma nb_extend_eq:
  "length buf \<le> cap \<Longrightarrow> nb_extend cap bs buf =
    (if length buf + length bs \<le> cap then Inr (buf @ bs) else Inl (TcOutputBufferTooSmall (cap + 1) cap))"
  by (induction bs arbitrary: buf) (auto simp: nb_push_def)

lemma nb_extend_Inr:
  "length buf \<le> cap \<Longrightarrow> nb_extend cap bs buf = Inr r \<longleftrightarrow> length buf + length bs \<le> cap \<and> r = buf @ bs"
  by (auto simp: nb_extend_eq)

lemma map_err_Inr [simp]: "map_err f r = Inr a \<longleftrightarrow> r = Inr a"
  by (cases r) (simp_all add: map_err_def)

lemma try_offset_Inr: "try_offset name v = Inr w \<longleftrightarrow> w = v \<and> v \<le> 0xFFFFFF"
  by (auto simp: try_offset_def offset_new_def not_less)

lemma try_offset_opt_Inr:
  "try_offset_opt name v = Inr w \<longleftrightarrow> w = v \<and> (\<forall>x. v = Some x \<longrightarrow> x \<le> 0xFFFFFF)"
  by (auto simp: try_offset_opt_def bind_r_Inr_iff try_offset_Inr split: option.splits)

lemma plan_picc_wire_ok: "plan_picc_data opts p = Inr d \<Longrightarrow> picc_wire_ok d"
  by (auto simp: plan_picc_data_def picc_wire_ok_def bind_r_Inr_iff try_offset_Inr try_offset_opt_Inr
      read_ctr_limit_def ctr_features_def enc_content_of_def split: option.splits prod.splits PiccContent.splits)

lemma enc_length_new_same: "enc_length_new v = Inr w \<Longrightarrow> enc_length_new w = Inr w"
  by (auto simp: enc_length_new_def split: if_splits)

lemma plan_fr_wire_ok: "plan_file_read opts p = Inr fr \<Longrightarrow> fr_wire_ok fr"
  by (auto simp: plan_file_read_def fr_wire_ok_def fr_window_def fr_enc_def bind_r_Inr_iff try_offset_Inr Let_def
      split: option.splits) (rule enc_length_new_same)

lemma build_planE:
  assumes "build_sdm_ndef_plan_core cap url mode opts = Inr plan"
  obtains code start p d fr tt sdm where "detect_uri_prefix (as_bytes url) = (code, start)"
    "parse_template cap (as_bytes url) start mode = Inr p" "length (pt_uri_content p) \<le> 254"
    "7 + length (pt_uri_content p) \<le> cap" "7 + length (pt_uri_content p) \<le> unat (so_max_file_size opts)"
    "plan_picc_data opts p = Inr d" "plan_file_read opts p = Inr fr"
    "try_offset_opt ''tt_offset'' (pt_tt_offset p) = Inr tt" "sdm_try_new d (Some fr) tt mode = Inr sdm"
    "plan = \<lparr>pl_ndef_bytes = ndef_header (1 + length (pt_uri_content p)) code @ pt_uri_content p,
      pl_sdm_settings = sdm, pl_offset = 7, pl_prefix_len = start, pl_prefix_code = code\<rparr>"
proof -
  obtain code start where 1: "detect_uri_prefix (as_bytes url) = (code, start)"
    by (cases "detect_uri_prefix (as_bytes url)")
  have "length (ndef_header n code) = 7" for n
    by (simp add: ndef_header_def Let_def)
  with 1 show ?thesis
    using assms by (auto simp: build_sdm_ndef_plan_core_def bind_r_Inr_iff Let_def nb_extend_Inr not_less URI_AT_def
        intro!: that split: if_splits)
qed

lemma build_plan_ok:
  assumes "build_sdm_ndef_plan_core 256 url mode opts = Inr plan"
  shows "plan_ok plan"
  using assms
proof (rule build_planE)
  fix code start p d fr tt sdm
  assume p: "plan_picc_data opts p = Inr d" "plan_file_read opts p = Inr fr"
    "try_offset_opt ''tt_offset'' (pt_tt_offset p) = Inr tt" "sdm_try_new d (Some fr) tt mode = Inr sdm"
    "7 + length (pt_uri_content p) \<le> 256"
    "plan = \<lparr>pl_ndef_bytes = ndef_header (1 + length (pt_uri_content p)) code @ pt_uri_content p,
      pl_sdm_settings = sdm, pl_offset = 7, pl_prefix_len = start, pl_prefix_code = code\<rparr>"
  have "try_new_inner d (Some fr) tt = Inr sdm"
    by (rule sdm_try_new_checks(1) [OF p(4)])
  moreover from this have "sdm = \<lparr>sdm_picc_data = d, sdm_file_read = Some fr, sdm_tamper_status = tt\<rparr>"
    by (auto simp: try_new_inner_def bind_r_Inr_iff)
  moreover have "picc_wire_ok d" "fr_wire_ok fr" "\<forall>x. tt = Some x \<longrightarrow> x \<le> 0xFFFFFF"
    using plan_picc_wire_ok [OF p(1)] plan_fr_wire_ok [OF p(2)] p(3) by (auto simp: try_offset_opt_Inr)
  ultimately show ?thesis
    using p(5,6) by (auto simp: plan_ok_def sdm_wire_ok_def ndef_header_def Let_def)
qed

lemma sdm_url_config_plan_ok: "sdm_url_config url mode opts = Inr plan \<Longrightarrow> plan_ok plan"
  by (auto simp: sdm_url_config_def DEFAULT_CONST_PLAN_CAPACITY_def intro: build_plan_ok)

section \<open>The planned text is well-formed\<close>

lemma and_not_mask_eq_iff:
  fixes b c :: byte
  assumes "drop_bit n (push_bit n c) = c"
  shows "b AND NOT (mask n) = push_bit n c \<longleftrightarrow> unat b div 2 ^ n = unat c"
proof -
  have "b AND NOT (mask n) = push_bit n (drop_bit n b)"
    by (rule bit_word_eqI) (auto simp: bit_simps)
  moreover have "drop_bit n (push_bit n (drop_bit n b)) = drop_bit n b"
    by (rule bit_word_eqI) (auto simp: bit_simps dest: bit_imp_le_length)
  moreover have "unat (drop_bit n b) = unat b div 2 ^ n"
    by (simp add: unat_drop_bit_eq flip: drop_bit_eq_div)
  ultimately show ?thesis
    using assms by (metis unsigned_word_eqI)
qed

lemma utf8_width_agrees:
  assumes "utf8_tail_ok a t"
  shows "utf8_char_width a = utf8_width a"
proof -
  have 1: "(0xE0 :: byte) = - 32" "(0xF0 :: byte) = - 16"
    by simp_all
  have 2: "a AND 0xE0 = 0xC0 \<longleftrightarrow> unat a div 32 = 6"
    using and_not_mask_eq_iff [of 5 6 a] unfolding 1(1) by (simp add: mask_eq_exp_minus_1)
  have 3: "a AND 0xF0 = 0xE0 \<longleftrightarrow> unat a div 16 = 14"
    using and_not_mask_eq_iff [of 4 14 a] unfolding 1(2) by (simp add: mask_eq_exp_minus_1)
  show ?thesis
    using assms unfolding utf8_char_width_def 2 3
    by (auto simp: utf8_tail_ok_def utf8_width_def word_less_nat_alt word_le_nat_alt split: if_splits)
qed

lemma utf8_drop_ascii:
  "utf8_valid (drop i url) \<Longrightarrow> i < length url \<Longrightarrow> url ! i < 0x80 \<Longrightarrow> utf8_valid (drop (Suc i) url)"
  using utf8_boundary [of "drop i url" 0] by simp

lemma utf8_char_at:
  assumes "utf8_valid (drop i url)" "i < length url"
  shows "utf8_valid (slice i (i + utf8_char_width (url ! i)) url)"
    "utf8_valid (drop (i + utf8_char_width (url ! i)) url)"
proof -
  have d: "drop i url = url ! i # drop (Suc i) url"
    using assms(2) by (simp add: Cons_nth_drop_Suc)
  then have w: "utf8_char_width (url ! i) = utf8_width (url ! i)"
    using assms(1) utf8_width_agrees by (metis utf8_valid.simps(2))
  note f = utf8_first_char [of "url ! i" "drop (Suc i) url", folded d, OF assms(1)]
  show "utf8_valid (slice i (i + utf8_char_width (url ! i)) url)"
    using f(2) w by (simp add: slice_def)
  show "utf8_valid (drop (i + utf8_char_width (url ! i)) url)"
    using f(3) w by (simp add: add.commute)
qed

lemma parse_placeholder_boundary:
  assumes "parse_placeholder url i = Inr (p, n, d)" "utf8_valid (drop i url)"
  shows "utf8_valid (drop (i + n) url)"
proof -
  obtain e where e: "find_brace url (i + 1) = Some e" "n = e + 1 - i"
    using assms(1) by (auto simp: parse_placeholder_def split: option.splits)
  have "url ! e = 0x7D"
    using e(1) by (induction url "i + 1" arbitrary: i rule: find_brace.induct)
      (subst (asm) (2) find_brace.simps, auto split: if_splits)
  moreover have "i + 1 \<le> e" "e < length url"
    using find_brace_ge [OF e(1)] by auto
  ultimately show ?thesis
    using utf8_boundary [OF assms(2), of "e - i"] e(2) by simp
qed

lemma utf8_zeroes: "utf8_valid (replicate n 0x30)"
  by (rule utf8_ascii) (simp add: list_all_iff)

definition parse_inv :: "nat \<Rightarrow> bytes \<Rightarrow> nat \<Rightarrow> ParserState \<Rightarrow> bool" where
  "parse_inv cap url i st \<longleftrightarrow> utf8_valid (drop i url) \<and> utf8_valid (ps_uri_content st) \<and> length (ps_uri_content st) \<le> cap"

lemma nb_extend_inv:
  "nb_extend cap bs buf = Inr r \<Longrightarrow> length buf \<le> cap \<Longrightarrow> utf8_valid buf \<Longrightarrow> utf8_valid bs \<Longrightarrow>
    length r \<le> cap \<and> utf8_valid r"
  by (auto simp: nb_extend_Inr utf8_valid_append)

lemma enc_step_inv:
  assumes "enc_step cap url mode i st = Inr (i', st')" "i < length url" "parse_inv cap url i st"
  shows "parse_inv cap url i' st'"
  using assms utf8_drop_ascii [of i url] utf8_char_at [of i url] utf8_char_at [of "i + 1" url]
  by (auto simp: enc_step_def parse_inv_def Let_def bind_r_Inr_iff escaped_width_def nb_push_zeroes_def
      dest!: nb_extend_inv intro: utf8_zeroes parse_placeholder_boundary
      split: if_splits)

lemma record_placeholder_content: "record_placeholder p d st = Inr st' \<Longrightarrow> ps_uri_content st' = ps_uri_content st"
  by (auto simp: record_placeholder_def bind_r_Inr_iff split: Placeholder.splits)

lemma plain_step_inv:
  assumes "plain_step cap url mode i st = Inr (i', st')" "i < length url" "parse_inv cap url i st"
  shows "parse_inv cap url i' st'"
  using assms utf8_drop_ascii [of i url] utf8_drop_ascii [of "i + 1" url] utf8_char_at [of i url] utf8_char_at [of "i + 1" url]
  by (auto simp: plain_step_def parse_inv_def Let_def bind_r_Inr_iff escaped_width_def nb_push_zeroes_def
      dest!: nb_extend_inv record_placeholder_content intro: utf8_zeroes parse_placeholder_boundary
      split: if_splits)

lemma parse_loop_inv:
  "parse_loop cap url mode i st = Inr st' \<Longrightarrow> parse_inv cap url i st \<Longrightarrow> parse_inv cap url (length url) st'"
proof (induction cap url mode i st rule: parse_loop.induct)
  case (1 cap url mode i st)
  show ?case
  proof (cases "i < length url")
    case True
    then obtain i2 st2 where 2: "parse_step cap url mode i st = Inr (i2, st2)" "parse_loop cap url mode i2 st2 = Inr st'"
      using 1(2) by (subst (asm) parse_loop.simps) (auto simp: bind_r_Inr_iff)
    then have "parse_inv cap url i2 st2"
      using enc_step_inv plain_step_inv True 1(3) by (fastforce simp: parse_step_def split: if_splits)
    then show ?thesis
      using 1(1) [OF True] 2 by auto
  next
    case False
    then show ?thesis
      using 1(2,3) by (subst (asm) parse_loop.simps) (auto simp: parse_inv_def)
  qed
qed

lemma finish_template_content: "finish_template st = Inr p \<Longrightarrow> pt_uri_content p = ps_uri_content st"
  by (auto simp: finish_template_def bind_r_Inr_iff Let_def split: if_splits)

lemma parse_template_content:
  assumes "parse_template cap url start mode = Inr p" "utf8_valid (drop start url)"
  shows "utf8_valid (pt_uri_content p)"
proof -
  obtain st where "parse_loop cap url mode start parser_init = Inr st" "finish_template st = Inr p"
    using assms(1) by (auto simp: parse_template_def bind_r_Inr_iff)
  then show ?thesis
    using parse_loop_inv [of cap url mode start parser_init st] assms(2) finish_template_content [of st p]
    by (simp add: parse_inv_def parser_init_def)
qed

lemma detect_prefix_in_table:
  "detect_prefix_in tab url = (code, n) \<Longrightarrow>
    code = 0 \<and> n = 0 \<or> (\<exists>prefix. (code, prefix) \<in> set tab \<and> n = length prefix \<and> take n url = as_bytes prefix \<and> n \<le> length url)"
  by (induction tab url rule: detect_prefix_in.induct)
    (auto simp: bytes_eq_at_def slice_def split: if_splits)

lemma prefixes_ascii: "list_all (\<lambda>(_, prefix). prefix \<noteq> [] \<and> list_all (\<lambda>b. b < 0x80) (as_bytes prefix)) NDEF_URI_PREFIXES"
  by code_simp

lemma detect_uri_prefix_cut:
  assumes "detect_uri_prefix url = (code, n)"
  shows "n \<le> length url" "utf8_valid url \<Longrightarrow> utf8_valid (drop n url)"
proof -
  have cut: "n \<le> length url \<and> list_all (\<lambda>b. b < 0x80) (take n url)"
    using detect_prefix_in_table [of NDEF_URI_PREFIXES url code n] assms prefixes_ascii
    by (auto simp: detect_uri_prefix_def list_all_iff)
  then show "n \<le> length url"
    by simp
  show "utf8_valid url \<Longrightarrow> utf8_valid (drop n url)"
    using utf8_valid_append [of "take n url" "drop n url"] utf8_ascii cut by simp
qed

section \<open>The plan of a Bolt Card template\<close>

definition text_byte :: "byte \<Rightarrow> bool" where
  "text_byte b \<longleftrightarrow> b < 0x80 \<and> b \<notin> {0x5B, 0x5D, 0x5C, 0x7B}"

lemma drop_eq_Cons: "drop i xs = y # ys \<Longrightarrow> i < length xs \<and> xs ! i = y \<and> drop (Suc i) xs = ys"
  by (cases "i < length xs") (auto simp flip: Cons_nth_drop_Suc)

lemma parse_loop_text:
  "list_all text_byte seg \<Longrightarrow> drop i url = seg @ rest \<Longrightarrow> \<not> ps_in_enc_range st \<Longrightarrow>
    length (ps_uri_content st) + length seg \<le> cap \<Longrightarrow>
    parse_loop cap url mode i st =
      parse_loop cap url mode (i + length seg) (st\<lparr>ps_uri_content := ps_uri_content st @ seg\<rparr>)"
proof (induction seg arbitrary: i st)
  case (Cons b seg)
  have d: "i < length url" "url ! i = b" "drop (Suc i) url = seg @ rest"
    using drop_eq_Cons [of i url b "seg @ rest"] Cons.prems(2) by auto
  have "slice i (Suc i) url = [b]"
    using Cons.prems(2) by (simp add: slice_def)
  then have "parse_step cap url mode i st = Inr (Suc i, st\<lparr>ps_uri_content := ps_uri_content st @ [b]\<rparr>)"
    using Cons.prems d by (auto simp: parse_step_def plain_step_def text_byte_def utf8_char_width_def nb_push_def Let_def)
  then show ?case
    using Cons.IH [of "Suc i" "st\<lparr>ps_uri_content := ps_uri_content st @ [b]\<rparr>"] Cons.prems d
    by (subst parse_loop.simps) simp
qed simp

lemma find_brace_text:
  "0x7D \<notin> set spec \<Longrightarrow> drop i url = spec @ 0x7D # rest \<Longrightarrow> find_brace url i = Some (i + length spec)"
proof (induction spec arbitrary: i)
  case Nil
  then show ?case
    using drop_eq_Cons [of i url] by (subst find_brace.simps) auto
next
  case (Cons b spec)
  then show ?case
    using drop_eq_Cons [of i url b "spec @ 0x7D # rest"] Cons.IH [of "Suc i"] by (subst find_brace.simps) auto
qed

lemma parse_loop_placeholder:
  assumes "drop i url = 0x7B # spec @ 0x7D # rest" "0x7D \<notin> set spec" "placeholder_of_spec spec = Some (p, d)"
    and "\<not> ps_in_enc_range st" "record_placeholder p d st = Inr st'"
    and "length (ps_uri_content st) + placeholder_fill_len p mode \<le> cap" "length spec + 2 = n"
  shows "parse_loop cap url mode i st = parse_loop cap url mode (i + n)
    (st'\<lparr>ps_uri_content := ps_uri_content st @ replicate (placeholder_fill_len p mode) 0x30\<rparr>)"
proof -
  have d: "i < length url" "url ! i = 0x7B" "drop (Suc i) url = spec @ 0x7D # rest"
    using drop_eq_Cons [OF assms(1)] by auto
  have "parse_placeholder url i = Inr (p, n, d)"
    using find_brace_text [OF assms(2) d(3)] d(3) assms(3,7) by (auto simp: parse_placeholder_def slice_def)
  then have "parse_step cap url mode i st = Inr (i + n,
      st'\<lparr>ps_uri_content := ps_uri_content st @ replicate (placeholder_fill_len p mode) 0x30\<rparr>)"
    using assms(4-6) d record_placeholder_content [OF assms(5)]
    by (simp add: parse_step_def plain_step_def nb_push_zeroes_def nb_extend_eq Let_def)
  then show ?thesis
    using d by (subst parse_loop.simps) simp
qed

lemma parse_loop_mac_start:
  assumes "drop i url = 0x5B # 0x5B # rest" "\<not> ps_in_enc_range st" "\<not> ps_saw_mac_start st"
  shows "parse_loop cap url mode i st =
    parse_loop cap url mode (i + 2) (st\<lparr>ps_saw_mac_start := True, ps_mac_start := Some (here st)\<rparr>)"
proof -
  have d: "i < length url" "url ! i = 0x5B" "Suc i < length url" "url ! Suc i = 0x5B"
    using drop_eq_Cons [OF assms(1)] drop_eq_Cons [of "Suc i" url] by auto
  then have "parse_step cap url mode i st = Inr (i + 2, st\<lparr>ps_saw_mac_start := True, ps_mac_start := Some (here st)\<rparr>)"
    using assms(2,3) by (simp add: parse_step_def plain_step_def Let_def)
  then show ?thesis
    using d by (subst parse_loop.simps) simp
qed

lemma parse_loop_done: "length url \<le> i \<Longrightarrow> parse_loop cap url mode i st = Inr st"
  by (subst parse_loop.simps) simp

text \<open>A template with an encrypted identifier-and-counter mirror and an empty MAC window, as
  \<open>standardize_url_template\<close> produces it.\<close>

definition bolt_template :: "string \<Rightarrow> string \<Rightarrow> string \<Rightarrow> string" where
  "bolt_template pre mid post = pre @ ''{picc:uid+ctr}'' @ mid @ CHR 0x5B # CHR 0x5B # ''{mac}'' @ post"

definition bolt_content :: "bytes \<Rightarrow> bytes \<Rightarrow> bytes \<Rightarrow> bytes" where
  "bolt_content pre mid post = pre @ replicate 32 0x30 @ mid @ replicate 16 0x30 @ post"

definition bolt_sdm :: "SdmUrlOptions \<Rightarrow> nat \<Rightarrow> nat \<Rightarrow> Sdm" where
  "bolt_sdm opts picc mac = \<lparr>sdm_picc_data = PdEncrypted (so_picc_key opts) (of_nat picc) (EcBoth (ctr_features opts)),
    sdm_file_read = Some (MacOnly (so_mac_key opts) \<lparr>mw_input = of_nat mac, mw_mac = of_nat mac\<rparr>), sdm_tamper_status = None\<rparr>"

lemma bolt_template_parsed:
  fixes pre mid post :: bytes
  assumes plain: "list_all text_byte pre" "list_all text_byte mid" "list_all text_byte post"
    and "drop start url = pre @ 0x7B # as_bytes ''picc:uid+ctr'' @ 0x7D # mid @ 0x5B # 0x5B # 0x7B # as_bytes ''mac'' @ 0x7D # post"
    and cap: "length pre + length mid + length post + 48 \<le> cap"
  shows "parse_loop cap url Aes start parser_init = Inr (parser_init\<lparr>
    ps_uri_content := bolt_content pre mid post, ps_picc := Some (7 + of_nat (length pre), PcBoth),
    ps_saw_mac_start := True, ps_mac_start := Some (7 + of_nat (length pre + 32 + length mid)),
    ps_mac_offset := Some (7 + of_nat (length pre + 32 + length mid))\<rparr>)"
proof -
  have shift: "drop (j + length xs) url = ys" if "drop j url = xs @ ys" for j xs ys
    using that by (metis add.commute append_eq_conv_conj drop_drop)
  have shift_by: "drop (j + n) url = ys" if "drop j url = xs @ ys" "length xs = n" for j n xs ys
    using shift [OF that(1)] that(2) by simp
  let ?p1 = "start + length pre" and ?p2 = "start + length pre + 14"
  let ?p3 = "start + length pre + 14 + length mid"
  let ?p4 = "start + length pre + 14 + length mid + 2" and ?p5 = "start + length pre + 14 + length mid + 2 + 5"
  have 1: "drop ?p1 url = 0x7B # as_bytes ''picc:uid+ctr'' @ 0x7D # mid @ 0x5B # 0x5B # 0x7B # as_bytes ''mac'' @ 0x7D # post"
    by (rule shift [OF assms(4)])
  have 2: "drop ?p2 url = mid @ 0x5B # 0x5B # 0x7B # as_bytes ''mac'' @ 0x7D # post"
    by (rule shift_by [of ?p1 "0x7B # as_bytes ''picc:uid+ctr'' @ [0x7D]"]) (use 1 in simp_all)
  have 3: "drop ?p3 url = 0x5B # 0x5B # 0x7B # as_bytes ''mac'' @ 0x7D # post"
    by (rule shift [OF 2])
  have 4: "drop ?p4 url = 0x7B # as_bytes ''mac'' @ 0x7D # post"
    by (rule shift_by [of ?p3 "[0x5B, 0x5B]"]) (use 3 in simp_all)
  have 5: "drop ?p5 url = post @ []"
    by (rule shift_by [of ?p4 "0x7B # as_bytes ''mac'' @ [0x7D]"]) (use 4 in simp_all)
  have len: "length url \<le> ?p5 + length post"
    using shift [OF 5] by simp
  have ph: "placeholder_of_spec (as_bytes ''picc:uid+ctr'') = Some (PhPicc PcBoth, ''{picc}'')"
    "placeholder_of_spec (as_bytes ''mac'') = Some (PhMac, ''{mac}'')"
    "0x7D \<notin> set (as_bytes ''picc:uid+ctr'')" "0x7D \<notin> set (as_bytes ''mac'')"
    by code_simp+
  have fill: "placeholder_fill_len (PhPicc PcBoth) Aes = 32" "placeholder_fill_len PhMac Aes = 16"
    by (simp_all add: placeholder_fill_len_def picc_blob_ascii_len_def PICC_BLOB_LEN_AES_def)
  have picc: "parse_loop cap url Aes ?p1 st =
      parse_loop cap url Aes ?p2 (st\<lparr>ps_picc := Some (here st, PcBoth), ps_uri_content := ps_uri_content st @ replicate 32 0x30\<rparr>)"
    if "\<not> ps_in_enc_range st" "ps_picc st = None" "length (ps_uri_content st) + 32 \<le> cap" for st
    using parse_loop_placeholder [OF 1 ph(3,1) that(1), of "st\<lparr>ps_picc := Some (here st, PcBoth)\<rparr>" Aes cap 14] that(2,3)
    by (simp add: record_placeholder_def set_once_def fill)
  have mac: "parse_loop cap url Aes ?p4 st =
      parse_loop cap url Aes ?p5 (st\<lparr>ps_mac_offset := Some (here st), ps_uri_content := ps_uri_content st @ replicate 16 0x30\<rparr>)"
    if "\<not> ps_in_enc_range st" "ps_mac_offset st = None" "length (ps_uri_content st) + 16 \<le> cap" for st
    using parse_loop_placeholder [OF 4 ph(4,2) that(1), of "st\<lparr>ps_mac_offset := Some (here st)\<rparr>" Aes cap 5] that(2,3)
    by (simp add: record_placeholder_def set_once_def fill)
  note init = parser_init_def here_def current_file_offset_len_def URI_AT_def
  let ?s1 = "parser_init\<lparr>ps_uri_content := pre\<rparr>"
  let ?s2 = "?s1\<lparr>ps_picc := Some (here ?s1, PcBoth), ps_uri_content := pre @ replicate 32 0x30\<rparr>"
  let ?s3 = "?s2\<lparr>ps_uri_content := pre @ replicate 32 0x30 @ mid\<rparr>"
  let ?s4 = "?s3\<lparr>ps_saw_mac_start := True, ps_mac_start := Some (here ?s3)\<rparr>"
  let ?s5 = "?s4\<lparr>ps_mac_offset := Some (here ?s3), ps_uri_content := pre @ replicate 32 0x30 @ mid @ replicate 16 0x30\<rparr>"
  have "parse_loop cap url Aes start parser_init = parse_loop cap url Aes ?p1 ?s1"
    using parse_loop_text [OF plain(1) assms(4), of parser_init cap Aes] cap by (simp add: init)
  also have "\<dots> = parse_loop cap url Aes ?p2 ?s2"
    using picc [of ?s1] cap by (simp add: init)
  also have "\<dots> = parse_loop cap url Aes ?p3 ?s3"
    using parse_loop_text [OF plain(2) 2, of ?s2 cap Aes] cap by (simp add: init)
  also have "\<dots> = parse_loop cap url Aes ?p4 ?s4"
    using parse_loop_mac_start [OF 3, of ?s3 cap Aes] by (simp add: init)
  also have "\<dots> = parse_loop cap url Aes ?p5 ?s5"
    using mac [of ?s4] cap by (simp add: init)
  also have "\<dots> = Inr (?s5\<lparr>ps_uri_content := bolt_content pre mid post\<rparr>)"
    using parse_loop_text [OF plain(3) 5, of ?s5 cap Aes] cap parse_loop_done [OF len]
    by (simp add: init bolt_content_def)
  finally show ?thesis
    by (simp add: init)
qed
lemma unat_of_nat_small: "n < 256 \<Longrightarrow> unat (of_nat n :: u32) = n"
  by (simp add: unat_of_nat)

lemma sdm_try_new_bolt:
  assumes "picc + 32 \<le> mac" "mac < 256"
  shows "sdm_try_new (PdEncrypted k (of_nat picc) c) (Some (MacOnly k' \<lparr>mw_input = of_nat mac, mw_mac = of_nat mac\<rparr>)) None Aes =
    Inr \<lparr>sdm_picc_data = PdEncrypted k (of_nat picc) c,
      sdm_file_read = Some (MacOnly k' \<lparr>mw_input = of_nat mac, mw_mac = of_nat mac\<rparr>), sdm_tamper_status = None\<rparr>"
proof -
  have "(of_nat (picc + 32) :: u32) \<le> of_nat mac"
    unfolding word_le_nat_alt using assms by (simp only: unat_of_nat_small)
  then have "(of_nat picc + 32 :: u32) \<le> of_nat mac"
    by simp
  then show ?thesis
    by (simp add: sdm_try_new_def try_new_inner_def fr_window_def check_overlap_def uid_range_def rctr_range_def tt_range_def
        mac_range_def enc_range_def ranges_overlap_def picc_blob_ascii_len_def PICC_BLOB_LEN_AES_def Let_def)
qed

lemma finish_bolt:
  "finish_template (parser_init\<lparr>ps_uri_content := content, ps_picc := Some (picc, PcBoth), ps_saw_mac_start := True,
      ps_mac_start := Some mac, ps_mac_offset := Some mac\<rparr>) =
    Inr \<lparr>pt_uri_content = content, pt_uid_offset = None, pt_ctr_offset = None, pt_picc = Some (picc, PcBoth),
      pt_tt_offset = None, pt_mac_offset = mac, pt_mac_input = mac, pt_enc_range = None\<rparr>"
  by (simp add: finish_template_def parser_init_def check_enc_range_def ok_or_def Let_def)

lemma bolt_plan:
  assumes "detect_uri_prefix (as_bytes (prefix @ bolt_template pre mid post)) = (code, length prefix)"
    and plain: "list_all text_byte (as_bytes pre)" "list_all text_byte (as_bytes mid)" "list_all text_byte (as_bytes post)"
    and size: "55 + length pre + length mid + length post \<le> 256"
      "55 + length pre + length mid + length post \<le> unat (so_max_file_size opts)"
  shows "sdm_url_config (prefix @ bolt_template pre mid post) Aes opts = Inr
    \<lparr>pl_ndef_bytes = ndef_header (49 + length pre + length mid + length post) code @
        bolt_content (as_bytes pre) (as_bytes mid) (as_bytes post),
      pl_sdm_settings = bolt_sdm opts (7 + length pre) (39 + length pre + length mid),
      pl_offset = 7, pl_prefix_len = length prefix, pl_prefix_code = code\<rparr>"
proof -
  let ?url = "as_bytes (prefix @ bolt_template pre mid post)"
  define picc where "picc = 7 + length pre"
  define mac where "mac = 39 + length pre + length mid"
  define content where "content = bolt_content (as_bytes pre) (as_bytes mid) (as_bytes post)"
  have len: "length content = 48 + length pre + length mid + length post"
    by (simp add: content_def bolt_content_def)
  have range: "picc + 32 \<le> mac" "mac < 256" "picc < 256"
    using size by (simp_all add: picc_def mac_def)
  then have small: "\<not> (0xFFFFFF :: u32) < of_nat picc" "\<not> (0xFFFFFF :: u32) < of_nat mac"
    by (simp_all add: word_less_nat_alt unat_of_nat_small)
  have "drop (length prefix) ?url = as_bytes pre @ 0x7B # as_bytes ''picc:uid+ctr'' @ 0x7D # as_bytes mid @
      0x5B # 0x5B # 0x7B # as_bytes ''mac'' @ 0x7D # as_bytes post"
    by (simp add: bolt_template_def)
  from bolt_template_parsed [OF plain this, of 256]
  have "parse_template 256 ?url (length prefix) Aes = Inr \<lparr>pt_uri_content = content, pt_uid_offset = None,
      pt_ctr_offset = None, pt_picc = Some (of_nat picc, PcBoth), pt_tt_offset = None, pt_mac_offset = of_nat mac,
      pt_mac_input = of_nat mac, pt_enc_range = None\<rparr>"
    using size by (simp add: parse_template_def finish_bolt picc_def mac_def content_def)
  moreover have "length (ndef_header n code) = 7" for n
    by (simp add: ndef_header_def Let_def)
  ultimately have "build_sdm_ndef_plan_core 256 (prefix @ bolt_template pre mid post) Aes opts = Inr
    \<lparr>pl_ndef_bytes = ndef_header (1 + length content) code @ content, pl_sdm_settings = bolt_sdm opts picc mac,
      pl_offset = 7, pl_prefix_len = length prefix, pl_prefix_code = code\<rparr>"
    using assms(1) size len small sdm_try_new_bolt [OF range(1,2)]
    by (simp add: build_sdm_ndef_plan_core_def nb_extend_eq plan_picc_data_def plan_file_read_def try_offset_def
        offset_new_def try_offset_opt_def enc_content_of_def bolt_sdm_def map_err_def Let_def URI_AT_def)
  then show ?thesis
    using len by (simp add: sdm_url_config_def DEFAULT_CONST_PLAN_CAPACITY_def map_err_def content_def picc_def mac_def add.assoc)
qed

end
