(* ===== verification/Workflows.thy ===== *)
theory Workflows
  imports Session Hex SdmUrl
begin

text \<open>
  The Bolt Card workflows of \<open>bolty-ntag/src/lib.rs\<close>: read the identifier, preflight, safe
  inspection, burn, wipe and the key-version check, over an arbitrary \<open>link\<close>. The SDM
  verifier of the driver is an argument of the inspection.

  The locale \<open>ntag_card\<close> is the contract between the workflows and a card driven
  through the session layer: an abstract card (identifier, keys, key versions, NDEF file, file
  settings), a predicate for a card that is ready, and one for a session in lockstep with the
  card. Inside it the workflows are proved correct once, for every card that keeps the contract.
\<close>

datatype 'e Error =
    ErTransport 'e
  | ErSdmUrl SdmUrlError
  | ErSession "'e SessionError"
  | ErAuthenticationDelay
  | WrongCardType (wct_vendor: byte) (wct_card_type: byte)
  | NdefVerificationFailed (nvf_written: nat) (nvf_read_back: nat)
  | KeyVersionMismatch (kvm_key_number: byte) (kvm_expected: byte) (kvm_actual: byte)
  | SdmVerificationFailed
  | NdefNotEmpty nat

definition from_session_error :: "'e SessionError \<Rightarrow> 'e Error" where
  "from_session_error e =
    (case e of ErrorResponse AuthenticationDelay \<Rightarrow> ErAuthenticationDelay | other \<Rightarrow> ErSession other)"

definition is_authentication_delay :: "'e Error \<Rightarrow> bool" where
  "is_authentication_delay err =
    (case err of
      ErAuthenticationDelay \<Rightarrow> True
    | ErSession (ErrorResponse AuthenticationDelay) \<Rightarrow> True
    | _ \<Rightarrow> False)"

definition is_session_auth_delay :: "'e SessionError \<Rightarrow> bool" where
  "is_session_auth_delay err = (case err of ErrorResponse AuthenticationDelay \<Rightarrow> True | _ \<Rightarrow> False)"

definition sess :: "('t, 'e SessionError, 'a) prog \<Rightarrow> ('t, 'e Error, 'a) prog" where
  "sess m = map_err_p from_session_error m"

definition uid_to_fixed :: "Uid \<Rightarrow> bytes" where
  "uid_to_fixed u = (case u of UidFixed f \<Rightarrow> f | UidRandom _ \<Rightarrow> replicate 7 0)"

definition read_uid :: "('t, 'e) link \<Rightarrow> ('t, 'e Error, bytes) prog" where
  "read_uid E = bind_p (sess (get_selected_uid E)) (\<lambda>uid. return_p (uid_to_fixed uid))"

definition preflight_with_chip_check :: "('t, 'e) link \<Rightarrow> bool \<Rightarrow> ('t, 'e Error, bytes) prog" where
  "preflight_with_chip_check E assume_ntag424 =
    bind_p (sess (get_selected_uid E)) (\<lambda>uid.
      if assume_ntag424 then return_p (uid_to_fixed uid)
      else bind_p (sess (unauth_get_version E)) (\<lambda>version.
        if hw_vendor_id version \<noteq> 0x04 \<or> hw_type version \<noteq> 0x04
        then throw_p (WrongCardType (hw_vendor_id version) (hw_type version))
        else return_p (uid_to_fixed uid)))"

definition preflight :: "('t, 'e) link \<Rightarrow> ('t, 'e Error, bytes) prog" where
  "preflight E = preflight_with_chip_check E False"

section \<open>Safe inspection\<close>

datatype SdmMirroring = MirLive | MirStatic | MirOff | MirUnknown

record 'v SafeInspectResult =
  si_uid :: bytes
  si_version :: "Version option"
  si_file_settings :: "FileSettingsView option"
  si_ndef_bytes :: "bytes option"
  si_sdm_verification :: "'v option"
  si_sdm_mirroring :: SdmMirroring

text \<open>\<open>.ok()\<close>: the error is dropped, the device and session keep the state reached.\<close>

definition ok_p :: "('s, 'e, 'a) prog \<Rightarrow> ('s, 'f, 'a option) prog" where
  "ok_p m = catch_p m (\<lambda>r. return_p (case r of Inl _ \<Rightarrow> None | Inr a \<Rightarrow> Some a))"

text \<open>\<open>verify sdm ndef k2 k1\<close> stands for the construction of the \<open>Verifier\<close> in AES mode and
  its \<open>verify_with_meta_key\<close>.\<close>

definition inspect_verification ::
    "(Sdm \<Rightarrow> bytes \<Rightarrow> bytes \<Rightarrow> bytes \<Rightarrow> 'v option) \<Rightarrow> FileSettingsView option \<Rightarrow> bytes option \<Rightarrow>
      AesKey option \<Rightarrow> AesKey option \<Rightarrow> 'v option" where
  "inspect_verification verify settings ndef k1 k2 =
    (case (settings, ndef, k1, k2) of
      (Some fs, Some nd, Some k1, Some k2) \<Rightarrow>
        (case fv_sdm fs of None \<Rightarrow> None | Some sdm \<Rightarrow> verify sdm nd (key_bytes k2) (key_bytes k1))
    | _ \<Rightarrow> None)"

definition inspect_mirroring ::
    "('t, 'e) link \<Rightarrow> FileSettingsView option \<Rightarrow> bytes option \<Rightarrow>
      ('t \<times> UnauthSession, 'e Error, SdmMirroring) prog" where
  "inspect_mirroring E settings ndef =
    (case settings of
      None \<Rightarrow> return_p MirUnknown
    | Some fs \<Rightarrow>
        (case fv_sdm fs of
          None \<Rightarrow> return_p MirOff
        | Some _ \<Rightarrow>
            bind_p (ok_p (read_file_unauthenticated E Ndef 0 256)) (\<lambda>second.
              return_p (case (ndef, second) of
                (Some first, Some second_bytes) \<Rightarrow> if first = second_bytes then MirStatic else MirLive
              | _ \<Rightarrow> MirUnknown))))"

definition safe_inspect ::
    "('t, 'e) link \<Rightarrow> (Sdm \<Rightarrow> bytes \<Rightarrow> bytes \<Rightarrow> bytes \<Rightarrow> 'v option) \<Rightarrow> AesKey option \<Rightarrow> AesKey option \<Rightarrow>
      ('t, 'e Error, 'v SafeInspectResult) prog" where
  "safe_inspect E verify k1 k2 =
    own session_new
      (bind_p (on_link (sess (get_selected_uid E))) (\<lambda>uid.
        bind_p (on_link (ok_p (unauth_get_version E))) (\<lambda>version.
          bind_p (ok_p (unauth_get_file_settings E Ndef)) (\<lambda>settings.
            bind_p (ok_p (read_file_unauthenticated E Ndef 0 256)) (\<lambda>ndef.
              bind_p (inspect_mirroring E settings ndef) (\<lambda>mirroring.
                return_p \<lparr>si_uid = uid_to_fixed uid, si_version = version, si_file_settings = settings,
                  si_ndef_bytes = ndef, si_sdm_verification = inspect_verification verify settings ndef k1 k2,
                  si_sdm_mirroring = mirroring\<rparr>))))))"

section \<open>Burn and wipe\<close>

text \<open>\<open>str::contains\<close> and \<open>str::replace\<close> for a non-empty pattern.\<close>

fun str_contains :: "string \<Rightarrow> string \<Rightarrow> bool" where
  "str_contains pat [] = (pat = [])"
| "str_contains pat (c # cs) = (strip_prefix pat (c # cs) \<noteq> None \<or> str_contains pat cs)"

function (sequential) str_replace :: "string \<Rightarrow> string \<Rightarrow> string \<Rightarrow> string" where
  "str_replace pat to [] = []"
| "str_replace pat to (c # cs) =
    (if pat \<noteq> [] \<and> take (length pat) (c # cs) = pat
     then to @ str_replace pat to (drop (length pat) (c # cs))
     else c # str_replace pat to cs)"
  by pat_completeness auto
termination
  by (relation "measure (\<lambda>(pat, to, s). length s)") auto

definition MAC_START_MARK :: string where
  "MAC_START_MARK = CHR 0x5B # CHR 0x5B # ''{mac}''"

definition standardize_url_template :: "string \<Rightarrow> string" where
  "standardize_url_template url =
    (if str_contains MAC_START_MARK url then url else str_replace ''{mac}'' MAC_START_MARK url)"

lemma str_contains_set: "str_contains pat s \<Longrightarrow> set pat \<subseteq> set s"
proof (induction pat s rule: str_contains.induct)
  case (2 pat c cs)
  then show ?case
    using set_take_subset [of "length pat" "c # cs"] by (auto simp: strip_prefix_def split: if_splits)
qed simp

lemma str_replace_skip: "hd pat \<notin> set s \<Longrightarrow> str_replace pat to (s @ t) = s @ str_replace pat to t"
  by (induction s; cases pat) auto

text \<open>Standardizing inserts the empty MAC window in front of the MAC placeholder.\<close>

lemma standardize_bolt:
  assumes "CHR ''{'' \<notin> set (pre @ mid @ post)" "CHR 0x5B \<notin> set (pre @ mid @ post)"
  shows "standardize_url_template (pre @ ''{picc:uid+ctr}'' @ mid @ ''{mac}'' @ post) = bolt_template pre mid post"
proof -
  let ?r = "str_replace ''{mac}'' MAC_START_MARK"
  have "\<not> str_contains MAC_START_MARK (pre @ ''{picc:uid+ctr}'' @ mid @ ''{mac}'' @ post)"
    using assms(2) by (auto dest!: str_contains_set simp: MAC_START_MARK_def)
  moreover have "?r (pre @ t) = pre @ ?r t" "?r (mid @ t) = mid @ ?r t" "?r post = post" for t
    using assms(1) str_replace_skip [of "''{mac}''" pre MAC_START_MARK t] str_replace_skip [of "''{mac}''" mid MAC_START_MARK t]
      str_replace_skip [of "''{mac}''" post MAC_START_MARK "[]"] by simp_all
  ultimately show ?thesis
    by (simp add: standardize_url_template_def bolt_template_def MAC_START_MARK_def)
qed

definition burned_ndef_access_rights :: AccessRights where
  "burned_ndef_access_rights =
    \<lparr>ar_read = AccFree, ar_write = AccKey Key0, ar_read_write = AccKey Key0, ar_change = AccKey Key0\<rparr>"

definition factory_ndef_access_rights :: AccessRights where
  "factory_ndef_access_rights =
    \<lparr>ar_read = AccFree, ar_write = AccFree, ar_read_write = AccFree, ar_change = AccKey Key0\<rparr>"

record BurnParams =
  bp_lnurl :: string
  bp_keys :: CardKeys
  bp_key_version :: byte
  bp_current_key :: AesKey
  bp_previous_keys :: CardKeys

definition burn_sdm_opts :: SdmUrlOptions where
  "burn_sdm_opts = sdm_url_options_new\<lparr>so_picc_key := Key1, so_mac_key := Key2\<rparr>"

text \<open>The loop over \<open>key_updates\<close>: change a key, read its version back, compare.\<close>

fun update_keys ::
    "('t, 'e) link \<Rightarrow> byte \<Rightarrow> (NonMasterKeyNumber \<times> KeyNumber \<times> bytes \<times> bytes) list \<Rightarrow> AuthSession \<Rightarrow>
      ('t, 'e Error, AuthSession) prog" where
  "update_keys E version [] session = return_p session"
| "update_keys E version ((key_no, kn, new_key, old_key) # rest) session =
    bind_p (sess (auth_change_key E session key_no new_key version old_key)) (\<lambda>s.
      bind_p (sess (auth_get_key_version E s kn)) (\<lambda>(v, s2).
        if v \<noteq> version then throw_p (KeyVersionMismatch (key_as_byte kn) version v)
        else update_keys E version rest s2))"

declare update_keys.simps [simp del]

definition burn_key_updates ::
    "CardKeys \<Rightarrow> CardKeys \<Rightarrow> (NonMasterKeyNumber \<times> KeyNumber \<times> bytes \<times> bytes) list" where
  "burn_key_updates new old =
    [(NmKey1, Key1, key_bytes (ck_k1 new), key_bytes (ck_k1 old)),
     (NmKey2, Key2, key_bytes (ck_k2 new), key_bytes (ck_k2 old)),
     (NmKey3, Key3, key_bytes (ck_k3 new), key_bytes (ck_k3 old)),
     (NmKey4, Key4, key_bytes (ck_k4 new), key_bytes (ck_k4 old))]"

definition wipe_key_updates ::
    "CardKeys \<Rightarrow> (NonMasterKeyNumber \<times> KeyNumber \<times> bytes \<times> bytes) list" where
  "wipe_key_updates keys =
    [(NmKey1, Key1, FACTORY_KEY, key_bytes (ck_k1 keys)),
     (NmKey2, Key2, FACTORY_KEY, key_bytes (ck_k2 keys)),
     (NmKey3, Key3, FACTORY_KEY, key_bytes (ck_k3 keys)),
     (NmKey4, Key4, FACTORY_KEY, key_bytes (ck_k4 keys))]"

text \<open>The sections of \<open>burn\<close>: clear a live SDM configuration, write and verify the NDEF file,
  apply and verify the new settings, rotate the keys and re-authenticate.\<close>

definition burn_clear_sdm :: "('t, 'e) link \<Rightarrow> AuthSession \<Rightarrow> ('t, 'e Error, AuthSession) prog" where
  "burn_clear_sdm E session =
    bind_p (sess (auth_get_file_settings E session Ndef)) (\<lambda>(settings, s).
      if fv_sdm settings \<noteq> None
      then sess (auth_change_file_settings E s Ndef (without_sdm (into_update settings)))
      else return_p s)"

definition burn_write_ndef ::
    "('t, 'e) link \<Rightarrow> bytes \<Rightarrow> AuthSession \<Rightarrow> ('t, 'e Error, AuthSession) prog" where
  "burn_write_ndef E ndef session =
    bind_p (sess (write_file_plain E session Ndef 0 ndef)) (\<lambda>s.
      bind_p (sess (read_file_plain E s Ndef 0 (of_nat (length ndef)) 256)) (\<lambda>(read_back, s).
        if length read_back < length ndef \<or> take (length ndef) read_back \<noteq> ndef
        then throw_p (NdefVerificationFailed (length ndef) (length read_back))
        else return_p s))"

definition burn_apply_sdm ::
    "('t, 'e) link \<Rightarrow> Sdm \<Rightarrow> AuthSession \<Rightarrow> ('t, 'e Error, AuthSession) prog" where
  "burn_apply_sdm E sdm session =
    bind_p (sess (auth_get_file_settings E session Ndef)) (\<lambda>(settings, s).
      bind_p (sess (auth_change_file_settings E s Ndef
          (with_sdm (update_new (fv_comm_mode settings) burned_ndef_access_rights) sdm))) (\<lambda>s.
        bind_p (sess (auth_get_file_settings E s Ndef)) (\<lambda>(verify_settings, s).
          if fv_sdm verify_settings = None then throw_p SdmVerificationFailed else return_p s)))"

definition burn ::
    "('t, 'e) link \<Rightarrow> BurnParams \<Rightarrow> AesKey \<Rightarrow>
      ('t, 'e Error, bytes) prog" where
  "burn E params rnd_a =
    bind_p (lift_r (map_err ErSdmUrl
        (sdm_url_config (standardize_url_template (bp_lnurl params)) Aes burn_sdm_opts))) (\<lambda>plan.
    bind_p (sess (get_selected_uid E)) (\<lambda>uid.
    bind_p (sess (authenticate_aes E session_new Key0 (key_bytes (bp_current_key params)) (key_bytes rnd_a))) (\<lambda>s.
    bind_p (burn_clear_sdm E s) (\<lambda>s.
    bind_p (burn_write_ndef E (pl_ndef_bytes plan) s) (\<lambda>s.
    bind_p (burn_apply_sdm E (pl_sdm_settings plan) s) (\<lambda>s.
    bind_p (update_keys E (bp_key_version params)
        (burn_key_updates (bp_keys params) (bp_previous_keys params)) s) (\<lambda>s.
    bind_p (sess (auth_change_master_key E s (key_bytes (ck_k0 (bp_keys params))) (bp_key_version params))) (\<lambda>_.
    bind_p (sess (authenticate_aes E session_new Key0 (key_bytes (ck_k0 (bp_keys params))) (key_bytes rnd_a))) (\<lambda>s.
    bind_p (sess (auth_get_file_settings E s Ndef)) (\<lambda>(final_settings, _).
      if fv_sdm final_settings = None then throw_p SdmVerificationFailed
      else return_p (uid_to_fixed uid)))))))))))"

definition sdm_still_active :: "Sdm option \<Rightarrow> bool" where
  "sdm_still_active sdm =
    (case sdm of None \<Rightarrow> False | Some s \<Rightarrow> sdm_picc_data s \<noteq> PdNone \<or> sdm_file_read s \<noteq> None)"

definition wipe :: "('t, 'e) link \<Rightarrow> CardKeys \<Rightarrow> AesKey \<Rightarrow> ('t, 'e Error, bytes) prog" where
  "wipe E keys rnd_a =
    bind_p (sess (get_selected_uid E)) (\<lambda>uid.
    bind_p (sess (authenticate_aes E session_new Key0 (key_bytes (ck_k0 keys)) (key_bytes rnd_a))) (\<lambda>s.
    bind_p (sess (auth_get_file_settings E s Ndef)) (\<lambda>(settings, s).
    bind_p (sess (auth_change_file_settings E s Ndef
        (without_sdm (update_new (fv_comm_mode settings) factory_ndef_access_rights)))) (\<lambda>s.
    bind_p (sess (write_file_plain E s Ndef 0 [0x00, 0x00])) (\<lambda>s.
    bind_p (update_keys E KEY_VERSION_BLANK (wipe_key_updates keys) s) (\<lambda>s.
    bind_p (sess (auth_change_master_key E s FACTORY_KEY KEY_VERSION_BLANK)) (\<lambda>_.
    bind_p (sess (authenticate_aes E session_new Key0 FACTORY_KEY (key_bytes rnd_a))) (\<lambda>s.
    bind_p (sess (auth_get_file_settings E s Ndef)) (\<lambda>(final_settings, _).
      if sdm_still_active (fv_sdm final_settings) then throw_p SdmVerificationFailed
      else return_p (uid_to_fixed uid))))))))))"

fun read_versions ::
    "('t, 'e) link \<Rightarrow> KeyNumber list \<Rightarrow> AuthSession \<Rightarrow> ('t, 'e Error, bytes) prog" where
  "read_versions E [] session = return_p []"
| "read_versions E (kn # rest) session =
    bind_p (sess (auth_get_key_version E session kn)) (\<lambda>(v, s).
      bind_p (read_versions E rest s) (\<lambda>vs. return_p (v # vs)))"

definition check_key_versions ::
    "('t, 'e) link \<Rightarrow> AesKey \<Rightarrow> AesKey \<Rightarrow> ('t, 'e Error, bytes) prog" where
  "check_key_versions E key rnd_a =
    bind_p (sess (authenticate_aes E session_new Key0 (key_bytes key) (key_bytes rnd_a))) (\<lambda>session.
      read_versions E [Key0, Key1, Key2, Key3, Key4] session)"

section \<open>The contract of a card\<close>

record card =
  cd_uid :: bytes
  cd_keys :: "bytes list"
  cd_versions :: bytes
  cd_ndef :: bytes
  cd_settings :: FileSettingsView

definition apply_update :: "FileSettingsUpdate \<Rightarrow> FileSettingsView \<Rightarrow> FileSettingsView" where
  "apply_update u v = v\<lparr>fv_comm_mode := fu_comm_mode u, fv_access_rights := fu_access_rights u, fv_sdm := fu_sdm u\<rparr>"

definition update_ok :: "FileSettingsUpdate \<Rightarrow> bool" where
  "update_ok u = (case fu_sdm u of None \<Rightarrow> True | Some s \<Rightarrow> sdm_wire_ok s)"

definition key_index :: "KeyNumber \<Rightarrow> nat" where
  "key_index k = unat (key_as_byte k)"

definition set_key :: "nat \<Rightarrow> bytes \<Rightarrow> byte \<Rightarrow> card \<Rightarrow> card" where
  "set_key i k v c = c\<lparr>cd_keys := (cd_keys c)[i := k], cd_versions := (cd_versions c)[i := v]\<rparr>"

definition card_key_bytes :: "CardKeys \<Rightarrow> bytes list" where
  "card_key_bytes ks = map key_bytes [ck_k0 ks, ck_k1 ks, ck_k2 ks, ck_k3 ks, ck_k4 ks]"

definition keys_sized :: "CardKeys \<Rightarrow> bool" where
  "keys_sized ks = list_all (\<lambda>k. length k = 16) (card_key_bytes ks)"

text \<open>What burn and wipe promise: the card afterwards as a function of the card before.\<close>

definition burned_card :: "BurnParams \<Rightarrow> SdmUrlConfig \<Rightarrow> card \<Rightarrow> card" where
  "burned_card params plan c =
    c\<lparr>cd_keys := card_key_bytes (bp_keys params),
      cd_versions := replicate 5 (bp_key_version params),
      cd_ndef := pl_ndef_bytes plan @ drop (length (pl_ndef_bytes plan)) (cd_ndef c),
      cd_settings := (cd_settings c)\<lparr>fv_access_rights := burned_ndef_access_rights,
        fv_sdm := Some (pl_sdm_settings plan)\<rparr>\<rparr>"

definition wiped_card :: "card \<Rightarrow> card" where
  "wiped_card c =
    c\<lparr>cd_keys := replicate 5 FACTORY_KEY,
      cd_versions := replicate 5 KEY_VERSION_BLANK,
      cd_ndef := [0x00, 0x00] @ drop 2 (cd_ndef c),
      cd_settings := (cd_settings c)\<lparr>fv_access_rights := factory_ndef_access_rights, fv_sdm := None\<rparr>\<rparr>"

text \<open>One successful command of an authenticated session on the NDEF file or the keys.\<close>

inductive session_step :: "('t, 'e) link \<Rightarrow> ('t \<Rightarrow> card) \<Rightarrow> AuthSession \<times> 't \<Rightarrow> AuthSession \<times> 't \<Rightarrow> bool"
  for E :: "('t, 'e) link" and view :: "'t \<Rightarrow> card" where
  step_version: "auth_get_key_version E s kn t = Some (Inr (v, s'), t') \<Longrightarrow> session_step E view (s, t) (s', t')"
| step_settings: "auth_get_file_settings E s Ndef t = Some (Inr (v, s'), t') \<Longrightarrow> session_step E view (s, t) (s', t')"
| step_change_settings: "update_ok u \<Longrightarrow> auth_change_file_settings E s Ndef u t = Some (Inr s', t') \<Longrightarrow>
    session_step E view (s, t) (s', t')"
| step_write: "data \<noteq> [] \<Longrightarrow> length data \<le> 256 \<Longrightarrow> write_file_plain E s Ndef 0 data t = Some (Inr s', t') \<Longrightarrow>
    session_step E view (s, t) (s', t')"
| step_read: "0 < n \<Longrightarrow> n \<le> 256 \<Longrightarrow> n \<le> length (cd_ndef (view t)) \<Longrightarrow>
    read_file_plain E s Ndef 0 (of_nat n) 256 t = Some (Inr (d, s'), t') \<Longrightarrow> session_step E view (s, t) (s', t')"
| step_change_key: "length new = 16 \<Longrightarrow> cd_keys (view t) ! key_index (key_of_non_master nk) = old \<Longrightarrow>
    auth_change_key E s nk new v old t = Some (Inr s', t') \<Longrightarrow> session_step E view (s, t) (s', t')"

type_synonym ('t, 'e) step = "(('e Error, AuthSession) result \<times> 't) option"

locale ntag_card =
  fixes E :: "('t, 'e) link"
    and view :: "'t \<Rightarrow> card"
    and ready :: "'t \<Rightarrow> bool"
    and live :: "AuthSession \<Rightarrow> 't \<Rightarrow> bool"
  assumes live_ready: "live s t \<Longrightarrow> ready t"
    and shape: "ready t \<Longrightarrow> length (cd_uid (view t)) = 7 \<and> length (cd_keys (view t)) = 5 \<and> length (cd_versions (view t)) = 5"
    and uid: "ready t \<Longrightarrow> lk_get_uid E t = Some (Inr (cd_uid (view t)), t)"
    and authenticate: "ready t \<Longrightarrow> length rnd_a = 16 \<Longrightarrow> cd_keys (view t) ! key_index kn = key \<Longrightarrow>
      \<exists>s t'. authenticate_aes E session_new kn key rnd_a t = Some (Inr s, t') \<and> live s t' \<and> view t' = view t"
    and authenticate_any: "ready t \<Longrightarrow> length rnd_a = 16 \<Longrightarrow> length key = 16 \<Longrightarrow>
      \<exists>r t'. authenticate_aes E session_new kn key rnd_a t = Some (r, t') \<and> view t' = view t \<and> ready t'"
    and get_settings: "live s t \<Longrightarrow>
      \<exists>s' t'. auth_get_file_settings E s Ndef t = Some (Inr (cd_settings (view t), s'), t') \<and>
        live s' t' \<and> view t' = view t"
    and change_settings: "live s t \<Longrightarrow> update_ok u \<Longrightarrow>
      \<exists>s' t'. auth_change_file_settings E s Ndef u t = Some (Inr s', t') \<and> live s' t' \<and>
        view t' = (view t)\<lparr>cd_settings := apply_update u (cd_settings (view t))\<rparr>"
    and write_ndef: "live s t \<Longrightarrow> data \<noteq> [] \<Longrightarrow> length data \<le> 256 \<Longrightarrow>
      \<exists>s' t'. write_file_plain E s Ndef 0 data t = Some (Inr s', t') \<and> live s' t' \<and>
        view t' = (view t)\<lparr>cd_ndef := data @ drop (length data) (cd_ndef (view t))\<rparr>"
    and read_ndef: "live s t \<Longrightarrow> 0 < n \<Longrightarrow> n \<le> 256 \<Longrightarrow> n \<le> length (cd_ndef (view t)) \<Longrightarrow>
      \<exists>s' t'. read_file_plain E s Ndef 0 (of_nat n) 256 t = Some (Inr (take n (cd_ndef (view t)), s'), t') \<and>
        live s' t' \<and> view t' = view t"
    and change_key_ok: "live s t \<Longrightarrow> length new = 16 \<Longrightarrow> i = key_index (key_of_non_master nk) \<Longrightarrow>
      cd_keys (view t) ! i = old \<Longrightarrow>
      \<exists>s' t'. auth_change_key E s nk new v old t = Some (Inr s', t') \<and> live s' t' \<and>
        view t' = set_key i new v (view t)"
    and key_version: "live s t \<Longrightarrow>
      \<exists>s' t'. auth_get_key_version E s kn t = Some (Inr (cd_versions (view t) ! key_index kn, s'), t') \<and>
        live s' t' \<and> view t' = view t"
    and change_master: "live s t \<Longrightarrow> length new = 16 \<Longrightarrow>
      \<exists>s' t'. auth_change_master_key E s new v t = Some (Inr s', t') \<and> ready t' \<and>
        view t' = set_key 0 new v (view t)"
begin

lemma sess_ok: "m t = Some (Inr a, t') \<Longrightarrow> sess m t = Some (Inr a, t')"
  by (simp add: sess_def map_err_p_ok)

lemma selected_uid: "ready t \<Longrightarrow> get_selected_uid E t = Some (Inr (UidFixed (cd_uid (view t))), t)"
  by (simp add: get_selected_uid_def bind_p_def map_err_p_def uid shape)

lemma key_index_simps:
  "key_index Key0 = 0" "key_index Key1 = 1" "key_index Key2 = 2" "key_index Key3 = 3" "key_index Key4 = 4"
  by (simp_all add: key_index_def key_as_byte_def)

lemma key_index_lt: "key_index k < 5"
  by (cases k) (simp_all add: key_index_def key_as_byte_def)

lemma update_one_key:
  assumes "live s t" "length new = 16" "kn = key_of_non_master nk"
    "cd_keys (view t) ! key_index kn = old"
  shows "\<exists>s' t'. update_keys E v ((nk, kn, new, old) # rest) s t = update_keys E v rest s' t' \<and>
    live s' t' \<and> view t' = set_key (key_index kn) new v (view t)"
proof -
  obtain s1 t1 where 1: "auth_change_key E s nk new v old t = Some (Inr s1, t1)" "live s1 t1"
    "view t1 = set_key (key_index kn) new v (view t)"
    using change_key_ok assms by metis
  obtain s2 t2 where 2: "auth_get_key_version E s1 kn t1 =
      Some (Inr (cd_versions (view t1) ! key_index kn, s2), t2)" "live s2 t2" "view t2 = view t1"
    using key_version [OF 1(2)] by metis
  have "cd_versions (view t1) ! key_index kn = v"
    using 1(3) shape [OF live_ready [OF assms(1)]] key_index_lt [of kn] by (simp add: set_key_def)
  then have "update_keys E v ((nk, kn, new, old) # rest) s t = update_keys E v rest s2 t2"
    by (simp add: update_keys.simps bind_p_def sess_ok 1(1) 2(1))
  then show ?thesis
    using 1 2 by metis
qed

lemma update_four_keys:
  assumes "live s t" "length n1 = 16" "length n2 = 16" "length n3 = 16" "length n4 = 16"
    "cd_keys (view t) = [k0, o1, o2, o3, o4]"
  shows "\<exists>s' t'. (update_keys E v :: _ \<Rightarrow> _ \<Rightarrow> ('t, 'e Error, AuthSession) prog) [(NmKey1, Key1, n1, o1), (NmKey2, Key2, n2, o2),
      (NmKey3, Key3, n3, o3), (NmKey4, Key4, n4, o4)] s t = Some (Inr s', t') \<and> live s' t' \<and>
    view t' = (view t)\<lparr>cd_keys := [k0, n1, n2, n3, n4],
      cd_versions := cd_versions (view t) ! 0 # replicate 4 v\<rparr>"
proof -
  let ?upd = "update_keys E v :: _ \<Rightarrow> _ \<Rightarrow> ('t, 'e Error, AuthSession) prog"
  obtain v0 v1 v2 v3 v4 where vs: "cd_versions (view t) = [v0, v1, v2, v3, v4]"
    using shape [OF live_ready [OF assms(1)]]
    by (auto simp: eval_nat_numeral length_Suc_conv)
  note idx = key_index_simps key_of_non_master_def
  obtain s1 t1 where 1: "?upd [(NmKey1, Key1, n1, o1), (NmKey2, Key2, n2, o2),
      (NmKey3, Key3, n3, o3), (NmKey4, Key4, n4, o4)] s t =
      ?upd [(NmKey2, Key2, n2, o2), (NmKey3, Key3, n3, o3), (NmKey4, Key4, n4, o4)] s1 t1"
    "live s1 t1" "view t1 = set_key 1 n1 v (view t)"
    using update_one_key [of s t n1 Key1 NmKey1 o1 v "[(NmKey2, Key2, n2, o2), (NmKey3, Key3, n3, o3), (NmKey4, Key4, n4, o4)]"] assms by (auto simp: idx)
  obtain s2 t2 where 2: "?upd [(NmKey2, Key2, n2, o2), (NmKey3, Key3, n3, o3),
      (NmKey4, Key4, n4, o4)] s1 t1 = ?upd [(NmKey3, Key3, n3, o3), (NmKey4, Key4, n4, o4)] s2 t2"
    "live s2 t2" "view t2 = set_key 2 n2 v (view t1)"
    using update_one_key [of s1 t1 n2 Key2 NmKey2 o2 v "[(NmKey3, Key3, n3, o3), (NmKey4, Key4, n4, o4)]"] 1 assms by (auto simp: idx set_key_def)
  obtain s3 t3 where 3: "?upd [(NmKey3, Key3, n3, o3), (NmKey4, Key4, n4, o4)] s2 t2 =
      ?upd [(NmKey4, Key4, n4, o4)] s3 t3"
    "live s3 t3" "view t3 = set_key 3 n3 v (view t2)"
    using update_one_key [of s2 t2 n3 Key3 NmKey3 o3 v "[(NmKey4, Key4, n4, o4)]"] 1 2 assms by (auto simp: idx set_key_def)
  obtain s4 t4 where 4: "?upd [(NmKey4, Key4, n4, o4)] s3 t3 = ?upd [] s4 t4"
    "live s4 t4" "view t4 = set_key 4 n4 v (view t3)"
    using update_one_key [of s3 t3 n4 Key4 NmKey4 o4 v "[]"] 1 2 3 assms by (auto simp: idx set_key_def)
  have "view t4 = (view t)\<lparr>cd_keys := [k0, n1, n2, n3, n4],
      cd_versions := cd_versions (view t) ! 0 # replicate 4 v\<rparr>"
    using 1(3) 2(3) 3(3) 4(3) assms(6) vs by (simp add: set_key_def eval_nat_numeral)
  then show ?thesis
    using 4(2) unfolding 1(1) 2(1) 3(1) 4(1) by (auto simp: update_keys.simps)
qed

lemma clear_sdm_ok:
  assumes "live s t"
  shows "\<exists>s' t'. burn_clear_sdm E s t = Some (Inr s', t') \<and> live s' t' \<and>
    view t' = (view t)\<lparr>cd_settings := (cd_settings (view t))\<lparr>fv_sdm := None\<rparr>\<rparr>"
proof -
  obtain s1 t1 where 1: "auth_get_file_settings E s Ndef t = Some (Inr (cd_settings (view t), s1), t1)"
    "live s1 t1" "view t1 = view t"
    using get_settings [OF assms] by metis
  let ?u = "without_sdm (into_update (cd_settings (view t)))"
  obtain s2 t2 where 2: "auth_change_file_settings E s1 Ndef ?u t1 = Some (Inr s2, t2)" "live s2 t2"
    "view t2 = (view t1)\<lparr>cd_settings := apply_update ?u (cd_settings (view t1))\<rparr>"
    using change_settings [OF 1(2), of ?u] by (auto simp: update_ok_def without_sdm_def)
  have "apply_update ?u (cd_settings (view t)) = (cd_settings (view t))\<lparr>fv_sdm := None\<rparr>"
    by (simp add: apply_update_def without_sdm_def into_update_def Let_def update_new_def with_sdm_def
        split: option.splits)
  then show ?thesis
    using 1 2 by (cases "fv_sdm (cd_settings (view t)) = None")
      (simp_all add: burn_clear_sdm_def bind_p_def sess_ok)
qed

lemma write_verified:
  assumes "live s t" "ndef \<noteq> []" "length ndef \<le> 256"
  shows "\<exists>s' t'. burn_write_ndef E ndef s t = Some (Inr s', t') \<and> live s' t' \<and>
    view t' = (view t)\<lparr>cd_ndef := ndef @ drop (length ndef) (cd_ndef (view t))\<rparr>"
proof -
  obtain s1 t1 where 1: "write_file_plain E s Ndef 0 ndef t = Some (Inr s1, t1)" "live s1 t1"
    "view t1 = (view t)\<lparr>cd_ndef := ndef @ drop (length ndef) (cd_ndef (view t))\<rparr>"
    using write_ndef assms by metis
  have "length ndef \<le> length (cd_ndef (view t1))" "take (length ndef) (cd_ndef (view t1)) = ndef"
    using 1(3) by simp_all
  then obtain s2 t2 where "read_file_plain E s1 Ndef 0 (of_nat (length ndef)) 256 t1 =
      Some (Inr (ndef, s2), t2)" "live s2 t2" "view t2 = view t1"
    using read_ndef [OF 1(2), of "length ndef"] assms by (metis length_greater_0_conv)
  then show ?thesis
    using 1 by (simp add: burn_write_ndef_def bind_p_def sess_ok)
qed

lemma apply_sdm_ok:
  assumes "live s t" "sdm_wire_ok sdm"
  shows "\<exists>s' t'. burn_apply_sdm E sdm s t = Some (Inr s', t') \<and> live s' t' \<and>
    view t' = (view t)\<lparr>cd_settings := (cd_settings (view t))
      \<lparr>fv_access_rights := burned_ndef_access_rights, fv_sdm := Some sdm\<rparr>\<rparr>"
proof -
  obtain s1 t1 where 1: "auth_get_file_settings E s Ndef t = Some (Inr (cd_settings (view t), s1), t1)"
    "live s1 t1" "view t1 = view t"
    using get_settings [OF assms(1)] by metis
  let ?u = "with_sdm (update_new (fv_comm_mode (cd_settings (view t))) burned_ndef_access_rights) sdm"
  obtain s2 t2 where 2: "auth_change_file_settings E s1 Ndef ?u t1 = Some (Inr s2, t2)" "live s2 t2"
    "view t2 = (view t1)\<lparr>cd_settings := apply_update ?u (cd_settings (view t1))\<rparr>"
    using change_settings [OF 1(2), of ?u] assms(2) by (auto simp: update_ok_def with_sdm_def)
  obtain s3 t3 where 3: "auth_get_file_settings E s2 Ndef t2 = Some (Inr (cd_settings (view t2), s3), t3)"
    "live s3 t3" "view t3 = view t2"
    using get_settings [OF 2(2)] by metis
  have "apply_update ?u (cd_settings (view t)) =
      (cd_settings (view t))\<lparr>fv_access_rights := burned_ndef_access_rights, fv_sdm := Some sdm\<rparr>"
    by (simp add: apply_update_def update_new_def with_sdm_def)
  then show ?thesis
    using 1 2 3 by (simp add: burn_apply_sdm_def bind_p_def sess_ok)
qed

lemma reauth_settings:
  assumes "ready t" "length rnd_a = 16" "cd_keys (view t) ! 0 = key"
  shows "\<exists>s t1 s' t'. authenticate_aes E session_new Key0 key rnd_a t = Some (Inr s, t1) \<and>
    auth_get_file_settings E s Ndef t1 = Some (Inr (cd_settings (view t), s'), t') \<and>
    live s' t' \<and> view t' = view t"
proof -
  obtain s t1 where "authenticate_aes E session_new Key0 key rnd_a t = Some (Inr s, t1)" "live s t1"
    "view t1 = view t"
    using authenticate [OF assms(1,2), of Key0 key] assms(3) by (auto simp: key_index_def key_as_byte_def)
  then show ?thesis
    using get_settings by metis
qed

lemma master_key_version:
  assumes "live s t" "length new = 16" "cd_keys (view t) = [k0, k1, k2, k3, k4]"
    "cd_versions (view t) = v0 # replicate 4 v"
  shows "\<exists>s' t'. auth_change_master_key E s new v t = Some (Inr s', t') \<and> ready t' \<and>
    view t' = (view t)\<lparr>cd_keys := [new, k1, k2, k3, k4], cd_versions := replicate 5 v\<rparr>"
proof -
  obtain s' t' where "auth_change_master_key E s new v t = Some (Inr s', t')" "ready t'"
    "view t' = set_key 0 new v (view t)"
    using change_master [OF assms(1,2)] by metis
  then show ?thesis
    using assms(3,4) by (simp add: set_key_def eval_nat_numeral)
qed

lemma burn_ok:
  assumes "ready t" "length (key_bytes rnd_a) = 16"
    and plan: "sdm_url_config (standardize_url_template (bp_lnurl params)) Aes burn_sdm_opts = Inr plan"
    and keys: "keys_sized (bp_keys params)"
      "cd_keys (view t) = key_bytes (bp_current_key params) # tl (card_key_bytes (bp_previous_keys params))"
  shows "\<exists>t'. burn E params rnd_a t = Some (Inr (cd_uid (view t)), t') \<and> ready t' \<and>
    view t' = burned_card params plan (view t)"
proof -
  let ?n = "bp_keys params" and ?o = "bp_previous_keys params" and ?v = "bp_key_version params"
  have len: "length (key_bytes (ck_k0 ?n)) = 16" "length (key_bytes (ck_k1 ?n)) = 16"
    "length (key_bytes (ck_k2 ?n)) = 16" "length (key_bytes (ck_k3 ?n)) = 16" "length (key_bytes (ck_k4 ?n)) = 16"
    using keys(1) by (simp_all add: keys_sized_def card_key_bytes_def)
  have ok: "pl_ndef_bytes plan \<noteq> []" "length (pl_ndef_bytes plan) \<le> 256" "sdm_wire_ok (pl_sdm_settings plan)"
    using sdm_url_config_plan_ok [OF plan] by (simp_all add: plan_ok_def)
  obtain s1 t1 where 1: "authenticate_aes E session_new Key0 (key_bytes (bp_current_key params)) (key_bytes rnd_a) t =
      Some (Inr s1, t1)" "live s1 t1" "view t1 = view t"
    using authenticate [OF assms(1,2), of Key0] keys(2) by (fastforce simp: key_index_simps)
  obtain s2 t2 where 2: "burn_clear_sdm E s1 t1 = (Some (Inr s2, t2) :: ('t, 'e) step)" "live s2 t2"
    "view t2 = (view t1)\<lparr>cd_settings := (cd_settings (view t1))\<lparr>fv_sdm := None\<rparr>\<rparr>"
    using clear_sdm_ok [OF 1(2)] by metis
  obtain s3 t3 where 3: "burn_write_ndef E (pl_ndef_bytes plan) s2 t2 = (Some (Inr s3, t3) :: ('t, 'e) step)" "live s3 t3"
    "view t3 = (view t2)\<lparr>cd_ndef := pl_ndef_bytes plan @ drop (length (pl_ndef_bytes plan)) (cd_ndef (view t2))\<rparr>"
    using write_verified [OF 2(2)] ok by metis
  obtain s4 t4 where 4: "burn_apply_sdm E (pl_sdm_settings plan) s3 t3 = (Some (Inr s4, t4) :: ('t, 'e) step)" "live s4 t4"
    "view t4 = (view t3)\<lparr>cd_settings := (cd_settings (view t3))
      \<lparr>fv_access_rights := burned_ndef_access_rights, fv_sdm := Some (pl_sdm_settings plan)\<rparr>\<rparr>"
    using apply_sdm_ok [OF 3(2)] ok by metis
  have "cd_keys (view t4) = [key_bytes (bp_current_key params), key_bytes (ck_k1 ?o), key_bytes (ck_k2 ?o),
      key_bytes (ck_k3 ?o), key_bytes (ck_k4 ?o)]"
    using 1(3) 2(3) 3(3) 4(3) keys(2) by (simp add: card_key_bytes_def)
  then obtain s5 t5 where 5: "update_keys E ?v (burn_key_updates ?n ?o) s4 t4 = (Some (Inr s5, t5) :: ('t, 'e) step)" "live s5 t5"
    "view t5 = (view t4)\<lparr>cd_keys := [key_bytes (bp_current_key params), key_bytes (ck_k1 ?n), key_bytes (ck_k2 ?n),
      key_bytes (ck_k3 ?n), key_bytes (ck_k4 ?n)], cd_versions := cd_versions (view t4) ! 0 # replicate 4 ?v\<rparr>"
    using update_four_keys [OF 4(2) len(2-5)] unfolding burn_key_updates_def by metis
  obtain s6 t6 where 6: "auth_change_master_key E s5 (key_bytes (ck_k0 ?n)) ?v t5 = Some (Inr s6, t6)" "ready t6"
    "view t6 = (view t5)\<lparr>cd_keys := card_key_bytes ?n, cd_versions := replicate 5 ?v\<rparr>"
    using master_key_version [OF 5(2) len(1)] 5(3) by (fastforce simp: card_key_bytes_def)
  obtain s7 t7 s8 t8 where 7: "authenticate_aes E session_new Key0 (key_bytes (ck_k0 ?n)) (key_bytes rnd_a) t6 =
      Some (Inr s7, t7)" "auth_get_file_settings E s7 Ndef t7 = Some (Inr (cd_settings (view t6), s8), t8)"
    "live s8 t8" "view t8 = view t6"
    using reauth_settings [OF 6(2) assms(2)] 6(3) by (fastforce simp: card_key_bytes_def)
  have "view t6 = burned_card params plan (view t)"
    using 1(3) 2(3) 3(3) 4(3) 5(3) 6(3) by (simp add: burned_card_def)
  moreover have "burn E params rnd_a t = Some (Inr (cd_uid (view t)), t8)"
    using plan 1(1) 2(1) 3(1) 4(1) 5(1) 6(1) 7(1,2) calculation selected_uid [OF assms(1)]
    by (simp add: burn_def bind_p_def sess_ok uid_to_fixed_def burned_card_def)
  ultimately show ?thesis
    using 7 live_ready by metis
qed

lemma wipe_ok:
  assumes "ready t" "length (key_bytes rnd_a) = 16" "cd_keys (view t) = card_key_bytes keys"
  shows "\<exists>t'. wipe E keys rnd_a t = Some (Inr (cd_uid (view t)) :: ('e Error, bytes) result, t') \<and>
    ready t' \<and> view t' = wiped_card (view t)"
proof -
  let ?u = "without_sdm (update_new (fv_comm_mode (cd_settings (view t))) factory_ndef_access_rights)"
  have fk: "length FACTORY_KEY = 16"
    by (simp add: FACTORY_KEY_def)
  obtain s1 t1 s2 t2 where 1: "authenticate_aes E session_new Key0 (key_bytes (ck_k0 keys)) (key_bytes rnd_a) t =
      Some (Inr s1, t1)" "auth_get_file_settings E s1 Ndef t1 = Some (Inr (cd_settings (view t), s2), t2)"
    "live s2 t2" "view t2 = view t"
    using reauth_settings [OF assms(1,2)] assms(3) by (fastforce simp: card_key_bytes_def)
  obtain s3 t3 where 3: "auth_change_file_settings E s2 Ndef ?u t2 = Some (Inr s3, t3)" "live s3 t3"
    "view t3 = (view t2)\<lparr>cd_settings := apply_update ?u (cd_settings (view t2))\<rparr>"
    using change_settings [OF 1(3), of ?u] by (auto simp: update_ok_def without_sdm_def)
  obtain s4 t4 where 4: "write_file_plain E s3 Ndef 0 [0x00, 0x00] t3 = Some (Inr s4, t4)" "live s4 t4"
    "view t4 = (view t3)\<lparr>cd_ndef := [0x00, 0x00] @ drop 2 (cd_ndef (view t3))\<rparr>"
    using write_ndef [OF 3(2), of "[0, 0]"] by (auto simp: numeral_2_eq_2)
  have k4: "cd_keys (view t4) = [key_bytes (ck_k0 keys), key_bytes (ck_k1 keys), key_bytes (ck_k2 keys),
      key_bytes (ck_k3 keys), key_bytes (ck_k4 keys)]"
    using 1(4) 3(3) 4(3) assms(3) by (simp add: card_key_bytes_def)
  obtain s5 t5 where 5: "update_keys E KEY_VERSION_BLANK (wipe_key_updates keys) s4 t4 =
      (Some (Inr s5, t5) :: ('t, 'e) step)" "live s5 t5"
    "view t5 = (view t4)\<lparr>cd_keys := key_bytes (ck_k0 keys) # replicate 4 FACTORY_KEY,
      cd_versions := cd_versions (view t4) ! 0 # replicate 4 KEY_VERSION_BLANK\<rparr>"
    using update_four_keys [OF 4(2) fk fk fk fk k4, of KEY_VERSION_BLANK]
    by (auto simp: wipe_key_updates_def eval_nat_numeral)
  obtain s6 t6 where 6: "auth_change_master_key E s5 FACTORY_KEY KEY_VERSION_BLANK t5 = Some (Inr s6, t6)"
    "ready t6" "view t6 = (view t5)\<lparr>cd_keys := replicate 5 FACTORY_KEY, cd_versions := replicate 5 KEY_VERSION_BLANK\<rparr>"
    using master_key_version [OF 5(2) fk, of "key_bytes (ck_k0 keys)" FACTORY_KEY FACTORY_KEY FACTORY_KEY FACTORY_KEY] 5(3)
    by (auto simp: eval_nat_numeral)
  obtain s7 t7 s8 t8 where 7: "authenticate_aes E session_new Key0 FACTORY_KEY (key_bytes rnd_a) t6 =
      Some (Inr s7, t7)" "auth_get_file_settings E s7 Ndef t7 = Some (Inr (cd_settings (view t6), s8), t8)"
    "live s8 t8" "view t8 = view t6"
    using reauth_settings [OF 6(2) assms(2), of FACTORY_KEY] 6(3) by auto
  have v: "view t6 = wiped_card (view t)"
    using 1(4) 3(3) 4(3) 5(3) 6(3)
    by (simp add: wiped_card_def apply_update_def without_sdm_def update_new_def)
  then have "\<not> sdm_still_active (fv_sdm (cd_settings (view t6)))"
    by (simp add: wiped_card_def sdm_still_active_def)
  then have "wipe E keys rnd_a t = Some (Inr (cd_uid (view t)) :: ('e Error, bytes) result, t8)"
    using 1(1,2) 3(1) 4(1) 5(1) 6(1) 7(1,2) selected_uid [OF assms(1)]
    by (simp add: wipe_def bind_p_def sess_ok uid_to_fixed_def)
  then show ?thesis
    using 7 v live_ready by metis
qed

lemma read_versions_ok:
  "live s t \<Longrightarrow> \<exists>t'. read_versions E kns s t =
      Some (Inr (map (\<lambda>k. cd_versions (view t) ! key_index k) kns) :: ('e Error, bytes) result, t') \<and>
    ready t' \<and> view t' = view t"
proof (induction kns arbitrary: s t)
  case Nil
  then show ?case
    by (simp add: live_ready)
next
  case (Cons k kns)
  obtain s1 t1 where 1: "auth_get_key_version E s k t = Some (Inr (cd_versions (view t) ! key_index k, s1), t1)"
    "live s1 t1" "view t1 = view t"
    using key_version [OF Cons.prems] by metis
  show ?case
    using Cons.IH [OF 1(2)] 1 by (auto simp: bind_p_def sess_ok)
qed

lemma check_key_versions_ok:
  assumes "ready t" "length (key_bytes rnd_a) = 16" "cd_keys (view t) ! 0 = key_bytes key"
  shows "\<exists>t'. check_key_versions E key rnd_a t =
      Some (Inr (cd_versions (view t)) :: ('e Error, bytes) result, t') \<and> ready t' \<and> view t' = view t"
proof -
  obtain s t1 where 1: "authenticate_aes E session_new Key0 (key_bytes key) (key_bytes rnd_a) t = Some (Inr s, t1)"
    "live s t1" "view t1 = view t"
    using authenticate [OF assms(1,2), of Key0] assms(3) by (fastforce simp: key_index_simps)
  have "map (\<lambda>k. cd_versions (view t) ! key_index k) [Key0, Key1, Key2, Key3, Key4] = cd_versions (view t)"
    using shape [OF assms(1)] by (auto simp: key_index_simps eval_nat_numeral length_Suc_conv)
  then show ?thesis
    using read_versions_ok [OF 1(2), of "[Key0, Key1, Key2, Key3, Key4]"] 1
    by (auto simp: check_key_versions_def bind_p_def sess_ok simp del: read_versions.simps)
qed

text \<open>A card that does not accept the key offered is left as it was.\<close>

lemma refused_unchanged:
  assumes "ready t" "length rnd_a = 16" "length key = 16"
    and "authenticate_aes E session_new Key0 key rnd_a t = Some (Inl e, t')"
  shows "view t' = view t" "ready t'"
  using authenticate_any [OF assms(1-3), of Key0] assms(4) by auto

lemma burn_refused:
  assumes "ready t" "length (key_bytes rnd_a) = 16" "length (key_bytes (bp_current_key params)) = 16"
    and "sdm_url_config (standardize_url_template (bp_lnurl params)) Aes burn_sdm_opts = Inr plan"
    and "authenticate_aes E session_new Key0 (key_bytes (bp_current_key params)) (key_bytes rnd_a) t = Some (Inl e, t')"
  shows "burn E params rnd_a t = Some (Inl (from_session_error e), t')" "view t' = view t" "ready t'"
  using assms(4,5) selected_uid [OF assms(1)] refused_unchanged [OF assms(1-3,5)]
  by (simp_all add: burn_def bind_p_def sess_def map_err_p_def)

lemma wipe_refused:
  assumes "ready t" "length (key_bytes rnd_a) = 16" "length (key_bytes (ck_k0 keys)) = 16"
    and "authenticate_aes E session_new Key0 (key_bytes (ck_k0 keys)) (key_bytes rnd_a) t = Some (Inl e, t')"
  shows "wipe E keys rnd_a t = Some (Inl (from_session_error e), t')" "view t' = view t" "ready t'"
  using assms(4) selected_uid [OF assms(1)] refused_unchanged [OF assms(1-3,4)]
  by (simp_all add: wipe_def bind_p_def sess_def map_err_p_def)

text \<open>Commands keep a session live.\<close>

lemma step_live: "session_step E view x y \<Longrightarrow> live (fst x) (snd x) \<Longrightarrow> live (fst y) (snd y)"
proof (induction rule: session_step.induct)
  case (step_version s kn t v s' t')
  then show ?case using key_version [of s t kn] by auto
next
  case (step_settings s t v s' t')
  then show ?case using get_settings [of s t] by auto
next
  case (step_change_settings u s t s' t')
  then show ?case using change_settings [of s t u] by auto
next
  case (step_write data s t s' t')
  then show ?case using write_ndef [of s t data] by auto
next
  case (step_read n t s d s' t')
  then show ?case using read_ndef [of s t n] by auto
next
  case (step_change_key new t nk old s v s' t')
  then show ?case using change_key_ok [of s t new _ nk old v] by fastforce
qed

lemma steps_live: "(session_step E view)\<^sup>*\<^sup>* (s, t) (s', t') \<Longrightarrow> live s t \<Longrightarrow> live s' t'"
  by (induction rule: rtranclp_induct2) (auto dest: step_live)

end

end
