(* ===== verification/NdefUri.thy ===== *)
theory NdefUri
  imports SdmUrl Picc
begin

text \<open>
  The NDEF URI reader of \<open>bolty-ntag/src/lib.rs\<close> and its composition with the planner and the
  tap verification: what burn writes is read back as the template's URL, and once a card has mirrored
  its data into the planned places, the URL read from the file verifies and yields the card's
  identifier and counter.
\<close>

record NdefUri =
  nu_url :: string
  nu_picc_hex :: "string option"
  nu_mac_hex :: "string option"

definition URI_PREFIXES :: "string list" where
  "URI_PREFIXES =
    ['''', ''http://www.'', ''https://www.'', ''http://'', ''https://'', ''tel:'', ''mailto:'',
     ''ftp://anonymous:anonymous@'', ''ftp://ftp.'', ''ftps://'', ''sftp://'', ''smb://'', ''nfs://'',
     ''ftp://'', ''dav://'', ''news:'', ''telnet://'', ''imap:'', ''rtsp://'', ''urn:'', ''pop:'', ''sip:'',
     ''sips:'', ''tftp:'', ''btspp://'', ''btl2cap://'', ''btgoep://'', ''tcpobex://'', ''irdaobex://'',
     ''file://'', ''urn:epc:id:'', ''urn:epc:tag:'', ''urn:epc:pat:'', ''urn:epc:raw:'', ''urn:epc:'', ''urn:nfc:'']"

text \<open>\<open>from_be_bytes\<close>, \<open>slice.get(a..b)\<close>, \<open>from_utf8(..).ok()\<close> and \<open>trim_end_matches\<close>.\<close>

definition be_nat :: "bytes \<Rightarrow> nat" where
  "be_nat bs = foldl (\<lambda>acc b. acc * 256 + unat b) 0 bs"

definition get_range :: "nat \<Rightarrow> nat \<Rightarrow> 'a list \<Rightarrow> 'a list option" where
  "get_range a b xs = (if a \<le> b \<and> b \<le> length xs then Some (slice a b xs) else None)"

definition from_utf8 :: "bytes \<Rightarrow> string option" where
  "from_utf8 bs = (if utf8_valid bs then Some (str_of_bytes bs) else None)"

definition trim_end_nul :: "string \<Rightarrow> string" where
  "trim_end_nul s = rev (dropWhile (\<lambda>c. c = CHR 0x00) (rev s))"

definition ndef_payload_len :: "bool \<Rightarrow> bytes \<Rightarrow> nat option" where
  "ndef_payload_len sr msg =
    (if sr then map_option unat (get_byte msg 2) else map_option be_nat (get_range 2 6 msg))"

definition ndef_payload_offset :: "bool \<Rightarrow> nat \<Rightarrow> bytes \<Rightarrow> nat option" where
  "ndef_payload_offset il off msg =
    (if il then map_option (\<lambda>id_len. off + 1 + unat id_len) (get_byte msg off) else Some off)"

text \<open>The record inside the message, then the URI inside the payload.\<close>

definition ndef_uri_payload :: "bytes \<Rightarrow> bytes option" where
  "ndef_uri_payload msg =
    Option.bind (get_byte msg 0) (\<lambda>flags.
    let sr = (flags AND 0x10 \<noteq> 0); il = (flags AND 0x08 \<noteq> 0) in
    Option.bind (get_byte msg 1) (\<lambda>type_len.
    let header_len = (if sr then 3 else 6) in
    Option.bind (ndef_payload_len sr msg) (\<lambda>payload_len.
    if unat type_len \<noteq> 1 then None
    else Option.bind (get_byte msg header_len) (\<lambda>ty.
      if ty \<noteq> 0x55 then None
      else Option.bind (ndef_payload_offset il (header_len + unat type_len) msg) (\<lambda>payload_offset.
        get_range payload_offset (payload_offset + payload_len) msg)))))"

definition ndef_uri_of_payload :: "bytes \<Rightarrow> NdefUri option" where
  "ndef_uri_of_payload payload =
    Option.bind (get_byte payload 0) (\<lambda>prefix_code.
    Option.bind (get_byte URI_PREFIXES (unat prefix_code)) (\<lambda>prefix.
    Option.bind (from_utf8 (drop 1 payload)) (\<lambda>uri.
      let uri_str = trim_end_nul uri;
          url = prefix @ uri_str
      in Some (case extract_p_and_c uri_str of
          Some (p, c) \<Rightarrow> \<lparr>nu_url = url, nu_picc_hex = Some p, nu_mac_hex = Some c\<rparr>
        | None \<Rightarrow> \<lparr>nu_url = url, nu_picc_hex = None, nu_mac_hex = None\<rparr>))))"

definition parse_ndef_uri :: "bytes \<Rightarrow> NdefUri option" where
  "parse_ndef_uri data =
    (if length data < 4 then None
     else let nlen = be_nat (take 2 data)
      in if nlen < 5 \<or> length data < 2 + nlen then None
         else Option.bind (get_range 2 (2 + nlen) data) (\<lambda>msg.
           Option.bind (ndef_uri_payload msg) ndef_uri_of_payload))"

section \<open>Reading back a planned file\<close>

lemma ndef_header_len:
  assumes "n \<le> 255"
  shows "be_nat (take 2 (ndef_header n code)) = 4 + n"
proof -
  have "unat (of_nat (4 + n) :: u16) = 4 + n"
    using assms by (simp add: unat_of_nat del: of_nat_add of_nat_numeral)
  moreover have "unat (ucast (drop_bit 8 w) :: byte) = unat w div 256" "unat (ucast w :: byte) = unat w mod 256" for w :: u16
  proof -
    have "unat w < 65536"
      using unsigned_less [of w] by simp
    then have "unat w div 256 < 256"
      by linarith
    then show "unat (ucast (drop_bit 8 w) :: byte) = unat w div 256"
      by (simp add: unsigned_ucast_eq take_bit_eq_mod drop_bit_eq_div unat_div)
  qed (simp add: unsigned_ucast_eq take_bit_eq_mod)
  ultimately show ?thesis
    using assms by (simp add: ndef_header_def Let_def be_nat_def del: of_nat_add of_nat_numeral)
qed

lemma parse_ndef_uri_header:
  assumes "length content \<le> 254"
  shows "parse_ndef_uri (ndef_header (1 + length content) code @ content @ padding) = ndef_uri_of_payload (code # content)"
proof -
  let ?h = "ndef_header (1 + length content) code"
  let ?msg = "0xD1 # 0x01 # of_nat (1 + length content) # 0x55 # code # content"
  have h: "length ?h = 7" "drop 2 ?h = [0xD1, 0x01, of_nat (1 + length content), 0x55, code]"
    by (simp_all add: ndef_header_def Let_def)
  have n: "be_nat (take 2 (?h @ content @ padding)) = 5 + length content"
    using ndef_header_len [of "1 + length content" code] assms h(1) by simp
  have "get_range 2 (2 + (5 + length content)) (?h @ content @ padding) = Some ?msg"
    using h by (simp add: get_range_def slice_def numeral_eq_Suc)
  moreover have "unat (of_nat (1 + length content) :: byte) = 1 + length content"
    using assms by (simp add: unat_of_nat del: of_nat_add of_nat_Suc)
  then have "ndef_uri_payload ?msg = Some (code # content)"
    by (simp add: ndef_uri_payload_def ndef_payload_len_def ndef_payload_offset_def get_byte_def get_range_def slice_def Let_def
        del: of_nat_add of_nat_Suc)
  ultimately show ?thesis
    using n h(1) by (simp add: parse_ndef_uri_def)
qed

lemma prefix_tables_agree:
  "list_all (\<lambda>(code, prefix). get_byte URI_PREFIXES (unat code) = Some prefix) ((0x00, '''') # NDEF_URI_PREFIXES)"
  by code_simp

lemma detected_prefix:
  assumes "detect_uri_prefix (as_bytes url) = (code, n)"
  shows "get_byte URI_PREFIXES (unat code) = Some (take n url)"
proof -
  consider "code = 0" "n = 0" | prefix where "(code, prefix) \<in> set NDEF_URI_PREFIXES" "n = length prefix"
    "as_bytes (take n url) = as_bytes prefix"
    using detect_prefix_in_table [of NDEF_URI_PREFIXES "as_bytes url" code n] assms
    by (auto simp: detect_uri_prefix_def as_bytes_def take_map)
  then show ?thesis
  proof cases
    case 2
    then have "take n url = prefix"
      by (metis str_of_bytes_as_bytes)
    then show ?thesis
      using 2(1) prefix_tables_agree by (auto simp: list_all_iff)
  qed (use prefix_tables_agree in simp)
qed


section \<open>A tapped card\<close>

text \<open>What a card does to its file when it is read: the encrypted block and the MAC replace the
  planned placeholders.\<close>

definition mirror_bytes :: "nat \<Rightarrow> bytes \<Rightarrow> bytes \<Rightarrow> bytes" where
  "mirror_bytes off d f = take off f @ d @ drop (off + length d) f"

definition card_file :: "Sdm \<Rightarrow> bytes \<Rightarrow> bytes \<Rightarrow> bytes \<Rightarrow> bytes" where
  "card_file sdm p c f =
    (case (sdm_picc_data sdm, sdm_file_read sdm) of
      (PdEncrypted _ off _, Some fr) \<Rightarrow> mirror_bytes (unat (mw_mac (fr_window fr))) c (mirror_bytes (unat off) p f)
    | _ \<Rightarrow> f)"

lemma mirror_bytes_middle:
  "length a = off \<Longrightarrow> length b = length d \<Longrightarrow> mirror_bytes off d (a @ b @ r) = a @ d @ r"
  by (simp add: mirror_bytes_def)

lemma card_file_bolt:
  assumes "length header = 7" "length p = 32" "length c = 16" "length pre + length mid < 200"
  shows "card_file (bolt_sdm opts (7 + length pre) (39 + length pre + length mid)) p c
      (header @ bolt_content pre mid post @ padding) = header @ (pre @ p @ mid @ c @ post) @ padding"
proof -
  have off: "unat (of_nat (7 + length pre) :: u32) = 7 + length pre"
    "unat (of_nat (39 + length pre + length mid) :: u32) = 39 + length pre + length mid"
    using assms(4) by (intro unat_of_nat_small; simp)+
  have "mirror_bytes (7 + length pre) p (header @ bolt_content pre mid post @ padding) =
      (header @ pre) @ p @ mid @ replicate 16 0x30 @ post @ padding"
    using mirror_bytes_middle [of "header @ pre" "7 + length pre" "replicate 32 0x30" p] assms
    by (simp add: bolt_content_def)
  moreover have "mirror_bytes (39 + length pre + length mid) c ((header @ pre) @ p @ mid @ replicate 16 0x30 @ post @ padding) =
      (header @ pre @ p @ mid) @ c @ post @ padding"
    using mirror_bytes_middle [of "header @ pre @ p @ mid" "39 + length pre + length mid" "replicate 16 0x30" c] assms
    by simp
  ultimately show ?thesis
    by (simp add: card_file_def bolt_sdm_def fr_window_def off del: of_nat_add of_nat_numeral)
qed

lemma encode_hex_ascii: "list_all (\<lambda>b. 0 < b \<and> b < 0x80) (as_bytes (encode_hex bs))"
proof -
  have "\<forall>c \<in> set HEX_LOWER. (0 :: byte) < of_char c \<and> (of_char c :: byte) < 0x80" "length HEX_LOWER = 16"
    by (simp_all add: HEX_LOWER_def)
  then show ?thesis
    using high_nibble_less low_nibble_less
    by (auto simp: encode_hex_def hex_byte_def list_all_iff as_bytes_def)
qed

lemma trim_end_nul_same: "s \<noteq> [] \<Longrightarrow> last s \<noteq> CHR 0x00 \<Longrightarrow> trim_end_nul s = s"
  by (cases s rule: rev_cases) (simp_all add: trim_end_nul_def)

lemma tapped_payload:
  fixes prefix pre :: string
  assumes "detect_uri_prefix (as_bytes (prefix @ rest)) = (code, length prefix)" "list_all text_byte (as_bytes pre)"
    and "is_url_delim d" "is_url_delim d'" "mac \<noteq> []"
  shows "ndef_uri_of_payload (code # as_bytes (pre @ d # ''p='' @ encode_hex ct @ d' # ''c='' @ encode_hex mac)) =
    Some \<lparr>nu_url = prefix @ pre @ d # ''p='' @ encode_hex ct @ d' # ''c='' @ encode_hex mac,
      nu_picc_hex = Some (encode_hex ct), nu_mac_hex = Some (encode_hex mac)\<rparr>"
proof -
  let ?uri = "pre @ d # ''p='' @ encode_hex ct @ d' # ''c='' @ encode_hex mac"
  have "list_all (\<lambda>b. b < 0x80) (as_bytes ?uri)"
    using assms(2-4) encode_hex_ascii [of ct] encode_hex_ascii [of mac]
    by (auto simp: list_all_iff text_byte_def is_url_delim_def)
  then have "from_utf8 (as_bytes ?uri) = Some ?uri"
    by (simp add: from_utf8_def utf8_ascii del: as_bytes_append as_bytes_Cons)
  moreover have hex: "encode_hex mac \<noteq> []"
    using assms(5) by (cases mac) (simp_all add: encode_hex_def hex_byte_def)
  have "last (encode_hex mac) \<noteq> CHR 0x00"
  proof -
    have "last (encode_hex mac) \<in> set (encode_hex mac)"
      using hex by simp
    then have "(0 :: byte) < of_char (last (encode_hex mac))"
      using encode_hex_ascii [of mac] by (auto simp: list_all_iff as_bytes_def)
    then show ?thesis
      by auto
  qed
  then have "trim_end_nul ?uri = ?uri"
    using hex by (intro trim_end_nul_same) auto
  ultimately show ?thesis
    using detected_prefix [OF assms(1)] extract_p_and_c_url [OF assms(3,4), of pre ct mac]
    by (simp add: ndef_uri_of_payload_def Let_def del: as_bytes_append as_bytes_Cons)
qed

text \<open>The file of a burned card, tapped.\<close>

lemma tapped_file:
  assumes "detect_uri_prefix (as_bytes (prefix @ rest)) = (code, length prefix)" "list_all text_byte (as_bytes pre)"
    and "is_url_delim d" "is_url_delim d'" "length ct = 16" "length mac = 8" "length pre \<le> 190"
  shows "parse_ndef_uri (card_file (bolt_sdm opts (10 + length pre) (45 + length pre)) (as_bytes (encode_hex ct)) (as_bytes (encode_hex mac))
      (ndef_header (55 + length pre) code @ bolt_content (as_bytes (pre @ d # ''p='')) (as_bytes (d' # ''c='')) [] @ padding)) =
    Some \<lparr>nu_url = prefix @ pre @ d # ''p='' @ encode_hex ct @ d' # ''c='' @ encode_hex mac,
      nu_picc_hex = Some (encode_hex ct), nu_mac_hex = Some (encode_hex mac)\<rparr>"
proof -
  let ?pre = "as_bytes (pre @ d # ''p='')" and ?mid = "as_bytes (d' # ''c='')"
  let ?p = "as_bytes (encode_hex ct)" and ?c = "as_bytes (encode_hex mac)"
  let ?content = "as_bytes (pre @ d # ''p='' @ encode_hex ct @ d' # ''c='' @ encode_hex mac)"
  have len: "length ?p = 32" "length ?c = 16" "length ?pre = 3 + length pre" "length ?mid = 3"
    using assms(5,6) by (simp_all add: length_encode_hex)
  have "card_file (bolt_sdm opts (10 + length pre) (45 + length pre)) ?p ?c
      (ndef_header (55 + length pre) code @ bolt_content ?pre ?mid [] @ padding) =
    ndef_header (55 + length pre) code @ (?pre @ ?p @ ?mid @ ?c @ []) @ padding"
    using card_file_bolt [of "ndef_header (55 + length pre) code" ?p ?c ?pre ?mid opts "[]" padding] len assms(7)
    by (simp add: ndef_header_def Let_def)
  also have "\<dots> = ndef_header (1 + length ?content) code @ ?content @ padding"
    using len by simp
  finally have "card_file (bolt_sdm opts (10 + length pre) (45 + length pre)) ?p ?c
      (ndef_header (55 + length pre) code @ bolt_content ?pre ?mid [] @ padding) =
    ndef_header (1 + length ?content) code @ ?content @ padding" .
  moreover have "mac \<noteq> []"
    using assms(6) by auto
  ultimately show ?thesis
    using parse_ndef_uri_header [of ?content code padding] tapped_payload [OF assms(1-4), of mac ct] len assms(5-7)
    by (auto simp del: as_bytes_append as_bytes_Cons)
qed

lemma text_chars: "list_all text_byte (as_bytes s) \<Longrightarrow> CHR ''{'' \<notin> set s \<and> CHR 0x5B \<notin> set s"
  by (induction s) (auto simp: text_byte_def)

end
