(* ===== verification/Cli.thy ===== *)
theory Cli
  imports Workflows NdefUri Derivation
begin

text \<open>
  The command-line tool, part one: the shared helpers of \<open>common.rs\<close> (retry ladder, circuit
  breaker) and the burn commands of \<open>burn.rs\<close> and \<open>provision.rs\<close>. A command is a program over the
  host: the card, the random numbers drawn, the failure count of the process and the audit events.
  Error values stand for the messages; console output is not modelled.
\<close>

record 't host =
  h_card :: 't
  h_rng :: nat
  h_failures :: u32
  h_audit :: "(string \<times> KeyProvenance option) list"

text \<open>The answer of a provisioning proxy.\<close>

record ProvisionResponse =
  pr_protocol_name :: string
  pr_protocol_version :: int
  pr_card_name :: string
  pr_lnurlw_base :: string
  pr_k0 :: string
  pr_k1 :: string
  pr_k2 :: string
  pr_k3 :: string
  pr_k4 :: string
  pr_uid_privacy :: string

text \<open>The environment of the process: the variable \<open>BOLTY_ASSUME_NTAG424\<close>, the operating system's
  random numbers, the crypto crates the commands call directly, the HTTP client (a URL to the body of the
  answer) and \<open>serde_json::from_str\<close> at the type of the proxy's answer.\<close>

record cli_env =
  ce_assume :: bool
  ce_rng :: "nat \<Rightarrow> bytes option"
  ce_cmac :: cmac_fun
  ce_cbc_dec :: cbc_fun
  ce_http :: "string \<Rightarrow> bytes option"
  ce_json :: "string \<Rightarrow> ProvisionResponse option"

datatype 'e CliError =
    CeNtag "'e Error"
  | CeSession "'e SessionError"
  | CeSdmUrl SdmUrlError
  | CeRng
  | CeUidMismatch (ce_expected: bytes) (ce_got: bytes)
  | CePlaceholders
  | CeAuthDelayState
  | CeExhausted
  | CeBothKeysRejected
  | CeRawNeedsUid
  | CeFactoryKey
  | CeResidual (ce_sdm: bool) (ce_ndef: nat)
  | CeK0Rejected "'e CliError"
  | CeSlotRejected KeyNumber "'e CliError"
  | CeWrongSlotKey
  | CeNdefUnreadable
  | CeWrongIssuer
  | CePiccUid (ce_mirrored: bytes) (ce_card: bytes)
  | CeMacMismatch
  | CeDelayDuringScan
  | CeUnexpected "'e SessionError"
  | CeBadKeyNumber byte
  | CeNoParams
  | CeKeySource
  | CeSetUid (ce_sw1: byte) (ce_sw2: byte)
  | CeUidUnreadable
  | CeBadHex
  | CeNotJson
  | CeOneTimeCode
  | CeRequest
  | CeProtocolName string
  | CeProtocolVersion int
  | CeProxyKey string
  | CeSuspiciousBase string
  | CeExit nat

type_synonym ('t, 'e, 'a) cli = "('t host, 'e CliError, 'a) prog"

definition on_card :: "('t, 'f, 'a) prog \<Rightarrow> ('t host, 'f, 'a) prog" where
  "on_card m = (\<lambda>h. case m (h_card h) of None \<Rightarrow> None | Some (r, t) \<Rightarrow> Some (r, h\<lparr>h_card := t\<rparr>))"

definition log_event_with_provenance :: "string \<Rightarrow> KeyProvenance option \<Rightarrow> ('t, 'e, unit) cli" where
  "log_event_with_provenance msg p = (\<lambda>h. Some (Inr (), h\<lparr>h_audit := h_audit h @ [(msg, p)]\<rparr>))"

section \<open>Retries and the circuit breaker\<close>

definition AUTH_RETRY_DELAYS :: "nat list" where
  "AUTH_RETRY_DELAYS = [0, 0, 0, 0, 0, 0, 0, 0, 0, 0]"

definition CIRCUIT_BREAKER_THRESHOLD :: u32 where
  "CIRCUIT_BREAKER_THRESHOLD = 10"

definition record_auth_failure :: "('t, 'e, unit) cli" where
  "record_auth_failure = (\<lambda>h.
    let count = h_failures h + 1; h' = h\<lparr>h_failures := count\<rparr>
    in if count \<ge> CIRCUIT_BREAKER_THRESHOLD then Some (Inl (CeExit 6), h') else Some (Inr (), h'))"

definition is_sdm_functionally_active :: "Sdm option \<Rightarrow> bool" where
  "is_sdm_functionally_active sdm =
    (case sdm of None \<Rightarrow> False | Some s \<Rightarrow> sdm_picc_data s \<noteq> PdNone \<or> sdm_file_read s \<noteq> None)"

definition is_auth_delay :: "'e SessionError \<Rightarrow> bool" where
  "is_auth_delay err = (case err of ErrorResponse AuthenticationDelay \<Rightarrow> True | _ \<Rightarrow> False)"

definition gen_rnd_a :: "cli_env \<Rightarrow> ('t, 'e, bytes) cli" where
  "gen_rnd_a env = (\<lambda>h.
    let h' = h\<lparr>h_rng := Suc (h_rng h)\<rparr>
    in case ce_rng env (h_rng h) of None \<Rightarrow> Some (Inl CeRng, h') | Some r \<Rightarrow> Some (Inr r, h'))"

text \<open>\<open>AuthRetry\<close> is its attempt count; \<open>next_delay\<close> gives the seconds to wait and the new count.\<close>

definition next_delay :: "nat \<Rightarrow> (nat \<times> nat) option" where
  "next_delay attempt =
    (if attempt < length AUTH_RETRY_DELAYS then Some (AUTH_RETRY_DELAYS ! attempt, attempt + 1) else None)"

datatype Ladder = LadderAccepted | LadderExhausted | LadderRefused

text \<open>The loop every command shares: authenticate, retry while the card delays.\<close>

function auth_ladder ::
    "cli_env \<Rightarrow> ('t, 'e) link \<Rightarrow> KeyNumber \<Rightarrow> bytes \<Rightarrow> nat \<Rightarrow> 't host \<Rightarrow> (('e CliError, Ladder) result \<times> 't host) option" where
  "auth_ladder env E slot key attempt h =
    (case gen_rnd_a env h of
      None \<Rightarrow> None
    | Some (Inl e, h1) \<Rightarrow> Some (Inl e, h1)
    | Some (Inr rnd_a, h1) \<Rightarrow>
        (case on_card (authenticate_aes E session_new slot key rnd_a) h1 of
          None \<Rightarrow> None
        | Some (Inr _, h2) \<Rightarrow> Some (Inr LadderAccepted, h2)
        | Some (Inl e, h2) \<Rightarrow>
            if is_auth_delay e then
              (case next_delay attempt of
                Some (_, attempt') \<Rightarrow> auth_ladder env E slot key attempt' h2
              | None \<Rightarrow> Some (Inr LadderExhausted, h2))
            else Some (Inr LadderRefused, h2)))"
  by pat_completeness auto
termination
  by (relation "measure (\<lambda>(env, E, slot, key, attempt, h). length AUTH_RETRY_DELAYS - attempt)")
    (auto simp: next_delay_def split: if_splits)

declare auth_ladder.simps [simp del]

section \<open>Burn\<close>

record BurnOptions =
  bo_version :: byte
  bo_verbose :: bool
  bo_dry_run :: bool
  bo_confirm_uid :: "bytes option"
  bo_force :: bool

definition privacy_template :: "string \<Rightarrow> bool" where
  "privacy_template url = (str_contains ''{picc:ctr}'' url \<and> \<not> str_contains ''{picc:uid'' url)"

definition EM_DASH :: string where "EM_DASH = str_of_bytes [0xE2, 0x80, 0x94]"

definition cli_preflight :: "cli_env \<Rightarrow> ('t, 'e) link \<Rightarrow> ('t, 'e, bytes) cli" where
  "cli_preflight env E = on_card (map_err_p CeNtag (preflight_with_chip_check E (ce_assume env)))"

definition confirm_uid :: "bytes option \<Rightarrow> bytes \<Rightarrow> ('t, 'e, unit) cli" where
  "confirm_uid expected uid =
    (case expected of
      Some e \<Rightarrow> if uid \<noteq> e then throw_p (CeUidMismatch e uid) else return_p ()
    | None \<Rightarrow> return_p ())"

text \<open>Step 0: the blank probe, whose verdict is only printed.\<close>

definition burn_state_probe :: "cli_env \<Rightarrow> ('t, 'e) link \<Rightarrow> bool \<Rightarrow> ('t, 'e, unit) cli" where
  "burn_state_probe env E force =
    (if force then return_p ()
     else bind_p (auth_ladder env E Key0 FACTORY_KEY 0) (\<lambda>r.
       if r = LadderExhausted then throw_p CeAuthDelayState else return_p ()))"

text \<open>Step 1: which K0 is live, and with it the previous keys.\<close>

definition burn_probe_keys ::
    "cli_env \<Rightarrow> ('t, 'e) link \<Rightarrow> CardKeys \<Rightarrow> KeyProvenance \<Rightarrow> ('t, 'e, AesKey \<times> CardKeys) cli" where
  "burn_probe_keys env E keys provenance =
    bind_p (auth_ladder env E Key0 FACTORY_KEY 0) (\<lambda>r.
      (case r of
        LadderAccepted \<Rightarrow>
          bind_p (log_event_with_provenance ''burn: authenticated with factory K0'' (Some FactoryDefault)) (\<lambda>_.
            return_p (AesKey FACTORY_KEY, \<lparr>ck_k0 = AesKey FACTORY_KEY, ck_k1 = AesKey FACTORY_KEY, ck_k2 = AesKey FACTORY_KEY,
              ck_k3 = AesKey FACTORY_KEY, ck_k4 = AesKey FACTORY_KEY\<rparr>))
      | LadderExhausted \<Rightarrow> throw_p CeExhausted
      | LadderRefused \<Rightarrow>
          bind_p record_auth_failure (\<lambda>_.
          bind_p (auth_ladder env E Key0 (key_bytes (ck_k0 keys)) 0) (\<lambda>r.
            (case r of
              LadderAccepted \<Rightarrow>
                bind_p (log_event_with_provenance ''burn: authenticated with provided K0 (re-burn)'' (Some provenance)) (\<lambda>_.
                  return_p (ck_k0 keys, keys))
            | LadderExhausted \<Rightarrow> throw_p CeExhausted
            | LadderRefused \<Rightarrow> bind_p record_auth_failure (\<lambda>_. throw_p CeBothKeysRejected))))))"

definition burn_run ::
    "cli_env \<Rightarrow> ('t, 'e) link \<Rightarrow> BurnParams \<Rightarrow> bytes \<Rightarrow> KeyProvenance \<Rightarrow> ('t, 'e, unit) cli" where
  "burn_run env E params uid provenance =
    bind_p (gen_rnd_a env) (\<lambda>rnd_a.
    bind_p (log_event_with_provenance
        (''burn: starting '' @ EM_DASH @ '' UID='' @ encode_hex uid @ '', version='' @
          dec_string (unat (bp_key_version params)) @ '', url='' @ bp_lnurl params) (Some provenance)) (\<lambda>_.
    catch_p (on_card (burn E params (AesKey rnd_a))) (\<lambda>r.
      (case r of
        Inl e \<Rightarrow> bind_p (log_event_with_provenance ''burn: FAILED'' (Some provenance)) (\<lambda>_. throw_p (CeNtag e))
      | Inr _ \<Rightarrow> log_event_with_provenance (''burn: SUCCESS '' @ EM_DASH @ '' K1-K4 + K0 installed ('' @
          to_audit_tag provenance @ '')'') (Some provenance)))))"

definition burn_card ::
    "cli_env \<Rightarrow> ('t, 'e) link \<Rightarrow> CardKeys \<Rightarrow> string \<Rightarrow> BurnOptions \<Rightarrow> KeyProvenance \<Rightarrow> ('t, 'e, unit) cli" where
  "burn_card env E keys url opts provenance =
    bind_p (cli_preflight env E) (\<lambda>uid.
    bind_p (confirm_uid (bo_confirm_uid opts) uid) (\<lambda>_.
      if bo_dry_run opts then
        bind_p (lift_r (map_err CeSdmUrl (sdm_url_config (standardize_url_template url) Aes burn_sdm_opts))) (\<lambda>_. return_p ())
      else if \<not> bo_force opts \<and> (\<not> str_contains ''{picc'' url \<or> \<not> str_contains ''{mac}'' url) then throw_p CePlaceholders
      else
        bind_p (burn_state_probe env E (bo_force opts)) (\<lambda>_.
        bind_p (burn_probe_keys env E keys provenance) (\<lambda>(current_key, previous_keys).
          burn_run env E \<lparr>bp_lnurl = url, bp_keys = keys, bp_key_version = bo_version opts, bp_current_key = current_key,
            bp_previous_keys = previous_keys\<rparr> uid provenance))))"

definition card_keys_of_set :: "CardKeySet \<Rightarrow> CardKeys" where
  "card_keys_of_set ks = \<lparr>ck_k0 = ks_k0 ks, ck_k1 = ks_k1 ks, ck_k2 = ks_k2 ks, ck_k3 = ks_k3 ks, ck_k4 = ks_k4 ks\<rparr>"

definition cmd_burn :: "cli_env \<Rightarrow> ('t, 'e) link \<Rightarrow> bytes \<Rightarrow> string \<Rightarrow> BurnOptions \<Rightarrow> ('t, 'e, unit) cli" where
  "cmd_burn env E issuer url opts =
    bind_p (cli_preflight env E) (\<lambda>uid.
      burn_card env E (card_keys_of_set (derive_keys (ce_cmac env) issuer (CardUid uid) (ucast (bo_version opts)))) url opts
        (DerivedIssuer (bo_version opts)))"

section \<open>Proxy-issued keys\<close>

record ProvisionKeys =
  pk_keys :: CardKeys
  pk_url :: string
  pk_uid_privacy :: bool

definition proxy_key :: "string \<Rightarrow> string \<Rightarrow> ('e CliError, AesKey) result" where
  "proxy_key hex field = map_err (\<lambda>_. CeProxyKey field) (aes_key_from_hex (str_trim hex))"

definition is_ascii_alphanumeric :: "char \<Rightarrow> bool" where
  "is_ascii_alphanumeric c = (let n = (of_char c :: nat) in 48 \<le> n \<and> n \<le> 57 \<or> 65 \<le> n \<and> n \<le> 90 \<or> 97 \<le> n \<and> n \<le> 122)"

definition str_starts_with :: "string \<Rightarrow> string \<Rightarrow> bool" where
  "str_starts_with pre s = (strip_prefix pre s \<noteq> None)"

definition parse_provision_response ::
    "(string \<Rightarrow> ProvisionResponse option) \<Rightarrow> string \<Rightarrow> ('e CliError, ProvisionKeys) result" where
  "parse_provision_response from_json body =
    bind_r (ok_or CeNotJson (from_json body)) (\<lambda>resp.
      if pr_protocol_name resp \<noteq> ''create_bolt_card_response'' then Inl (CeProtocolName (pr_protocol_name resp))
      else if pr_protocol_version resp \<noteq> 2 then Inl (CeProtocolVersion (pr_protocol_version resp))
      else
        bind_r (proxy_key (pr_k0 resp) ''k0'') (\<lambda>k0.
        bind_r (proxy_key (pr_k1 resp) ''k1'') (\<lambda>k1.
        bind_r (proxy_key (pr_k2 resp) ''k2'') (\<lambda>k2.
        bind_r (proxy_key (pr_k3 resp) ''k3'') (\<lambda>k3.
        bind_r (proxy_key (pr_k4 resp) ''k4'') (\<lambda>k4.
          let base = str_trim (pr_lnurlw_base resp);
              uid_privacy = (str_trim (pr_uid_privacy resp) \<in> {''true'', ''TRUE'', ''True''});
              placeholder = (if uid_privacy then ''{picc:ctr}'' else ''{picc:uid+ctr}'')
          in if \<not> (str_starts_with ''lnurlw://'' base \<or> str_starts_with ''https://'' base) \<or> CHR ''{'' \<in> set base
             then Inl (CeSuspiciousBase base)
             else Inr \<lparr>pk_keys = \<lparr>ck_k0 = k0, ck_k1 = k1, ck_k2 = k2, ck_k3 = k3, ck_k4 = k4\<rparr>,
               pk_url = base @ ''?p='' @ placeholder @ ''&c={mac}'', pk_uid_privacy = uid_privacy\<rparr>))))))"

text \<open>At most 64 KiB of the body are read, as text.\<close>

definition fetch_provision_keys :: "cli_env \<Rightarrow> string \<Rightarrow> string \<Rightarrow> ('e CliError, ProvisionKeys) result" where
  "fetch_provision_keys env proxy_base code =
    (let base = rev (dropWhile (\<lambda>c. c = CHR ''/'') (rev proxy_base))
     in if code = [] \<or> \<not> list_all is_ascii_alphanumeric code then Inl CeOneTimeCode
        else bind_r (ok_or CeRequest (ce_http env (base @ ''/new?a='' @ code))) (\<lambda>raw.
             bind_r (ok_or CeRequest (from_utf8 (take 65536 raw))) (\<lambda>body.
               parse_provision_response (ce_json env) body)))"

definition burn_provisioned ::
    "cli_env \<Rightarrow> ('t, 'e) link \<Rightarrow> ProvisionKeys \<Rightarrow> bool \<Rightarrow> bytes option \<Rightarrow> bool \<Rightarrow> ('t, 'e, unit) cli" where
  "burn_provisioned env E provisioned verbose confirm force =
    burn_card env E (pk_keys provisioned) (pk_url provisioned)
      \<lparr>bo_version = 1, bo_verbose = verbose, bo_dry_run = False, bo_confirm_uid = confirm, bo_force = force\<rparr> ProxyIssued"

end
