(* ===== verification/CliTools.thy ===== *)
theory CliTools
  imports Cli Assessment
begin

text \<open>
  The command-line tool, part two: wipe with its pre-verification (\<open>wipe.rs\<close>), diagnose
  (\<open>diagnose.rs\<close>) and the key tools \<open>scan-keys\<close>, \<open>try-key\<close>, \<open>keyver\<close> and \<open>picc\<close>. The
  commands return what they print.
\<close>

section \<open>Wipe\<close>

record WipeKeySource =
  ws_issuer_key :: "bytes option"
  ws_raw_keys :: "bytes list option"
  ws_version :: byte

record WipeOptions =
  wo_verbose :: bool
  wo_dry_run :: bool
  wo_skip_preverify :: bool
  wo_confirm_uid :: "bytes option"

text \<open>A raw keyset is an array of five keys. Both or neither source is \<open>unreachable!\<close>.\<close>

definition wipe_keyset :: "cli_env \<Rightarrow> WipeKeySource \<Rightarrow> bytes \<Rightarrow> ('t, 'e, CardKeySet \<times> KeyProvenance) cli" where
  "wipe_keyset env src uid =
    (case (ws_issuer_key src, ws_raw_keys src) of
      (Some issuer, None) \<Rightarrow>
        return_p (derive_keys (ce_cmac env) issuer (CardUid uid) (ucast (ws_version src)), DerivedIssuer (ws_version src))
    | (None, Some raw) \<Rightarrow>
        return_p (\<lparr>ks_card_key = AesKey FACTORY_KEY, ks_k0 = AesKey (raw ! 0), ks_k1 = AesKey (raw ! 1), ks_k2 = AesKey (raw ! 2),
          ks_k3 = AesKey (raw ! 3), ks_k4 = AesKey (raw ! 4), ks_card_id = replicate 16 0\<rparr>, UnknownExternal)
    | _ \<Rightarrow> panic_p)"

definition factory_probe :: "cli_env \<Rightarrow> ('t, 'e) link \<Rightarrow> ('t, 'e, AuthSession option) cli" where
  "factory_probe env E =
    bind_p (gen_rnd_a env) (\<lambda>rnd_a.
      catch_p (on_card (authenticate_aes E session_new Key0 FACTORY_KEY rnd_a)) (\<lambda>r.
        return_p (case r of Inr s \<Rightarrow> Some s | Inl _ \<Rightarrow> None)))"

text \<open>The second probe: \<open>True\<close> when the card is already clean.\<close>

definition residual_check :: "cli_env \<Rightarrow> ('t, 'e) link \<Rightarrow> ('t, 'e, bool) cli" where
  "residual_check env E =
    bind_p (factory_probe env E) (\<lambda>probe.
      (case probe of
        None \<Rightarrow> return_p False
      | Some s \<Rightarrow>
          bind_p (on_card (map_err_p CeSession (auth_get_file_settings E s Ndef))) (\<lambda>(settings, s).
          bind_p (on_card (map_err_p CeSession (read_file_plain E s Ndef 0 0 256))) (\<lambda>(buf, _).
            let has_sdm = is_sdm_functionally_active (fv_sdm settings);
                has_ndef = (length buf \<ge> 2 \<and> (buf ! 0 \<noteq> 0 \<or> buf ! 1 \<noteq> 0))
            in if \<not> has_sdm \<and> \<not> has_ndef then return_p True
               else throw_p (CeResidual has_sdm (if has_ndef then length buf else 0))))))"

definition is_ascii_hexdigit :: "char \<Rightarrow> bool" where
  "is_ascii_hexdigit c = (decode_hex_nibble (of_char c) \<noteq> None)"

text \<open>The local part of the gate: the file read is checked against the keys and the identifier.\<close>

definition pre_verify_check :: "cli_env \<Rightarrow> CardKeySet \<Rightarrow> bytes \<Rightarrow> bytes \<Rightarrow> ('e CliError, unit) result" where
  "pre_verify_check env keys uid data =
    (case parse_ndef_uri data of
      None \<Rightarrow> Inl CeNdefUnreadable
    | Some parsed \<Rightarrow>
        (case extract_p_and_c (nu_url parsed) of
          None \<Rightarrow> Inr ()
        | Some (p_hex, c_hex) \<Rightarrow>
            let is_hex = \<lambda>s. s \<noteq> [] \<and> list_all is_ascii_hexdigit s;
                is_zero_hex = list_all (\<lambda>c. c = CHR ''0'')
            in if \<not> is_hex p_hex \<or> \<not> is_hex c_hex then Inr ()
               else if is_zero_hex p_hex \<or> is_zero_hex c_hex then Inr ()
               else (case picc_decrypt_p (ce_cbc_dec env) (key_bytes (ks_k1 keys)) p_hex of
                  None \<Rightarrow> Inl CeWrongIssuer
                | Some picc \<Rightarrow>
                    if (case pd_uid picc of Some p_uid \<Rightarrow> p_uid \<noteq> uid | None \<Rightarrow> False)
                    then Inl (CePiccUid (the (pd_uid picc)) uid)
                    else if picc_verify_c (ce_cmac env) (key_bytes (ks_k2 keys)) picc c_hex then Inr ()
                    else Inl CeMacMismatch)))"

definition pre_verify_pc :: "cli_env \<Rightarrow> ('t, 'e) link \<Rightarrow> CardKeySet \<Rightarrow> bytes \<Rightarrow> ('t, 'e, unit) cli" where
  "pre_verify_pc env E keys uid =
    bind_p (on_card (map_err_p CeSession (own session_new (read_file_unauthenticated E Ndef 0 256)))) (\<lambda>data.
      lift_r (pre_verify_check env keys uid data))"

definition authenticate_slot_with_retry ::
    "cli_env \<Rightarrow> ('t, 'e) link \<Rightarrow> KeyNumber \<Rightarrow> bytes \<Rightarrow> ('t, 'e, unit) cli" where
  "authenticate_slot_with_retry env E slot key =
    bind_p (auth_ladder env E slot key 0) (\<lambda>r.
      (case r of
        LadderAccepted \<Rightarrow> return_p ()
      | LadderExhausted \<Rightarrow> throw_p CeExhausted
      | LadderRefused \<Rightarrow> bind_p record_auth_failure (\<lambda>_. throw_p CeWrongSlotKey)))"

text \<open>Wrapping an error in a new message; the process exit is not an error value.\<close>

definition wrap_error :: "('e CliError \<Rightarrow> 'e CliError) \<Rightarrow> 'e CliError \<Rightarrow> 'e CliError" where
  "wrap_error f e = (case e of CeExit n \<Rightarrow> CeExit n | _ \<Rightarrow> f e)"

fun verify_slots :: "cli_env \<Rightarrow> ('t, 'e) link \<Rightarrow> (KeyNumber \<times> bytes) list \<Rightarrow> ('t, 'e, unit) cli" where
  "verify_slots env E [] = return_p ()"
| "verify_slots env E ((slot, key) # rest) =
    bind_p (map_err_p (wrap_error (CeSlotRejected slot)) (authenticate_slot_with_retry env E slot key)) (\<lambda>_.
      verify_slots env E rest)"

definition verify_raw_keyset ::
    "cli_env \<Rightarrow> ('t, 'e) link \<Rightarrow> bool \<Rightarrow> CardKeySet \<Rightarrow> KeyProvenance \<Rightarrow> ('t, 'e, unit) cli" where
  "verify_raw_keyset env E raw keys provenance =
    (if raw then
      bind_p (verify_slots env E [(Key1, key_bytes (ks_k1 keys)), (Key2, key_bytes (ks_k2 keys)),
          (Key3, key_bytes (ks_k3 keys)), (Key4, key_bytes (ks_k4 keys))]) (\<lambda>_.
        log_event_with_provenance (''wipe: raw keyset K0'' @ str_of_bytes [0xE2, 0x80, 0x93] @
          ''K4 verified before first mutation'') (Some provenance))
     else return_p ())"

definition wipe_run ::
    "cli_env \<Rightarrow> ('t, 'e) link \<Rightarrow> CardKeySet \<Rightarrow> byte \<Rightarrow> bytes \<Rightarrow> KeyProvenance \<Rightarrow> ('t, 'e, unit) cli" where
  "wipe_run env E keys version uid provenance =
    bind_p (gen_rnd_a env) (\<lambda>rnd_a.
    bind_p (log_event_with_provenance
        (''wipe: starting '' @ EM_DASH @ '' UID='' @ encode_hex uid @ '', version='' @ dec_string (unat version)) (Some provenance)) (\<lambda>_.
    catch_p (on_card (wipe E (card_keys_of_set keys) (AesKey rnd_a))) (\<lambda>r.
      (case r of
        Inl e \<Rightarrow> bind_p (log_event_with_provenance ''wipe: FAILED'' (Some provenance)) (\<lambda>_. throw_p (CeNtag e))
      | Inr _ \<Rightarrow> log_event_with_provenance (''wipe: SUCCESS '' @ EM_DASH @ '' all keys reset to factory zeros'')
          (Some provenance)))))"

definition wipe_verified ::
    "cli_env \<Rightarrow> ('t, 'e) link \<Rightarrow> bool \<Rightarrow> bool \<Rightarrow> CardKeySet \<Rightarrow> byte \<Rightarrow> bytes \<Rightarrow> KeyProvenance \<Rightarrow> ('t, 'e, unit) cli" where
  "wipe_verified env E raw skip keys version uid provenance =
    bind_p (if skip then log_event_with_provenance ''wipe: p/c pre-verification skipped by explicit flag'' (Some provenance)
      else pre_verify_pc env E keys uid) (\<lambda>_.
    bind_p (map_err_p (wrap_error CeK0Rejected) (authenticate_slot_with_retry env E Key0 (key_bytes (ks_k0 keys)))) (\<lambda>_.
    bind_p (verify_raw_keyset env E raw keys provenance) (\<lambda>_.
      wipe_run env E keys version uid provenance)))"

definition cmd_wipe :: "cli_env \<Rightarrow> ('t, 'e) link \<Rightarrow> WipeKeySource \<Rightarrow> WipeOptions \<Rightarrow> ('t, 'e, unit) cli" where
  "cmd_wipe env E src opts =
    (if ws_raw_keys src \<noteq> None \<and> wo_confirm_uid opts = None then throw_p CeRawNeedsUid
     else
      bind_p (cli_preflight env E) (\<lambda>uid.
      bind_p (confirm_uid (wo_confirm_uid opts) uid) (\<lambda>_.
      bind_p (wipe_keyset env src uid) (\<lambda>(keys, provenance).
        if wo_dry_run opts then return_p ()
        else
          bind_p (factory_probe env E) (\<lambda>probe.
            if probe \<noteq> None then throw_p CeFactoryKey
            else bind_p (residual_check env E) (\<lambda>clean.
              if clean then return_p ()
              else wipe_verified env E (ws_raw_keys src \<noteq> None) (wo_skip_preverify opts) keys (ws_version src) uid provenance))))))"

section \<open>Diagnose\<close>

definition DEFAULT_VERSION :: u32 where "DEFAULT_VERSION = 1"

record DiagnoseReport =
  dr_uid :: bytes
  dr_is_ntag424 :: bool
  dr_state :: string
  dr_has_sdm :: bool
  dr_has_ndef :: bool
  dr_ndef_len :: nat
  dr_picc_ok :: bool
  dr_provenance :: KeyProvenance
  dr_json :: "string option"

text \<open>What is read without authentication, in one session.\<close>

definition diagnose_read ::
    "('t, 'e) link \<Rightarrow> ('t, 'e SessionError, bytes \<times> Version option \<times> FileSettingsView option \<times> bytes option) prog" where
  "diagnose_read E =
    own session_new
      (bind_p (on_link (get_selected_uid E)) (\<lambda>uid.
       bind_p (on_link (ok_p (unauth_get_version E))) (\<lambda>version.
       bind_p (ok_p (unauth_get_file_settings E Ndef)) (\<lambda>settings.
       bind_p (ok_p (read_file_unauthenticated E Ndef 0 256)) (\<lambda>ndef.
         return_p (uid_to_fixed uid, version, settings, ndef))))))"

text \<open>\<open>verify sdm ndef k2 k1\<close> stands for the driver's \<open>Verifier\<close>.\<close>

definition diagnose_picc ::
    "cli_env \<Rightarrow> (Sdm \<Rightarrow> bytes \<Rightarrow> bytes \<Rightarrow> bytes \<Rightarrow> 'v option) \<Rightarrow> bytes \<Rightarrow> bytes \<Rightarrow> Sdm option \<Rightarrow> bytes \<Rightarrow> NdefUri option \<Rightarrow> bool" where
  "diagnose_picc env verify issuer uid sdm ndef parsed =
    (if \<not> is_sdm_functionally_active sdm then False
     else (case parsed of
        None \<Rightarrow> False
      | Some u \<Rightarrow>
          (case (nu_picc_hex u, nu_mac_hex u) of
            (Some p_hex, Some c_hex) \<Rightarrow>
              let keys = derive_keys (ce_cmac env) issuer (CardUid uid) DEFAULT_VERSION
              in (case picc_decrypt_p (ce_cbc_dec env) (key_bytes (ks_k1 keys)) p_hex of
                  None \<Rightarrow> False
                | Some picc \<Rightarrow> pd_uid picc = Some uid \<and>
                    (case sdm of None \<Rightarrow> False
                     | Some s \<Rightarrow> verify s ndef (key_bytes (ks_k2 keys)) (key_bytes (ks_k1 keys)) \<noteq> None))
          | _ \<Rightarrow> False)))"

text \<open>One authentication attempt: accepted, and whether the card is in its delay.\<close>

definition diagnose_probe :: "cli_env \<Rightarrow> ('t, 'e) link \<Rightarrow> bytes \<Rightarrow> ('t, 'e, bool \<times> bool) cli" where
  "diagnose_probe env E key =
    bind_p (gen_rnd_a env) (\<lambda>rnd_a.
      catch_p (on_card (authenticate_aes E session_new Key0 key rnd_a)) (\<lambda>r.
        return_p (case r of Inr _ \<Rightarrow> (True, False) | Inl e \<Rightarrow> (False, is_auth_delay e))))"

definition cmd_diagnose ::
    "cli_env \<Rightarrow> ('t, 'e) link \<Rightarrow> (Sdm \<Rightarrow> bytes \<Rightarrow> bytes \<Rightarrow> bytes \<Rightarrow> 'v option) \<Rightarrow> bytes \<Rightarrow> bool \<Rightarrow> ('t, 'e, DiagnoseReport) cli" where
  "cmd_diagnose env E verify issuer json =
    bind_p (on_card (map_err_p CeSession (diagnose_read E))) (\<lambda>(uid, version, settings, ndef).
      let is_ntag424 = (case version of Some v \<Rightarrow> hw_vendor_id v = 0x04 | None \<Rightarrow> False);
          sdm = Option.bind settings fv_sdm;
          has_sdm = is_sdm_functionally_active sdm;
          data = (case ndef of Some d \<Rightarrow> d | None \<Rightarrow> []);
          parsed = Option.bind ndef parse_ndef_uri;
          has_ndef = (parsed \<noteq> None);
          picc_ok = diagnose_picc env verify issuer uid sdm data parsed
      in bind_p (if \<not> has_sdm \<and> \<not> has_ndef then diagnose_probe env E FACTORY_KEY else return_p (False, False)) (\<lambda>(factory_ok, delay).
         bind_p (if \<not> factory_ok \<and> \<not> picc_ok \<and> \<not> delay then diagnose_probe env E (replicate 16 0x11) else return_p (False, False)) (\<lambda>(static_ok, _).
           let provenance = classify_key_provenance factory_ok picc_ok static_ok;
               state = classify_card_state delay has_sdm has_ndef factory_ok
           in return_p \<lparr>dr_uid = uid, dr_is_ntag424 = is_ntag424, dr_state = state, dr_has_sdm = has_sdm, dr_has_ndef = has_ndef,
             dr_ndef_len = length data, dr_picc_ok = picc_ok, dr_provenance = provenance,
             dr_json = (if json then Some (build_diagnose_json (encode_hex uid) state has_sdm picc_ok provenance) else None)\<rparr>)))"

section \<open>Key tools\<close>

datatype ScanAuth = ScSuccess | ScWrongKey | ScAuthDelay | ScError

definition clamp_attempts :: "u32 \<Rightarrow> nat" where
  "clamp_attempts n = max 1 (min 1000 (unat n))"

text \<open>The for-loop over the attempts, counted down. The text of an unexpected error is left out of
  the events.\<close>

fun try_auth :: "cli_env \<Rightarrow> ('t, 'e) link \<Rightarrow> bytes \<Rightarrow> nat \<Rightarrow> ('t, 'e, ScanAuth) cli" where
  "try_auth env E key 0 = return_p ScAuthDelay"
| "try_auth env E key (Suc n) =
    catch_p (gen_rnd_a env :: ('t, 'e, bytes) cli) (\<lambda>rnd.
      (case rnd of
        Inl _ \<Rightarrow> return_p ScError
      | Inr rnd_a \<Rightarrow>
          catch_p (on_card (authenticate_aes E session_new Key0 key rnd_a)) (\<lambda>r.
            (case r of
              Inr _ \<Rightarrow> return_p ScSuccess
            | Inl (ErrorResponse AuthenticationError) \<Rightarrow> return_p ScWrongKey
            | Inl (ErrorResponse AuthenticationDelay) \<Rightarrow> if n = 0 then return_p ScAuthDelay else try_auth env E key n
            | Inl _ \<Rightarrow> return_p ScError))))"

definition scan_candidates :: "cli_env \<Rightarrow> bytes \<Rightarrow> bytes \<Rightarrow> (string \<times> bytes) list" where
  "scan_candidates env issuer uid =
    (let v = \<lambda>n. derive_keys (ce_cmac env) issuer (CardUid uid) n
     in [(''factory K0 (zeros)'', replicate 16 0), (''derived K0 v0'', key_bytes (ks_k0 (v 0))),
         (''derived K0 v1'', key_bytes (ks_k0 (v 1))), (''derived K0 v2'', key_bytes (ks_k0 (v 2))),
         (''derived K0 v3'', key_bytes (ks_k0 (v 3))), (''static test key (0x11..11)'', replicate 16 0x11),
         (''card key v1'', key_bytes (ks_card_key (v 1)))])"

definition log_event :: "string \<Rightarrow> ('t, 'e, unit) cli" where
  "log_event msg = log_event_with_provenance msg None"

fun scan_loop ::
    "cli_env \<Rightarrow> ('t, 'e) link \<Rightarrow> nat \<Rightarrow> (string \<times> bytes) list \<Rightarrow> ('t, 'e, (string \<times> bytes) option) cli" where
  "scan_loop env E attempts [] = bind_p (log_event ''scan-keys: no candidate matched'') (\<lambda>_. return_p None)"
| "scan_loop env E attempts ((label, key) # rest) =
    bind_p (log_event (''scan-keys: trying '' @ label)) (\<lambda>_.
    bind_p (try_auth env E key attempts) (\<lambda>r.
      (case r of
        ScSuccess \<Rightarrow> bind_p (log_event (''scan-keys: ACCEPTED '' @ label @ '' = '' @ encode_hex key)) (\<lambda>_.
          return_p (Some (label, key)))
      | ScWrongKey \<Rightarrow> bind_p record_auth_failure (\<lambda>_. bind_p (log_event (''scan-keys: REJECTED '' @ label)) (\<lambda>_.
          scan_loop env E attempts rest))
      | ScAuthDelay \<Rightarrow> bind_p (log_event ''scan-keys: AUTH DELAY detected, aborting'') (\<lambda>_. throw_p CeDelayDuringScan)
      | ScError \<Rightarrow> bind_p (log_event (''scan-keys: ERROR on '' @ label)) (\<lambda>_. scan_loop env E attempts rest))))"

definition cmd_scan_keys :: "cli_env \<Rightarrow> ('t, 'e) link \<Rightarrow> bytes \<Rightarrow> u32 \<Rightarrow> ('t, 'e, (string \<times> bytes) option) cli" where
  "cmd_scan_keys env E issuer attempts =
    bind_p (on_card (map_err_p CeSession (get_selected_uid E))) (\<lambda>uid.
      scan_loop env E (clamp_attempts attempts) (scan_candidates env issuer (uid_to_fixed uid)))"

definition key_of_number :: "byte \<Rightarrow> KeyNumber option" where
  "key_of_number n =
    (if n = 0 then Some Key0 else if n = 1 then Some Key1 else if n = 2 then Some Key2
     else if n = 3 then Some Key3 else if n = 4 then Some Key4 else None)"

datatype TryKey = TkAccepted | TkRejected | TkDelayPersists

fun try_key_loop :: "cli_env \<Rightarrow> ('t, 'e) link \<Rightarrow> KeyNumber \<Rightarrow> bytes \<Rightarrow> nat \<Rightarrow> ('t, 'e, TryKey) cli" where
  "try_key_loop env E target key 0 = return_p TkDelayPersists"
| "try_key_loop env E target key (Suc n) =
    bind_p (gen_rnd_a env) (\<lambda>rnd_a.
      catch_p (on_card (authenticate_aes E session_new target key rnd_a)) (\<lambda>r.
        (case r of
          Inr _ \<Rightarrow> return_p TkAccepted
        | Inl (ErrorResponse AuthenticationError) \<Rightarrow> return_p TkRejected
        | Inl (ErrorResponse AuthenticationDelay) \<Rightarrow> try_key_loop env E target key n
        | Inl e \<Rightarrow> throw_p (CeUnexpected e))))"

definition try_key_event :: "byte \<Rightarrow> nat \<Rightarrow> TryKey \<Rightarrow> string" where
  "try_key_event key_no attempts r =
    (let k = ''K'' @ dec_string (unat key_no)
     in case r of
      TkAccepted \<Rightarrow> ''try-key: ACCEPTED '' @ k
    | TkRejected \<Rightarrow> ''try-key: REJECTED '' @ k
    | TkDelayPersists \<Rightarrow> ''try-key: auth delay persists after '' @ dec_string attempts @ '' attempts'')"

definition cmd_try_key :: "cli_env \<Rightarrow> ('t, 'e) link \<Rightarrow> bytes \<Rightarrow> byte \<Rightarrow> u32 \<Rightarrow> ('t, 'e, TryKey) cli" where
  "cmd_try_key env E key key_no attempts =
    bind_p (on_card (ok_p (get_selected_uid E))) (\<lambda>_.
      (case key_of_number key_no of
        None \<Rightarrow> throw_p (CeBadKeyNumber key_no)
      | Some target \<Rightarrow>
          bind_p (log_event_with_provenance (''try-key: K'' @ dec_string (unat key_no) @ '' = '' @ encode_hex key) (Some UnknownExternal)) (\<lambda>_.
          bind_p (try_key_loop env E target key (clamp_attempts attempts)) (\<lambda>r.
          bind_p (log_event_with_provenance (try_key_event key_no (clamp_attempts attempts) r) (Some UnknownExternal)) (\<lambda>_.
            return_p r)))))"

text \<open>\<open>fallback\<close> is the variable \<open>BOLTY_UID_FALLBACK\<close>.\<close>

definition uid_or_env :: "('t, 'e) link \<Rightarrow> string option \<Rightarrow> ('t, 'e, string) cli" where
  "uid_or_env E fallback =
    catch_p (on_card (get_selected_uid E)) (\<lambda>r.
      (case r of
        Inr uid \<Rightarrow> return_p (encode_hex (case uid of UidFixed b \<Rightarrow> b | UidRandom b \<Rightarrow> b))
      | Inl _ \<Rightarrow>
          (case fallback of
            Some hex \<Rightarrow> if length hex = 14 then return_p (map ascii_lower hex) else throw_p CeUidUnreadable
          | None \<Rightarrow> throw_p CeUidUnreadable)))"

text \<open>\<open>u8::from_str_radix(_, 16)\<close> on two characters; a leading plus sign is accepted.\<close>

definition u8_from_hex :: "char \<Rightarrow> char \<Rightarrow> byte option" where
  "u8_from_hex a b =
    (case decode_hex_nibble (of_char b) of
      None \<Rightarrow> None
    | Some lo \<Rightarrow>
        if a = CHR ''+'' then Some lo
        else map_option (\<lambda>hi. push_bit 4 hi OR lo) (decode_hex_nibble (of_char a)))"

fun uid_pairs :: "nat \<Rightarrow> string \<Rightarrow> bytes option" where
  "uid_pairs (Suc n) (a # b # rest) = Option.bind (u8_from_hex a b) (\<lambda>x. map_option ((#) x) (uid_pairs n rest))"
| "uid_pairs n s = Some (replicate n 0)"

definition cmd_keyver ::
    "cli_env \<Rightarrow> ('t, 'e) link \<Rightarrow> string option \<Rightarrow> bytes \<Rightarrow> byte \<Rightarrow> ('t, 'e, bytes \<times> string) cli" where
  "cmd_keyver env E fallback issuer version =
    bind_p (uid_or_env E fallback) (\<lambda>uid_hex.
    bind_p (lift_r (ok_or CeBadHex (uid_pairs 7 uid_hex))) (\<lambda>uid.
    bind_p (gen_rnd_a env) (\<lambda>rnd_a.
      let keys = derive_keys (ce_cmac env) issuer (CardUid uid) (ucast version)
      in catch_p (on_card (check_key_versions E (ks_k0 keys) (AesKey rnd_a))) (\<lambda>r.
        (case r of
          Inr v \<Rightarrow> return_p (v, ''derived K0 (version '' @ dec_string (unat version) @ '')'')
        | Inl _ \<Rightarrow>
            bind_p (gen_rnd_a env) (\<lambda>rnd_a.
            bind_p (on_card (map_err_p CeNtag (check_key_versions E (AesKey FACTORY_KEY) (AesKey rnd_a)))) (\<lambda>v.
              return_p (v, ''factory K0''))))))))"

end
