(* ===== verification/CliMain.thy ===== *)
theory CliMain
  imports CliTools
begin

text \<open>
  The command-line tool, part three: the counter probe of \<open>bolty-ntag\<close>, the remaining commands
  (\<open>picc\<close>, \<open>url\<close>, \<open>uid\<close>, \<open>inspect\<close>, \<open>testck\<close>, \<open>f5-probe\<close>, \<open>set-card-uid\<close>) and the dispatcher of
  \<open>main.rs\<close> with its argument parsing and exit codes. A parsed command line is the input; connecting to a
  reader has succeeded; \<open>readers\<close> and \<open>budget\<close>, which use no card, are not among the commands here.
\<close>

section \<open>The counter probe\<close>

record F5ProbeReport =
  fp_read_f5 :: byte
  fp_read_ad :: byte
  fp_write_f5 :: byte
  fp_write_8d :: byte
  fp_write_skipped :: bool

definition f5_report :: "byte \<Rightarrow> byte \<Rightarrow> byte \<Rightarrow> byte \<Rightarrow> bool \<Rightarrow> F5ProbeReport" where
  "f5_report rf ra w5 w8 skipped =
    \<lparr>fp_read_f5 = rf, fp_read_ad = ra, fp_write_f5 = w5, fp_write_8d = w8, fp_write_skipped = skipped\<rparr>"

text \<open>The read leg; \<open>Inl\<close> is an early return of the report.\<close>

fun f5_read_leg ::
    "('t, 'e) link \<Rightarrow> nat \<Rightarrow> byte \<Rightarrow> byte \<Rightarrow> AuthSession \<Rightarrow> ('t, 'e Error, F5ProbeReport + AuthSession) prog" where
  "f5_read_leg E 0 f5a ad s = return_p (Inr s)"
| "f5_read_leg E (Suc n) f5a ad s =
    catch_p (auth_get_file_settings E s Ndef) (\<lambda>r.
      (case r of
        Inl _ \<Rightarrow> return_p (Inl (f5_report f5a ad 0 0 False))
      | Inr (_, s2) \<Rightarrow>
          catch_p (read_file_plain E s2 Ndef 0 4 8) (\<lambda>r.
            (case r of
              Inl _ \<Rightarrow> return_p (Inl (f5_report (f5a + 1) ad 0 0 False))
            | Inr (_, s3) \<Rightarrow> f5_read_leg E n (f5a + 1) (ad + 1) s3))))"

definition f5_write_leg :: "('t, 'e) link \<Rightarrow> bytes \<Rightarrow> AuthSession \<Rightarrow> ('t, 'e Error, F5ProbeReport) prog" where
  "f5_write_leg E snapshot s =
    catch_p (auth_get_file_settings E s Ndef) (\<lambda>r.
      (case r of
        Inl _ \<Rightarrow> return_p (f5_report 3 3 0 0 False)
      | Inr (_, s2) \<Rightarrow>
          if min 4 (length snapshot) = 0 then return_p (f5_report 3 3 1 0 False)
          else catch_p (write_file_plain E s2 Ndef 0 (take (min 4 (length snapshot)) snapshot)) (\<lambda>r.
            (case r of
              Inl _ \<Rightarrow> return_p (f5_report 3 3 1 0 False)
            | Inr s3 \<Rightarrow>
                catch_p (auth_get_file_settings E s3 Ndef) (\<lambda>r.
                  return_p (f5_report 3 3 (case r of Inl _ \<Rightarrow> 1 | Inr _ \<Rightarrow> 2) 1 False))))))"

definition f5probe :: "('t, 'e) link \<Rightarrow> bytes \<Rightarrow> bool \<Rightarrow> ('t, 'e Error, F5ProbeReport) prog" where
  "f5probe E rnd_a force =
    bind_p (sess (authenticate_aes E session_new Key0 (replicate 16 0) rnd_a)) (\<lambda>s.
    bind_p (sess (read_file_plain E s Ndef 0 0 256)) (\<lambda>(whole, s).
    bind_p (if length whole = 0 then sess (read_file_plain E s Ndef 0 16 256) else return_p (whole, s)) (\<lambda>(snapshot, s).
      if \<not> force \<and> \<not> list_all (\<lambda>b. b = 0) snapshot then throw_p (NdefNotEmpty (length snapshot))
      else bind_p (f5_read_leg E 3 0 0 s) (\<lambda>r.
        (case r of
          Inl report \<Rightarrow> return_p report
        | Inr s \<Rightarrow>
            if \<not> list_all (\<lambda>b. b = 0) snapshot then return_p (f5_report 3 3 0 0 True)
            else f5_write_leg E snapshot s)))))"

text \<open>The command: a report that is not clean ends the process with code 1.\<close>

definition cmd_f5probe :: "cli_env \<Rightarrow> ('t, 'e) link \<Rightarrow> bool \<Rightarrow> ('t, 'e, F5ProbeReport) cli" where
  "cmd_f5probe env E force =
    bind_p (gen_rnd_a env) (\<lambda>rnd_a.
    bind_p (on_card (map_err_p CeNtag (f5probe E rnd_a force))) (\<lambda>r.
      if fp_write_skipped r
      then (if fp_read_f5 r = 3 \<and> fp_read_ad r = 3 then return_p r else throw_p (CeExit 1))
      else if fp_read_f5 r = 3 \<and> fp_read_ad r = 3 \<and> fp_write_f5 r = 2 \<and> fp_write_8d r = 1 then return_p r
      else throw_p (CeExit 1)))"

section \<open>Reading commands\<close>

record PiccReport =
  pq_picc :: "PiccData option"
  pq_mac_ok :: bool

definition read_ndef_cmd :: "('t, 'e) link \<Rightarrow> ('t, 'e, bytes) cli" where
  "read_ndef_cmd E = on_card (map_err_p CeSession (own session_new (read_file_unauthenticated E Ndef 0 256)))"

definition cmd_picc :: "cli_env \<Rightarrow> ('t, 'e) link \<Rightarrow> bytes \<Rightarrow> ('t, 'e, PiccReport) cli" where
  "cmd_picc env E issuer =
    bind_p (on_card (map_err_p CeSession (get_selected_uid E))) (\<lambda>uid.
    bind_p (read_ndef_cmd E) (\<lambda>data.
      let keys = derive_keys (ce_cmac env) issuer (CardUid (uid_to_fixed uid)) 1
      in (case parse_ndef_uri data of
        None \<Rightarrow> throw_p CeNdefUnreadable
      | Some parsed \<Rightarrow>
          (case (nu_picc_hex parsed, nu_mac_hex parsed) of
            (Some p_hex, Some c_hex) \<Rightarrow>
              (case picc_decrypt_p (ce_cbc_dec env) (key_bytes (ks_k1 keys)) p_hex of
                Some picc \<Rightarrow> return_p \<lparr>pq_picc = Some picc, pq_mac_ok = picc_verify_c (ce_cmac env) (key_bytes (ks_k2 keys)) picc c_hex\<rparr>
              | None \<Rightarrow> return_p \<lparr>pq_picc = None, pq_mac_ok = False\<rparr>)
          | _ \<Rightarrow> throw_p CeNoParams))))"

definition cmd_uid :: "('t, 'e) link \<Rightarrow> ('t, 'e, bytes) cli" where
  "cmd_uid E = bind_p (on_card (map_err_p CeSession (get_selected_uid E))) (\<lambda>uid. return_p (uid_to_fixed uid))"

text \<open>The version, and whether it is an NTAG 424 DNA.\<close>

definition cmd_ver :: "('t, 'e) link \<Rightarrow> ('t, 'e, Version \<times> bool) cli" where
  "cmd_ver E = bind_p (on_card (map_err_p CeSession (unauth_get_version E))) (\<lambda>v.
    return_p (v, hw_vendor_id v = 0x04 \<and> hw_type v = 0x04))"

definition cmd_url :: "('t, 'e) link \<Rightarrow> ('t, 'e, string) cli" where
  "cmd_url E =
    bind_p (read_ndef_cmd E) (\<lambda>data.
      (case parse_ndef_uri data of None \<Rightarrow> throw_p CeNdefUnreadable | Some parsed \<Rightarrow> return_p (nu_url parsed)))"

record InspectReport =
  ir_uid :: bytes
  ir_version :: "Version option"
  ir_settings :: "FileSettingsView option"
  ir_ndef :: "bytes option"
  ir_sdm :: "(PiccData \<times> bool) option"
  ir_k0_accepted :: "bool option"

definition decrypt_sdm :: "cli_env \<Rightarrow> CardKeySet \<Rightarrow> NdefUri \<Rightarrow> (PiccData \<times> bool) option" where
  "decrypt_sdm env keys parsed =
    (case (nu_picc_hex parsed, nu_mac_hex parsed) of
      (Some p_hex, Some c_hex) \<Rightarrow>
        map_option (\<lambda>picc. (picc, picc_verify_c (ce_cmac env) (key_bytes (ks_k2 keys)) picc c_hex))
          (picc_decrypt_p (ce_cbc_dec env) (key_bytes (ks_k1 keys)) p_hex)
    | _ \<Rightarrow> None)"

definition authenticate_and_verify :: "cli_env \<Rightarrow> ('t, 'e) link \<Rightarrow> bytes \<Rightarrow> ('t, 'e, bool option) cli" where
  "authenticate_and_verify env E key =
    catch_p (gen_rnd_a env :: ('t, 'e, bytes) cli) (\<lambda>rnd.
      (case rnd of
        Inl _ \<Rightarrow> return_p None
      | Inr rnd_a \<Rightarrow>
          catch_p (on_card (authenticate_aes E session_new Key0 key rnd_a)) (\<lambda>r.
            return_p (Some (case r of Inr _ \<Rightarrow> True | Inl _ \<Rightarrow> False)))))"

definition cmd_inspect ::
    "cli_env \<Rightarrow> ('t, 'e) link \<Rightarrow> bytes option \<Rightarrow> byte \<Rightarrow> ('t, 'e, InspectReport) cli" where
  "cmd_inspect env E issuer version =
    bind_p (on_card (map_err_p CeSession (diagnose_read E))) (\<lambda>(uid, ver, settings, ndef).
      let base = \<lparr>ir_uid = uid, ir_version = ver, ir_settings = settings, ir_ndef = ndef, ir_sdm = None, ir_k0_accepted = None\<rparr>
      in (case (Option.bind ndef parse_ndef_uri, issuer) of
          (Some parsed, Some key) \<Rightarrow>
            let keys = derive_keys (ce_cmac env) key (CardUid uid) (ucast version)
            in bind_p (authenticate_and_verify env E (key_bytes (ks_k0 keys))) (\<lambda>k0.
                 return_p (base\<lparr>ir_sdm := decrypt_sdm env keys parsed, ir_k0_accepted := k0\<rparr>))
        | _ \<Rightarrow> return_p base))"

section \<open>Maintenance commands\<close>

definition TEST_KEY :: bytes where
  "TEST_KEY = [0xAA, 0xBB, 0xCC, 0xDD, 0x11, 0x22, 0x33, 0x44, 0x55, 0x66, 0x77, 0x88, 0x99, 0x00, 0xEE, 0xFF]"

text \<open>\<open>CeNtag (KeyVersionMismatch ..)\<close> stands for the messages about a version that is not the expected one.\<close>

definition testck_version :: "('t, 'e) link \<Rightarrow> byte \<Rightarrow> AuthSession \<Rightarrow> ('t, 'e, AuthSession) cli" where
  "testck_version E expected s =
    bind_p (on_card (map_err_p CeSession (auth_get_key_version E s Key1))) (\<lambda>(v, s).
      if v \<noteq> expected then throw_p (CeNtag (KeyVersionMismatch 1 expected v)) else return_p s)"

definition cmd_testck :: "cli_env \<Rightarrow> ('t, 'e) link \<Rightarrow> ('t, 'e, unit) cli" where
  "cmd_testck env E =
    bind_p (on_card (map_err_p CeSession (get_selected_uid E))) (\<lambda>_.
    bind_p (log_event_with_provenance ''testck: starting'' (Some StaticTestKey)) (\<lambda>_.
    bind_p (gen_rnd_a env) (\<lambda>rnd_a.
    bind_p (on_card (map_err_p CeSession (authenticate_aes E session_new Key0 (replicate 16 0) rnd_a))) (\<lambda>s.
    bind_p (testck_version E 0 s) (\<lambda>s.
    bind_p (on_card (map_err_p CeSession (auth_change_key E s NmKey1 TEST_KEY 1 (replicate 16 0)))) (\<lambda>s.
    bind_p (testck_version E 1 s) (\<lambda>s.
    bind_p (on_card (map_err_p CeSession (auth_change_key E s NmKey1 (replicate 16 0) 0 TEST_KEY))) (\<lambda>s.
    bind_p (testck_version E 0 s) (\<lambda>_.
      log_event_with_provenance ''testck: ALL PASS'' (Some StaticTestKey))))))))))"

definition cmd_set_card_uid :: "cli_env \<Rightarrow> ('t, 'e) link \<Rightarrow> string \<Rightarrow> ('t, 'e, unit) cli" where
  "cmd_set_card_uid env E uid_hex =
    bind_p (lift_r (map_err (\<lambda>_. CeBadHex) (decode_hex 7 (str_trim uid_hex)))) (\<lambda>uid.
    bind_p (on_card (map_err_p CeSession (get_selected_uid E))) (\<lambda>_.
    bind_p (gen_rnd_a env) (\<lambda>rnd_a.
    bind_p (on_card (map_err_p CeSession (authenticate_aes E session_new Key0 (replicate 16 0) rnd_a))) (\<lambda>_.
    bind_p (on_card (map_err_p CeSession (transmit_s E ([0x90, 0x52, 0x00, 0x00, 0x07] @ uid)))) (\<lambda>resp.
      if rs_sw1 resp = 0x91 \<and> rs_sw2 resp = 0x00 then return_p ()
      else throw_p (CeSetUid (rs_sw1 resp) (rs_sw2 resp)))))))"

section \<open>The dispatcher\<close>

datatype CliCommand =
    CcUid
  | CcVer
  | CcKeyver string byte
  | CcInspect "string option" byte bool
  | CcUrl
  | CcBurn string string byte bool bool "string option" bool
  | CcProvision string string bool bool "string option" bool
  | CcWipe "string option" "string option" byte bool bool bool "string option"
  | CcCycle string string byte bool
  | CcPicc string
  | CcDiagnose string
  | CcDeriveKeys string string byte bool
  | CcF5Probe bool
  | CcSetCardUid string
  | CcTryKey string byte u32
  | CcScanKeys string u32
  | CcResetCard
  | CcTestCk

definition parse_hex_16 :: "string \<Rightarrow> ('e CliError, bytes) result" where
  "parse_hex_16 s = map_err (\<lambda>_. CeBadHex) (decode_hex 16 (str_trim s))"

definition parse_hex_7 :: "string \<Rightarrow> ('e CliError, bytes) result" where
  "parse_hex_7 s = map_err (\<lambda>_. CeBadHex) (decode_hex 7 (str_trim s))"

text \<open>\<open>str::split\<close> on one character, and the five keys of \<open>--raw-keys\<close>.\<close>

fun str_split :: "char \<Rightarrow> string \<Rightarrow> string \<Rightarrow> string list" where
  "str_split sep [] part = [part]"
| "str_split sep (c # cs) part = (if c = sep then part # str_split sep cs [] else str_split sep cs (part @ [c]))"

fun parse_all :: "('a \<Rightarrow> ('f, 'b) result) \<Rightarrow> 'a list \<Rightarrow> ('f, 'b list) result" where
  "parse_all f [] = Inr []"
| "parse_all f (x # xs) = bind_r (f x) (\<lambda>y. bind_r (parse_all f xs) (\<lambda>ys. Inr (y # ys)))"

definition parse_raw_keyset :: "string \<Rightarrow> ('e CliError, bytes list) result" where
  "parse_raw_keyset s =
    (let parts = str_split (CHR ''+'') s []
     in if length parts \<noteq> 5 then Inl CeBadHex else parse_all parse_hex_16 parts)"

definition parse_opt :: "('a \<Rightarrow> ('f, 'b) result) \<Rightarrow> 'a option \<Rightarrow> ('f, 'b option) result" where
  "parse_opt f v = (case v of None \<Rightarrow> Inr None | Some x \<Rightarrow> bind_r (f x) (\<lambda>y. Inr (Some y)))"

definition wipe_source :: "string option \<Rightarrow> string option \<Rightarrow> byte \<Rightarrow> ('e CliError, WipeKeySource) result" where
  "wipe_source issuer raw version =
    (case (issuer, raw) of
      (Some ik, None) \<Rightarrow> bind_r (parse_hex_16 ik) (\<lambda>k. Inr \<lparr>ws_issuer_key = Some k, ws_raw_keys = None, ws_version = version\<rparr>)
    | (None, Some rk) \<Rightarrow> bind_r (parse_raw_keyset rk) (\<lambda>ks. Inr \<lparr>ws_issuer_key = None, ws_raw_keys = Some ks, ws_version = version\<rparr>)
    | (None, None) \<Rightarrow> Inl CeKeySource
    | (Some _, Some _) \<Rightarrow> Inl CeKeySource)"

definition cycle_burn :: "cli_env \<Rightarrow> ('t, 'e) link \<Rightarrow> bytes \<Rightarrow> string \<Rightarrow> byte \<Rightarrow> bool \<Rightarrow> ('t, 'e, unit) cli" where
  "cycle_burn env E issuer url version verbose =
    cmd_burn env E issuer url \<lparr>bo_version = version, bo_verbose = verbose, bo_dry_run = False, bo_confirm_uid = None, bo_force = False\<rparr>"

definition cmd_cycle :: "cli_env \<Rightarrow> ('t, 'e) link \<Rightarrow> bytes \<Rightarrow> string \<Rightarrow> byte \<Rightarrow> bool \<Rightarrow> ('t, 'e, unit) cli" where
  "cmd_cycle env E issuer url version verbose =
    bind_p (cycle_burn env E issuer url version verbose) (\<lambda>_.
    bind_p (cmd_wipe env E \<lparr>ws_issuer_key = Some issuer, ws_raw_keys = None, ws_version = version\<rparr>
        \<lparr>wo_verbose = verbose, wo_dry_run = False, wo_skip_preverify = False, wo_confirm_uid = None\<rparr>) (\<lambda>_.
      cycle_burn env E issuer url version verbose))"

text \<open>No card is involved in deriving keys; the keys are what is printed.\<close>

definition cmd_derive_keys :: "cli_env \<Rightarrow> string \<Rightarrow> string \<Rightarrow> byte \<Rightarrow> ('e CliError, CardKeySet) result" where
  "cmd_derive_keys env uid ik version =
    bind_r (parse_hex_7 uid) (\<lambda>uid. bind_r (parse_hex_16 ik) (\<lambda>issuer.
      Inr (derive_keys (ce_cmac env) issuer (CardUid uid) (ucast version))))"

definition discard :: "('s, 'f, 'a) prog \<Rightarrow> ('s, 'f, unit) prog" where
  "discard m = bind_p m (\<lambda>_. return_p ())"

text \<open>The commands with key material of \<open>run\<close>, then the rest.\<close>

definition run_key_command :: "cli_env \<Rightarrow> ('t, 'e) link \<Rightarrow> CliCommand \<Rightarrow> ('t, 'e, unit) cli" where
  "run_key_command env E cmd =
    (case cmd of
      CcBurn ik url version verbose dry_run confirm force \<Rightarrow>
        bind_p (lift_r (parse_hex_16 ik)) (\<lambda>issuer.
        bind_p (lift_r (parse_opt parse_hex_7 confirm)) (\<lambda>uid.
          cmd_burn env E issuer url \<lparr>bo_version = version, bo_verbose = verbose, bo_dry_run = dry_run, bo_confirm_uid = uid, bo_force = force\<rparr>))
    | CcProvision proxy code verbose dry_run confirm force \<Rightarrow>
        bind_p (lift_r (parse_opt parse_hex_7 confirm)) (\<lambda>uid.
        bind_p (lift_r (fetch_provision_keys env proxy code)) (\<lambda>provisioned.
          if dry_run then return_p () else burn_provisioned env E provisioned verbose uid force))
    | CcWipe ik raw version verbose dry_run skip confirm \<Rightarrow>
        bind_p (lift_r (parse_opt parse_hex_7 confirm)) (\<lambda>uid.
        bind_p (lift_r (wipe_source ik raw version)) (\<lambda>src.
          cmd_wipe env E src \<lparr>wo_verbose = verbose, wo_dry_run = dry_run, wo_skip_preverify = skip, wo_confirm_uid = uid\<rparr>))
    | CcCycle ik url version verbose \<Rightarrow>
        bind_p (lift_r (parse_hex_16 ik)) (\<lambda>issuer. cmd_cycle env E issuer url version verbose)
    | CcTryKey key key_no attempts \<Rightarrow> bind_p (lift_r (parse_hex_16 key)) (\<lambda>k. discard (cmd_try_key env E k key_no attempts))
    | CcScanKeys ik attempts \<Rightarrow> bind_p (lift_r (parse_hex_16 ik)) (\<lambda>issuer. discard (cmd_scan_keys env E issuer attempts))
    | CcResetCard \<Rightarrow> discard (cmd_try_key env E (replicate 16 0) 0 20)
    | _ \<Rightarrow> return_p ())"

definition run ::
    "cli_env \<Rightarrow> ('t, 'e) link \<Rightarrow> (Sdm \<Rightarrow> bytes \<Rightarrow> bytes \<Rightarrow> bytes \<Rightarrow> 'v option) \<Rightarrow> string option \<Rightarrow> bool \<Rightarrow> CliCommand \<Rightarrow> ('t, 'e, unit) cli" where
  "run env E verify fallback json cmd =
    (case cmd of
      CcUid \<Rightarrow> discard (cmd_uid E)
    | CcVer \<Rightarrow> discard (cmd_ver E)
    | CcKeyver ik version \<Rightarrow> bind_p (lift_r (parse_hex_16 ik)) (\<lambda>issuer. discard (cmd_keyver env E fallback issuer version))
    | CcInspect ik version verbose \<Rightarrow>
        bind_p (lift_r (parse_opt parse_hex_16 ik)) (\<lambda>issuer. discard (cmd_inspect env E issuer version))
    | CcUrl \<Rightarrow> discard (cmd_url E)
    | CcPicc ik \<Rightarrow> bind_p (lift_r (parse_hex_16 ik)) (\<lambda>issuer. discard (cmd_picc env E issuer))
    | CcDiagnose ik \<Rightarrow> bind_p (lift_r (parse_hex_16 ik)) (\<lambda>issuer. discard (cmd_diagnose env E verify issuer json))
    | CcDeriveKeys uid ik version verbose \<Rightarrow> discard (lift_r (cmd_derive_keys env uid ik version))
    | CcF5Probe force \<Rightarrow> discard (cmd_f5probe env E force)
    | CcSetCardUid uid \<Rightarrow> cmd_set_card_uid env E uid
    | CcTestCk \<Rightarrow> cmd_testck env E
    | _ \<Rightarrow> run_key_command env E cmd)"

text \<open>The exit code. Only errors that keep their cause in the chain are recognised: \<open>pcsc_code\<close> is the
  code of a reader error, a bad proxy key still carries its \<open>HexError\<close>, and a bad argument does not.\<close>

definition exit_code_for :: "('e \<Rightarrow> nat) \<Rightarrow> 'e CliError \<Rightarrow> nat" where
  "exit_code_for pcsc_code e =
    (case e of
      CeSession (SeTransport x) \<Rightarrow> pcsc_code x
    | CeProxyKey _ \<Rightarrow> 5
    | CeExit n \<Rightarrow> n
    | _ \<Rightarrow> 1)"

end
