(* ===== verification/MockCard.thy ===== *)
theory MockCard
  imports Session
begin

text \<open>
  The card the command-line tests run against: \<open>apps/bolty-cli/src/mock_transport.rs\<close>. It keeps
  five keys with versions, the NDEF file and its settings, and checks the whole authenticated
  protocol. Every assertion of the source is an \<open>assert_o\<close>, so a panic is \<open>None\<close>; indexing and
  slicing that may go out of range is asserted where the source would panic.
\<close>

definition assert_o :: "bool \<Rightarrow> 'a option \<Rightarrow> 'a option" where
  "assert_o b m = (if b then m else None)"

lemma assert_o_simps [simp]: "assert_o True m = m" "assert_o False m = None"
  by (simp_all add: assert_o_def)

record PendingAuth =
  pa_key_no :: byte
  pa_key :: bytes
  pa_rnd_b :: bytes

record SessionState =
  ss_enc_key :: bytes
  ss_mac_key :: bytes
  ss_ti :: bytes
  ss_cmd_counter :: u16

record MockTransport =
  mk_uid :: bytes
  mk_keys :: "bytes list"
  mk_key_versions :: bytes
  mk_ndef :: bytes
  mk_file_settings :: bytes
  mk_ndef_selected :: bool
  mk_ndef_ef_selected :: bool
  mk_pending_auth :: "PendingAuth option"
  mk_session :: "SessionState option"
  mk_version_step :: nat
  mk_apdu_log :: "bytes list"

definition MOCK_UID :: bytes where "MOCK_UID = [0x04, 0x10, 0x65, 0xFA, 0x96, 0x73, 0x80]"

definition MOCK_TI :: bytes where "MOCK_TI = [0x08, 0x5B, 0xC9, 0x41]"

definition DEFAULT_FILE_SETTINGS :: bytes where
  "DEFAULT_FILE_SETTINGS = [0x00, 0x00, 0xE0, 0xEE, 0x00, 0x01, 0x00]"

definition VERSION_PART1 :: bytes where
  "VERSION_PART1 = [0x04, 0x04, 0x08, 0x30, 0x00, 0x11, 0x05]"

definition VERSION_PART2 :: bytes where
  "VERSION_PART2 = [0x04, 0x04, 0x02, 0x01, 0x02, 0x11, 0x05]"

definition VERSION_PART3 :: bytes where
  "VERSION_PART3 =
    [0x04, 0x10, 0x65, 0xFA, 0x96, 0x73, 0x80, 0xCF, 0x5D, 0x90, 0x45, 0x10, 0x46, 0x21]"

definition NDEF_DF_SELECT :: bytes where
  "NDEF_DF_SELECT =
    [0x00, 0xA4, 0x04, 0x00, 0x07, 0xD2, 0x76, 0x00, 0x00, 0x85, 0x01, 0x01, 0x00]"

definition NDEF_EF_SELECT :: bytes where
  "NDEF_EF_SELECT = [0x00, 0xA4, 0x00, 0x0C, 0x02, 0xE1, 0x04]"

definition MOCK_RND_B :: bytes where
  "MOCK_RND_B =
    [0xB9, 0xE2, 0xFC, 0x78, 0x9B, 0x64, 0xBF, 0x23, 0x7C, 0xCC, 0xAA, 0x20, 0xEC, 0x7E, 0x6E, 0x48]"

definition mock_with_state :: "bytes list \<Rightarrow> bytes \<Rightarrow> bytes \<Rightarrow> bytes \<Rightarrow> MockTransport" where
  "mock_with_state keys versions ndef settings =
    \<lparr>mk_uid = MOCK_UID, mk_keys = keys, mk_key_versions = versions, mk_ndef = ndef,
     mk_file_settings = settings, mk_ndef_selected = False, mk_ndef_ef_selected = False,
     mk_pending_auth = None, mk_session = None, mk_version_step = 0, mk_apdu_log = []\<rparr>"

definition mock_new :: MockTransport where
  "mock_new = mock_with_state (replicate 5 (replicate 16 0)) (replicate 5 0) [] DEFAULT_FILE_SETTINGS"

definition mock_response :: "bytes \<Rightarrow> byte \<Rightarrow> byte \<Rightarrow> Response" where
  "mock_response data sw1 sw2 = \<lparr>rs_data = data, rs_sw1 = sw1, rs_sw2 = sw2\<rparr>"

definition mock_ok :: "bytes \<Rightarrow> Response" where "mock_ok data = mock_response data 0x91 0x00"

definition mock_iso_ok :: Response where "mock_iso_ok = mock_response [] 0x90 0x00"

section \<open>Crypto helpers\<close>

definition mock_session_vector_aes :: "bytes \<Rightarrow> bytes \<Rightarrow> bytes \<Rightarrow> bytes" where
  "mock_session_vector_aes label rnd_a rnd_b =
    label @ [0x00, 0x01, 0x00, 0x80] @ slice 0 2 rnd_a
    @ map (\<lambda>i. rnd_a ! (2 + i) XOR rnd_b ! i) [0..<6]
    @ slice 6 16 rnd_b @ slice 8 16 rnd_a"

definition derive_session_keys :: "aes_crate \<Rightarrow> bytes \<Rightarrow> bytes \<Rightarrow> bytes \<Rightarrow> bytes \<times> bytes" where
  "derive_session_keys A key rnd_a rnd_b =
    (let sv1 = mock_session_vector_aes [0xA5, 0x5A] rnd_a rnd_b;
         sv2 = mock_session_vector_aes [0x5A, 0xA5] rnd_a rnd_b
     in (aes_mac A key sv1, aes_mac A key sv2))"

definition mock_truncate_mac :: "bytes \<Rightarrow> bytes" where
  "mock_truncate_mac full = map (\<lambda>i. full ! (2 * i + 1)) [0..<8]"

definition compute_command_mac ::
    "aes_crate \<Rightarrow> SessionState \<Rightarrow> byte \<Rightarrow> bytes \<Rightarrow> bytes \<Rightarrow> bytes" where
  "compute_command_mac A s cmd header data =
    mock_truncate_mac (aes_mac A (ss_mac_key s)
      (cmd # u16_le (ss_cmd_counter s) @ ss_ti s @ header @ data))"

definition compute_response_mac :: "aes_crate \<Rightarrow> SessionState \<Rightarrow> bytes \<Rightarrow> bytes" where
  "compute_response_mac A s data =
    mock_truncate_mac (aes_mac A (ss_mac_key s)
      (0x00 # u16_le (ss_cmd_counter s + 1) @ ss_ti s @ data))"

text \<open>The block loops are those of the driver; here a misaligned buffer panics.\<close>

definition mock_aes_cbc_encrypt :: "aes_crate \<Rightarrow> bytes \<Rightarrow> bytes \<Rightarrow> bytes \<Rightarrow> bytes option" where
  "mock_aes_cbc_encrypt A key iv buf =
    assert_o (buf \<noteq> [] \<and> length buf mod 16 = 0) (Some (cbc_encrypt_blocks A key iv buf))"

definition mock_aes_cbc_decrypt :: "aes_crate \<Rightarrow> bytes \<Rightarrow> bytes \<Rightarrow> bytes \<Rightarrow> bytes option" where
  "mock_aes_cbc_decrypt A key iv buf =
    assert_o (buf \<noteq> [] \<and> length buf mod 16 = 0) (Some (cbc_decrypt_blocks A key iv buf))"

definition command_iv :: "aes_crate \<Rightarrow> bytes \<Rightarrow> bytes \<Rightarrow> u16 \<Rightarrow> bytes" where
  "command_iv A enc_key ti cmd_counter =
    aes_enc A enc_key ([0xA5, 0x5A] @ ti @ u16_le cmd_counter @ replicate 8 0)"

definition decrypt_command :: "aes_crate \<Rightarrow> SessionState \<Rightarrow> bytes \<Rightarrow> bytes option" where
  "decrypt_command A s buf =
    mock_aes_cbc_decrypt A (ss_enc_key s) (command_iv A (ss_enc_key s) (ss_ti s) (ss_cmd_counter s)) buf"

definition mock_strip_m2_padding :: "bytes \<Rightarrow> nat option" where
  "mock_strip_m2_padding buf =
    (let i = m2_scan buf (length buf)
     in if i = 0 \<or> buf ! (i - 1) \<noteq> 0x80 then None else Some (i - 1))"

section \<open>Command handlers\<close>

definition handle_auth_part1 ::
    "aes_crate \<Rightarrow> MockTransport \<Rightarrow> bytes \<Rightarrow> (Response \<times> MockTransport) option" where
  "handle_auth_part1 A m apdu =
    assert_o (mk_ndef_selected m)
    (assert_o (length apdu = 8 \<or> length apdu = 11)
    (assert_o (apdu ! 0 = 0x90 \<and> apdu ! 1 = 0x71)
    (let key_no = unat (apdu ! 5)
     in assert_o (key_no < 5)
       (let key = mk_keys m ! key_no
        in case mock_aes_cbc_encrypt A key (replicate 16 0) MOCK_RND_B of
             None \<Rightarrow> None
           | Some enc \<Rightarrow> Some (mock_response enc 0x91 0xAF,
               m\<lparr>mk_pending_auth := Some \<lparr>pa_key_no = of_nat key_no, pa_key = key, pa_rnd_b = MOCK_RND_B\<rparr>\<rparr>)))))"

definition handle_auth_part2 ::
    "aes_crate \<Rightarrow> MockTransport \<Rightarrow> bytes \<Rightarrow> (Response \<times> MockTransport) option" where
  "handle_auth_part2 A m0 apdu =
    (case mk_pending_auth m0 of
      None \<Rightarrow> None
    | Some pending \<Rightarrow>
        (let m = m0\<lparr>mk_pending_auth := None\<rparr>
         in assert_o (length apdu = 38)
           (assert_o (take 5 apdu = [0x90, 0xAF, 0x00, 0x00, 0x20])
           (assert_o (apdu ! 37 = 0x00)
           (case mock_aes_cbc_decrypt A (pa_key pending) (replicate 16 0) (slice 5 37 apdu) of
             None \<Rightarrow> None
           | Some ciphertext \<Rightarrow>
               let rnd_a = take 16 ciphertext;
                   rotated_rnd_b = drop 1 (pa_rnd_b pending) @ [pa_rnd_b pending ! 0]
               in if drop 16 ciphertext \<noteq> rotated_rnd_b
                  then Some (mock_response [] 0x91 0xAE, m)
                  else
                    case mock_aes_cbc_encrypt A (pa_key pending) (replicate 16 0)
                        (MOCK_TI @ drop 1 rnd_a @ [rnd_a ! 0] @ replicate 12 0) of
                      None \<Rightarrow> None
                    | Some response \<Rightarrow>
                        let (enc_key, mac_key) = derive_session_keys A (pa_key pending) rnd_a (pa_rnd_b pending)
                        in Some (mock_ok response,
                             m\<lparr>mk_session := Some \<lparr>ss_enc_key = enc_key, ss_mac_key = mac_key,
                                 ss_ti = MOCK_TI, ss_cmd_counter = 0\<rparr>\<rparr>))))))"

text \<open>\<open>False\<close>: no session, or a wrong MAC; both panic.\<close>

definition verify_request_mac ::
    "aes_crate \<Rightarrow> MockTransport \<Rightarrow> byte \<Rightarrow> bytes \<Rightarrow> bytes \<Rightarrow> bytes \<Rightarrow> bool" where
  "verify_request_mac A m cmd header data mac =
    (case mk_session m of None \<Rightarrow> False | Some s \<Rightarrow> mac = compute_command_mac A s cmd header data)"

definition bump :: "SessionState \<Rightarrow> SessionState" where
  "bump s = s\<lparr>ss_cmd_counter := ss_cmd_counter s + 1\<rparr>"

definition response_with_mac ::
    "aes_crate \<Rightarrow> MockTransport \<Rightarrow> bytes \<Rightarrow> (Response \<times> MockTransport) option" where
  "response_with_mac A m data =
    (case mk_session m of
      None \<Rightarrow> None
    | Some s \<Rightarrow> Some (mock_ok (data @ compute_response_mac A s data), m\<lparr>mk_session := Some (bump s)\<rparr>))"

definition handle_get_version_start :: "MockTransport \<Rightarrow> (Response \<times> MockTransport) option" where
  "handle_get_version_start m = Some (mock_response VERSION_PART1 0x91 0xAF, m\<lparr>mk_version_step := 1\<rparr>)"

definition handle_get_version_continue :: "MockTransport \<Rightarrow> (Response \<times> MockTransport) option" where
  "handle_get_version_continue m =
    (if mk_version_step m = 1 then Some (mock_response VERSION_PART2 0x91 0xAF, m\<lparr>mk_version_step := 2\<rparr>)
     else if mk_version_step m = 2 then Some (mock_response VERSION_PART3 0x91 0x00, m\<lparr>mk_version_step := 0\<rparr>)
     else None)"

definition handle_get_file_settings_plain ::
    "MockTransport \<Rightarrow> bytes \<Rightarrow> (Response \<times> MockTransport) option" where
  "handle_get_file_settings_plain m apdu =
    assert_o (mk_ndef_selected m)
    (assert_o (length apdu = 7)
    (assert_o (take 5 apdu = [0x90, 0xF5, 0x00, 0x00, 0x01])
    (assert_o (apdu ! 5 = 0x02 \<and> apdu ! 6 = 0x00)
    (Some (mock_ok (mk_file_settings m), m)))))"

definition handle_get_file_settings_mac ::
    "aes_crate \<Rightarrow> MockTransport \<Rightarrow> bytes \<Rightarrow> (Response \<times> MockTransport) option" where
  "handle_get_file_settings_mac A m apdu =
    assert_o (mk_ndef_selected m)
    (assert_o (length apdu = 15)
    (assert_o (take 5 apdu = [0x90, 0xF5, 0x00, 0x00, 0x09])
    (assert_o (apdu ! 5 = 0x02 \<and> apdu ! 14 = 0x00)
    (assert_o (verify_request_mac A m 0xF5 [apdu ! 5] [] (slice 6 14 apdu))
    (response_with_mac A m (mk_file_settings m))))))"

definition update_file_settings_from_patch :: "MockTransport \<Rightarrow> bytes \<Rightarrow> MockTransport option" where
  "update_file_settings_from_patch m patch =
    assert_o (length (mk_file_settings m) \<ge> 7 \<and> length patch \<ge> 3)
    (Some (m\<lparr>mk_file_settings :=
      [mk_file_settings m ! 0, patch ! 0, patch ! 1, patch ! 2,
       mk_file_settings m ! 4, mk_file_settings m ! 5, mk_file_settings m ! 6] @ drop 3 patch\<rparr>))"

definition handle_change_file_settings ::
    "aes_crate \<Rightarrow> MockTransport \<Rightarrow> bytes \<Rightarrow> (Response \<times> MockTransport) option" where
  "handle_change_file_settings A m apdu =
    assert_o (mk_ndef_selected m)
    (assert_o (length apdu \<ge> 31)
    (assert_o (apdu ! 0 = 0x90 \<and> apdu ! 1 = 0x5F \<and> apdu ! 5 = 0x02 \<and> last apdu = 0x00)
    (let body = slice 5 (length apdu - 1) apdu;
         payload = take (length body - 8) body;
         mac = drop (length body - 8) body;
         header = take 1 payload;
         ciphertext = drop 1 payload
     in assert_o (verify_request_mac A m 0x5F header ciphertext mac)
       (case mk_session m of
         None \<Rightarrow> None
       | Some s \<Rightarrow>
           (case decrypt_command A s ciphertext of
             None \<Rightarrow> None
           | Some plaintext \<Rightarrow>
               (case mock_strip_m2_padding plaintext of
                 None \<Rightarrow> None
               | Some patch_len \<Rightarrow>
                   (case update_file_settings_from_patch m (take patch_len plaintext) of
                     None \<Rightarrow> None
                   | Some m' \<Rightarrow> response_with_mac A m' [])))))))"

definition handle_change_key ::
    "aes_crate \<Rightarrow> MockTransport \<Rightarrow> bytes \<Rightarrow> (Response \<times> MockTransport) option" where
  "handle_change_key A m apdu =
    assert_o (mk_ndef_selected m)
    (assert_o (length apdu \<ge> 46)
    (assert_o (apdu ! 0 = 0x90 \<and> apdu ! 1 = 0xC4 \<and> apdu ! 4 = 0x29 \<and> last apdu = 0x00)
    (let key_no = unat (apdu ! 5);
         ciphertext = slice 6 38 apdu;
         mac = slice 38 46 apdu
     in assert_o (key_no < 5)
       (assert_o (verify_request_mac A m 0xC4 [apdu ! 5] ciphertext mac)
       (case mk_session m of
         None \<Rightarrow> None
       | Some s \<Rightarrow>
           (case decrypt_command A s ciphertext of
             None \<Rightarrow> None
           | Some plaintext \<Rightarrow>
               if key_no = 0 then
                 Some (mock_ok [],
                   m\<lparr>mk_keys := (mk_keys m)[0 := take 16 plaintext],
                     mk_key_versions := (mk_key_versions m)[0 := plaintext ! 16],
                     mk_session := None\<rparr>)
               else
                 response_with_mac A
                   (m\<lparr>mk_keys := (mk_keys m)[key_no := xor_bytes (take 16 plaintext) (mk_keys m ! key_no)],
                     mk_key_versions := (mk_key_versions m)[key_no := plaintext ! 16]\<rparr>) []))))))"

definition handle_get_key_version ::
    "aes_crate \<Rightarrow> MockTransport \<Rightarrow> bytes \<Rightarrow> (Response \<times> MockTransport) option" where
  "handle_get_key_version A m apdu =
    assert_o (mk_ndef_selected m)
    (assert_o (length apdu = 15)
    (assert_o (take 5 apdu = [0x90, 0x64, 0x00, 0x00, 0x09])
    (assert_o (apdu ! 14 = 0x00)
    (assert_o (verify_request_mac A m 0x64 [apdu ! 5] [] (slice 6 14 apdu))
    (assert_o (unat (apdu ! 5) < length (mk_key_versions m))
    (response_with_mac A m [mk_key_versions m ! unat (apdu ! 5)]))))))"

definition le24_at :: "bytes \<Rightarrow> nat \<Rightarrow> nat" where
  "le24_at apdu i = unat (u32_of_le (apdu ! i) (apdu ! (i + 1)) (apdu ! (i + 2)) 0)"

definition handle_read_data_plain :: "MockTransport \<Rightarrow> bytes \<Rightarrow> (Response \<times> MockTransport) option" where
  "handle_read_data_plain m apdu =
    assert_o (mk_ndef_selected m)
    (assert_o (length apdu \<ge> 12)
    (assert_o (take 5 apdu = [0x90, 0xAD, 0x00, 0x00, 0x07] \<and> last apdu = 0x00 \<and> apdu ! 5 = 0x02)
    (let start = le24_at apdu 6;
         len = le24_at apdu 9;
         end' = (if len = 0 then length (mk_ndef m) else start + len);
         stop = min end' (length (mk_ndef m))
     in assert_o (start \<le> stop)
       (Some (mock_ok (slice start stop (mk_ndef m)),
          m\<lparr>mk_session := map_option bump (mk_session m)\<rparr>)))))"

definition handle_write_data_plain :: "MockTransport \<Rightarrow> bytes \<Rightarrow> (Response \<times> MockTransport) option" where
  "handle_write_data_plain m apdu =
    assert_o (mk_ndef_selected m)
    (assert_o (length apdu \<ge> 12)
    (assert_o (apdu ! 0 = 0x90 \<and> apdu ! 1 = 0x8D \<and> apdu ! 5 = 0x02 \<and> last apdu = 0x00)
    (let off = le24_at apdu 6;
         len = le24_at apdu 9
     in assert_o (12 + len \<le> length apdu)
       (let data = slice 12 (12 + len) apdu;
            ndef = mk_ndef m @ replicate (off + len - length (mk_ndef m)) 0
        in Some (mock_ok [],
             m\<lparr>mk_ndef := take off ndef @ data @ drop (off + len) ndef,
               mk_session := map_option bump (mk_session m)\<rparr>)))))"

definition handle_iso_read_binary :: "MockTransport \<Rightarrow> bytes \<Rightarrow> (Response \<times> MockTransport) option" where
  "handle_iso_read_binary m apdu =
    assert_o (mk_ndef_selected m)
    (assert_o (mk_ndef_ef_selected m)
    (assert_o (length apdu = 5 \<and> apdu ! 1 = 0xB0)
    (if apdu ! 2 AND 0x80 \<noteq> 0 then Some (mock_response [] 0x6A 0x82, m)
     else
       let start = unat (push_bit 8 (ucast (apdu ! 2)) OR ucast (apdu ! 3) :: u16);
           want = (if apdu ! 4 = 0 then 256 else unat (apdu ! 4));
           available = length (mk_ndef m) - start;
           n = min want available
       in Some (mock_response (if n > 0 then slice start (start + n) (mk_ndef m) else []) 0x90 0x00, m))))"

definition handle_iso_select :: "bytes \<Rightarrow> Response" where
  "handle_iso_select apdu =
    (if length apdu = 4 \<and> apdu ! 2 = 0x00 \<and> apdu ! 3 = 0x00 then mock_iso_ok
     else if length apdu \<le> 4 then mock_response [] 0x67 0x00
     else
       let data = drop 5 apdu
       in if length data \<noteq> unat (apdu ! 4) then mock_response [] 0x67 0x00
          else if length data < 2 then mock_response [] 0x6A 0x82
          else if apdu ! 3 AND 0x0F = 0x0C then
            let fid = (push_bit 8 (ucast (data ! 0)) OR ucast (data ! 1) :: u16)
            in if fid = 0x3F00 \<or> fid = 0xE103 \<or> fid = 0xE104 then mock_iso_ok
               else mock_response [] 0x6A 0x82
          else mock_response [] 0x6A 0x82)"

definition handle_iso_generic :: "bytes \<Rightarrow> Response" where
  "handle_iso_generic apdu =
    (if length apdu < 4 then mock_response [] 0x67 0x00
     else if apdu ! 1 = 0xA4 then handle_iso_select apdu
     else mock_response [] 0x6D 0x00)"

text \<open>\<open>None\<close>: \<open>apdu[0]\<close> of an empty APDU panics.\<close>

definition handle_unknown_cla :: "bytes \<Rightarrow> Response option" where
  "handle_unknown_cla apdu =
    assert_o (apdu \<noteq> [])
    (Some (if apdu ! 0 = 0xFF \<and> length apdu > 1 \<and> apdu ! 1 = 0xA4 then mock_response [] 0x63 0x00
           else mock_response [] 0x67 0x00))"

definition mock_dispatch ::
    "aes_crate \<Rightarrow> bytes \<Rightarrow> MockTransport \<Rightarrow> (Response \<times> MockTransport) option" where
  "mock_dispatch A apdu m =
    (let native = (\<lambda>n ins. length apdu \<ge> n \<and> apdu ! 0 = 0x90 \<and> apdu ! 1 = ins)
     in if apdu = NDEF_DF_SELECT
        then Some (mock_iso_ok, m\<lparr>mk_ndef_selected := True, mk_ndef_ef_selected := False\<rparr>)
        else if apdu = NDEF_EF_SELECT
        then assert_o (mk_ndef_selected m) (Some (mock_iso_ok, m\<lparr>mk_ndef_ef_selected := True\<rparr>))
        else if length apdu \<ge> 2 \<and> apdu ! 0 = 0x00 \<and> apdu ! 1 = 0xD6
        then assert_o (mk_ndef_selected m) (assert_o (mk_ndef_ef_selected m)
          (assert_o (length apdu \<ge> 5) (Some (mock_iso_ok, m\<lparr>mk_ndef := drop 5 apdu\<rparr>))))
        else if length apdu \<ge> 2 \<and> apdu ! 0 = 0x00 \<and> apdu ! 1 = 0xB0 then handle_iso_read_binary m apdu
        else if native 2 0x71 then handle_auth_part1 A m apdu
        else if native 2 0xAF then
          (if mk_pending_auth m \<noteq> None then handle_auth_part2 A m apdu else handle_get_version_continue m)
        else if native 2 0x60 then handle_get_version_start m
        else if native 6 0xF5 then
          (if length apdu = 7 then handle_get_file_settings_plain m apdu
           else handle_get_file_settings_mac A m apdu)
        else if native 2 0x5F then handle_change_file_settings A m apdu
        else if native 2 0xC4 then handle_change_key A m apdu
        else if native 2 0x64 then handle_get_key_version A m apdu
        else if native 2 0xAD then handle_read_data_plain m apdu
        else if native 2 0x8D then handle_write_data_plain m apdu
        else if length apdu \<ge> 4 \<and> apdu ! 0 = 0xFF \<and> apdu ! 1 = 0xCA
        then Some (mock_response (mk_uid m) 0x90 0x00, m)
        else if apdu \<noteq> [] \<and> apdu ! 0 = 0x00 then Some (handle_iso_generic apdu, m)
        else if apdu \<noteq> [] \<and> apdu ! 0 = 0x90 then None
        else map_option (\<lambda>r. (r, m)) (handle_unknown_cla apdu))"

definition mock_transmit ::
    "aes_crate \<Rightarrow> bytes \<Rightarrow> MockTransport \<Rightarrow> (Response \<times> MockTransport) option" where
  "mock_transmit A apdu m = mock_dispatch A apdu (m\<lparr>mk_apdu_log := mk_apdu_log m @ [apdu]\<rparr>)"

text \<open>\<open>MockTransportError\<close> has no constructors in the source; the card never returns an error
  value, so any type will do.\<close>

typedecl MockTransportError

definition mock_link :: "aes_crate \<Rightarrow> bool \<Rightarrow> (MockTransport, MockTransportError) link" where
  "mock_link A cpt =
    \<lparr>lk_aes = A,
     lk_transmit = (\<lambda>apdu m. map_option (\<lambda>(r, m'). (Inr r, m')) (mock_transmit A apdu m)),
     lk_get_uid = (\<lambda>m. Some (Inr (mk_uid m), m)),
     lk_compat = cpt\<rparr>"

end
