(* ===== verification/MockProtocol.thy ===== *)
theory MockProtocol
  imports MockCard Workflows
begin

text \<open>
  The driver against the mock card. \<open>mirror\<close> is the session state the card must hold for a given
  driver state; a session is live when the card holds exactly that. Each command of the driver
  is followed through the card's dispatcher, which discharges the contract \<open>ntag_card\<close> for the mock
  card, for every AES crate; that the crate is AES enters through \<open>mock_ready\<close>.
\<close>

definition mirror :: "Authenticated \<Rightarrow> SessionState" where
  "mirror st = \<lparr>ss_enc_key = su_enc_key (au_suite st), ss_mac_key = su_mac_key (au_suite st),
    ss_ti = au_ti st, ss_cmd_counter = au_cmd_counter st\<rparr>"

definition settings_wf :: "bytes \<Rightarrow> bool" where
  "settings_wf raw \<longleftrightarrow> (\<exists>v. decode_settings raw = Inr v \<and> 7 \<le> length raw \<and> length raw \<le> 247 \<and>
    raw ! 0 = 0 \<and> slice 4 7 raw = u24w (fv_file_size v) \<and> fv_file_size v \<le> 0xFFFFFF)"

definition mock_wf :: "MockTransport \<Rightarrow> bool" where
  "mock_wf m \<longleftrightarrow> length (mk_uid m) = 7 \<and> length (mk_keys m) = 5 \<and>
    (\<forall>k \<in> set (mk_keys m). length k = 16) \<and> length (mk_key_versions m) = 5 \<and>
    settings_wf (mk_file_settings m) \<and> mk_pending_auth m = None"

definition mock_card :: "MockTransport \<Rightarrow> card" where
  "mock_card m = \<lparr>cd_uid = mk_uid m, cd_keys = mk_keys m, cd_versions = mk_key_versions m,
    cd_ndef = mk_ndef m, cd_settings = projr (decode_settings (mk_file_settings m))\<rparr>"

definition mock_ready :: "aes_crate \<Rightarrow> MockTransport \<Rightarrow> bool" where
  "mock_ready A m \<longleftrightarrow> aes_ok A \<and> mock_wf m"

definition mock_live :: "aes_crate \<Rightarrow> AuthSession \<Rightarrow> MockTransport \<Rightarrow> bool" where
  "mock_live A s m \<longleftrightarrow> mock_ready A m \<and> mk_ndef_selected m \<and> mk_session m = Some (mirror (se_state s)) \<and>
    length (au_ti (se_state s)) = 4 \<and> length (su_enc_key (au_suite (se_state s))) = 16"

section \<open>The two ends of the channel agree\<close>

lemma advance_simps [simp]:
  "au_suite (advance_counter st) = au_suite st"
  "au_ti (advance_counter st) = au_ti st"
  "bump (mirror st) = mirror (advance_counter st)"
  by (simp_all add: advance_counter_def au_suite_def au_ti_def bump_def mirror_def)

lemma command_mac_agrees:
  "compute_command_mac A (mirror st) cmd h d =
    suite_mac A (au_suite st) (cmd # u16_le (au_cmd_counter st) @ au_ti st @ h @ d)"
  by (simp add: compute_command_mac_def suite_mac_def mirror_def mock_truncate_mac_def truncate_mac_def)

lemma response_mac_agrees:
  "compute_response_mac A (mirror st) d =
    suite_mac A (au_suite st) (0x00 # u16_le (au_cmd_counter st + 1) @ au_ti st @ d)"
  by (simp add: compute_response_mac_def suite_mac_def mirror_def mock_truncate_mac_def truncate_mac_def)

lemma length_compute_macs [simp]:
  "length (compute_command_mac A s cmd h d) = 8"
  "length (compute_response_mac A s d) = 8"
  by (simp_all add: compute_command_mac_def compute_response_mac_def mock_truncate_mac_def)

lemma strip_m2_agrees: "mock_strip_m2_padding = strip_m2_padding"
  by (rule ext) (simp add: mock_strip_m2_padding_def strip_m2_padding_def)

lemma session_keys_agree:
  "derive_session_keys A key ra rb =
    (su_enc_key (suite_derive A key ra rb), su_mac_key (suite_derive A key ra rb))"
  by (simp add: derive_session_keys_def suite_derive_def Let_def mock_session_vector_aes_def session_vector_aes_def)

lemma link_simps [simp]:
  "lk_aes (mock_link A c) = A"
  "lk_compat (mock_link A c) = c"
  "lk_get_uid (mock_link A c) m = Some (Inr (mk_uid m), m)"
  by (simp_all add: mock_link_def)

lemma transmit_mock:
  "transmit_s (mock_link A c) apdu m =
    (case mock_dispatch A apdu (m\<lparr>mk_apdu_log := mk_apdu_log m @ [apdu]\<rparr>) of
      None \<Rightarrow> None | Some (r, m') \<Rightarrow> Some (Inr r, m'))"
  by (simp add: transmit_s_def map_err_p_def mock_link_def mock_transmit_def map_option_case
      split: option.splits)

lemma compute_cmd_mac_mock:
  "length h + length d \<le> 255 \<Longrightarrow>
    compute_cmd_mac (mock_link A c) st cmd h d = return_p (compute_command_mac A (mirror st) cmd h d)"
  by (simp add: compute_cmd_mac_def fill_mac_input_def MAC_INPUT_CAP_def MAX_APDU_BODY_def command_mac_agrees)

lemma verify_response_mock:
  "length d \<le> 255 \<Longrightarrow>
    verify_response_mac_and_advance (mock_link A c) st 0 (d @ compute_response_mac A (mirror st) d) =
      return_p (d, advance_counter st)"
  by (simp add: verify_response_mac_and_advance_def MAC_LEN_def Let_def fill_mac_input_def
      MAC_INPUT_CAP_def MAX_APDU_BODY_def response_mac_agrees)

lemma decrypt_command_encrypted:
  assumes "aes_ok A" "length (au_ti st) = 4" "length (su_enc_key (au_suite st)) = 16"
    "buf \<noteq> []" "length buf mod 16 = 0"
  shows "\<exists>ct. encrypt_command (mock_link A c) st buf = Inr ct \<and> length ct = length buf \<and>
    decrypt_command A (mirror st) ct = Some buf"
proof -
  let ?iv = "command_iv A (su_enc_key (au_suite st)) (au_ti st) (au_cmd_counter st)"
  have iv: "suite_iv A (au_suite st) DirCommand (au_ti st) (au_cmd_counter st) = ?iv"
    by (simp add: suite_iv_def command_iv_def direction_label_def)
  then have "length ?iv = 16"
    using length_suite_iv [OF assms(1,3,2)] by metis
  then obtain ct where ct: "aes_cbc_encrypt A (su_enc_key (au_suite st)) ?iv buf = Some ct" "length ct = length buf"
    "aes_cbc_decrypt A (su_enc_key (au_suite st)) ?iv ct = Some buf"
    using aes_cbc_roundtrip [OF assms(1,3) _ assms(4,5)] by blast
  then have "decrypt_command A (mirror st) ct = Some buf"
    using assms(4,5) by (auto simp: decrypt_command_def mirror_def mock_aes_cbc_decrypt_def aes_cbc_decrypt_def
        split: if_splits)
  then show ?thesis
    using ct iv by (auto simp: encrypt_command_def suite_encrypt_def)
qed

lemma status_ok [simp]:
  "rc_status (desfire_of (mock_ok d)) = OperationOk"
  "rc_ok (desfire_of (mock_ok d))"
  "rs_data (mock_ok d) = d" "rs_sw2 (mock_ok d) = 0"
  by (simp_all add: rc_status_def desfire_of_def mock_ok_def mock_response_def rc_code_def
      desfire_status_def rc_ok_def)

text \<open>A MACed command whose handler answers \<open>body\<close> under the session's response MAC.\<close>

lemma send_mac_mock:
  assumes "length h + length d + 8 \<le> 255" "length body \<le> 247"
    and "\<And>l. mock_dispatch A ([0x90, cmd, p1, p2, of_nat (length h + length d + 8)] @ h @ d @
        compute_command_mac A (mirror st) cmd h d @ [0]) (m\<lparr>mk_apdu_log := l\<rparr>) =
      Some (mock_ok (body @ compute_response_mac A (mirror st) body), g (m\<lparr>mk_apdu_log := l\<rparr>))"
  shows "\<exists>l. send_mac (mock_link A c) st cmd p1 p2 h d m =
    Some (Inr (body, advance_counter st), g (m\<lparr>mk_apdu_log := l\<rparr>))"
proof -
  let ?E = "mock_link A c"
  let ?apdu = "[0x90, cmd, p1, p2, of_nat (length h + length d + 8)] @ h @ d @
    compute_command_mac A (mirror st) cmd h d @ [0]"
  let ?m1 = "m\<lparr>mk_apdu_log := mk_apdu_log m @ [?apdu]\<rparr>"
  have "transmit_s ?E ?apdu m =
      Some (Inr (mock_ok (body @ compute_response_mac A (mirror st) body)), g ?m1)"
    using assms(3) by (simp add: transmit_mock)
  then have "send_mac ?E st cmd p1 p2 h d m = Some (Inr (body, advance_counter st), g ?m1)"
    using assms(1,2)
    by (simp add: send_mac_def Let_def MAC_LEN_def MAX_APDU_BODY_def compute_cmd_mac_mock bind_p_def
        verify_response_mock MAX_RESPONSE_DATA_def)
  then show ?thesis
    by blast
qed

section \<open>Commands in a live session\<close>

lemma mirror_bump: "mk_session m = Some (mirror st) \<Longrightarrow>
    response_with_mac A m d =
      Some (mock_ok (d @ compute_response_mac A (mirror st) d), m\<lparr>mk_session := Some (mirror (advance_counter st))\<rparr>)"
  by (simp add: response_with_mac_def)

lemma dispatch_get_settings:
  assumes "mk_ndef_selected m" "mk_session m = Some (mirror st)"
  shows "mock_dispatch A ([0x90, 0xF5, 0x00, 0x00, 0x09] @ [0x02] @ [] @
      compute_command_mac A (mirror st) 0xF5 [0x02] [] @ [0]) m =
    response_with_mac A m (mk_file_settings m)"
  using assms
  by (simp add: mock_dispatch_def NDEF_DF_SELECT_def NDEF_EF_SELECT_def handle_get_file_settings_mac_def
      verify_request_mac_def slice_def nth_append)

lemma dispatch_key_version:
  assumes "mk_ndef_selected m" "mk_session m = Some (mirror st)" "unat kb < length (mk_key_versions m)"
  shows "mock_dispatch A ([0x90, 0x64, 0x00, 0x00, 0x09] @ [kb] @ [] @
      compute_command_mac A (mirror st) 0x64 [kb] [] @ [0]) m =
    response_with_mac A m [mk_key_versions m ! unat kb]"
  using assms
  by (simp add: mock_dispatch_def NDEF_DF_SELECT_def NDEF_EF_SELECT_def handle_get_key_version_def
      verify_request_mac_def slice_def nth_append)

lemma dispatch_change_settings:
  assumes "mk_ndef_selected m" "mk_session m = Some (mirror st)" "length ct \<ge> 16"
    and "decrypt_command A (mirror st) ct = Some (m2_pad patch)" "3 \<le> length patch"
    and "7 \<le> length (mk_file_settings m)"
  shows "mock_dispatch A ([0x90, 0x5F, 0x00, 0x00, lc, 0x02] @ ct @
      compute_command_mac A (mirror st) 0x5F [0x02] ct @ [0]) m =
    response_with_mac A (m\<lparr>mk_file_settings :=
      [mk_file_settings m ! 0, patch ! 0, patch ! 1, patch ! 2,
       mk_file_settings m ! 4, mk_file_settings m ! 5, mk_file_settings m ! 6] @ drop 3 patch\<rparr>) []"
proof -
  let ?mac = "compute_command_mac A (mirror st) 0x5F [0x02] ct"
  let ?apdu = "[0x90, 0x5F, 0x00, 0x00, lc, 0x02] @ ct @ ?mac @ [0]"
  have "slice 5 (length ?apdu - 1) ?apdu = 0x02 # ct @ ?mac"
    by (simp add: slice_def take_Cons')
  moreover have "length ?apdu \<ge> 31" "last ?apdu = 0"
    using assms(3) by simp_all
  moreover have "strip_m2_padding (m2_pad patch) = Some (length patch)" "take (length patch) (m2_pad patch) = patch"
    by (simp_all add: m2_pad_def Let_def strip_m2_padding_pad)
  ultimately have "handle_change_file_settings A m ?apdu = response_with_mac A (m\<lparr>mk_file_settings :=
      [mk_file_settings m ! 0, patch ! 0, patch ! 1, patch ! 2,
       mk_file_settings m ! 4, mk_file_settings m ! 5, mk_file_settings m ! 6] @ drop 3 patch\<rparr>) []"
    using assms unfolding handle_change_file_settings_def
    by (simp add: Let_def verify_request_mac_def strip_m2_agrees update_file_settings_from_patch_def)
  then show ?thesis
    by (simp add: mock_dispatch_def NDEF_DF_SELECT_def NDEF_EF_SELECT_def)
qed

lemma dispatch_change_key:
  assumes "mk_ndef_selected m" "mk_session m = Some (mirror st)" "length ct = 32" "unat kb < 5"
    and "decrypt_command A (mirror st) ct = Some plain"
  shows "mock_dispatch A ([0x90, 0xC4, 0x00, 0x00, 0x29, kb] @ ct @
      compute_command_mac A (mirror st) 0xC4 [kb] ct @ [0]) m =
    (if kb = 0
     then Some (mock_ok [], m\<lparr>mk_keys := (mk_keys m)[0 := take 16 plain],
       mk_key_versions := (mk_key_versions m)[0 := plain ! 16], mk_session := None\<rparr>)
     else response_with_mac A (m\<lparr>mk_keys := (mk_keys m)[unat kb := xor_bytes (take 16 plain) (mk_keys m ! unat kb)],
       mk_key_versions := (mk_key_versions m)[unat kb := plain ! 16]\<rparr>) [])"
proof -
  let ?mac = "compute_command_mac A (mirror st) 0xC4 [kb] ct"
  let ?apdu = "[0x90, 0xC4, 0x00, 0x00, 0x29, kb] @ ct @ ?mac @ [0]"
  have "slice 6 38 ?apdu = ct" "slice 38 46 ?apdu = ?mac" "last ?apdu = 0" "length ?apdu = 47" "?apdu ! 5 = kb"
    using assms(3) by (simp_all add: slice_def)
  moreover have "unat kb = 0 \<longleftrightarrow> kb = 0"
    by (simp add: unat_eq_0)
  ultimately have "handle_change_key A m ?apdu = (if kb = 0
     then Some (mock_ok [], m\<lparr>mk_keys := (mk_keys m)[0 := take 16 plain],
       mk_key_versions := (mk_key_versions m)[0 := plain ! 16], mk_session := None\<rparr>)
     else response_with_mac A (m\<lparr>mk_keys := (mk_keys m)[unat kb := xor_bytes (take 16 plain) (mk_keys m ! unat kb)],
       mk_key_versions := (mk_key_versions m)[unat kb := plain ! 16]\<rparr>) [])"
    using assms unfolding handle_change_key_def Let_def by (simp add: verify_request_mac_def)
  then show ?thesis
    by (simp add: mock_dispatch_def NDEF_DF_SELECT_def NDEF_EF_SELECT_def)
qed

lemma mock_log_simps [simp]:
  "mock_card (m\<lparr>mk_apdu_log := l\<rparr>) = mock_card m"
  "mock_card (m\<lparr>mk_session := x\<rparr>) = mock_card m"
  "mock_card (m\<lparr>mk_ndef_selected := b\<rparr>) = mock_card m"
  "mock_card (m\<lparr>mk_ndef_ef_selected := b\<rparr>) = mock_card m"
  "mock_card (m\<lparr>mk_pending_auth := p\<rparr>) = mock_card m"
  "mock_wf (m\<lparr>mk_apdu_log := l\<rparr>) = mock_wf m"
  "mock_wf (m\<lparr>mk_session := x\<rparr>) = mock_wf m"
  "mock_wf (m\<lparr>mk_ndef_selected := b\<rparr>) = mock_wf m"
  "mock_wf (m\<lparr>mk_ndef_ef_selected := b\<rparr>) = mock_wf m"
  "mock_wf (m\<lparr>mk_ndef := d\<rparr>) = mock_wf m"
  by (simp_all add: mock_card_def mock_wf_def)

lemma mock_settings:
  assumes "mock_wf m"
  shows "decode_settings (mk_file_settings m) = Inr (cd_settings (mock_card m))"
    "length (mk_file_settings m) \<le> 247" "7 \<le> length (mk_file_settings m)"
  using assms by (auto simp: mock_wf_def settings_wf_def mock_card_def)

text \<open>The card and the driver advance together.\<close>

lemma live_advance:
  assumes "mock_live A s m" "mock_wf m'" "mk_ndef_selected m'"
    "mk_session m' = Some (mirror (advance_counter (se_state s)))"
  shows "mock_live A (s\<lparr>se_state := advance_counter (se_state s)\<rparr>) m'"
  using assms by (simp add: mock_live_def mock_ready_def)

lemma get_settings_live:
  assumes "mock_live A s m"
  shows "\<exists>s' m'. auth_get_file_settings (mock_link A c) s Ndef m =
      Some (Inr (cd_settings (mock_card m), s'), m') \<and> mock_live A s' m' \<and> mock_card m' = mock_card m"
proof -
  let ?st = "se_state s" and ?up = "\<lambda>m. m\<lparr>mk_session := Some (mirror (advance_counter (se_state s)))\<rparr>"
  have m: "mk_ndef_selected m" "mk_session m = Some (mirror ?st)" "mock_wf m"
    using assms by (simp_all add: mock_live_def mock_ready_def)
  have "\<exists>l. send_mac (mock_link A c) ?st 0xF5 0x00 0x00 [0x02] [] m =
      Some (Inr (mk_file_settings m, advance_counter ?st), ?up (m\<lparr>mk_apdu_log := l\<rparr>))"
    using m dispatch_get_settings [of _ ?st A] mock_settings [OF m(3)]
    by (intro send_mac_mock) (simp_all add: mirror_bump)
  then obtain l where "send_mac (mock_link A c) ?st 0xF5 0x00 0x00 [0x02] [] m =
      Some (Inr (mk_file_settings m, advance_counter ?st), ?up (m\<lparr>mk_apdu_log := l\<rparr>))"
    by blast
  moreover have "mock_live A (s\<lparr>se_state := advance_counter ?st\<rparr>) (?up (m\<lparr>mk_apdu_log := l\<rparr>))"
    using m by (intro live_advance [OF assms]) simp_all
  ultimately show ?thesis
    using mock_settings [OF m(3)]
    by (simp add: auth_get_file_settings_def get_file_settings_mac_def file_no_def short_file_id_def bind_p_def)
qed

lemma key_version_live:
  assumes "mock_live A s m"
  shows "\<exists>s' m'. auth_get_key_version (mock_link A c) s kn m =
      Some (Inr (cd_versions (mock_card m) ! key_index kn, s'), m') \<and> mock_live A s' m' \<and> mock_card m' = mock_card m"
proof -
  let ?st = "se_state s" and ?up = "\<lambda>m. m\<lparr>mk_session := Some (mirror (advance_counter (se_state s)))\<rparr>"
  let ?kb = "key_as_byte kn"
  have m: "mk_ndef_selected m" "mk_session m = Some (mirror ?st)" "mock_wf m"
    using assms by (simp_all add: mock_live_def mock_ready_def)
  have kb: "unat ?kb < length (mk_key_versions m)"
    using m(3) by (cases kn) (simp_all add: key_as_byte_def mock_wf_def)
  have "\<exists>l. send_mac (mock_link A c) ?st 0x64 0x00 0x00 [?kb] [] m =
      Some (Inr ([mk_key_versions m ! unat ?kb], advance_counter ?st), ?up (m\<lparr>mk_apdu_log := l\<rparr>))"
    using m kb dispatch_key_version [of _ ?st ?kb A]
    by (intro send_mac_mock) (simp_all add: mirror_bump)
  then obtain l where "send_mac (mock_link A c) ?st 0x64 0x00 0x00 [?kb] [] m =
      Some (Inr ([mk_key_versions m ! unat ?kb], advance_counter ?st), ?up (m\<lparr>mk_apdu_log := l\<rparr>))"
    by blast
  moreover have "mock_live A (s\<lparr>se_state := advance_counter ?st\<rparr>) (?up (m\<lparr>mk_apdu_log := l\<rparr>))"
    using m by (intro live_advance [OF assms]) simp_all
  ultimately show ?thesis
    by (simp add: auth_get_key_version_def get_key_version_def bind_p_def mock_card_def key_index_def)
qed

lemma m2_pad_aligned: "m2_pad raw \<noteq> []" "length (m2_pad raw) mod 16 = 0" "length (m2_pad raw) \<ge> 16"
    "length (m2_pad raw) \<le> length raw + 16"
proof -
  have "length raw + 1 \<le> (length raw + 1 + 15) div 16 * 16"
    by linarith
  then have len: "length (m2_pad raw) = (length raw + 1 + 15) div 16 * 16"
    by (simp add: m2_pad_def Let_def)
  show "m2_pad raw \<noteq> []"
    by (simp add: m2_pad_def Let_def)
  show "length (m2_pad raw) mod 16 = 0" "length (m2_pad raw) \<ge> 16" "length (m2_pad raw) \<le> length raw + 16"
    unfolding len by simp_all
qed

lemma update_bytes_min: "3 \<le> length (update_bytes u)"
  by (simp add: update_bytes_def access_rights_to_le_bytes_def)

lemma settings_patched:
  assumes "settings_wf raw" "update_ok u" "decode_settings raw = Inr v"
  defines "raw' \<equiv> [raw ! 0, update_bytes u ! 0, update_bytes u ! 1, update_bytes u ! 2,
    raw ! 4, raw ! 5, raw ! 6] @ drop 3 (update_bytes u)"
  shows "settings_wf raw'" "decode_settings raw' = Inr (apply_update u v)"
proof -
  let ?sz = "fv_file_size v"
  have raw: "raw ! 0 = 0" "slice 4 7 raw = u24w ?sz" "?sz \<le> 0xFFFFFF" "7 \<le> length raw"
    using assms(1,3) by (auto simp: settings_wf_def)
  have upd: "\<And>s. fu_sdm u = Some s \<Longrightarrow> sdm_wire_ok s"
    using assms(2) by (simp add: update_ok_def)
  have "slice 4 7 raw = [raw ! 4, raw ! 5, raw ! 6]"
    using raw(4) by (auto simp: slice_def list_eq_iff_nth_eq eval_nat_numeral less_Suc_eq)
  then have sz: "[raw ! 4, raw ! 5, raw ! 6] = u24w ?sz"
    using raw(2) by simp
  have t3: "take 3 (update_bytes u) = [update_bytes u ! 0, update_bytes u ! 1, update_bytes u ! 2]"
    using update_bytes_min [of u] by (auto simp: list_eq_iff_nth_eq eval_nat_numeral less_Suc_eq)
  have shape: "raw' = 0x00 # take 3 (update_bytes u) @ u24w ?sz @ drop 3 (update_bytes u)"
    unfolding raw'_def t3 using raw(1) sz by (metis append_Cons append_Nil)
  have dec: "decode_settings raw' = Inr \<lparr>fv_file_type = StandardData, fv_file_size = ?sz,
      fv_comm_mode = fu_comm_mode u, fv_access_rights = fu_access_rights u, fv_sdm = fu_sdm u\<rparr>"
    unfolding shape using decode_stored_settings [OF upd raw(3)] .
  have "fv_file_type v = StandardData"
    by (cases "fv_file_type v") simp
  then have "apply_update u v = \<lparr>fv_file_type = StandardData, fv_file_size = ?sz,
      fv_comm_mode = fu_comm_mode u, fv_access_rights = fu_access_rights u, fv_sdm = fu_sdm u\<rparr>"
    by (simp add: apply_update_def)
  then show "decode_settings raw' = Inr (apply_update u v)"
    using dec by simp
  have "slice 4 7 raw' = u24w ?sz"
    using update_bytes_min [of u] unfolding shape by (simp add: slice_def)
  moreover have "length (update_bytes u) \<le> 33"
    using encode_update_ok(2) [of u, OF upd] by (simp add: MAX_CHANGE_FILE_SETTINGS_LEN_def)
  ultimately show "settings_wf raw'"
    using dec raw(3) update_bytes_min [of u] unfolding settings_wf_def
    by (simp add: shape)
qed

lemma change_settings_live:
  assumes "mock_live A s m" "update_ok u"
  shows "\<exists>s' m'. auth_change_file_settings (mock_link A c) s Ndef u m = Some (Inr s', m') \<and> mock_live A s' m' \<and>
    mock_card m' = (mock_card m)\<lparr>cd_settings := apply_update u (cd_settings (mock_card m))\<rparr>"
proof -
  let ?st = "se_state s" and ?E = "mock_link A c"
  have m: "mk_ndef_selected m" "mk_session m = Some (mirror ?st)" "mock_wf m" "aes_ok A"
    "length (au_ti ?st) = 4" "length (su_enc_key (au_suite ?st)) = 16"
    using assms(1) by (simp_all add: mock_live_def mock_ready_def)
  have upd: "\<And>s. fu_sdm u = Some s \<Longrightarrow> sdm_wire_ok s"
    using assms(2) by (simp add: update_ok_def)
  obtain ct where ct: "encrypt_command ?E ?st (m2_pad (update_bytes u)) = Inr ct"
    "length ct = length (m2_pad (update_bytes u))"
    "decrypt_command A (mirror ?st) ct = Some (m2_pad (update_bytes u))"
    using decrypt_command_encrypted [OF m(4-6) m2_pad_aligned(1,2)] by blast
  have len: "length ct \<le> 49" "16 \<le> length ct"
    using encode_update_ok(2) [of u, OF upd] m2_pad_aligned(3,4) [of "update_bytes u"] ct(2)
    by (simp_all add: MAX_CHANGE_FILE_SETTINGS_LEN_def)
  let ?mac = "compute_command_mac A (mirror ?st) 0x5F [0x02] ct"
  let ?apdu = "[0x90, 0x5F, 0x00, 0x00, of_nat (1 + length ct + 8), 0x02] @ ct @ ?mac @ [0x00]"
  let ?raw = "mk_file_settings m"
  let ?m' = "m\<lparr>mk_apdu_log := mk_apdu_log m @ [?apdu], mk_file_settings :=
    [?raw ! 0, update_bytes u ! 0, update_bytes u ! 1, update_bytes u ! 2, ?raw ! 4, ?raw ! 5, ?raw ! 6]
      @ drop 3 (update_bytes u), mk_session := Some (mirror (advance_counter ?st))\<rparr>"
  have "transmit_s ?E ?apdu m = Some (Inr (mock_ok (compute_response_mac A (mirror ?st) [])), ?m')"
    using m mock_settings(3) [OF m(3)]
      dispatch_change_settings [OF _ _ len(2) ct(3) update_bytes_min, of "m\<lparr>mk_apdu_log := mk_apdu_log m @ [?apdu]\<rparr>"]
    by (simp add: transmit_mock mirror_bump)
  then have run: "auth_change_file_settings ?E s Ndef u m =
      Some (Inr (s\<lparr>se_state := advance_counter ?st\<rparr>), ?m')"
    using encode_update_ok(1) [of u, OF upd] ct(1) len verify_response_mock [of "[]" A c ?st]
    by (simp add: auth_change_file_settings_def change_file_settings_def file_no_def short_file_id_def
        bind_p_def compute_cmd_mac_mock MAC_LEN_def)
  have "settings_wf (mk_file_settings ?m')"
    "decode_settings (mk_file_settings ?m') = Inr (apply_update u (cd_settings (mock_card m)))"
    using settings_patched [OF _ assms(2) mock_settings(1) [OF m(3)]] m(3) by (simp_all add: mock_wf_def)
  then have "mock_wf ?m'" "mock_card ?m' = (mock_card m)\<lparr>cd_settings := apply_update u (cd_settings (mock_card m))\<rparr>"
    using m(3) by (simp_all add: mock_wf_def mock_card_def)
  then show ?thesis
    using run live_advance [OF assms(1), of ?m'] m(1) by auto
qed

lemma length_crc32 [simp]: "length (crc32 d) = 4"
  by (simp add: crc32_def)

lemma xor_bytes_swap:
  "length a = length b \<Longrightarrow> xor_bytes (xor_bytes a b) b = a"
  by (rule xor_bytes_cancel) simp

lemma change_key_live:
  assumes "mock_live A s m" "length new = 16" "i = key_index (key_of_non_master nk)" "cd_keys (mock_card m) ! i = old"
  shows "\<exists>s' m'. auth_change_key (mock_link A c) s nk new v old m = Some (Inr s', m') \<and> mock_live A s' m' \<and>
    mock_card m' = set_key i new v (mock_card m)"
proof -
  let ?st = "se_state s" and ?E = "mock_link A c" and ?kb = "key_as_byte (key_of_non_master nk)"
  let ?p = "xor_bytes new old @ [v] @ crc32 new @ [0x80] @ replicate 10 0"
  have m: "mk_ndef_selected m" "mk_session m = Some (mirror ?st)" "mock_wf m" "aes_ok A"
    "length (au_ti ?st) = 4" "length (su_enc_key (au_suite ?st)) = 16"
    using assms(1) by (simp_all add: mock_live_def mock_ready_def)
  have kb: "unat ?kb = i" "unat ?kb < 5" "?kb \<noteq> 0"
    using assms(3) by (cases nk; simp add: key_index_def key_as_byte_def key_of_non_master_def)+
  have old: "old = mk_keys m ! i" "length old = 16"
    using assms(4) kb m(3) by (auto simp: mock_card_def mock_wf_def)
  have p: "length ?p = 32" "take 16 ?p = xor_bytes new old" "?p ! 16 = v"
    using old(2) assms(2) by (simp_all add: nth_append)
  then have al: "?p \<noteq> []" "length ?p mod 16 = 0"
    by auto
  obtain ct where ct: "encrypt_command ?E ?st ?p = Inr ct" "length ct = length ?p"
    "decrypt_command A (mirror ?st) ct = Some ?p"
    using decrypt_command_encrypted [OF m(4-6) al] by blast
  then have len: "length ct = 32"
    using p by simp
  let ?mac = "compute_command_mac A (mirror ?st) 0xC4 [?kb] ct"
  let ?apdu = "[0x90, 0xC4, 0x00, 0x00, 0x29, ?kb] @ ct @ ?mac @ [0x00]"
  let ?m' = "m\<lparr>mk_apdu_log := mk_apdu_log m @ [?apdu], mk_keys := (mk_keys m)[i := new],
    mk_key_versions := (mk_key_versions m)[i := v], mk_session := Some (mirror (advance_counter ?st))\<rparr>"
  have "xor_bytes (take 16 ?p) (mk_keys m ! i) = new"
    using p(2) old assms(2) by (simp add: xor_bytes_swap)
  then have "transmit_s ?E ?apdu m = Some (Inr (mock_ok (compute_response_mac A (mirror ?st) [])), ?m')"
    using m kb p(3) dispatch_change_key [OF _ _ len kb(2) ct(3), of "m\<lparr>mk_apdu_log := mk_apdu_log m @ [?apdu]\<rparr>"]
    by (simp add: transmit_mock mirror_bump)
  then have run: "auth_change_key ?E s nk new v old m = Some (Inr (s\<lparr>se_state := advance_counter ?st\<rparr>), ?m')"
    using ct(1) len verify_response_mock [of "[]" A c ?st]
    by (simp add: auth_change_key_def change_key_def change_key_transmit_def Let_def bind_p_def compute_cmd_mac_mock)
  have "mock_wf ?m'" "mock_card ?m' = set_key i new v (mock_card m)"
    using m(3) assms(2) set_update_subset_insert [of "mk_keys m" i new]
    by (auto simp: mock_wf_def mock_card_def set_key_def)
  then show ?thesis
    using run live_advance [OF assms(1), of ?m'] m(1) by auto
qed

lemma change_master_live:
  assumes "mock_live A s m" "length new = 16"
  shows "\<exists>s' m'. auth_change_master_key (mock_link A c) s new v m = Some (Inr s', m') \<and> mock_ready A m' \<and>
    mock_card m' = set_key 0 new v (mock_card m)"
proof -
  let ?st = "se_state s" and ?E = "mock_link A c"
  let ?p = "new @ [v, 0x80] @ replicate 14 0"
  have m: "mk_ndef_selected m" "mk_session m = Some (mirror ?st)" "mock_wf m" "aes_ok A"
    "length (au_ti ?st) = 4" "length (su_enc_key (au_suite ?st)) = 16"
    using assms(1) by (simp_all add: mock_live_def mock_ready_def)
  have p: "length ?p = 32" "take 16 ?p = new" "?p ! 16 = v"
    using assms(2) by (simp_all add: nth_append)
  then have al: "?p \<noteq> []" "length ?p mod 16 = 0"
    by auto
  obtain ct where ct: "encrypt_command ?E ?st ?p = Inr ct" "length ct = length ?p"
    "decrypt_command A (mirror ?st) ct = Some ?p"
    using decrypt_command_encrypted [OF m(4-6) al] by blast
  then have len: "length ct = 32"
    using p by simp
  let ?mac = "compute_command_mac A (mirror ?st) 0xC4 [0x00] ct"
  let ?apdu = "[0x90, 0xC4, 0x00, 0x00, 0x29, 0x00] @ ct @ ?mac @ [0x00]"
  let ?m' = "m\<lparr>mk_apdu_log := mk_apdu_log m @ [?apdu], mk_keys := (mk_keys m)[0 := new],
    mk_key_versions := (mk_key_versions m)[0 := v], mk_session := None\<rparr>"
  have "transmit_s ?E ?apdu m = Some (Inr (mock_ok []), ?m')"
    using m p(2,3) dispatch_change_key [OF _ _ len _ ct(3), of "m\<lparr>mk_apdu_log := mk_apdu_log m @ [?apdu]\<rparr>" 0]
    by (simp add: transmit_mock)
  then have run: "auth_change_master_key ?E s new v m = Some (Inr session_new, ?m')"
    using ct(1) len
    by (simp add: auth_change_master_key_def change_master_key_def change_key_transmit_def Let_def bind_p_def
        compute_cmd_mac_mock key_as_byte_def)
  have "mock_wf ?m'" "mock_card ?m' = set_key 0 new v (mock_card m)"
    using m(3) assms(2) set_update_subset_insert [of "mk_keys m" 0 new]
    by (auto simp: mock_wf_def mock_card_def set_key_def)
  then show ?thesis
    using run m(4) by (auto simp: mock_ready_def)
qed

lemma u24_roundtrip:
  assumes "w \<le> 0xFFFFFF"
  shows "u32_of_le (u32_le w ! 0) (u32_le w ! 1) (u32_le w ! 2) 0 = w"
proof -
  have "unat w < 2 ^ 24"
    using assms by (simp add: word_le_nat_alt)
  then have "unat (drop_bit 24 w) = 0"
    by (simp add: drop_bit_eq_div unat_div)
  then have "drop_bit 24 w = 0"
    by (simp add: unat_eq_0)
  then show ?thesis
    using u32_le_roundtrip [of w] by (simp add: u32_le_def)
qed

lemma data_header_fields:
  assumes "off \<le> 0xFFFFFF" "len \<le> 0xFFFFFF"
  shows "le24_at ([a, b, c, d, e] @ data_header fno off len @ rest) 6 = unat off"
    "le24_at ([a, b, c, d, e] @ data_header fno off len @ rest) 9 = unat len"
  using u24_roundtrip [OF assms(1)] u24_roundtrip [OF assms(2)]
  by (simp_all add: le24_at_def data_header_def u32_le_def)

lemma length_data_header [simp]: "length (data_header fno off len) = 7"
  by (simp add: data_header_def)

lemma dispatch_write:
  assumes "mk_ndef_selected m" "off \<le> 0xFFFFFF" "length d \<le> 248"
  defines "nd \<equiv> mk_ndef m @ replicate (unat off + length d - length (mk_ndef m)) 0"
  shows "mock_dispatch A ([0x90, 0x8D, 0x00, 0x00, lc] @ data_header 0x02 off (of_nat (length d)) @ d @ [0x00]) m =
    Some (mock_ok [], m\<lparr>mk_ndef := take (unat off) nd @ d @ drop (unat off + length d) nd,
      mk_session := map_option bump (mk_session m)\<rparr>)"
proof -
  let ?h = "data_header 0x02 off (of_nat (length d))"
  let ?apdu = "[0x90, 0x8D, 0x00, 0x00, lc] @ ?h @ d @ [0x00]"
  have len: "unat (of_nat (length d) :: u32) = length d"
    using assms(3) by (simp add: unat_of_nat)
  then have "(of_nat (length d) :: u32) \<le> 0xFFFFFF"
    using assms(3) by (simp add: word_le_nat_alt)
  then have le: "le24_at ?apdu 6 = unat off" "le24_at ?apdu 9 = length d"
    using data_header_fields [OF assms(2)] len by auto
  have sl: "slice 12 (12 + length d) ?apdu = d" "last ?apdu = 0" "?apdu ! 5 = 0x02" "length ?apdu = 13 + length d"
    by (simp_all add: slice_def data_header_def u32_le_def)
  have "handle_write_data_plain m ?apdu =
    Some (mock_ok [], m\<lparr>mk_ndef := take (unat off) nd @ d @ drop (unat off + length d) nd,
      mk_session := map_option bump (mk_session m)\<rparr>)"
    using assms(1) unfolding handle_write_data_plain_def le sl Let_def nd_def by simp
  then show ?thesis
    by (simp add: mock_dispatch_def NDEF_DF_SELECT_def NDEF_EF_SELECT_def)
qed

lemma dispatch_read:
  assumes "mk_ndef_selected m" "off \<le> 0xFFFFFF" "len \<le> 0xFFFFFF" "0 < len"
    and "unat off + unat len \<le> length (mk_ndef m)"
  shows "mock_dispatch A ([0x90, 0xAD, 0x00, 0x00, 0x07] @ data_header 0x02 off len @ [0x00]) m =
    Some (mock_ok (slice (unat off) (unat off + unat len) (mk_ndef m)),
      m\<lparr>mk_session := map_option bump (mk_session m)\<rparr>)"
proof -
  let ?apdu = "[0x90, 0xAD, 0x00, 0x00, 0x07] @ data_header 0x02 off len @ [0x00]"
  have le: "le24_at ?apdu 6 = unat off" "le24_at ?apdu 9 = unat len"
    using data_header_fields [OF assms(2,3)] by auto
  have sl: "take 5 ?apdu = [0x90, 0xAD, 0x00, 0x00, 0x07]" "last ?apdu = 0" "?apdu ! 5 = 0x02" "length ?apdu = 13"
    by (simp_all add: data_header_def u32_le_def)
  have "unat len \<noteq> 0"
    using assms(4) by (simp add: unat_eq_0)
  then have "handle_read_data_plain m ?apdu =
    Some (mock_ok (slice (unat off) (unat off + unat len) (mk_ndef m)),
      m\<lparr>mk_session := map_option bump (mk_session m)\<rparr>)"
    using assms(1,5) unfolding handle_read_data_plain_def le sl Let_def by simp
  then show ?thesis
    by (simp add: mock_dispatch_def NDEF_DF_SELECT_def NDEF_EF_SELECT_def)
qed

lemma write_chunk_mock:
  assumes "mk_ndef_selected m" "w \<le> length (mk_ndef m)" "w \<le> 0xFFFF" "d \<noteq> []" "length d \<le> 248"
  shows "\<exists>l. write_data_plain (mock_link A c) 0x02 (of_nat w) d m =
    Some (Inr (), m\<lparr>mk_apdu_log := l, mk_ndef := take w (mk_ndef m) @ d @ drop (w + length d) (mk_ndef m),
      mk_session := map_option bump (mk_session m)\<rparr>)"
proof -
  let ?off = "of_nat w :: u32"
  let ?apdu = "[0x90, 0x8D, 0x00, 0x00, of_nat (7 + length d)] @ data_header 0x02 ?off (of_nat (length d)) @ d @ [0x00]"
  let ?m' = "m\<lparr>mk_apdu_log := mk_apdu_log m @ [?apdu], mk_ndef := take w (mk_ndef m) @ d @ drop (w + length d) (mk_ndef m),
      mk_session := map_option bump (mk_session m)\<rparr>"
  have off: "unat ?off = w"
    using assms(3) by (simp add: unat_of_nat)
  then have off_le: "?off \<le> 0xFFFFFF"
    using assms(3) by (simp add: word_le_nat_alt)
  have "transmit_s (mock_link A c) ?apdu m = Some (Inr (mock_ok []), ?m')"
    using dispatch_write [OF _ off_le assms(5), of "m\<lparr>mk_apdu_log := mk_apdu_log m @ [?apdu]\<rparr>" A "of_nat (7 + length d)"]
      assms(1,2) off by (simp add: transmit_mock)
  then have "write_data_plain (mock_link A c) 0x02 ?off d m = Some (Inr (), ?m')"
    using assms(4,5) off_le
    by (simp add: write_data_plain_def bind_p_def validate_header_def validate_body_len_def U24_MAX_def MAX_APDU_BODY_def)
  then show ?thesis
    by blast
qed

lemma write_loop_live:
  assumes "mock_live A (s\<lparr>se_state := st\<rparr>) m" "written \<le> length data" "length data \<le> 0xFFFF"
    "mk_ndef m = take written data @ drop written old"
  shows "\<exists>st' m'. plain_write_loop (mock_link A False) st 0x02 (of_nat written) data written m = Some (Inr st', m') \<and>
    mock_live A (s\<lparr>se_state := st'\<rparr>) m' \<and> mock_card m' = (mock_card m)\<lparr>cd_ndef := data @ drop (length data) old\<rparr>"
  using assms
proof (induction "length data - written" arbitrary: written st m rule: less_induct)
  case less
  show ?case
  proof (cases "written < length data")
    case False
    then have "written = length data"
      using less.prems(2) by simp
    then show ?thesis
      using less.prems by (subst plain_write_loop.simps) (auto simp: mock_card_def)
  next
    case True
    let ?stop = "min (written + PLAIN_WRITE_CHUNK) (length data)"
    let ?d = "slice written ?stop data"
    have d: "?d \<noteq> []" "length ?d \<le> 248" "written + length ?d = ?stop" "length ?d = ?stop - written"
      using True by (auto simp: slice_def PLAIN_WRITE_CHUNK_def)
    have w: "written \<le> length (mk_ndef m)" "written \<le> 0xFFFF" "take written (mk_ndef m) = take written data"
      using less.prems(2-4) by auto
    have m: "mk_ndef_selected m" "mk_session m = Some (mirror st)" "mock_wf m" "aes_ok A"
      "length (au_ti st) = 4" "length (su_enc_key (au_suite st)) = 16"
      using less.prems(1) by (simp_all add: mock_live_def mock_ready_def)
    obtain l where l: "write_data_plain (mock_link A False) 0x02 (of_nat written) ?d m =
        Some (Inr (), m\<lparr>mk_apdu_log := l, mk_ndef := take written (mk_ndef m) @ ?d @ drop (written + length ?d) (mk_ndef m),
          mk_session := map_option bump (mk_session m)\<rparr>)" (is "_ = Some (Inr (), ?m1)")
      using write_chunk_mock [OF m(1) w(1,2) d(1,2)] by blast
    have "take written data @ ?d = take ?stop data"
      using d(3) by (simp add: slice_def take_add [symmetric] min_def)
    moreover have "drop ?stop (mk_ndef m) = drop ?stop old"
      using less.prems(2,4) d(3) by (simp add: PLAIN_WRITE_CHUNK_def)
    ultimately have nd: "mk_ndef ?m1 = take ?stop data @ drop ?stop old"
      using w(3) d(3) by simp
    have live: "mock_live A (s\<lparr>se_state := advance_counter st\<rparr>) ?m1"
      using m by (simp add: mock_live_def mock_ready_def)
    have ends: "length data - ?stop < length data - written" "?stop \<le> length data"
      using True by (auto simp: PLAIN_WRITE_CHUNK_def)
    obtain st' m' where ih: "plain_write_loop (mock_link A False) (advance_counter st) 0x02 (of_nat ?stop) data ?stop ?m1 =
        Some (Inr st', m')" "mock_live A (s\<lparr>se_state := st'\<rparr>) m'"
      "mock_card m' = (mock_card ?m1)\<lparr>cd_ndef := data @ drop (length data) old\<rparr>"
      using less.hyps [OF ends(1) live ends(2) less.prems(3) nd] by blast
    have "of_nat written + of_nat (?stop - written) = (of_nat ?stop :: u32)"
      using d(3,4) by (metis of_nat_add)
    then have "plain_write_loop (mock_link A False) st 0x02 (of_nat written) data written m = Some (Inr st', m')"
      using True l ih(1)
      by (subst plain_write_loop.simps) (simp add: Let_def bind_p_def plain_advance_def)
    then show ?thesis
      using ih by (auto simp: mock_card_def)
  qed
qed

lemma write_live:
  assumes "mock_live A s m" "data \<noteq> []" "length data \<le> 256"
  shows "\<exists>s' m'. write_file_plain (mock_link A False) s Ndef 0 data m = Some (Inr s', m') \<and> mock_live A s' m' \<and>
    mock_card m' = (mock_card m)\<lparr>cd_ndef := data @ drop (length data) (cd_ndef (mock_card m))\<rparr>"
proof -
  obtain st' m' where "plain_write_loop (mock_link A False) (se_state s) 0x02 0 data 0 m = Some (Inr st', m')"
    "mock_live A (s\<lparr>se_state := st'\<rparr>) m'"
    "mock_card m' = (mock_card m)\<lparr>cd_ndef := data @ drop (length data) (mk_ndef m)\<rparr>"
    using write_loop_live [where A = A and s = s and st = "se_state s" and m = m and written = 0 and data = data and old = "mk_ndef m"] assms by auto
  then show ?thesis
    using assms(2)
    by (auto simp: write_file_plain_def write_file_plain_chunked_def bind_p_def file_no_def short_file_id_def mock_card_def)
qed

lemma read_live:
  assumes "mock_live A s m" "0 < n" "n \<le> 256" "n \<le> length (cd_ndef (mock_card m))"
  shows "\<exists>s' m'. read_file_plain (mock_link A False) s Ndef 0 (of_nat n) 256 m =
      Some (Inr (take n (cd_ndef (mock_card m)), s'), m') \<and> mock_live A s' m' \<and> mock_card m' = mock_card m"
proof -
  let ?st = "se_state s" and ?len = "of_nat n :: u32"
  have m: "mk_ndef_selected m" "mk_session m = Some (mirror ?st)" "mock_wf m"
    using assms(1) by (simp_all add: mock_live_def mock_ready_def)
  have u: "unat ?len = n"
    using assms(3) by (simp add: unat_of_nat)
  have len: "unat ?len = n" "?len > 0" "?len \<noteq> 0" "?len \<le> 0xFFFFFF" "min ?len PLAIN_READ_CHUNK = ?len"
    using assms(2,3) u unat_eq_0 [of ?len] by (auto simp: unat_of_nat word_less_nat_alt word_le_nat_alt PLAIN_READ_CHUNK_def min_def)
  let ?apdu = "[0x90, 0xAD, 0x00, 0x00, 0x07] @ data_header 0x02 0 ?len @ [0x00]"
  let ?m' = "m\<lparr>mk_apdu_log := mk_apdu_log m @ [?apdu], mk_session := Some (mirror (advance_counter ?st))\<rparr>"
  have nd: "length (mk_ndef m) \<ge> n" "cd_ndef (mock_card m) = mk_ndef m"
    using assms(4) by (simp_all add: mock_card_def)
  have "transmit_s (mock_link A False) ?apdu m = Some (Inr (mock_ok (take n (mk_ndef m))), ?m')"
    using dispatch_read [of "m\<lparr>mk_apdu_log := mk_apdu_log m @ [?apdu]\<rparr>" 0 ?len A] m len nd
    by (simp add: transmit_mock slice_def)
  then have "read_data_plain (mock_link A False) 0x02 0 ?len n m = Some (Inr (take n (mk_ndef m)), ?m')"
    using len nd assms(2,3)
    by (simp add: read_data_plain_def bind_p_def validate_request_def U24_MAX_def Let_def want_plain_bytes_def
        READ_DATA_RESP_CAP_def)
  then have "read_file_plain (mock_link A False) s Ndef 0 ?len 256 m =
      Some (Inr (take n (mk_ndef m), s\<lparr>se_state := advance_counter ?st\<rparr>), ?m')"
    using len nd(1) assms(2,3)
    by (simp add: read_file_plain_def read_file_plain_chunked_def plain_read_loop.simps [of _ _ _ _ ?len]
        plain_read_loop.simps [of _ _ _ _ 0] bind_p_def file_no_def short_file_id_def plain_advance_def Let_def)
  moreover have "mock_live A (s\<lparr>se_state := advance_counter ?st\<rparr>) ?m'"
    using m by (intro live_advance [OF assms(1)]) simp_all
  ultimately show ?thesis
    using nd(2) by auto
qed

section \<open>Authentication against the mock\<close>

lemma status_simps [simp]:
  "rc_status (desfire_of (mock_response d 0x91 0xAF)) = AdditionalFrame"
  "rc_status (desfire_of (mock_response d 0x91 0xAE)) = AuthenticationError"
  "\<not> rc_ok (desfire_of (mock_response d 0x91 0xAE))"
  "rc_ok (iso_of mock_iso_ok)"
  "rs_data (mock_response d a b) = d"
  by (simp_all add: rc_status_def desfire_of_def mock_response_def rc_code_def desfire_status_def rc_ok_def
      iso_of_def mock_iso_ok_def)

definition selected_card :: "MockTransport \<Rightarrow> MockTransport" where
  "selected_card m = m\<lparr>mk_apdu_log := mk_apdu_log m @ [NDEF_DF_SELECT], mk_ndef_selected := True,
    mk_ndef_ef_selected := False\<rparr>"

lemma select_mock:
  "\<not> se_ndef_selected s \<Longrightarrow> select_ndef_application (mock_link A c) (m, s) =
    Some (Inr (), (selected_card m, s\<lparr>se_ndef_selected := True, se_ef_selected := None\<rparr>))"
  by (simp add: select_ndef_application_def session_get_def session_put_def on_link_def bind_p_def
      select_ndef_application_cmd_def iso_select_df_by_name_def NDEF_APPLICATION_DF_NAME_def MAX_DF_NAME_LEN_def
      transmit_mock mock_dispatch_def NDEF_DF_SELECT_def selected_card_def)

lemma selected_card_simps [simp]:
  "mock_card (selected_card m) = mock_card m"
  "mock_wf (selected_card m) = mock_wf m"
  "mk_ndef_selected (selected_card m)"
  "mk_keys (selected_card m) = mk_keys m"
  by (simp_all add: selected_card_def)

text \<open>The card's answer to the first part, and what it remembers.\<close>

definition challenge :: "aes_crate \<Rightarrow> bytes \<Rightarrow> bytes" where
  "challenge A key = cbc_encrypt_blocks A key (replicate 16 0) MOCK_RND_B"

lemma dispatch_auth1:
  assumes "mk_ndef_selected m" "unat kb < 5"
  shows "mock_dispatch A [0x90, 0x71, 0x00, 0x00, 0x05, kb, 0x03, 0x00, 0x00, 0x00, 0x00] m =
    Some (mock_response (challenge A (mk_keys m ! unat kb)) 0x91 0xAF,
      m\<lparr>mk_pending_auth := Some \<lparr>pa_key_no = kb, pa_key = mk_keys m ! unat kb, pa_rnd_b = MOCK_RND_B\<rparr>\<rparr>)"
  using assms
  by (simp add: mock_dispatch_def NDEF_DF_SELECT_def NDEF_EF_SELECT_def handle_auth_part1_def
      mock_aes_cbc_encrypt_def MOCK_RND_B_def challenge_def Let_def)

lemma part2_apdu_shape:
  assumes "aes_ok A" "length key = 16" "length ra = 16" "length rb = 16"
  obtains ct where "build_part2_apdu A key ra rb = [0x90, 0xAF, 0x00, 0x00, 0x20] @ ct @ [0x00]" "length ct = 32"
    "ct = cbc_encrypt_blocks A key (replicate 16 0) (ra @ drop 1 rb @ [rb ! 0])"
proof -
  let ?b = "ra @ drop 1 rb @ [rb ! 0]"
  have "length ?b = 32"
    using assms(3,4) by simp
  moreover from this have "length (cbc_encrypt_blocks A key (replicate 16 0) ?b) = 32"
    using length_cbc_encrypt_blocks [OF assms(1,2), of "replicate 16 0" ?b] by simp
  ultimately show ?thesis
    using that by (simp add: build_part2_apdu_def Let_def aes_cbc_encrypt_n_def aes_cbc_encrypt_def)
qed

definition proof_of_key :: "aes_crate \<Rightarrow> bytes \<Rightarrow> bytes \<Rightarrow> bytes" where
  "proof_of_key A key ra = cbc_encrypt_blocks A key (replicate 16 0) (MOCK_TI @ drop 1 ra @ [ra ! 0] @ replicate 12 0)"

lemma dispatch_auth2:
  assumes "length ct = 32" "mk_pending_auth m = Some p" "cbc_decrypt_blocks A (pa_key p) (replicate 16 0) ct = plain"
    "length plain = 32" "pa_rnd_b p = MOCK_RND_B"
  shows "mock_dispatch A ([0x90, 0xAF, 0x00, 0x00, 0x20] @ ct @ [0x00]) m =
    (if drop 16 plain = drop 1 MOCK_RND_B @ [MOCK_RND_B ! 0]
     then Some (mock_ok (proof_of_key A (pa_key p) (take 16 plain)),
       m\<lparr>mk_pending_auth := None, mk_session := Some
         \<lparr>ss_enc_key = su_enc_key (suite_derive A (pa_key p) (take 16 plain) MOCK_RND_B),
          ss_mac_key = su_mac_key (suite_derive A (pa_key p) (take 16 plain) MOCK_RND_B),
          ss_ti = MOCK_TI, ss_cmd_counter = 0\<rparr>\<rparr>)
     else Some (mock_response [] 0x91 0xAE, m\<lparr>mk_pending_auth := None\<rparr>))"
proof -
  let ?apdu = "[0x90, 0xAF, 0x00, 0x00, 0x20] @ ct @ [0x00]"
  have sl: "length ?apdu = 38" "take 5 ?apdu = [0x90, 0xAF, 0x00, 0x00, 0x20]" "?apdu ! 37 = 0" "slice 5 37 ?apdu = ct"
    using assms(1) by (simp_all add: slice_def nth_append)
  have dec: "mock_aes_cbc_decrypt A (pa_key p) (replicate 16 0) ct = Some plain"
    using assms(1,3) by (auto simp: mock_aes_cbc_decrypt_def assert_o_def)
  have enc: "mock_aes_cbc_encrypt A (pa_key p) (replicate 16 0)
      (MOCK_TI @ drop 1 (take 16 plain) @ [take 16 plain ! 0] @ replicate 12 0) =
      Some (proof_of_key A (pa_key p) (take 16 plain))"
    using assms(4) by (simp add: mock_aes_cbc_encrypt_def MOCK_TI_def proof_of_key_def)
  have "handle_auth_part2 A m ?apdu =
    (if drop 16 plain = drop 1 MOCK_RND_B @ [MOCK_RND_B ! 0]
     then Some (mock_ok (proof_of_key A (pa_key p) (take 16 plain)),
       m\<lparr>mk_pending_auth := None, mk_session := Some
         \<lparr>ss_enc_key = su_enc_key (suite_derive A (pa_key p) (take 16 plain) MOCK_RND_B),
          ss_mac_key = su_mac_key (suite_derive A (pa_key p) (take 16 plain) MOCK_RND_B),
          ss_ti = MOCK_TI, ss_cmd_counter = 0\<rparr>\<rparr>)
     else Some (mock_response [] 0x91 0xAE, m\<lparr>mk_pending_auth := None\<rparr>))"
    unfolding handle_auth_part2_def assms(2,5) option.case Let_def sl dec enc session_keys_agree
    by simp
  then show ?thesis
    using assms(2) by (simp add: mock_dispatch_def NDEF_DF_SELECT_def NDEF_EF_SELECT_def)
qed

lemma length_challenge:
  "aes_ok A \<Longrightarrow> length key = 16 \<Longrightarrow> length (challenge A key) = 16"
  using length_cbc_encrypt_blocks [of A key "replicate 16 0" MOCK_RND_B]
  by (simp add: challenge_def MOCK_RND_B_def)

lemma auth_decrypt_length:
  assumes "aes_ok A" "length key = 16" "length x = 16 * n" "0 < n"
  shows "length (aes_decrypt_auth A key x) = length x"
    "aes_decrypt_auth A key x = cbc_decrypt_blocks A key (replicate 16 0) x"
proof -
  have "x \<noteq> []"
    using assms(3,4) by auto
  then show dec: "aes_decrypt_auth A key x = cbc_decrypt_blocks A key (replicate 16 0) x"
    using assms(3) by (simp add: aes_decrypt_auth_def aes_cbc_decrypt_n_def aes_cbc_decrypt_def)
  show "length (aes_decrypt_auth A key x) = length x"
    unfolding dec using length_cbc_decrypt_blocks [OF assms(1,2)] by simp
qed

text \<open>One run of the handshake: \<open>key\<close> is the driver's key, \<open>k\<close> the card's.\<close>

lemma auth_first_run:
  assumes "aes_ok A" "mk_ndef_selected m" "unat (key_as_byte kn) < 5" "mk_keys m ! unat (key_as_byte kn) = k"
    "length k = 16" "length key = 16" "length ra = 16"
  defines "rb \<equiv> aes_decrypt_auth A key (challenge A k)"
  defines "plain \<equiv> cbc_decrypt_blocks A k (replicate 16 0)
    (cbc_encrypt_blocks A key (replicate 16 0) (ra @ drop 1 rb @ [rb ! 0]))"
  shows "\<exists>l. authenticate_ev2_first (mock_link A c) kn key ra m =
    (if drop 16 plain = drop 1 MOCK_RND_B @ [MOCK_RND_B ! 0]
     then Some (finish_auth A key ra rb (proof_of_key A k (take 16 plain)),
       m\<lparr>mk_apdu_log := l, mk_pending_auth := None, mk_session := Some
         \<lparr>ss_enc_key = su_enc_key (suite_derive A k (take 16 plain) MOCK_RND_B),
          ss_mac_key = su_mac_key (suite_derive A k (take 16 plain) MOCK_RND_B),
          ss_ti = MOCK_TI, ss_cmd_counter = 0\<rparr>\<rparr>)
     else Some (Inl (ErrorResponse AuthenticationError), m\<lparr>mk_apdu_log := l, mk_pending_auth := None\<rparr>))"
proof -
  let ?E = "mock_link A c" and ?kb = "key_as_byte kn"
  let ?a1 = "[0x90, 0x71, 0x00, 0x00, 0x05, ?kb, 0x03, 0x00, 0x00, 0x00, 0x00]"
  let ?m1 = "m\<lparr>mk_apdu_log := mk_apdu_log m @ [?a1],
    mk_pending_auth := Some \<lparr>pa_key_no = ?kb, pa_key = k, pa_rnd_b = MOCK_RND_B\<rparr>\<rparr>"
  have ch: "length (challenge A k) = 16"
    using length_challenge assms(1,5) by simp
  have rb: "length rb = 16"
    using auth_decrypt_length(1) [OF assms(1,6), of "challenge A k" 1] ch by (simp add: rb_def)
  have t1: "transmit_s ?E ?a1 m = Some (Inr (mock_response (challenge A k) 0x91 0xAF), ?m1)"
    using dispatch_auth1 [of "m\<lparr>mk_apdu_log := mk_apdu_log m @ [?a1]\<rparr>" ?kb A] assms(2-4)
    by (simp add: transmit_mock)
  obtain ct where ct: "build_part2_apdu A key ra rb = [0x90, 0xAF, 0x00, 0x00, 0x20] @ ct @ [0x00]" "length ct = 32"
    "ct = cbc_encrypt_blocks A key (replicate 16 0) (ra @ drop 1 rb @ [rb ! 0])"
    by (rule part2_apdu_shape [OF assms(1,6,7) rb])
  have plain: "cbc_decrypt_blocks A k (replicate 16 0) ct = plain" "length plain = 32"
    using length_cbc_decrypt_blocks [OF assms(1,5), of "replicate 16 0" ct] ct(2,3) by (simp_all add: plain_def)
  let ?l = "mk_apdu_log ?m1 @ [[0x90, 0xAF, 0x00, 0x00, 0x20] @ ct @ [0x00]]"
  have len: "length (proof_of_key A k (take 16 plain)) = 32"
    using length_cbc_encrypt_blocks [OF assms(1,5), of "replicate 16 0"] plain(2)
    by (simp add: proof_of_key_def MOCK_TI_def)
  have "authenticate_ev2_first ?E kn key ra m =
    (if drop 16 plain = drop 1 MOCK_RND_B @ [MOCK_RND_B ! 0]
     then Some (finish_auth A key ra rb (proof_of_key A k (take 16 plain)),
       m\<lparr>mk_apdu_log := ?l, mk_pending_auth := None, mk_session := Some
         \<lparr>ss_enc_key = su_enc_key (suite_derive A k (take 16 plain) MOCK_RND_B),
          ss_mac_key = su_mac_key (suite_derive A k (take 16 plain) MOCK_RND_B),
          ss_ti = MOCK_TI, ss_cmd_counter = 0\<rparr>\<rparr>)
     else Some (Inl (ErrorResponse AuthenticationError), m\<lparr>mk_apdu_log := ?l, mk_pending_auth := None\<rparr>))"
    using t1 ch ct(1) len dispatch_auth2 [OF ct(2), of "?m1\<lparr>mk_apdu_log := ?l\<rparr>"
        "\<lparr>pa_key_no = ?kb, pa_key = k, pa_rnd_b = MOCK_RND_B\<rparr>" A plain] plain
    by (simp add: authenticate_ev2_first_def bind_p_def Let_def transmit_mock rb_def [symmetric])
  then show ?thesis
    by blast
qed

lemma finish_auth_own:
  assumes "aes_ok A" "length key = 16" "length ra = 16"
  shows "\<exists>pd pcd. finish_auth A key ra rb (proof_of_key A key ra) =
    Inr \<lparr>ar_suite = suite_derive A key ra rb, ar_ti = MOCK_TI, ar_pd_cap2 = pd, ar_pcd_cap2 = pcd\<rparr>"
proof -
  let ?p = "MOCK_TI @ drop 1 ra @ [ra ! 0] @ replicate 12 0"
  have len: "length ?p = 16 * 2" "length (proof_of_key A key ra) = 16 * 2"
    using length_cbc_encrypt_blocks [OF assms(1,2), of "replicate 16 0" ?p] assms(3)
    by (simp_all add: MOCK_TI_def proof_of_key_def)
  have "aes_decrypt_auth A key (proof_of_key A key ra) = ?p"
    using auth_decrypt_length(2) [OF assms(1,2) len(2)] cbc_decrypt_encrypt_blocks [OF assms(1,2), of "replicate 16 0"]
    by (simp add: proof_of_key_def)
  moreover have "slice 4 20 ?p = drop 1 ra @ [ra ! 0]" "slice 0 4 ?p = MOCK_TI"
    using assms(3) by (simp_all add: slice_def MOCK_TI_def)
  moreover have "(drop 1 ra @ [ra ! 0]) ! 15 # take 15 (drop 1 ra @ [ra ! 0]) = ra"
    using assms(3) by (cases ra) (auto simp: nth_append)
  ultimately show ?thesis
    by (simp add: finish_auth_def Let_def)
qed

lemma authenticate_mock:
  "authenticate_aes (mock_link A c) session_new kn key ra m =
    (case authenticate_ev2_first (mock_link A c) kn key ra (selected_card m) of
      None \<Rightarrow> None
    | Some (Inl e, m') \<Rightarrow> Some (Inl e, m')
    | Some (Inr r, m') \<Rightarrow> Some (Inr \<lparr>se_state = with_auth_result r kn, se_ndef_selected = True, se_ef_selected = None\<rparr>, m'))"
  by (auto simp: authenticate_aes_def own_def select_mock session_new_def session_get_def on_link_def bind_p_def
      split: option.splits sum.splits)

lemma key_byte_lt: "unat (key_as_byte kn) < 5"
  by (cases kn) (simp_all add: key_as_byte_def)

lemma authenticate_session:
  assumes "mock_ready A m" "length ra = 16" "cd_keys (mock_card m) ! key_index kn = key"
  shows "\<exists>s m'. authenticate_aes (mock_link A c) session_new kn key ra m = Some (Inr s, m') \<and>
    mock_live A s m' \<and> mock_card m' = mock_card m \<and>
    au_suite (se_state s) = suite_derive A key ra MOCK_RND_B \<and> au_ti (se_state s) = MOCK_TI \<and>
    au_cmd_counter (se_state s) = 0"
proof -
  have m: "aes_ok A" "mock_wf m"
    using assms(1) by (simp_all add: mock_ready_def)
  have key: "mk_keys m ! unat (key_as_byte kn) = key" "length key = 16"
    using assms(3) m(2) key_byte_lt [of kn] by (auto simp: mock_card_def key_index_def mock_wf_def)
  have rb: "aes_decrypt_auth A key (challenge A key) = MOCK_RND_B"
    using auth_decrypt_length(2) [OF m(1) key(2), of "challenge A key" 1] length_challenge [OF m(1) key(2)]
      cbc_decrypt_encrypt_blocks [OF m(1) key(2), of "replicate 16 0" MOCK_RND_B]
    by (simp add: challenge_def)
  have plain: "cbc_decrypt_blocks A key (replicate 16 0)
      (cbc_encrypt_blocks A key (replicate 16 0) (ra @ drop 1 MOCK_RND_B @ [MOCK_RND_B ! 0])) =
      ra @ drop 1 MOCK_RND_B @ [MOCK_RND_B ! 0]"
    using cbc_decrypt_encrypt_blocks [OF m(1) key(2)] by simp
  obtain pd pcd where fin: "finish_auth A key ra MOCK_RND_B (proof_of_key A key ra) =
      (Inr \<lparr>ar_suite = suite_derive A key ra MOCK_RND_B, ar_ti = MOCK_TI, ar_pd_cap2 = pd, ar_pcd_cap2 = pcd\<rparr>
        :: (MockTransportError SessionError, AuthResult) result)"
    using finish_auth_own [OF m(1) key(2) assms(2)] by blast
  have sel: "mk_keys (selected_card m) ! unat (key_as_byte kn) = key"
    using key(1) by simp
  obtain l where run: "authenticate_ev2_first (mock_link A c) kn key ra (selected_card m) =
      Some (Inr \<lparr>ar_suite = suite_derive A key ra MOCK_RND_B, ar_ti = MOCK_TI, ar_pd_cap2 = pd, ar_pcd_cap2 = pcd\<rparr>,
        (selected_card m)\<lparr>mk_apdu_log := l, mk_pending_auth := None, mk_session := Some
          \<lparr>ss_enc_key = su_enc_key (suite_derive A key ra MOCK_RND_B),
           ss_mac_key = su_mac_key (suite_derive A key ra MOCK_RND_B), ss_ti = MOCK_TI, ss_cmd_counter = 0\<rparr>\<rparr>)"
    (is "_ = Some (Inr ?r, ?m')")
    using auth_first_run [OF m(1) selected_card_simps(3) key_byte_lt sel key(2) key(2) assms(2), of c]
      assms(2) fin unfolding rb plain by auto
  let ?s = "\<lparr>se_state = with_auth_result ?r kn, se_ndef_selected = True, se_ef_selected = None\<rparr>"
  have "mock_wf ?m'" "mock_card ?m' = mock_card m"
    using m(2) by (simp_all add: mock_wf_def selected_card_def mock_card_def)
  moreover from this have "mock_live A ?s ?m'"
    using m(1) suite_derive_lengths(1) [OF m(1)]
    by (simp add: mock_live_def mock_ready_def mirror_def with_auth_result_def au_suite_def au_ti_def MOCK_TI_def)
  ultimately show ?thesis
    using run by (simp add: authenticate_mock with_auth_result_def au_suite_def au_ti_def)
qed

lemma authenticate_live:
  assumes "mock_ready A m" "length ra = 16" "cd_keys (mock_card m) ! key_index kn = key"
  shows "\<exists>s m'. authenticate_aes (mock_link A c) session_new kn key ra m = Some (Inr s, m') \<and>
    mock_live A s m' \<and> mock_card m' = mock_card m"
  using authenticate_session [OF assms] by blast

lemma if_some_state:
  assumes "\<exists>l. X = (if c then Some (r1, f1 l) else Some (r2, f2 l))" "\<And>l. P (f1 l)" "\<And>l. P (f2 l)"
  shows "\<exists>r m. X = Some (r, m) \<and> P m"
  using assms by (auto split: if_splits)

lemma authenticate_any_mock:
  assumes "mock_ready A m" "length ra = 16" "length key = 16"
  shows "\<exists>r m'. authenticate_aes (mock_link A c) session_new kn key ra m = Some (r, m') \<and>
    mock_card m' = mock_card m \<and> mock_ready A m'"
proof -
  have m: "aes_ok A" "mock_wf m"
    using assms(1) by (simp_all add: mock_ready_def)
  let ?k = "mk_keys m ! unat (key_as_byte kn)"
  have k: "length ?k = 16"
    using m(2) key_byte_lt [of kn] by (auto simp: mock_wf_def)
  have sel: "mk_keys (selected_card m) ! unat (key_as_byte kn) = ?k"
    by simp
  let ?P = "\<lambda>m'. mock_wf m' \<and> mock_card m' = mock_card m"
  have "mock_wf ((selected_card m)\<lparr>mk_apdu_log := l, mk_pending_auth := None\<rparr>)" for l
    using m(2) by (simp add: mock_wf_def selected_card_def)
  then obtain r m' where run: "authenticate_ev2_first (mock_link A c) kn key ra (selected_card m) = Some (r, m')"
    and m': "mock_wf m'" "mock_card m' = mock_card m"
    using if_some_state [OF auth_first_run [OF m(1) selected_card_simps(3) key_byte_lt sel k assms(3,2), of c],
        where P = ?P] by auto
  then show ?thesis
    using run m(1) by (cases r) (simp_all add: authenticate_mock mock_ready_def)
qed

text \<open>The mock card keeps the contract of a card, whatever the AES crate.\<close>

interpretation mock: ntag_card "mock_link A False" mock_card "mock_ready A" "mock_live A" for A
  using authenticate_live authenticate_any_mock get_settings_live change_settings_live write_live read_live
    change_key_live key_version_live change_master_live
  by unfold_locales (simp_all add: mock_live_def mock_ready_def mock_wf_def mock_card_def)

end
