(* ===== verification/Reader.thy ===== *)
theory Reader
  imports MockProtocol
begin

text \<open>
  What a reader can do with a card without knowing its keys. The interface \<open>ntag_reader\<close> adds to the contract of
  a card the plain reads (version, file settings, NDEF file) and that a wrong key is refused without the
  authentication delay. The command-line tool and the firmware are proved over it; the mock card provides it.
\<close>

section \<open>Plain reads and refusals on the mock card\<close>

definition mock_synced :: "UnauthSession \<Rightarrow> MockTransport \<Rightarrow> bool" where
  "mock_synced s m \<longleftrightarrow> (se_ndef_selected s \<longrightarrow> mk_ndef_selected m) \<and>
    (se_ef_selected s = Some (file_id Ndef) \<longrightarrow> se_ndef_selected s \<and> mk_ndef_ef_selected m)"

lemma response_ok:
  "rc_ok (desfire_of (mock_response d 0x91 0x00))"
  "rc_ok (iso_of (mock_response d 0x90 0x00))"
  by (simp_all add: rc_ok_def rc_status_def desfire_of_def iso_of_def mock_response_def rc_code_def desfire_status_def iso_status_def)

lemma version_mock:
  assumes "mk_pending_auth m = None"
  shows "\<exists>l. unauth_get_version (mock_link A c) m =
    Some (Inr \<lparr>vn_part1 = VERSION_PART1, vn_part2 = VERSION_PART2, vn_part3 = VERSION_PART3\<rparr>,
      m\<lparr>mk_apdu_log := l, mk_version_step := 0\<rparr>)"
proof -
  let ?l = "mk_apdu_log m @ [[0x90, 0x60, 0, 0, 0], [0x90, 0xAF, 0, 0, 0], [0x90, 0xAF, 0, 0, 0]]"
  have "unauth_get_version (mock_link A c) m =
    Some (Inr \<lparr>vn_part1 = VERSION_PART1, vn_part2 = VERSION_PART2, vn_part3 = VERSION_PART3\<rparr>,
      m\<lparr>mk_apdu_log := ?l, mk_version_step := 0\<rparr>)"
    using assms
    by (simp add: unauth_get_version_def get_version_def drive_chain_def request_intermediate_part_def bind_p_def
      transmit_mock mock_dispatch_def NDEF_DF_SELECT_def NDEF_EF_SELECT_def handle_get_version_start_def
      handle_get_version_continue_def VERSION_PART1_def VERSION_PART2_def VERSION_PART3_def extract_part3_def
      lift_r_def mock_ok_def response_ok)
  then show ?thesis
    by blast
qed

lemma select_mock_any:
  assumes "mock_synced s m"
  shows "\<exists>s' m'. select_ndef_application (mock_link A c) (m, s) = Some (Inr (), (m', s')) \<and> mock_synced s' m' \<and>
    se_ndef_selected s' \<and> mk_ndef_selected m' \<and> mock_card m' = mock_card m \<and> mock_wf m' = mock_wf m"
proof (cases "se_ndef_selected s")
  case True
  then show ?thesis
    using assms by (auto simp: select_ndef_application_def session_get_def bind_p_def mock_synced_def return_p_def)
next
  case False
  then show ?thesis
    using select_mock [OF False, of A c m] by (simp add: mock_synced_def)
qed

lemma settings_plain_mock:
  assumes "mock_wf m" "mock_synced s m"
  shows "\<exists>m' s'. unauth_get_file_settings (mock_link A c) Ndef (m, s) = Some (Inr (cd_settings (mock_card m)), (m', s')) \<and>
    mock_synced s' m' \<and> mock_wf m' \<and> mock_card m' = mock_card m"
proof -
  obtain s' m' where sel: "select_ndef_application (mock_link A c) (m, s) = Some (Inr (), (m', s'))"
    "mock_synced s' m'" "mk_ndef_selected m'" "mock_card m' = mock_card m" "mock_wf m'"
    using select_mock_any [OF assms(2)] assms(1) by blast
  let ?m = "m'\<lparr>mk_apdu_log := mk_apdu_log m' @ [[0x90, 0xF5, 0, 0, 1, 2, 0]]\<rparr>"
  have "decode_settings (mk_file_settings m') = Inr (cd_settings (mock_card m'))"
    using sel(5) by (auto simp: mock_wf_def settings_wf_def mock_card_def)
  then have "get_file_settings (mock_link A c) (file_no Ndef) m' = Some (Inr (cd_settings (mock_card m')), ?m)"
    using sel(3) by (simp add: get_file_settings_def bind_p_def transmit_mock mock_dispatch_def NDEF_DF_SELECT_def
      NDEF_EF_SELECT_def handle_get_file_settings_plain_def file_no_def lift_r_def rc_status_def desfire_of_def
      mock_ok_def mock_response_def rc_code_def desfire_status_def assert_o_def)
  moreover have "mock_synced s' ?m" "mock_wf ?m" "mock_card ?m = mock_card m"
    using sel by (simp_all add: mock_synced_def mock_wf_def mock_card_def)
  ultimately show ?thesis
    using sel(1,4) by (auto simp: unauth_get_file_settings_def bind_p_def on_link_def)
qed


lemma iso_read_mock:
  assumes "mk_ndef_selected m" "mk_ndef_ef_selected m"
  shows "iso_read_loop (mock_link A c) 0 256 [] m =
    Some (Inr (take 256 (mk_ndef m)), m\<lparr>mk_apdu_log := mk_apdu_log m @ [[0, 0xB0, 0, 0, 0]]\<rparr>)"
proof -
  let ?m = "m\<lparr>mk_apdu_log := mk_apdu_log m @ [[0, 0xB0, 0, 0, 0]]\<rparr>"
  have "handle_iso_read_binary ?m [0, 0xB0, 0, 0, 0] = Some (mock_response (take 256 (mk_ndef m)) 0x90 0x00, ?m)"
    using assms by (simp add: handle_iso_read_binary_def assert_o_def slice_def Let_def min_def)
  then have "iso_read_binary (mock_link A c) None 0 256 m = Some (Inr (take 256 (mk_ndef m)), ?m)"
    by (simp add: iso_read_binary_def ISO_READ_BINARY_MAX_def iso_p1p2_def u16_be_def bind_p_def lift_r_def transmit_mock
      mock_dispatch_def NDEF_DF_SELECT_def NDEF_EF_SELECT_def response_ok return_p_def)
  then show ?thesis
    by (subst iso_read_loop.simps)
      (simp add: ISO_READ_BINARY_CHUNK_def bind_p_def iso_read_loop.simps return_p_def)
qed

lemma read_plain_mock:
  assumes "mock_wf m" "mock_synced s m"
  shows "\<exists>m' s'. read_file_unauthenticated (mock_link A c) Ndef 0 256 (m, s) =
    Some (Inr (take 256 (cd_ndef (mock_card m))), (m', s')) \<and> mock_synced s' m' \<and> mock_wf m' \<and> mock_card m' = mock_card m"
proof -
  obtain s' m' where sel: "select_ndef_application (mock_link A c) (m, s) = Some (Inr (), (m', s'))"
    "mock_synced s' m'" "se_ndef_selected s'" "mk_ndef_selected m'" "mock_card m' = mock_card m" "mock_wf m'"
    using select_mock_any [OF assms(2)] assms(1) by blast
  have ef: "iso_select_ef_by_fid (mock_link A c) (file_id Ndef) m' =
      Some (Inr (), m'\<lparr>mk_apdu_log := mk_apdu_log m' @ [NDEF_EF_SELECT], mk_ndef_ef_selected := True\<rparr>)"
    using sel(4) by (simp add: iso_select_ef_by_fid_def bind_p_def transmit_mock mock_dispatch_def NDEF_DF_SELECT_def
        NDEF_EF_SELECT_def file_id_def u16_be_def assert_o_def return_p_def)
  obtain m2 s2 where "select_file (mock_link A c) Ndef (m, s) = Some (Inr (), (m2, s2))"
    "mk_ndef_selected m2" "mk_ndef_ef_selected m2" "mock_card m2 = mock_card m" "mock_wf m2" "mock_synced s2 m2"
  proof (cases "se_ef_selected s' = Some (file_id Ndef)")
    case True
    then show ?thesis
      using that sel by (simp add: select_file_def bind_p_def session_get_def return_p_def mock_synced_def)
  next
    case False
    then show ?thesis
      using that sel ef
      by (simp add: select_file_def bind_p_def session_get_def session_put_def on_link_def mock_wf_def mock_card_def
          mock_synced_def)
  qed
  moreover have "mock_wf (m2\<lparr>mk_apdu_log := l\<rparr>) = mock_wf m2" "mock_card (m2\<lparr>mk_apdu_log := l\<rparr>) = mock_card m2"
    "mock_synced s2 (m2\<lparr>mk_apdu_log := l\<rparr>) = mock_synced s2 m2" for l
    by (simp_all add: mock_wf_def mock_card_def mock_synced_def)
  moreover have "cd_ndef (mock_card m) = mk_ndef m2"
    using calculation(4) by (simp add: mock_card_def)
  ultimately show ?thesis
    using iso_read_mock [of m2 A c]
    by (simp add: read_file_unauthenticated_def bind_p_def on_link_def)
qed

text \<open>The card refuses \<open>key\<close> for its key \<open>k\<close> when the driver draws \<open>ra\<close>: the card rejects the driver's answer,
  or the driver rejects the card's.\<close>

definition mock_refuses :: "aes_crate \<Rightarrow> bytes \<Rightarrow> bytes \<Rightarrow> bytes \<Rightarrow> bool" where
  "mock_refuses A ra k key \<longleftrightarrow>
    (let rb = aes_decrypt_auth A key (challenge A k);
         plain = cbc_decrypt_blocks A k (replicate 16 0) (cbc_encrypt_blocks A key (replicate 16 0) (ra @ drop 1 rb @ [rb ! 0]));
         answer = slice 4 20 (aes_decrypt_auth A key (proof_of_key A k (take 16 plain)))
     in length key = 16 \<and> (drop 16 plain \<noteq> drop 1 MOCK_RND_B @ [MOCK_RND_B ! 0] \<or> answer ! 15 # take 15 answer \<noteq> ra))"

lemma refused_mock:
  assumes "mock_ready A m" "length ra = 16" "mock_refuses A ra (cd_keys (mock_card m) ! key_index kn) key"
  shows "\<exists>e m'. authenticate_aes (mock_link A c) session_new kn key ra m = Some (Inl e, m') \<and> \<not> is_session_auth_delay e \<and>
    mock_ready A m' \<and> mock_card m' = mock_card m"
proof -
  let ?k = "mk_keys m ! unat (key_as_byte kn)"
  have m: "aes_ok A" "mock_wf m"
    using assms(1) by (simp_all add: mock_ready_def)
  have k: "length ?k = 16" "mk_keys (selected_card m) ! unat (key_as_byte kn) = ?k" "cd_keys (mock_card m) ! key_index kn = ?k"
    using m(2) key_byte_lt [of kn] by (auto simp: mock_wf_def mock_card_def key_index_def)
  note key = assms(3) [unfolded k(3) mock_refuses_def Let_def]
  have wf: "mock_wf ((selected_card m)\<lparr>mk_apdu_log := l, mk_pending_auth := None\<rparr>)"
    "mock_wf ((selected_card m)\<lparr>mk_apdu_log := l, mk_pending_auth := None, mk_session := x\<rparr>)"
    "mock_card ((selected_card m)\<lparr>mk_apdu_log := l, mk_pending_auth := None\<rparr>) = mock_card m"
    "mock_card ((selected_card m)\<lparr>mk_apdu_log := l, mk_pending_auth := None, mk_session := x\<rparr>) = mock_card m" for l x
    using m(2) by (simp_all add: mock_wf_def selected_card_def mock_card_def)
  show ?thesis
    using auth_first_run [OF m(1) selected_card_simps(3) key_byte_lt k(2,1) _ assms(2), of key c] key m(1)
    by (auto simp: authenticate_mock mock_ready_def wf finish_auth_def Let_def is_session_auth_delay_def split: if_splits)
qed

section \<open>The interface\<close>

locale ntag_reader = ntag_card E view ready live
  for E :: "('t, 'e) link" and view ready live +
  fixes synced :: "UnauthSession \<Rightarrow> 't \<Rightarrow> bool"
    and refuses :: "bytes \<Rightarrow> bytes \<Rightarrow> bytes \<Rightarrow> bool"
  assumes synced_new: "synced session_new t"
    and version: "ready t \<Longrightarrow> \<exists>v t'. unauth_get_version E t = Some (Inr v, t') \<and> hw_vendor_id v = 0x04 \<and> hw_type v = 0x04 \<and>
      ready t' \<and> view t' = view t \<and> (\<forall>s. synced s t \<longrightarrow> synced s t')"
    and plain_settings: "ready t \<Longrightarrow> synced s t \<Longrightarrow>
      \<exists>t' s'. unauth_get_file_settings E Ndef (t, s) = Some (Inr (cd_settings (view t)), (t', s')) \<and>
        synced s' t' \<and> ready t' \<and> view t' = view t"
    and plain_read: "ready t \<Longrightarrow> synced s t \<Longrightarrow>
      \<exists>t' s'. read_file_unauthenticated E Ndef 0 256 (t, s) = Some (Inr (take 256 (cd_ndef (view t))), (t', s')) \<and>
        synced s' t' \<and> ready t' \<and> view t' = view t"
    and refused: "ready t \<Longrightarrow> length ra = 16 \<Longrightarrow> refuses ra (cd_keys (view t) ! key_index kn) key \<Longrightarrow>
      \<exists>e t'. authenticate_aes E session_new kn key ra t = Some (Inl e, t') \<and> \<not> is_session_auth_delay e \<and>
        ready t' \<and> view t' = view t"

interpretation mock_reader: ntag_reader "mock_link A False" mock_card "mock_ready A" "mock_live A" mock_synced "mock_refuses A" for A
proof unfold_locales
  show "mock_synced session_new t" for t
    by (simp add: mock_synced_def session_new_def)
  show "\<exists>v t'. unauth_get_version (mock_link A False) t = Some (Inr v, t') \<and> hw_vendor_id v = 0x04 \<and> hw_type v = 0x04 \<and>
      mock_ready A t' \<and> mock_card t' = mock_card t \<and> (\<forall>s. mock_synced s t \<longrightarrow> mock_synced s t')" if "mock_ready A t" for t
    using version_mock [of t A False] that
    by (fastforce simp: mock_ready_def mock_wf_def mock_card_def mock_synced_def hw_vendor_id_def hw_type_def VERSION_PART1_def)
qed (use settings_plain_mock read_plain_mock refused_mock in \<open>fastforce simp: mock_ready_def\<close>)+

end
