(* ===== verification/CliCards.thy ===== *)
theory CliCards
  imports CliMain Reader
begin

text \<open>
  What the command-line tool does to a card: the burn, wipe and diagnose commands, proved over the interface
  \<open>ntag_reader\<close> for every card that keeps its contract.
\<close>

section \<open>The commands on any card a reader can work with\<close>

definition rng_ok :: "cli_env \<Rightarrow> bool" where
  "rng_ok env \<longleftrightarrow> (\<forall>n. \<exists>r. ce_rng env n = Some r \<and> length r = 16)"

definition kept :: "('t \<Rightarrow> bool) \<Rightarrow> ('t \<Rightarrow> card) \<Rightarrow> 't host \<Rightarrow> 't host \<Rightarrow> bool" where
  "kept ready view h h' \<longleftrightarrow> ready (h_card h') \<and> view (h_card h') = view (h_card h)"

text \<open>Whatever number the process draws, the card refuses \<open>key\<close> for its key \<open>k\<close>.\<close>

definition never_accepts :: "cli_env \<Rightarrow> (bytes \<Rightarrow> bytes \<Rightarrow> bytes \<Rightarrow> bool) \<Rightarrow> bytes \<Rightarrow> bytes \<Rightarrow> bool" where
  "never_accepts env refuses k key \<longleftrightarrow> (\<forall>n ra. ce_rng env n = Some ra \<longrightarrow> refuses ra k key)"

lemma never_acceptsD: "never_accepts env refuses k key \<Longrightarrow> ce_rng env n = Some ra \<Longrightarrow> refuses ra k key"
  by (auto simp: never_accepts_def)

definition cli_params :: "string \<Rightarrow> CardKeys \<Rightarrow> byte \<Rightarrow> BurnParams" where
  "cli_params url keys version =
    \<lparr>bp_lnurl = url, bp_keys = keys, bp_key_version = version, bp_current_key = ck_k0 keys, bp_previous_keys = keys\<rparr>"

lemma confirm_uid_run:
  "confirm_uid c u h = Some (if c = None \<or> c = Some u then Inr () else Inl (CeUidMismatch (the c) u), h)"
  by (simp add: confirm_uid_def return_p_def throw_p_def split: option.splits)

lemma gen_rnd_ok:
  "rng_ok env \<Longrightarrow> \<exists>r. gen_rnd_a env h = Some (Inr r, h\<lparr>h_rng := Suc (h_rng h)\<rparr>) \<and> length r = 16 \<and> ce_rng env (h_rng h) = Some r"
  unfolding rng_ok_def gen_rnd_a_def by (metis (no_types, lifting) option.simps(5))

lemma is_auth_delay_eq: "is_auth_delay = is_session_auth_delay"
  by (rule ext) (simp add: is_auth_delay_def is_session_auth_delay_def)

context ntag_reader
begin

lemma ladder_accepted:
  assumes "rng_ok env" "ready (h_card h)" "cd_keys (view (h_card h)) ! key_index slot = key"
  shows "\<exists>h'. auth_ladder env E slot key n h = Some (Inr LadderAccepted, h') \<and> kept ready view h h' \<and>
    h_failures h' = h_failures h \<and> h_audit h' = h_audit h"
proof -
  obtain r where r: "gen_rnd_a env h = (Some (Inr r, h\<lparr>h_rng := Suc (h_rng h)\<rparr>) :: (('e CliError, bytes) result \<times> 't host) option)"
    "length r = 16"
    using gen_rnd_ok [OF assms(1)] by metis
  show ?thesis
    using authenticate [OF assms(2) r(2) assms(3)]
    by (auto simp: auth_ladder.simps [of env] r(1) on_card_def kept_def intro: live_ready)
qed

lemma ladder_refused:
  assumes "rng_ok env" "ready (h_card h)"
    and "never_accepts env refuses (cd_keys (view (h_card h)) ! key_index slot) key"
  shows "\<exists>h'. auth_ladder env E slot key n h = Some (Inr LadderRefused, h') \<and> kept ready view h h' \<and>
    h_failures h' = h_failures h \<and> h_audit h' = h_audit h"
proof -
  obtain r where r: "gen_rnd_a env h = (Some (Inr r, h\<lparr>h_rng := Suc (h_rng h)\<rparr>) :: (('e CliError, bytes) result \<times> 't host) option)"
    "length r = 16" "ce_rng env (h_rng h) = Some r"
    using gen_rnd_ok [OF assms(1)] by metis
  show ?thesis
    using refused [OF assms(2) r(2) never_acceptsD [OF assms(3) r(3)]]
    by (auto simp: auth_ladder.simps [of env] r(1) on_card_def kept_def is_auth_delay_eq)
qed

lemma auth_once:
  assumes "rng_ok env" "ready (h_card h)" "length key = 16"
  obtains ra r t' where
    "gen_rnd_a env h = (Some (Inr ra, h\<lparr>h_rng := Suc (h_rng h)\<rparr>) :: (('e CliError, bytes) result \<times> 't host) option)"
    "authenticate_aes E session_new kn key ra (h_card h) = Some (r, t')" "ready t'" "view t' = view (h_card h)"
proof -
  obtain ra where ra: "gen_rnd_a env h = (Some (Inr ra, h\<lparr>h_rng := Suc (h_rng h)\<rparr>) :: (('e CliError, bytes) result \<times> 't host) option)"
    "length ra = 16"
    using gen_rnd_ok [OF assms(1)] by metis
  then show ?thesis
    using that authenticate_any [OF assms(2) ra(2) assms(3)] by blast
qed

lemma ladder_kept:
  assumes "rng_ok env" "ready (h_card h)" "length key = 16"
  shows "\<exists>r h'. auth_ladder env E slot key n h = Some (Inr r, h') \<and> kept ready view h h' \<and>
    h_failures h' = h_failures h \<and> h_audit h' = h_audit h"
  using assms(2)
proof (induction "length AUTH_RETRY_DELAYS - n" arbitrary: n h rule: less_induct)
  case less
  obtain ra r t' where 1:
    "gen_rnd_a env h = (Some (Inr ra, h\<lparr>h_rng := Suc (h_rng h)\<rparr>) :: (('e CliError, bytes) result \<times> 't host) option)"
    "authenticate_aes E session_new slot key ra (h_card h) = Some (r, t')" "ready t'" "view t' = view (h_card h)"
    using auth_once [OF assms(1) less.prems assms(3)] by blast
  let ?h = "h\<lparr>h_rng := Suc (h_rng h), h_card := t'\<rparr>"
  show ?case
  proof (cases "\<exists>e. r = Inl e \<and> is_auth_delay e \<and> n < length AUTH_RETRY_DELAYS")
    case True
    then have "\<exists>r h'. auth_ladder env E slot key (n + 1) ?h = Some (Inr r, h') \<and> kept ready view ?h h' \<and>
      h_failures h' = h_failures ?h \<and> h_audit h' = h_audit ?h"
      using 1(3) by (intro less.hyps) auto
    with True 1 show ?thesis
      by (subst auth_ladder.simps) (auto simp: on_card_def next_delay_def kept_def)
  next
    case False
    with 1 show ?thesis
      by (subst auth_ladder.simps)
        (auto simp: on_card_def next_delay_def kept_def split: sum.splits)
  qed
qed

lemma preflight_ok:
  assumes "ready (h_card h)"
  shows "\<exists>h'. cli_preflight env E h = Some (Inr (cd_uid (view (h_card h))), h') \<and> kept ready view h h' \<and>
    h_failures h' = h_failures h \<and> h_audit h' = h_audit h \<and> h_rng h' = h_rng h"
proof (cases "ce_assume env")
  case True
  then show ?thesis
    using assms by (auto simp: cli_preflight_def preflight_with_chip_check_def on_card_def map_err_p_def bind_p_def
        sess_def selected_uid return_p_def uid_to_fixed_def kept_def shape)
next
  case False
  obtain v t' where "unauth_get_version E (h_card h) = Some (Inr v, t')" "hw_vendor_id v = 0x04" "hw_type v = 0x04"
    "ready t'" "view t' = view (h_card h)"
    using version [OF assms] by blast
  with False assms show ?thesis
    by (auto simp: cli_preflight_def preflight_with_chip_check_def on_card_def map_err_p_def bind_p_def
        sess_def selected_uid return_p_def uid_to_fixed_def kept_def shape)
qed


text \<open>The commands as functions of the host.\<close>

lemmas prog_simps = bind_p_def return_p_def throw_p_def catch_p_def lift_r_def on_card_def map_err_p_def
  log_event_with_provenance_def

lemma probe_keys_blank:
  assumes "rng_ok env" "ready (h_card h)" "cd_keys (view (h_card h)) = replicate 5 FACTORY_KEY"
  shows "\<exists>h'. burn_probe_keys env E keys prov h = Some (Inr (AesKey FACTORY_KEY, card_keys_zeroed), h') \<and>
    kept ready view h h' \<and> h_failures h' = h_failures h"
  using ladder_accepted [OF assms(1,2), of Key0 FACTORY_KEY 0] assms(3)
  by (fastforce simp: burn_probe_keys_def prog_simps kept_def key_index_simps card_keys_zeroed_def aes_key_zeroed_def
      FACTORY_KEY_def)

lemma probe_keys_reburn:
  assumes "rng_ok env" "ready (h_card h)" "cd_keys (view (h_card h)) = card_key_bytes keys" "h_failures h < 9"
    and "never_accepts env refuses (cd_keys (view (h_card h)) ! 0) FACTORY_KEY"
  shows "\<exists>h'. burn_probe_keys env E keys prov h = Some (Inr (ck_k0 keys, keys), h') \<and>
    kept ready view h h' \<and> h_failures h' = h_failures h + 1"
proof -
  obtain h1 where 1: "auth_ladder env E Key0 FACTORY_KEY 0 h = Some (Inr LadderRefused, h1)" "kept ready view h h1"
    "h_failures h1 = h_failures h"
    using ladder_refused [OF assms(1,2), of Key0 FACTORY_KEY 0] assms(5) by (auto simp: key_index_simps)
  let ?h = "h1\<lparr>h_failures := h_failures h1 + 1\<rparr>"
  have 2: "record_auth_failure h1 = (Some (Inr (), ?h) :: (('e CliError, unit) result \<times> 't host) option)"
    using assms(4) 1(3) by (auto simp: record_auth_failure_def Let_def CIRCUIT_BREAKER_THRESHOLD_def word_less_nat_alt
        word_le_nat_alt unat_word_ariths)
  obtain h3 where 3: "auth_ladder env E Key0 (key_bytes (ck_k0 keys)) 0 ?h = Some (Inr LadderAccepted, h3)" "kept ready view ?h h3"
    "h_failures h3 = h_failures ?h"
    using ladder_accepted [OF assms(1), of ?h Key0 "key_bytes (ck_k0 keys)" 0] 1(2) assms(3)
    by (auto simp: kept_def key_index_simps card_key_bytes_def)
  show ?thesis
    using 1 2 3 by (simp add: burn_probe_keys_def prog_simps kept_def)
qed

lemma state_probe_kept:
  assumes "rng_ok env" "ready (h_card h)"
    and "cd_keys (view (h_card h)) ! 0 = FACTORY_KEY \<or>
      never_accepts env refuses (cd_keys (view (h_card h)) ! 0) FACTORY_KEY"
  shows "\<exists>h'. burn_state_probe env E force h = Some (Inr (), h') \<and> kept ready view h h' \<and> h_failures h' = h_failures h"
proof -
  obtain r h' where "auth_ladder env E Key0 FACTORY_KEY 0 h = Some (Inr r, h')" "r \<noteq> LadderExhausted"
    "kept ready view h h'" "h_failures h' = h_failures h"
    using ladder_refused [OF assms(1,2), of Key0 FACTORY_KEY 0] ladder_accepted [OF assms(1,2), of Key0 FACTORY_KEY 0] assms(3)
    unfolding key_index_simps by (metis Ladder.distinct(1,5))
  then show ?thesis
    using assms(2) by (simp add: burn_state_probe_def prog_simps kept_def)
qed

lemma burn_run_ok:
  assumes "rng_ok env" "ready (h_card h)"
    and "sdm_url_config (standardize_url_template (bp_lnurl params)) Aes burn_sdm_opts = Inr plan" "keys_sized (bp_keys params)"
      "cd_keys (view (h_card h)) = key_bytes (bp_current_key params) # tl (card_key_bytes (bp_previous_keys params))"
  shows "\<exists>h'. burn_run env E params uid prov h = Some (Inr (), h') \<and> ready (h_card h') \<and>
    view (h_card h') = burned_card params plan (view (h_card h)) \<and> h_failures h' = h_failures h"
proof -
  obtain ra where ra: "gen_rnd_a env h = (Some (Inr ra, h\<lparr>h_rng := Suc (h_rng h)\<rparr>) :: (('e CliError, bytes) result \<times> 't host) option)"
    "length ra = 16"
    using gen_rnd_ok [OF assms(1)] by metis
  then show ?thesis
    using burn_ok [OF assms(2) _ assms(3-5), of "AesKey ra"]
    by (auto simp: burn_run_def prog_simps)
qed

text \<open>The guards before the first authentication leave the card alone.\<close>

lemma burn_card_guarded:
  assumes "ready (h_card h)"
    and "bo_dry_run opts \<or> \<not> bo_force opts \<and> (\<not> str_contains ''{picc'' url \<or> \<not> str_contains ''{mac}'' url) \<or>
      (\<exists>e. bo_confirm_uid opts = Some e \<and> e \<noteq> cd_uid (view (h_card h)))"
  shows "\<exists>r h'. burn_card env E keys url opts prov h = Some (r, h') \<and> kept ready view h h' \<and>
    h_failures h' = h_failures h \<and> h_audit h' = h_audit h \<and> h_rng h' = h_rng h \<and>
    (r = Inr () \<longrightarrow> bo_dry_run opts)"
proof -
  obtain h1 where "cli_preflight env E h = Some (Inr (cd_uid (view (h_card h))), h1)" "kept ready view h h1"
    "h_failures h1 = h_failures h" "h_audit h1 = h_audit h" "h_rng h1 = h_rng h"
    using preflight_ok [OF assms(1)] by blast
  then show ?thesis
    using assms(2) by (cases "sdm_url_config (standardize_url_template url) Aes burn_sdm_opts")
      (auto simp: burn_card_def bind_p_def confirm_uid_run lift_r_def return_p_def throw_p_def map_err_def)
qed

lemma burn_card_ok:
  assumes "rng_ok env" "ready (h_card h)" "keys_sized keys" "h_failures h < 9"
    and card: "cd_keys (view (h_card h)) = replicate 5 FACTORY_KEY \<or> cd_keys (view (h_card h)) = card_key_bytes keys \<and>
      never_accepts env refuses (key_bytes (ck_k0 keys)) FACTORY_KEY"
    and opts: "\<not> bo_dry_run opts" "bo_force opts \<or> str_contains ''{picc'' url \<and> str_contains ''{mac}'' url"
      "bo_confirm_uid opts \<in> {None, Some (cd_uid (view (h_card h)))}"
    and plan: "sdm_url_config (standardize_url_template url) Aes burn_sdm_opts = Inr plan"
  shows "\<exists>h'. burn_card env E keys url opts prov h = Some (Inr (), h') \<and> ready (h_card h') \<and>
    view (h_card h') = burned_card (cli_params url keys (bo_version opts)) plan (view (h_card h)) \<and>
    h_failures h' \<le> h_failures h + 1"
proof -
  let ?v = "view (h_card h)"
  have k0: "cd_keys ?v ! 0 = FACTORY_KEY \<or> never_accepts env refuses (cd_keys ?v ! 0) FACTORY_KEY"
    using card by (auto simp: card_key_bytes_def)
  obtain h1 where 1: "cli_preflight env E h = Some (Inr (cd_uid ?v), h1)" "kept ready view h h1" "h_failures h1 = h_failures h"
    using preflight_ok [OF assms(2)] by blast
  then have r1: "ready (h_card h1)" "view (h_card h1) = ?v"
    by (simp_all add: kept_def)
  obtain h2 where 2: "burn_state_probe env E (bo_force opts) h1 = Some (Inr (), h2)" "kept ready view h1 h2"
    "h_failures h2 = h_failures h"
    using state_probe_kept [OF assms(1) r1(1), unfolded r1(2), OF k0, of "bo_force opts"] 1(3) by auto
  then have r2: "ready (h_card h2)" "view (h_card h2) = ?v"
    using r1 by (simp_all add: kept_def)
  have inc: "h_failures h \<le> h_failures h + 1"
    using assms(4) by (simp add: word_le_nat_alt word_less_nat_alt unat_word_ariths)
  obtain cur prev h3 where 3: "burn_probe_keys env E keys prov h2 = Some (Inr (cur, prev), h3)" "kept ready view h2 h3"
    "h_failures h3 \<le> h_failures h + 1" "cd_keys ?v = key_bytes cur # tl (card_key_bytes prev)"
    using card
  proof
    assume keys: "cd_keys ?v = replicate 5 FACTORY_KEY"
    obtain h3 where "burn_probe_keys env E keys prov h2 = Some (Inr (AesKey FACTORY_KEY, card_keys_zeroed), h3)"
      "kept ready view h2 h3" "h_failures h3 = h_failures h2"
      using probe_keys_blank [OF assms(1) r2(1), unfolded r2(2), OF keys, of keys prov] by blast
    moreover have "cd_keys ?v = key_bytes (AesKey FACTORY_KEY) # tl (card_key_bytes card_keys_zeroed)"
      unfolding keys by (simp add: card_key_bytes_def card_keys_zeroed_def aes_key_zeroed_def FACTORY_KEY_def eval_nat_numeral)
    ultimately show ?thesis
      using that [of "AesKey FACTORY_KEY" card_keys_zeroed h3] 2(3) inc by simp
  next
    assume keys: "cd_keys ?v = card_key_bytes keys \<and> never_accepts env refuses (key_bytes (ck_k0 keys)) FACTORY_KEY"
    then have k: "cd_keys ?v ! 0 = key_bytes (ck_k0 keys)" "cd_keys ?v = key_bytes (ck_k0 keys) # tl (card_key_bytes keys)"
      by (simp_all add: card_key_bytes_def)
    obtain h3 where "burn_probe_keys env E keys prov h2 = Some (Inr (ck_k0 keys, keys), h3)"
      "kept ready view h2 h3" "h_failures h3 = h_failures h2 + 1"
      using probe_keys_reburn [OF assms(1) r2(1), unfolded r2(2) k(1) 2(3), of keys prov] keys assms(4) 2(3) by auto
    then show ?thesis
      using that [of "ck_k0 keys" keys h3] k(2) 2(3) by simp
  qed
  let ?p = "\<lparr>bp_lnurl = url, bp_keys = keys, bp_key_version = bo_version opts, bp_current_key = cur, bp_previous_keys = prev\<rparr>"
  have r3: "ready (h_card h3)" "view (h_card h3) = ?v"
    using 3(2) r2 by (simp_all add: kept_def)
  obtain h4 where 4: "burn_run env E ?p (cd_uid ?v) prov h3 = Some (Inr (), h4)" "ready (h_card h4)"
    "view (h_card h4) = burned_card ?p plan ?v" "h_failures h4 = h_failures h3"
    using burn_run_ok [OF assms(1) r3(1), of ?p plan "cd_uid ?v" prov] plan assms(3) 3(4) r3(2) by auto
  have "confirm_uid (bo_confirm_uid opts) (cd_uid ?v) h1 = Some (Inr () :: ('e CliError, unit) result, h1)"
    using opts(3) by (auto simp: confirm_uid_def return_p_def)
  then have "burn_card env E keys url opts prov h = Some (Inr (), h4)"
    using 1(1) 2(1) 3(1) 4(1) opts(1,2) unfolding burn_card_def by (simp add: bind_p_def)
  then show ?thesis
    using 4 3(3) by (auto simp: burned_card_def cli_params_def)
qed

section \<open>Wipe\<close>

lemma factory_probe_refused:
  assumes "rng_ok env" "ready (h_card h)"
    and "never_accepts env refuses (cd_keys (view (h_card h)) ! 0) FACTORY_KEY"
  shows "\<exists>h'. factory_probe env E h = Some (Inr None, h') \<and> kept ready view h h' \<and> h_failures h' = h_failures h"
proof -
  obtain r where r: "gen_rnd_a env h = (Some (Inr r, h\<lparr>h_rng := Suc (h_rng h)\<rparr>) :: (('e CliError, bytes) result \<times> 't host) option)"
    "length r = 16" "ce_rng env (h_rng h) = Some r"
    using gen_rnd_ok [OF assms(1)] by metis
  show ?thesis
    using refused [OF assms(2) r(2), of Key0 FACTORY_KEY] never_acceptsD [OF assms(3) r(3)]
    by (auto simp: factory_probe_def r(1) prog_simps kept_def key_index_simps is_auth_delay_eq)
qed

lemma factory_probe_kept:
  assumes "rng_ok env" "ready (h_card h)"
  shows "\<exists>r h'. factory_probe env E h = Some (Inr r, h') \<and> kept ready view h h' \<and> h_failures h' = h_failures h"
proof -
  have fk: "length FACTORY_KEY = 16"
    by (simp add: FACTORY_KEY_def)
  obtain ra r t' where
    "gen_rnd_a env h = (Some (Inr ra, h\<lparr>h_rng := Suc (h_rng h)\<rparr>) :: (('e CliError, bytes) result \<times> 't host) option)"
    "authenticate_aes E session_new Key0 FACTORY_KEY ra (h_card h) = Some (r, t')" "ready t'" "view t' = view (h_card h)"
    by (rule auth_once [OF assms fk, of Key0])
  then show ?thesis
    by (cases r) (simp_all add: factory_probe_def prog_simps kept_def)
qed

lemma factory_probe_accepted:
  assumes "rng_ok env" "ready (h_card h)" "cd_keys (view (h_card h)) ! 0 = FACTORY_KEY"
  shows "\<exists>s h'. factory_probe env E h = Some (Inr (Some s), h')"
proof -
  obtain r where r: "gen_rnd_a env h = (Some (Inr r, h\<lparr>h_rng := Suc (h_rng h)\<rparr>) :: (('e CliError, bytes) result \<times> 't host) option)"
    "length r = 16"
    using gen_rnd_ok [OF assms(1)] by metis
  show ?thesis
    using authenticate [OF assms(2) r(2), of Key0 FACTORY_KEY] assms(3)
    by (auto simp: factory_probe_def r(1) prog_simps key_index_simps)
qed

lemma slot_accepted:
  assumes "rng_ok env" "ready (h_card h)" "cd_keys (view (h_card h)) ! key_index slot = key"
  shows "\<exists>h'. authenticate_slot_with_retry env E slot key h = Some (Inr (), h') \<and> kept ready view h h' \<and>
    h_failures h' = h_failures h"
  using ladder_accepted [OF assms, of 0] by (auto simp: authenticate_slot_with_retry_def bind_p_def return_p_def)

lemma slot_kept:
  assumes "rng_ok env" "ready (h_card h)" "length key = 16"
  shows "\<exists>r h'. authenticate_slot_with_retry env E slot key h = Some (r, h') \<and> kept ready view h h' \<and>
    (never_accepts env refuses (cd_keys (view (h_card h)) ! key_index slot) key \<longrightarrow> r \<noteq> Inr ())"
proof -
  obtain r h' where 1: "auth_ladder env E slot key 0 h = Some (Inr r, h')" "kept ready view h h'"
    using ladder_kept [OF assms] by blast
  moreover have "r = LadderRefused"
    if "never_accepts env refuses (cd_keys (view (h_card h)) ! key_index slot) key"
    using ladder_refused [OF assms(1,2), of slot key 0] that 1(1) by auto
  ultimately show ?thesis
    by (cases r) (auto simp: authenticate_slot_with_retry_def bind_p_def return_p_def throw_p_def record_auth_failure_def Let_def
        kept_def)
qed

lemma verify_slots_ok:
  assumes "rng_ok env" "ready (h_card h)" "\<And>slot key. (slot, key) \<in> set slots \<Longrightarrow> cd_keys (view (h_card h)) ! key_index slot = key"
  shows "\<exists>h'. verify_slots env E slots h = Some (Inr (), h') \<and> kept ready view h h' \<and> h_failures h' = h_failures h"
  using assms(2,3)
proof (induction slots arbitrary: h)
  case Nil
  then show ?case
    by (simp add: return_p_def kept_def)
next
  case (Cons x xs)
  obtain slot key where x: "x = (slot, key)"
    by force
  obtain h1 where 1: "authenticate_slot_with_retry env E slot key h = Some (Inr (), h1)" "kept ready view h h1"
    "h_failures h1 = h_failures h"
    using slot_accepted [OF assms(1) Cons.prems(1)] Cons.prems(2) x by (metis list.set_intros(1))
  have "\<exists>h'. verify_slots env E xs h1 = Some (Inr (), h') \<and> kept ready view h1 h' \<and> h_failures h' = h_failures h1"
    using 1(2) Cons.prems by (intro Cons.IH) (auto simp: kept_def)
  with 1 show ?case
    by (auto simp: x bind_p_def map_err_p_def kept_def)
qed

lemma verify_slots_kept:
  assumes "rng_ok env" "ready (h_card h)" "\<And>slot key. (slot, key) \<in> set slots \<Longrightarrow> length key = 16"
  shows "\<exists>r h'. verify_slots env E slots h = Some (r, h') \<and> kept ready view h h' \<and>
    (r = Inr () \<longrightarrow> (\<forall>(slot, key) \<in> set slots.
      \<not> never_accepts env refuses (cd_keys (view (h_card h)) ! key_index slot) key))"
  using assms(2,3)
proof (induction slots arbitrary: h)
  case Nil
  then show ?case
    by (simp add: return_p_def kept_def)
next
  case (Cons x xs)
  obtain slot key where x: "x = (slot, key)"
    by force
  obtain r1 h1 where 1: "authenticate_slot_with_retry env E slot key h = Some (r1, h1)" "kept ready view h h1"
    "never_accepts env refuses (cd_keys (view (h_card h)) ! key_index slot) key \<longrightarrow> r1 \<noteq> Inr ()"
    using slot_kept [OF assms(1) Cons.prems(1)] Cons.prems(2) x by (metis list.set_intros(1))
  have v: "view (h_card h1) = view (h_card h)"
    using 1(2) by (simp add: kept_def)
  have IH: "\<exists>r h'. verify_slots env E xs h1 = Some (r, h') \<and> kept ready view h1 h' \<and>
    (r = Inr () \<longrightarrow> (\<forall>(slot, key) \<in> set xs.
      \<not> never_accepts env refuses (cd_keys (view (h_card h1)) ! key_index slot) key))"
    using 1(2) Cons.prems by (intro Cons.IH) (auto simp: kept_def)
  show ?case
  proof (cases r1)
    case Inl
    then show ?thesis
      using 1 by (auto simp: x bind_p_def map_err_p_def)
  next
    case Inr
    obtain r h' where 2: "verify_slots env E xs h1 = Some (r, h')" "kept ready view h1 h'"
      "r = Inr () \<longrightarrow> (\<forall>(slot, key) \<in> set xs.
        \<not> never_accepts env refuses (cd_keys (view (h_card h)) ! key_index slot) key)"
      using IH unfolding v by blast
    have run: "verify_slots env E (x # xs) h = Some (r, h')"
      using Inr 1(1) 2(1) by (simp add: x bind_p_def map_err_p_def)
    moreover have "kept ready view h h'"
      using 2(2) v by (simp add: kept_def)
    moreover have "r = Inr () \<longrightarrow> (\<forall>(slot, key) \<in> set (x # xs).
        \<not> never_accepts env refuses (cd_keys (view (h_card h)) ! key_index slot) key)"
      using 2(3) 1(3) Inr by (auto simp: x)
    ultimately show ?thesis
      by blast
  qed
qed

lemma wipe_run_ok:
  assumes "rng_ok env" "ready (h_card h)" "cd_keys (view (h_card h)) = card_key_bytes (card_keys_of_set keys)"
  shows "\<exists>h'. wipe_run env E keys version uid prov h = Some (Inr (), h') \<and> ready (h_card h') \<and>
    view (h_card h') = wiped_card (view (h_card h)) \<and> h_failures h' = h_failures h"
proof -
  obtain ra where ra: "gen_rnd_a env h = (Some (Inr ra, h\<lparr>h_rng := Suc (h_rng h)\<rparr>) :: (('e CliError, bytes) result \<times> 't host) option)"
    "length ra = 16"
    using gen_rnd_ok [OF assms(1)] by metis
  then show ?thesis
    using wipe_ok [OF assms(2) _ assms(3), of "AesKey ra"] by (auto simp: wipe_run_def prog_simps)
qed

lemma pre_verify_run:
  assumes "ready (h_card h)"
  shows "\<exists>h'. pre_verify_pc env E keys uid h = Some (pre_verify_check env keys uid (take 256 (cd_ndef (view (h_card h)))), h') \<and>
    kept ready view h h' \<and> h_failures h' = h_failures h"
  using plain_read [OF assms synced_new]
  by (auto simp: pre_verify_pc_def prog_simps own_def kept_def)

lemma wipe_verified_ok:
  assumes "rng_ok env" "ready (h_card h)" "cd_keys (view (h_card h)) = card_key_bytes (card_keys_of_set keys)"
    and "skip \<or> pre_verify_check env keys uid (take 256 (cd_ndef (view (h_card h)))) = (Inr () :: ('e CliError, unit) result)"
  shows "\<exists>h'. wipe_verified env E raw skip keys version uid prov h = Some (Inr (), h') \<and> ready (h_card h') \<and>
    view (h_card h') = wiped_card (view (h_card h)) \<and> h_failures h' = h_failures h"
proof -
  let ?v = "view (h_card h)"
  obtain h1 where 1: "(if skip then log_event_with_provenance ''wipe: p/c pre-verification skipped by explicit flag'' (Some prov)
      else pre_verify_pc env E keys uid) h = Some (Inr (), h1)" "kept ready view h h1" "h_failures h1 = h_failures h"
    using pre_verify_run [OF assms(2), of env keys uid] assms(2,4)
    by (cases skip) (auto simp: log_event_with_provenance_def kept_def)
  have r1: "ready (h_card h1)" "view (h_card h1) = ?v"
    using 1(2) by (simp_all add: kept_def)
  have slot: "cd_keys ?v ! 0 = key_bytes (ks_k0 keys)" "cd_keys ?v ! 1 = key_bytes (ks_k1 keys)" "cd_keys ?v ! 2 = key_bytes (ks_k2 keys)"
    "cd_keys ?v ! 3 = key_bytes (ks_k3 keys)" "cd_keys ?v ! 4 = key_bytes (ks_k4 keys)"
    using assms(3) by (simp_all add: card_key_bytes_def card_keys_of_set_def eval_nat_numeral)
  obtain h2 where 2: "authenticate_slot_with_retry env E Key0 (key_bytes (ks_k0 keys)) h1 = Some (Inr (), h2)" "kept ready view h1 h2"
    "h_failures h2 = h_failures h1"
    using slot_accepted [OF assms(1) r1(1), of Key0 "key_bytes (ks_k0 keys)"] slot r1(2) by (auto simp: key_index_simps)
  have r2: "ready (h_card h2)" "view (h_card h2) = ?v"
    using 2(2) r1 by (simp_all add: kept_def)
  let ?slots = "[(Key1, key_bytes (ks_k1 keys)), (Key2, key_bytes (ks_k2 keys)), (Key3, key_bytes (ks_k3 keys)), (Key4, key_bytes (ks_k4 keys))]"
  have "\<exists>h'. verify_slots env E ?slots h2 = Some (Inr (), h') \<and> kept ready view h2 h' \<and> h_failures h' = h_failures h2"
    using slot r2 by (intro verify_slots_ok [OF assms(1) r2(1)]) (auto simp: key_index_simps)
  then obtain h3 where 3: "verify_raw_keyset env E raw keys prov h2 = Some (Inr (), h3)" "kept ready view h2 h3"
    "h_failures h3 = h_failures h2"
    using r2(1) by (cases raw) (auto simp: verify_raw_keyset_def bind_p_def log_event_with_provenance_def return_p_def kept_def)
  have r3: "ready (h_card h3)" "view (h_card h3) = ?v"
    using 3(2) r2 by (simp_all add: kept_def)
  obtain h4 where 4: "wipe_run env E keys version uid prov h3 = Some (Inr (), h4)" "ready (h_card h4)"
    "view (h_card h4) = wiped_card ?v" "h_failures h4 = h_failures h3"
    using wipe_run_ok [OF assms(1) r3(1), unfolded r3(2), OF assms(3), of version uid prov] by blast
  have "wipe_verified env E raw skip keys version uid prov h = Some (Inr (), h4)"
    using 1(1) 2(1) 3(1) 4(1) unfolding wipe_verified_def by (simp add: bind_p_def map_err_p_def)
  then show ?thesis
    using 1(3) 2(3) 3(3) 4 by auto
qed

lemma residual_check_refused:
  assumes "rng_ok env" "ready (h_card h)"
    and "never_accepts env refuses (cd_keys (view (h_card h)) ! 0) FACTORY_KEY"
  shows "\<exists>h'. residual_check env E h = Some (Inr False, h') \<and> kept ready view h h' \<and> h_failures h' = h_failures h"
  using factory_probe_refused [OF assms] by (auto simp: residual_check_def bind_p_def return_p_def)

lemma cmd_wipe_ok:
  assumes "rng_ok env" "ready (h_card h)"
    and refusal: "never_accepts env refuses (cd_keys (view (h_card h)) ! 0) FACTORY_KEY"
    and keys: "wipe_keyset env src (cd_uid (view (h_card h))) = (return_p (keys, prov) :: ('t, 'e, CardKeySet \<times> KeyProvenance) cli)"
      "cd_keys (view (h_card h)) = card_key_bytes (card_keys_of_set keys)"
    and opts: "\<not> wo_dry_run opts" "wo_confirm_uid opts = Some (cd_uid (view (h_card h))) \<or> wo_confirm_uid opts = None \<and> ws_raw_keys src = None"
      "wo_skip_preverify opts \<or> pre_verify_check env keys (cd_uid (view (h_card h))) (take 256 (cd_ndef (view (h_card h)))) =
        (Inr () :: ('e CliError, unit) result)"
  shows "\<exists>h'. cmd_wipe env E src opts h = Some (Inr (), h') \<and> ready (h_card h') \<and>
    view (h_card h') = wiped_card (view (h_card h)) \<and> h_failures h' = h_failures h"
proof -
  let ?v = "view (h_card h)"
  obtain h1 where 1: "cli_preflight env E h = Some (Inr (cd_uid ?v), h1)" "ready (h_card h1)" "view (h_card h1) = ?v" "h_failures h1 = h_failures h"
    using preflight_ok [OF assms(2)] unfolding kept_def by blast
  obtain h2 where 2: "factory_probe env E h1 = Some (Inr None, h2)" "ready (h_card h2)" "view (h_card h2) = ?v" "h_failures h2 = h_failures h1"
    using factory_probe_refused [OF assms(1) 1(2), unfolded 1(3), OF refusal] unfolding kept_def 1(3) by blast
  obtain h3 where 3: "residual_check env E h2 = Some (Inr False, h3)" "ready (h_card h3)" "view (h_card h3) = ?v" "h_failures h3 = h_failures h2"
    using residual_check_refused [OF assms(1) 2(2), unfolded 2(3), OF refusal] unfolding kept_def 2(3) by blast
  let ?raw = "ws_raw_keys src \<noteq> None"
  obtain h4 where 4: "wipe_verified env E ?raw (wo_skip_preverify opts) keys (ws_version src) (cd_uid ?v) prov h3 = Some (Inr (), h4)"
    "ready (h_card h4)" "view (h_card h4) = wiped_card ?v" "h_failures h4 = h_failures h3"
    using wipe_verified_ok [OF assms(1) 3(2), unfolded 3(3), OF keys(2) opts(3)] by blast
  have "cmd_wipe env E src opts h = Some (Inr (), h4)"
    using 1(1) 2(1) 3(1) 4(1) opts(1,2) keys(1)
    by (auto simp: cmd_wipe_def bind_p_def confirm_uid_run return_p_def)
  then show ?thesis
    using 1(4) 2(4) 3(4) 4 by simp
qed

text \<open>A raw keyset with a wrong key in any slot is rejected before the card is touched.\<close>

lemma wipe_verified_wrong_key:
  assumes "rng_ok env" "ready (h_card h)" "\<forall>k \<in> set (card_key_bytes (card_keys_of_set keys)). length k = 16"
    and "i < 5" "never_accepts env refuses (cd_keys (view (h_card h)) ! i) (card_key_bytes (card_keys_of_set keys) ! i)"
  shows "\<exists>e h'. wipe_verified env E True skip keys version uid prov h = Some (Inl e, h') \<and> kept ready view h h'"
proof -
  let ?v = "view (h_card h)" and ?ks = "card_key_bytes (card_keys_of_set keys)"
  obtain r1 h1 where 1: "(if skip then log_event_with_provenance ''wipe: p/c pre-verification skipped by explicit flag'' (Some prov)
      else pre_verify_pc env E keys uid) h = Some (r1, h1)" "ready (h_card h1)" "view (h_card h1) = ?v"
    using pre_verify_run [OF assms(2), of env keys uid] assms(2)
    by (cases skip) (auto simp: log_event_with_provenance_def kept_def)
  have len: "length (key_bytes (ks_k0 keys)) = 16" "length (key_bytes (ks_k1 keys)) = 16" "length (key_bytes (ks_k2 keys)) = 16"
    "length (key_bytes (ks_k3 keys)) = 16" "length (key_bytes (ks_k4 keys)) = 16"
    using assms(3) by (simp_all add: card_key_bytes_def card_keys_of_set_def)
  obtain r2 h2 where 2: "authenticate_slot_with_retry env E Key0 (key_bytes (ks_k0 keys)) h1 = Some (r2, h2)" "ready (h_card h2)"
    "view (h_card h2) = ?v" "never_accepts env refuses (cd_keys ?v ! 0) (key_bytes (ks_k0 keys)) \<longrightarrow> r2 \<noteq> Inr ()"
    using slot_kept [OF assms(1) 1(2) len(1), of Key0] unfolding kept_def 1(3) key_index_simps by blast
  let ?slots = "[(Key1, key_bytes (ks_k1 keys)), (Key2, key_bytes (ks_k2 keys)), (Key3, key_bytes (ks_k3 keys)), (Key4, key_bytes (ks_k4 keys))]"
  have "\<exists>r h'. verify_slots env E ?slots h2 = Some (r, h') \<and> kept ready view h2 h' \<and>
    (r = Inr () \<longrightarrow> (\<forall>(slot, key) \<in> set ?slots. \<not> never_accepts env refuses (cd_keys (view (h_card h2)) ! key_index slot) key))"
    using len by (intro verify_slots_kept [OF assms(1) 2(2)]) auto
  then obtain r3 h3 where 3: "verify_slots env E ?slots h2 = Some (r3, h3)" "ready (h_card h3)" "view (h_card h3) = ?v"
    "r3 = Inr () \<longrightarrow> (\<forall>(slot, key) \<in> set ?slots. \<not> never_accepts env refuses (cd_keys ?v ! key_index slot) key)"
    unfolding kept_def 2(3) by blast
  have "i \<in> {0, 1, 2, 3, 4}"
    using assms(4) by auto
  then have "r2 \<noteq> Inr () \<or> r3 \<noteq> Inr ()"
    using 2(4) 3(4) assms(5) by (auto simp: key_index_simps card_key_bytes_def card_keys_of_set_def eval_nat_numeral)
  then show ?thesis
    using 1 2(1-3) 3(1-3) unfolding wipe_verified_def verify_raw_keyset_def
    by (cases r1; cases r2; cases r3) (simp_all add: bind_p_def map_err_p_def kept_def)
qed

lemma cmd_wipe_wrong_key:
  assumes "rng_ok env" "ready (h_card h)" "cd_keys (view (h_card h)) ! 0 = FACTORY_KEY \<or> never_accepts env refuses (cd_keys (view (h_card h)) ! 0) FACTORY_KEY"
    and raw: "ws_issuer_key src = None" "ws_raw_keys src = Some raw" "length raw = 5" "\<forall>k \<in> set raw. length k = 16"
    and "i < 5" "never_accepts env refuses (cd_keys (view (h_card h)) ! i) (raw ! i)"
  shows "\<exists>r h'. cmd_wipe env E src opts h = Some (r, h') \<and> kept ready view h h' \<and> (r = Inr () \<longrightarrow> wo_dry_run opts)"
proof (cases "wo_confirm_uid opts = Some (cd_uid (view (h_card h)))")
  case False
  then show ?thesis
    using preflight_ok [OF assms(2), of env] assms(2) raw(2)
    by (auto simp: cmd_wipe_def bind_p_def confirm_uid_run throw_p_def kept_def)
next
  case uid: True
  let ?v = "view (h_card h)"
  let ?keys = "\<lparr>ks_card_key = AesKey FACTORY_KEY, ks_k0 = AesKey (raw ! 0), ks_k1 = AesKey (raw ! 1), ks_k2 = AesKey (raw ! 2),
    ks_k3 = AesKey (raw ! 3), ks_k4 = AesKey (raw ! 4), ks_card_id = replicate 16 0\<rparr>"
  have keys: "card_key_bytes (card_keys_of_set ?keys) = raw"
    using raw(3) by (auto simp: card_key_bytes_def card_keys_of_set_def eval_nat_numeral length_Suc_conv)
  obtain h1 where 1: "cli_preflight env E h = Some (Inr (cd_uid ?v), h1)" "ready (h_card h1)" "view (h_card h1) = ?v"
    using preflight_ok [OF assms(2)] unfolding kept_def by blast
  note start = cmd_wipe_def wipe_keyset_def bind_p_def confirm_uid_run return_p_def uid 1(1) raw(1,2)
  obtain probe h2 where 2: "factory_probe env E h1 = Some (Inr probe, h2)" "ready (h_card h2)" "view (h_card h2) = ?v"
    using factory_probe_kept [OF assms(1) 1(2)] unfolding kept_def 1(3) by blast
  show ?thesis
  proof (cases "wo_dry_run opts \<or> probe \<noteq> None")
    case True
    then show ?thesis
      using 1(2,3) 2 by (auto simp: start throw_p_def kept_def)
  next
    case False
    have "never_accepts env refuses (cd_keys ?v ! 0) FACTORY_KEY"
      using assms(3) factory_probe_accepted [OF assms(1) 1(2), unfolded 1(3)] 2(1) False by auto
    then obtain h3 where 3: "residual_check env E h2 = Some (Inr False, h3)" "ready (h_card h3)" "view (h_card h3) = ?v"
      using residual_check_refused [OF assms(1) 2(2), unfolded 2(3)] unfolding kept_def 2(3) by blast
    then show ?thesis
      using False 2(1) wipe_verified_wrong_key [OF assms(1) 3(2), of ?keys i "wo_skip_preverify opts" "ws_version src" "cd_uid ?v" UnknownExternal]
        raw(4) assms(8,9) unfolding keys by (auto simp: start kept_def)
  qed
qed

section \<open>Diagnosis\<close>

lemma diagnose_read_run:
  assumes "ready t"
  shows "\<exists>v t'. diagnose_read E t = Some (Inr (cd_uid (view t), Some v, Some (cd_settings (view t)), Some (take 256 (cd_ndef (view t)))), t') \<and>
    ready t' \<and> view t' = view t"
proof -
  obtain v t1 where 1: "unauth_get_version E t = Some (Inr v, t1)" "ready t1" "view t1 = view t" "synced session_new t1"
    using version [OF assms] synced_new by blast
  obtain t2 s2 where 2: "unauth_get_file_settings E Ndef (t1, session_new) = Some (Inr (cd_settings (view t)), (t2, s2))"
    "synced s2 t2" "ready t2" "view t2 = view t"
    using plain_settings [OF 1(2,4)] 1(3) by auto
  obtain t3 s3 where "read_file_unauthenticated E Ndef 0 256 (t2, s2) = Some (Inr (take 256 (cd_ndef (view t))), (t3, s3))"
    "ready t3" "view t3 = view t"
    using plain_read [OF 2(3,2)] 2(4) by auto
  then show ?thesis
    using 1 2 selected_uid [OF assms] shape [OF assms]
    by (simp add: diagnose_read_def own_def bind_p_def on_link_def ok_p_def catch_p_def return_p_def uid_to_fixed_def)
qed

lemma diagnose_probe_run:
  assumes "rng_ok env" "ready (h_card h)" "length key = 16"
  shows "\<exists>a b h'. diagnose_probe env E key h = Some (Inr (a, b), h') \<and> kept ready view h h' \<and> h_failures h' = h_failures h \<and>
    (cd_keys (view (h_card h)) ! 0 = key \<longrightarrow> a \<and> \<not> b)"
proof -
  obtain ra where ra: "gen_rnd_a env h = (Some (Inr ra, h\<lparr>h_rng := Suc (h_rng h)\<rparr>) :: (('e CliError, bytes) result \<times> 't host) option)"
    "length ra = 16"
    using gen_rnd_ok [OF assms(1)] by metis
  obtain r t' where "authenticate_aes E session_new Key0 key ra (h_card h) = Some (r, t')" "ready t'" "view t' = view (h_card h)"
    using authenticate_any [OF assms(2) ra(2) assms(3)] by blast
  moreover from this have "\<exists>s. r = Inr s" if "cd_keys (view (h_card h)) ! 0 = key"
    using authenticate [OF assms(2) ra(2), of Key0 key] that by (auto simp: key_index_simps)
  ultimately show ?thesis
    using ra(1) by (cases r) (auto simp: diagnose_probe_def prog_simps kept_def)
qed

lemma cmd_diagnose_run:
  assumes "rng_ok env" "ready (h_card h)"
  defines "c \<equiv> view (h_card h)"
  defines "sdm \<equiv> is_sdm_functionally_active (fv_sdm (cd_settings c))"
  defines "uri \<equiv> parse_ndef_uri (take 256 (cd_ndef c)) \<noteq> None"
  shows "\<exists>rep h'. cmd_diagnose env E verify issuer json h = Some (Inr rep, h') \<and> kept ready view h h' \<and> h_failures h' = h_failures h \<and>
    dr_uid rep = cd_uid c \<and> (sdm \<and> uri \<longrightarrow> dr_state rep = CARD_STATE_PROVISIONED) \<and>
    (\<not> sdm \<and> \<not> uri \<and> cd_keys c ! 0 = FACTORY_KEY \<longrightarrow> dr_state rep = CARD_STATE_BLANK \<and> dr_provenance rep = FactoryDefault)"
proof -
  obtain v t1 where 1: "diagnose_read E (h_card h) = Some (Inr (cd_uid c, Some v, Some (cd_settings c), Some (take 256 (cd_ndef c))), t1)"
    "ready t1" "view t1 = c"
    using diagnose_read_run [OF assms(2)] unfolding c_def by blast
  let ?h1 = "h\<lparr>h_card := t1\<rparr>" and ?picc = "diagnose_picc env verify issuer (cd_uid c) (fv_sdm (cd_settings c)) (take 256 (cd_ndef c))
    (parse_ndef_uri (take 256 (cd_ndef c)))"
  have fk: "length FACTORY_KEY = 16" "length (replicate 16 0x11 :: bytes) = 16"
    by (simp_all add: FACTORY_KEY_def)
  have "\<exists>a b h'. (if \<not> sdm \<and> \<not> uri then diagnose_probe env E FACTORY_KEY else return_p (False, False)) ?h1 = Some (Inr (a, b), h') \<and>
    kept ready view ?h1 h' \<and> h_failures h' = h_failures h \<and> (\<not> sdm \<and> \<not> uri \<and> cd_keys c ! 0 = FACTORY_KEY \<longrightarrow> a) \<and> (cd_keys c ! 0 = FACTORY_KEY \<or> sdm \<or> uri \<longrightarrow> \<not> b)"
    using diagnose_probe_run [OF assms(1) _ fk(1), of ?h1] 1(2,3) by (auto simp: return_p_def kept_def)
  then obtain a b h2 where 2: "(if \<not> sdm \<and> \<not> uri then diagnose_probe env E FACTORY_KEY else return_p (False, False)) ?h1 = Some (Inr (a, b), h2)"
    "ready (h_card h2)" "view (h_card h2) = c" "h_failures h2 = h_failures h"
    "\<not> sdm \<and> \<not> uri \<and> cd_keys c ! 0 = FACTORY_KEY \<longrightarrow> a" "cd_keys c ! 0 = FACTORY_KEY \<or> sdm \<or> uri \<longrightarrow> \<not> b"
    using 1(3) unfolding kept_def by auto
  have "\<exists>a' b' h'. (if \<not> a \<and> \<not> ?picc \<and> \<not> b then diagnose_probe env E (replicate 16 0x11) else return_p (False, False)) h2 = Some (Inr (a', b'), h') \<and>
    kept ready view h2 h' \<and> h_failures h' = h_failures h"
    using diagnose_probe_run [OF assms(1) 2(2) fk(2)] 2(2-4) by (fastforce simp: return_p_def kept_def)
  then show ?thesis
    using 1 2 unfolding c_def sdm_def uri_def
    by (auto simp: cmd_diagnose_def bind_p_def on_card_def map_err_p_def return_p_def kept_def Let_def classify_card_state_def
        classify_key_provenance_def)
qed

end

end
