(* ===== verification/Provisioning.thy ===== *)
theory Provisioning
  imports MockProtocol NdefUri
begin

text \<open>
  End-to-end properties of the workflows on the mock card, obtained from the contract
  \<open>ntag_card\<close> through its interpretation, with a small exclusive-or crate and a factory card for
  the witnesses.
\<close>

text \<open>An AES crate for the witnesses: one-block exclusive or, with a constant MAC.\<close>

definition xor_crate :: aes_crate where
  "xor_crate = \<lparr>aes_enc = (\<lambda>k x. xor_bytes x k), aes_dec = (\<lambda>k x. xor_bytes x k),
    aes_mac = (\<lambda>k m. replicate 16 0)\<rparr>"

lemma xor_crate_ok: "aes_ok xor_crate"
  by (simp add: aes_ok_def xor_crate_def cmac_len16_def xor_bytes_cancel)

lemma mock_new_ready: "mock_ready xor_crate mock_new"
proof -
  have "decode_settings DEFAULT_FILE_SETTINGS = Inr (factory_settings Ndef)"
    by code_simp
  moreover have "slice 4 7 DEFAULT_FILE_SETTINGS = u24w (fv_file_size (factory_settings Ndef))"
    by code_simp
  moreover have "fv_file_size (factory_settings Ndef) \<le> 0xFFFFFF"
    by (simp add: factory_settings_def file_size_of_def)
  ultimately have "settings_wf DEFAULT_FILE_SETTINGS"
    by (auto simp: settings_wf_def DEFAULT_FILE_SETTINGS_def)
  then show ?thesis
    by (simp add: mock_ready_def mock_wf_def xor_crate_ok mock_new_def mock_with_state_def MOCK_UID_def)
qed

definition demo_key :: "byte \<Rightarrow> AesKey" where "demo_key b = AesKey (replicate 16 b)"

definition demo_keys :: CardKeys where
  "demo_keys = \<lparr>ck_k0 = demo_key 1, ck_k1 = demo_key 2, ck_k2 = demo_key 3, ck_k3 = demo_key 4, ck_k4 = demo_key 5\<rparr>"

definition demo_params :: BurnParams where
  "demo_params = \<lparr>bp_lnurl = ''lnurlw://x/?p={picc:uid+ctr}&c={mac}'', bp_keys = demo_keys, bp_key_version = 1,
    bp_current_key = aes_key_zeroed, bp_previous_keys = card_keys_zeroed\<rparr>"

definition demo_plan :: SdmUrlConfig where
  "demo_plan = \<lparr>pl_ndef_bytes = [0, 70, 0xD1, 1, 66, 0x55, 0] @ as_bytes ''lnurlw://x/?p='' @ replicate 32 0x30 @
      as_bytes ''&c='' @ replicate 16 0x30,
    pl_sdm_settings = \<lparr>sdm_picc_data = PdEncrypted Key1 21 (EcBoth \<lparr>rc_limit = None, rc_ret_access = CtrNoAccess\<rparr>),
      sdm_file_read = Some (MacOnly Key2 \<lparr>mw_input = 56, mw_mac = 56\<rparr>), sdm_tamper_status = None\<rparr>,
    pl_offset = 7, pl_prefix_len = 0, pl_prefix_code = 0\<rparr>"

lemma demo_planned:
  "sdm_url_config (standardize_url_template (bp_lnurl demo_params)) Aes burn_sdm_opts = Inr demo_plan"
  by code_simp

lemma demo_facts:
  "keys_sized demo_keys" "length (key_bytes (demo_key b)) = 16"
  "cd_keys (mock_card mock_new) = replicate 5 (replicate 16 0)" "cd_uid (mock_card mock_new) = MOCK_UID"
  "card_key_bytes card_keys_zeroed = replicate 5 (replicate 16 0)"
  by (simp_all add: keys_sized_def card_key_bytes_def demo_keys_def demo_key_def mock_card_def mock_new_def
      mock_with_state_def card_keys_zeroed_def aes_key_zeroed_def eval_nat_numeral)

text \<open>
  C1. Burn, run against the mock card with the card's live K0 and previous keys, succeeds with the card's
  identifier and leaves exactly the new keys, all five at the requested version, the planned
  NDEF file, and the NDEF settings locked to K0 with the planned SDM configuration.
\<close>
theorem burn_correct:
  assumes "mock_ready A m" "length (key_bytes rnd_a) = 16"
    and "sdm_url_config (standardize_url_template (bp_lnurl params)) Aes burn_sdm_opts = Inr plan"
    and "keys_sized (bp_keys params)"
      "mk_keys m = key_bytes (bp_current_key params) # tl (card_key_bytes (bp_previous_keys params))"
  shows "\<exists>m'. burn (mock_link A False) params rnd_a m = Some (Inr (mk_uid m), m') \<and> mock_ready A m' \<and>
    mock_card m' = burned_card params plan (mock_card m)"
  using mock.burn_ok [of A m rnd_a params plan] assms by (simp add: mock_card_def)

theorem burn_correct_witness:
  "\<exists>m'. burn (mock_link xor_crate False) demo_params (demo_key 9) mock_new =
      Some (Inr MOCK_UID, m') \<and> cd_keys (mock_card m') = card_key_bytes demo_keys \<and> cd_versions (mock_card m') = [1, 1, 1, 1, 1]"
proof -
  have "mk_keys mock_new = key_bytes (bp_current_key demo_params) # tl (card_key_bytes (bp_previous_keys demo_params))"
    "mk_uid mock_new = MOCK_UID" "bp_keys demo_params = demo_keys" "bp_key_version demo_params = 1"
    by (simp_all add: demo_params_def demo_facts aes_key_zeroed_def mock_new_def mock_with_state_def eval_nat_numeral)
  then show ?thesis
    using burn_correct [of xor_crate mock_new "demo_key 9" demo_params demo_plan]
      mock_new_ready demo_planned demo_facts(1,2) by (auto simp: burned_card_def eval_nat_numeral)
qed

text \<open>
  C2. Wipe, given the card's five keys, succeeds and leaves factory keys at version zero, an empty
  NDEF message, factory access rights and no SDM configuration.
\<close>
theorem wipe_correct:
  assumes "mock_ready A m" "length (key_bytes rnd_a) = 16" "mk_keys m = card_key_bytes keys"
  shows "\<exists>m'. wipe (mock_link A False) keys rnd_a m = Some (Inr (mk_uid m), m') \<and> mock_ready A m' \<and>
    mock_card m' = wiped_card (mock_card m)"
  using mock.wipe_ok [OF assms(1,2), of keys] assms(3) by (simp add: mock_card_def)

theorem wipe_correct_witness:
  "\<exists>m'. wipe (mock_link xor_crate False) card_keys_zeroed (demo_key 9) mock_new = Some (Inr MOCK_UID, m') \<and>
    cd_ndef (mock_card m') = [0, 0]"
  using wipe_correct [of xor_crate mock_new "demo_key 9" card_keys_zeroed] mock_new_ready demo_facts(2,3,5)
  by (auto simp: mock_card_def mock_new_def mock_with_state_def wiped_card_def)

text \<open>
  C9. Provisioning is reversible: burning a factory card and wiping it with the burned keys
  restores its keys, key versions and file settings.
\<close>
theorem burn_wipe_restores:
  assumes "mock_ready A m" "length (key_bytes rnd_a) = 16"
    and "sdm_url_config (standardize_url_template (bp_lnurl params)) Aes burn_sdm_opts = Inr plan"
    and "keys_sized (bp_keys params)" "bp_current_key params = aes_key_zeroed" "bp_previous_keys params = card_keys_zeroed"
    and "mk_keys m = replicate 5 FACTORY_KEY" "mk_key_versions m = replicate 5 KEY_VERSION_BLANK"
      "cd_settings (mock_card m) = factory_settings Ndef"
  shows "\<exists>m1 m2. burn (mock_link A False) params rnd_a m = Some (Inr (mk_uid m), m1) \<and>
    wipe (mock_link A False) (bp_keys params) rnd_a m1 = Some (Inr (mk_uid m) :: (_ Error, bytes) result, m2) \<and>
    mk_keys m2 = mk_keys m \<and> mk_key_versions m2 = mk_key_versions m \<and>
    cd_settings (mock_card m2) = factory_settings Ndef \<and> take 2 (mk_ndef m2) = [0, 0]"
proof -
  have "cd_keys (mock_card m) = key_bytes (bp_current_key params) # tl (card_key_bytes (bp_previous_keys params))"
    using assms(5-7) demo_facts(5) by (simp add: mock_card_def aes_key_zeroed_def FACTORY_KEY_def eval_nat_numeral)
  then obtain m1 where 1: "burn (mock_link A False) params rnd_a m = Some (Inr (mk_uid m), m1)" "mock_ready A m1"
    "mock_card m1 = burned_card params plan (mock_card m)"
    using mock.burn_ok [of A m rnd_a params plan] assms(1-4) by (auto simp: mock_card_def)
  then have "cd_keys (mock_card m1) = card_key_bytes (bp_keys params)" "cd_uid (mock_card m1) = mk_uid m"
    by (simp_all add: burned_card_def mock_card_def)
  then obtain m2 where 2: "wipe (mock_link A False) (bp_keys params) rnd_a m1 =
      Some (Inr (mk_uid m) :: (_ Error, bytes) result, m2)"
    "mock_card m2 = wiped_card (mock_card m1)"
    using mock.wipe_ok [OF 1(2) assms(2), of "bp_keys params"] by auto
  have "mock_card m2 = wiped_card (burned_card params plan (mock_card m))"
    using 1(3) 2(2) by simp
  then have "mk_keys m2 = replicate 5 FACTORY_KEY" "mk_key_versions m2 = replicate 5 KEY_VERSION_BLANK"
    "take 2 (mk_ndef m2) = [0, 0]" "cd_settings (mock_card m2) = factory_settings Ndef"
    using assms(9) by (simp_all add: mock_card_def wiped_card_def burned_card_def factory_settings_def
        factory_ndef_access_rights_def)
  then show ?thesis
    using 1(1) 2(1) assms(7,8) by auto
qed

theorem burn_wipe_restores_witness:
  "\<exists>m1 m2. burn (mock_link xor_crate False) demo_params (demo_key 9) mock_new = Some (Inr MOCK_UID, m1) \<and>
    wipe (mock_link xor_crate False) demo_keys (demo_key 9) m1 = Some (Inr MOCK_UID, m2) \<and>
    mk_keys m2 = replicate 5 FACTORY_KEY"
proof -
  have "mk_keys mock_new = replicate 5 FACTORY_KEY" "mk_key_versions mock_new = replicate 5 KEY_VERSION_BLANK"
    "mk_uid mock_new = MOCK_UID" "bp_keys demo_params = demo_keys"
    "bp_current_key demo_params = aes_key_zeroed" "bp_previous_keys demo_params = card_keys_zeroed"
    by (simp_all add: mock_new_def mock_with_state_def FACTORY_KEY_def KEY_VERSION_BLANK_def demo_params_def)
  moreover have "decode_settings DEFAULT_FILE_SETTINGS = Inr (factory_settings Ndef)"
    by code_simp
  then have "cd_settings (mock_card mock_new) = factory_settings Ndef"
    by (simp add: mock_card_def mock_new_def mock_with_state_def)
  ultimately show ?thesis
    using burn_wipe_restores [of xor_crate mock_new "demo_key 9" demo_params demo_plan]
      mock_new_ready demo_planned demo_facts(1,2) by auto
qed

text \<open>
  The key-version check reports exactly the card's five versions and changes nothing.
\<close>
theorem check_key_versions_correct:
  assumes "mock_ready A m" "length (key_bytes rnd_a) = 16" "mk_keys m ! 0 = key_bytes key"
  shows "\<exists>m'. check_key_versions (mock_link A False) key rnd_a m = Some (Inr (mk_key_versions m), m') \<and>
    mock_ready A m' \<and> mock_card m' = mock_card m"
  using mock.check_key_versions_ok [OF assms(1,2), of key] assms(3) by (simp add: mock_card_def)

theorem check_key_versions_correct_witness:
  "\<exists>m'. check_key_versions (mock_link xor_crate False) aes_key_zeroed (demo_key 9) mock_new = Some (Inr [0, 0, 0, 0, 0], m')"
  using check_key_versions_correct [of xor_crate mock_new "demo_key 9" aes_key_zeroed] mock_new_ready demo_facts(2)
  by (auto simp: mock_new_def mock_with_state_def aes_key_zeroed_def eval_nat_numeral)

text \<open>
  C14. A card that refuses the K0 offered keeps its keys, versions, NDEF file and settings, both under
  burn and under wipe, and the caller sees the refusal.
\<close>
theorem refused_card_unchanged:
  assumes "mock_ready A m" "length (key_bytes rnd_a) = 16" "length (key_bytes key) = 16"
    and "sdm_url_config (standardize_url_template (bp_lnurl params)) Aes burn_sdm_opts = Inr plan"
    and "bp_current_key params = key" "ck_k0 keys = key"
    and "authenticate_aes (mock_link A False) session_new Key0 (key_bytes key) (key_bytes rnd_a) m = Some (Inl e, m')"
  shows "burn (mock_link A False) params rnd_a m = Some (Inl (from_session_error e), m') \<and>
    wipe (mock_link A False) keys rnd_a m = Some (Inl (from_session_error e :: _ Error), m') \<and>
    mock_card m' = mock_card m \<and> mock_ready A m'"
  using mock.burn_refused [of A m rnd_a params plan e m'] mock.wipe_refused [of A m rnd_a keys e m'] assms
  by simp

definition wrong_key :: AesKey where "wrong_key = AesKey (replicate 15 0 @ [1])"

lemma wrong_key_refused:
  "case authenticate_aes (mock_link xor_crate False) session_new Key0 (key_bytes wrong_key) (key_bytes (demo_key 9)) mock_new of
    Some (Inl (ErrorResponse AuthenticationError), _) \<Rightarrow> True | _ \<Rightarrow> False"
  by code_simp

theorem refused_card_unchanged_witness:
  "\<exists>e m'. wipe (mock_link xor_crate False) (card_keys_zeroed\<lparr>ck_k0 := wrong_key\<rparr>) (demo_key 9) mock_new =
      Some (Inl (e :: _ Error), m') \<and> mock_card m' = mock_card mock_new"
proof -
  obtain e m' where "authenticate_aes (mock_link xor_crate False) session_new Key0 (key_bytes wrong_key)
      (key_bytes (demo_key 9)) mock_new = Some (Inl e, m')"
    using wrong_key_refused by (auto split: option.splits sum.splits)
  then show ?thesis
    using refused_card_unchanged [of xor_crate mock_new "demo_key 9" wrong_key
        "demo_params\<lparr>bp_current_key := wrong_key\<rparr>" demo_plan "card_keys_zeroed\<lparr>ck_k0 := wrong_key\<rparr>" e m']
      mock_new_ready demo_planned demo_facts(2) by (auto simp: wrong_key_def)
qed

text \<open>
  C20. A command payload survives the channel: what the driver pads and encrypts under a session
  key, transaction identifier and counter, the card decrypts under the same session and strips to
  exactly the message, whatever its length.
\<close>
theorem payload_roundtrip:
  assumes "aes_ok A" "length (au_ti st) = 4" "length (su_enc_key (au_suite st)) = 16"
  shows "\<exists>ct. encrypt_command (mock_link A c) st (m2_pad msg) = Inr ct \<and>
    length ct mod 16 = 0 \<and> length ct \<le> length msg + 16 \<and>
    (\<exists>plain n. decrypt_command A (mirror st) ct = Some plain \<and> mock_strip_m2_padding plain = Some n \<and> take n plain = msg)"
proof -
  obtain ct where "encrypt_command (mock_link A c) st (m2_pad msg) = Inr ct" "length ct = length (m2_pad msg)"
    "decrypt_command A (mirror st) ct = Some (m2_pad msg)"
    using decrypt_command_encrypted [OF assms m2_pad_aligned(1,2)] by blast
  moreover have "strip_m2_padding (m2_pad msg) = Some (length msg)" "take (length msg) (m2_pad msg) = msg"
    by (simp_all add: m2_pad_def Let_def strip_m2_padding_pad)
  ultimately show ?thesis
    using m2_pad_aligned [of msg] by (auto simp: strip_m2_agrees)
qed

definition demo_state :: Authenticated where
  "demo_state = with_auth_result \<lparr>ar_suite = \<lparr>su_mac_key = replicate 16 1, su_enc_key = replicate 16 2\<rparr>,
    ar_ti = [1, 2, 3, 4], ar_pd_cap2 = [], ar_pcd_cap2 = []\<rparr> Key0"

theorem payload_roundtrip_witness:
  "\<exists>ct. encrypt_command (mock_link xor_crate False) demo_state (m2_pad [1, 2, 3]) = Inr ct \<and> length ct mod 16 = 0"
  using payload_roundtrip [of xor_crate demo_state False "[1, 2, 3]"] xor_crate_ok
  by (auto simp: demo_state_def with_auth_result_def au_ti_def au_suite_def)

text \<open>
  C10. Authentication with the card's own key always succeeds; afterwards card and driver hold the same
  session keys, transaction identifier and command counter zero, and the card is otherwise untouched.
\<close>
theorem authentication_establishes_session:
  assumes "mock_ready A m" "length rnd_a = 16" "mk_keys m ! key_index kn = key"
  shows "\<exists>s m'. authenticate_aes (mock_link A c) session_new kn key rnd_a m = Some (Inr s, m') \<and>
    mk_session m' = Some (mirror (se_state s)) \<and> au_cmd_counter (se_state s) = 0 \<and>
    au_suite (se_state s) = suite_derive A key rnd_a MOCK_RND_B \<and> mock_card m' = mock_card m"
proof -
  have "cd_keys (mock_card m) ! key_index kn = key"
    using assms(3) by (simp add: mock_card_def)
  from authenticate_session [OF assms(1,2) this] show ?thesis
    by (fastforce simp: mock_live_def)
qed

theorem authentication_establishes_session_witness:
  "\<exists>s m'. authenticate_aes (mock_link xor_crate False) session_new Key2 (replicate 16 0) (replicate 16 9) mock_new =
      Some (Inr s, m') \<and> mk_session m' = Some (mirror (se_state s))"
  using authentication_establishes_session [of xor_crate mock_new "replicate 16 9" Key2 "replicate 16 0" False] mock_new_ready
  by (auto simp: mock_new_def mock_with_state_def key_index_def key_as_byte_def)

text \<open>
  C3. Lockstep: along every sequence of authenticated commands (key versions, settings, plain reads
  and writes, key changes) the card and the driver agree on session keys, transaction
  identifier and command counter, so no later MAC check of either side can fail.
\<close>
theorem session_lockstep:
  assumes "mock_live A s m" "(session_step (mock_link A False) mock_card)\<^sup>*\<^sup>* (s, m) (s', m')"
  shows "mk_session m' = Some (mirror (se_state s')) \<and> mock_ready A m' \<and>
    (\<exists>v s'' m''. auth_get_key_version (mock_link A False) s' kn m' = Some (Inr (v, s''), m'') \<and> v = mk_key_versions m' ! key_index kn)"
proof -
  have live: "mock_live A s' m'"
    by (rule mock.steps_live [OF assms(2,1)])
  then show ?thesis
    using mock.key_version [OF live, of kn] by (auto simp: mock_live_def mock_card_def)
qed

theorem session_lockstep_witness:
  "\<exists>s m s' m'. session_step (mock_link xor_crate False) mock_card (s, m) (s', m') \<and> mk_session m' = Some (mirror (se_state s'))"
proof -
  obtain s m where live: "mock_live xor_crate s m"
    using authenticate_live [OF mock_new_ready _ refl, of "replicate 16 9" False Key0] by auto
  obtain v s' m' where "auth_get_key_version (mock_link xor_crate False) s Key1 m = Some (Inr (v, s'), m')"
    using mock.key_version [OF live] by blast
  then have step: "session_step (mock_link xor_crate False) mock_card (s, m) (s', m')"
    by (rule session_step.intros)
  then show ?thesis
    using session_lockstep [OF live r_into_rtranclp, OF step] by blast
qed

text \<open>
  C11. Mutual authentication, over any transport: if the driver accepts, the card's second answer
  decrypts under the key to a transaction identifier followed by the driver's own challenge rotated by
  one, and the session keys are those derived from that challenge and the card's.
\<close>
theorem authentication_sound:
  assumes "aes_ok (lk_aes E)" "length key = 16"
    and "authenticate_ev2_first E kn key rnd_a t = Some (Inr r, t')"
  shows "\<exists>c1 t1 c2. transmit_s E [0x90, 0x71, 0x00, 0x00, 0x05, key_as_byte kn, 0x03, 0x00, 0x00, 0x00, 0x00] t =
      Some (Inr c1, t1) \<and>
    transmit_s E (build_part2_apdu (lk_aes E) key rnd_a (aes_decrypt_auth (lk_aes E) key (rs_data c1))) t1 =
      Some (Inr c2, t') \<and>
    (let plain = aes_decrypt_auth (lk_aes E) key (rs_data c2)
     in slice 4 20 plain = drop 1 rnd_a @ [rnd_a ! 0] \<and> ar_ti r = slice 0 4 plain \<and>
        ar_suite r = suite_derive (lk_aes E) key rnd_a (aes_decrypt_auth (lk_aes E) key (rs_data c1)))"
proof -
  let ?A = "lk_aes E"
  let ?rb = "\<lambda>c1. aes_decrypt_auth ?A key (rs_data c1)"
  obtain c1 t1 c2 where c: "transmit_s E [0x90, 0x71, 0x00, 0x00, 0x05, key_as_byte kn, 0x03, 0x00, 0x00, 0x00, 0x00] t =
      Some (Inr c1, t1)" "transmit_s E (build_part2_apdu ?A key rnd_a (?rb c1)) t1 = Some (Inr c2, t')"
    "length (rs_data c2) = 32" "finish_auth ?A key rnd_a (?rb c1) (rs_data c2) = (Inr r :: ('b SessionError, _) result)"
    using assms(3) unfolding authenticate_ev2_first_def
    by (auto elim!: bind_p_SomeE simp: Let_def split: if_splits)
  let ?plain = "aes_decrypt_auth ?A key (rs_data c2)"
  have "rs_data c2 \<noteq> []"
    using c(3) by auto
  then have "length ?plain = 32"
    using c(3) length_cbc_decrypt_blocks [OF assms(1,2), of "replicate 16 0" "rs_data c2"]
    by (simp add: aes_decrypt_auth_def aes_cbc_decrypt_n_def aes_cbc_decrypt_def)
  then have "length (slice 4 20 ?plain) = 16"
    by (simp add: length_slice)
  then have "slice 4 20 ?plain = drop 1 rnd_a @ [rnd_a ! 0]"
    using c(4) rotate_back [of "slice 4 20 ?plain" rnd_a] by (simp add: finish_auth_def Let_def split: if_splits)
  then show ?thesis
    using c by (fastforce simp: finish_auth_def Let_def split: if_splits)
qed

theorem authentication_sound_witness:
  "\<exists>r m'. authenticate_ev2_first (mock_link xor_crate False) Key0 (replicate 16 0) (replicate 16 9) (selected_card mock_new) =
      Some (Inr r, m') \<and> length (ar_ti r) = 4"
proof -
  have "cd_keys (mock_card mock_new) ! key_index Key0 = replicate 16 0"
    by (simp add: demo_facts key_index_def key_as_byte_def)
  then obtain s m' where "authenticate_aes (mock_link xor_crate False) session_new Key0 (replicate 16 0) (replicate 16 9) mock_new =
      Some (Inr s, m')" "length (au_ti (se_state s)) = 4"
    using authenticate_live [OF mock_new_ready, of "replicate 16 9" Key0 "replicate 16 0" False]
    by (auto simp: mock_live_def)
  then obtain r where r: "authenticate_ev2_first (mock_link xor_crate False) Key0 (replicate 16 0) (replicate 16 9) (selected_card mock_new) =
      Some (Inr r, m')" "length (ar_ti r) = 4"
    by (auto simp: authenticate_mock with_auth_result_def au_ti_def split: option.splits sum.splits)
  then show ?thesis
    using authentication_sound [OF _ _ r(1)] xor_crate_ok by auto
qed

lemma lnurl_plan:
  assumes "detect_uri_prefix (as_bytes (prefix @ bolt_template (pre @ d # ''p='') (d' # ''c='') [])) = (code, length prefix)"
    and "list_all text_byte (as_bytes (prefix @ pre))" "is_url_delim d" "is_url_delim d'" "length pre \<le> 190"
  shows "standardize_url_template (prefix @ pre @ d # ''p={picc:uid+ctr}'' @ d' # ''c={mac}'') =
      prefix @ bolt_template (pre @ d # ''p='') (d' # ''c='') []"
    "sdm_url_config (prefix @ bolt_template (pre @ d # ''p='') (d' # ''c='') []) Aes burn_sdm_opts = Inr
      \<lparr>pl_ndef_bytes = ndef_header (55 + length pre) code @ bolt_content (as_bytes (pre @ d # ''p='')) (as_bytes (d' # ''c='')) [],
        pl_sdm_settings = bolt_sdm burn_sdm_opts (10 + length pre) (45 + length pre),
        pl_offset = 7, pl_prefix_len = length prefix, pl_prefix_code = code\<rparr>"
proof -
  have "CHR ''{'' \<notin> set (prefix @ pre)" "CHR 0x5B \<notin> set (prefix @ pre)"
    using text_chars [OF assms(2)] by simp_all
  moreover have d: "d \<in> {CHR ''?'', CHR ''&'', CHR ''#''}" "d' \<in> {CHR ''?'', CHR ''&'', CHR ''#''}"
    using assms(3,4) by (auto simp: is_url_delim_def)
  ultimately show "standardize_url_template (prefix @ pre @ d # ''p={picc:uid+ctr}'' @ d' # ''c={mac}'') =
      prefix @ bolt_template (pre @ d # ''p='') (d' # ''c='') []"
    using standardize_bolt [of "prefix @ pre @ d # ''p=''" "d' # ''c=''" "[]"] by (auto simp: bolt_template_def)
  have "list_all text_byte (as_bytes (pre @ d # ''p=''))" "list_all text_byte (as_bytes (d' # ''c=''))"
    using assms(2) d by (auto simp: text_byte_def)
  then show "sdm_url_config (prefix @ bolt_template (pre @ d # ''p='') (d' # ''c='') []) Aes burn_sdm_opts = Inr
      \<lparr>pl_ndef_bytes = ndef_header (55 + length pre) code @ bolt_content (as_bytes (pre @ d # ''p='')) (as_bytes (d' # ''c='')) [],
        pl_sdm_settings = bolt_sdm burn_sdm_opts (10 + length pre) (45 + length pre),
        pl_offset = 7, pl_prefix_len = length prefix, pl_prefix_code = code\<rparr>"
    using bolt_plan [of prefix "pre @ d # ''p=''" "d' # ''c=''" "[]" code burn_sdm_opts] assms(1,5)
    by (simp add: burn_sdm_opts_def sdm_url_options_new_def)
qed



end
