(* ===== verification/CliTheorems.thy ===== *)
theory CliTheorems
  imports CliCards Provisioning
begin

text \<open>
  What the commands of the command line promise, over any transport where the promise is about the tool, and on
  the mock card where it is about the card: bounded authentication, guards that come before any
  authentication, verification before mutation, and the life of a card through burn, diagnose and wipe.
\<close>

section \<open>Bounded authentication\<close>

lemma gen_rnd_count: "gen_rnd_a env h = Some (r, h') \<Longrightarrow> h_rng h' = Suc (h_rng h) \<and> h_failures h' = h_failures h"
  by (auto simp: gen_rnd_a_def Let_def split: option.splits)

lemma gen_rnd_total: "\<exists>r. gen_rnd_a env h = Some (r, h\<lparr>h_rng := Suc (h_rng h)\<rparr>)"
  by (simp add: gen_rnd_a_def Let_def split: option.splits)

lemma on_card_host: "on_card m h = Some (r, h') \<Longrightarrow> h_rng h' = h_rng h \<and> h_failures h' = h_failures h"
  by (auto simp: on_card_def split: option.splits)

lemma auth_ladder_count:
  fixes E :: "('t, 'e) link"
  assumes "auth_ladder env E slot key n h = Some (r, h')" "n \<le> 10"
  shows "h_rng h < h_rng h' \<and> h_rng h' \<le> h_rng h + (11 - n) \<and> (r = Inr LadderExhausted \<longrightarrow> h_rng h' = h_rng h + (11 - n)) \<and>
    h_failures h' = h_failures h"
  using assms
proof (induction "10 - n" arbitrary: n h r)
  case 0
  obtain rnd where g: "gen_rnd_a env h = Some (rnd :: ('e CliError, bytes) result, h\<lparr>h_rng := Suc (h_rng h)\<rparr>)"
    using gen_rnd_total by blast
  have n: "n = 10"
    using 0 by simp
  have d: "next_delay 10 = None"
    by (simp add: next_delay_def AUTH_RETRY_DELAYS_def)
  show ?case
    using 0(2) unfolding n
    by (auto simp: auth_ladder.simps [of env E slot key 10 h] g d on_card_def split: sum.splits option.splits if_splits)
next
  case (Suc m)
  obtain rnd where g: "gen_rnd_a env h = Some (rnd :: ('e CliError, bytes) result, h\<lparr>h_rng := Suc (h_rng h)\<rparr>)"
    using gen_rnd_total by blast
  have d: "next_delay n = Some (AUTH_RETRY_DELAYS ! n, n + 1)"
    using Suc.hyps(2) by (simp add: next_delay_def AUTH_RETRY_DELAYS_def)
  have next_step: "h_rng h2 < h_rng h' \<and> h_rng h' \<le> h_rng h2 + (10 - n) \<and>
      (r = Inr LadderExhausted \<longrightarrow> h_rng h' = h_rng h2 + (10 - n)) \<and> h_failures h' = h_failures h2"
    if "auth_ladder env E slot key (Suc n) h2 = Some (r, h')" for h2 r
    using Suc.hyps(1) [of "Suc n" h2 r] Suc.hyps(2) that by simp
  have le: "n < 10"
    using Suc.hyps(2) by simp
  show ?case
    using Suc.prems(1) le by (auto simp: auth_ladder.simps [of env E slot key n h] g d on_card_def
        split: sum.splits option.splits if_splits dest!: next_step)
qed

text \<open>
  No retry loop hammers a card: over any transport, one authentication ladder draws (and sends) at
  most eleven challenges, gives up only after exactly eleven, and never counts a failure itself.
\<close>
theorem auth_ladder_bounded:
  assumes "auth_ladder env E slot key 0 h = Some (r, h')"
  shows "h_rng h' \<le> h_rng h + 11 \<and> (r = Inr LadderExhausted \<longrightarrow> h_rng h' = h_rng h + 11) \<and> h_failures h' = h_failures h"
  using auth_ladder_count [OF assms] by simp

lemma record_failure_run:
  "h_failures h < 10 \<Longrightarrow> \<exists>r. record_auth_failure h = Some (r, h\<lparr>h_failures := h_failures h + 1\<rparr>) \<and>
    (r = Inr () \<and> h_failures h + 1 < 10 \<or> r = Inl (CeExit 6) \<and> h_failures h + 1 = 10)"
proof -
  assume "h_failures h < 10"
  then have "h_failures h + 1 < 10 \<or> h_failures h + 1 = 10"
    by (auto simp: word_less_nat_alt unat_word_ariths word_unat_eq_iff)
  then show ?thesis
    by (auto simp: record_auth_failure_def Let_def CIRCUIT_BREAKER_THRESHOLD_def)
qed

lemma try_auth_count:
  fixes E :: "('t, 'e) link"
  shows "try_auth env E key n h = Some (r, h') \<Longrightarrow>
    (\<exists>a. r = Inr a) \<and> h_rng h' \<le> h_rng h + n \<and> h_failures h' = h_failures h"
proof (induction n arbitrary: h)
  case 0
  then show ?case
    by (auto simp: return_p_def)
next
  case (Suc n)
  obtain rnd where g: "gen_rnd_a env h = Some (rnd :: ('e CliError, bytes) result, h\<lparr>h_rng := Suc (h_rng h)\<rparr>)"
    using gen_rnd_total by blast
  show ?case
    using Suc.prems by (auto simp: g catch_p_def return_p_def on_card_def
        split: sum.splits option.splits if_splits SessionError.splits ResponseStatus.splits dest!: Suc.IH)
qed

lemma scan_loop_breaker:
  fixes E :: "('t, 'e) link"
  shows "scan_loop env E n cands h = Some (r, h') \<Longrightarrow> h_failures h < 10 \<Longrightarrow>
    h_rng h' \<le> h_rng h + n * length cands \<and>
    (if r = Inl (CeExit 6) then h_failures h' = 10 else h_failures h' < 10)"
proof (induction cands arbitrary: h)
  case Nil
  then show ?case
    by (auto simp: bind_p_def return_p_def log_event_def log_event_with_provenance_def)
next
  case (Cons x cands)
  obtain label key where x: "x = (label, key)"
    by force
  let ?log = "\<lambda>msg h. h\<lparr>h_audit := h_audit h @ [(msg, None)]\<rparr>"
  let ?h = "?log (''scan-keys: trying '' @ label) h"
  have log: "log_event msg h = Some (Inr (), ?log msg h)" for msg h
    by (simp add: log_event_def log_event_with_provenance_def)
  obtain a h1 where a: "try_auth env E key n ?h = Some (a, h1)"
    using Cons.prems(1) by (auto simp: x bind_p_def log split: option.splits)
  then obtain b where b: "a = Inr b" "h_rng h1 \<le> h_rng h + n" "h_failures h1 = h_failures h"
    using try_auth_count [OF a] by auto
  have IH: "h_rng h' \<le> h_rng h2 + n * length cands \<and> (if r = Inl (CeExit 6) then h_failures h' = 10 else h_failures h' < 10)"
    if "scan_loop env E n cands h2 = Some (r, h')" "h_failures h2 < 10" for h2
    using Cons.IH that .
  show ?case
  proof (cases b)
    case ScWrongKey
    obtain f :: "('e CliError, unit) result" where f: "record_auth_failure h1 = Some (f, h1\<lparr>h_failures := h_failures h + 1\<rparr>)"
      "f = Inr () \<and> h_failures h + 1 < 10 \<or> f = Inl (CeExit 6) \<and> h_failures h + 1 = 10"
      using record_failure_run [where h = h1 and 'b = 'e] b(3) Cons.prems(2) by auto
    show ?thesis
    proof (cases "f = Inr ()")
      case True
      then have "scan_loop env E n cands (?log (''scan-keys: REJECTED '' @ label) (h1\<lparr>h_failures := h_failures h + 1\<rparr>)) = Some (r, h')"
        using Cons.prems(1) a b(1) f(1) ScWrongKey by (simp add: x bind_p_def log)
      from IH [OF this] show ?thesis
        using f(2) True b(2) by (auto split: if_splits)
    next
      case False
      then show ?thesis
        using Cons.prems(1) a b f ScWrongKey by (auto simp: x bind_p_def log)
    qed
  next
    case ScError
    then have "scan_loop env E n cands (?log (''scan-keys: ERROR on '' @ label) h1) = Some (r, h')"
      using Cons.prems(1) a b(1) by (simp add: x bind_p_def log)
    from IH [OF this] show ?thesis
      using Cons.prems(2) b(2,3) by (auto split: if_splits)
  qed (use Cons.prems a b in \<open>fastforce simp: x bind_p_def log return_p_def throw_p_def\<close>)+
qed

text \<open>
  C25. Scanning cannot burn the card's failure budget: from fewer than ten counted failures, over any
  transport, \<open>scan-keys\<close> sends at most seven thousand challenges, and the count of failures either stays below
  ten or reaches exactly ten and ends the process with code 6.
\<close>
theorem scan_keys_breaker:
  assumes "cmd_scan_keys env E issuer attempts h = Some (r, h')" "h_failures h < 10"
  shows "h_rng h' \<le> h_rng h + 7000 \<and> (if r = Inl (CeExit 6) then h_failures h' = 10 else h_failures h' < 10)"
proof -
  obtain u h1 where u: "on_card (map_err_p CeSession (get_selected_uid E)) h = Some (u, h1)"
    using assms(1) by (cases "on_card (map_err_p CeSession (get_selected_uid E)) h") (simp_all add: cmd_scan_keys_def bind_p_def, force)
  note host = on_card_host [OF u]
  have n: "length (scan_candidates env issuer x) = 7" "clamp_attempts attempts \<le> 1000" for x
    by (simp_all add: scan_candidates_def clamp_attempts_def Let_def)
  show ?thesis
  proof (cases u)
    case (Inl e)
    moreover have "e \<noteq> CeExit 6"
      using u Inl by (auto simp: on_card_def map_err_p_def map_err_def split: option.splits sum.splits)
    ultimately show ?thesis
      using host assms u by (auto simp: cmd_scan_keys_def bind_p_def)
  next
    case (Inr uid)
    then have "scan_loop env E (clamp_attempts attempts) (scan_candidates env issuer (uid_to_fixed uid)) h1 = Some (r, h')"
      using assms(1) u by (simp add: cmd_scan_keys_def bind_p_def)
    from scan_loop_breaker [OF this] have "h_rng h' \<le> h_rng h + clamp_attempts attempts * 7"
      "if r = Inl (CeExit 6) then h_failures h' = 10 else h_failures h' < 10"
      using host assms(2) n(1) by simp_all
    then show ?thesis
      using n(2) by linarith
  qed
qed

text \<open>
  A shared static keyset never selects the card by itself: without the expected identifier a wipe with
  raw keys is refused before the card is contacted.
\<close>
theorem raw_wipe_needs_uid:
  assumes "ws_raw_keys src \<noteq> None" "wo_confirm_uid opts = None"
  shows "cmd_wipe env E src opts h = Some (Inl CeRawNeedsUid, h)"
  using assms by (simp add: cmd_wipe_def throw_p_def)

section \<open>The file of a burned card, not tapped\<close>

lemma encode_hex_zeros: "encode_hex (replicate n 0) = replicate (2 * n) (CHR ''0'')"
  by (induction n) (simp_all add: encode_hex_def hex_byte_def HEX_LOWER_def)

lemma untapped_file:
  assumes "detect_uri_prefix (as_bytes (prefix @ rest)) = (code, length prefix)" "list_all text_byte (as_bytes pre)"
    and "is_url_delim d" "is_url_delim d'" "length pre \<le> 190"
  shows "parse_ndef_uri (ndef_header (55 + length pre) code @ bolt_content (as_bytes (pre @ d # ''p='')) (as_bytes (d' # ''c='')) [] @ padding) =
    Some \<lparr>nu_url = prefix @ pre @ d # ''p='' @ replicate 32 (CHR ''0'') @ d' # ''c='' @ replicate 16 (CHR ''0''),
      nu_picc_hex = Some (replicate 32 (CHR ''0'')), nu_mac_hex = Some (replicate 16 (CHR ''0''))\<rparr>"
proof -
  let ?z = "\<lambda>n. replicate n (CHR ''0'')"
  let ?content = "as_bytes (pre @ d # ''p='' @ ?z 32 @ d' # ''c='' @ ?z 16)"
  have hex: "encode_hex (replicate 16 0) = ?z 32" "encode_hex (replicate 8 0) = ?z 16"
    using encode_hex_zeros [of 16] encode_hex_zeros [of 8] by simp_all
  have "ndef_uri_of_payload (code # ?content) = Some \<lparr>nu_url = prefix @ pre @ d # ''p='' @ ?z 32 @ d' # ''c='' @ ?z 16,
      nu_picc_hex = Some (?z 32), nu_mac_hex = Some (?z 16)\<rparr>"
    using tapped_payload [OF assms(1-4), of "replicate 8 0" "replicate 16 0"] unfolding hex by simp
  moreover have "ndef_header (55 + length pre) code @ bolt_content (as_bytes (pre @ d # ''p='')) (as_bytes (d' # ''c='')) [] @ padding =
      ndef_header (1 + length ?content) code @ ?content @ padding"
    by (simp add: bolt_content_def as_bytes_def)
  ultimately show ?thesis
    using parse_ndef_uri_header [of ?content code padding] assms(5) by simp
qed

lemma untapped_preverify:
  assumes "detect_uri_prefix (as_bytes (prefix @ rest)) = (code, length prefix)" "list_all text_byte (as_bytes pre)"
    and "is_url_delim d" "is_url_delim d'" "length pre \<le> 190"
  shows "pre_verify_check env keys uid (ndef_header (55 + length pre) code @
    bolt_content (as_bytes (pre @ d # ''p='')) (as_bytes (d' # ''c='')) [] @ padding) = Inr ()"
proof -
  have "extract_p_and_c (prefix @ pre @ d # ''p='' @ replicate 32 (CHR ''0'') @ d' # ''c='' @ replicate 16 (CHR ''0'')) =
    Some (replicate 32 (CHR ''0''), replicate 16 (CHR ''0''))"
    using extract_p_and_c_url [OF assms(3,4), of "prefix @ pre" "replicate 16 0" "replicate 8 0"] encode_hex_zeros [of 16] encode_hex_zeros [of 8]
    by simp
  then show ?thesis
    unfolding pre_verify_check_def untapped_file [OF assms] by (simp add: Let_def list_all_iff)
qed

lemma str_contains_append: "str_contains pat s \<Longrightarrow> str_contains pat (r @ s)"
  by (induction r) auto

lemma str_contains_head: "str_contains pat (pat @ s)"
proof (cases "pat @ s")
  case (Cons c cs)
  then show ?thesis
    using strip_prefix_append [of pat s] by simp
qed simp

lemma bolt_url_contains:
  "str_contains ''{picc'' (prefix @ pre @ d # ''p={picc:uid+ctr}'' @ d' # ''c={mac}'')"
  "str_contains ''{mac}'' (prefix @ pre @ d # ''p={picc:uid+ctr}'' @ d' # ''c={mac}'')"
  using str_contains_append [OF str_contains_head [of "''{picc''" "'':uid+ctr}'' @ d' # ''c={mac}''"], of "prefix @ pre @ d # ''p=''"]
    str_contains_append [OF str_contains_head [of "''{mac}''" "[]"], of "prefix @ pre @ d # ''p={picc:uid+ctr}'' @ d' # ''c=''"]
  by simp_all

section \<open>Burn, diagnose, wipe, diagnose\<close>

context ntag_reader
begin

lemma cmd_burn_ok:
  assumes "rng_ok env" "ready (h_card h)" "h_failures h < 9"
    and keys: "keys = card_keys_of_set (derive_keys (ce_cmac env) issuer (CardUid (cd_uid (view (h_card h)))) (ucast (bo_version opts)))"
      "keys_sized keys"
    and card: "cd_keys (view (h_card h)) = replicate 5 FACTORY_KEY \<or> cd_keys (view (h_card h)) = card_key_bytes keys \<and>
      never_accepts env refuses (key_bytes (ck_k0 keys)) FACTORY_KEY"
    and opts: "\<not> bo_dry_run opts" "bo_force opts \<or> str_contains ''{picc'' url \<and> str_contains ''{mac}'' url"
      "bo_confirm_uid opts \<in> {None, Some (cd_uid (view (h_card h)))}"
    and plan: "sdm_url_config (standardize_url_template url) Aes burn_sdm_opts = Inr plan"
  shows "\<exists>h'. cmd_burn env E issuer url opts h = Some (Inr (), h') \<and> ready (h_card h') \<and>
    view (h_card h') = burned_card (cli_params url keys (bo_version opts)) plan (view (h_card h)) \<and>
    h_failures h' \<le> h_failures h + 1"
proof -
  obtain h1 where 1: "cli_preflight env E h = Some (Inr (cd_uid (view (h_card h))), h1)" "ready (h_card h1)"
    "view (h_card h1) = view (h_card h)" "h_failures h1 = h_failures h"
    using preflight_ok [OF assms(2)] unfolding kept_def by blast
  show ?thesis
    using burn_card_ok [OF assms(1) 1(2) keys(2), unfolded 1(3,4), OF assms(3) card opts plan, of "DerivedIssuer (bo_version opts)"] 1(1) keys(1)
    by (simp add: cmd_burn_def bind_p_def)
qed

lemma cmd_wipe_derived:
  assumes "rng_ok env" "ready (h_card h)"
    and keys: "keys = derive_keys (ce_cmac env) issuer (CardUid (cd_uid (view (h_card h)))) (ucast version)"
      "cd_keys (view (h_card h)) = card_key_bytes (card_keys_of_set keys)" "never_accepts env refuses (key_bytes (ks_k0 keys)) FACTORY_KEY"
    and content: "pre_verify_check env keys (cd_uid (view (h_card h))) (take 256 (cd_ndef (view (h_card h)))) = (Inr () :: ('e CliError, unit) result)"
  shows "\<exists>h'. cmd_wipe env E \<lparr>ws_issuer_key = Some issuer, ws_raw_keys = None, ws_version = version\<rparr>
      \<lparr>wo_verbose = verbose, wo_dry_run = False, wo_skip_preverify = False, wo_confirm_uid = None\<rparr> h = Some (Inr (), h') \<and>
    ready (h_card h') \<and> view (h_card h') = wiped_card (view (h_card h)) \<and> h_failures h' = h_failures h"
proof -
  have "never_accepts env refuses (cd_keys (view (h_card h)) ! 0) FACTORY_KEY"
    using keys(2,3) by (simp add: card_key_bytes_def card_keys_of_set_def)
  then show ?thesis
    using keys content by (intro cmd_wipe_ok [OF assms(1,2)]) (simp_all add: wipe_keyset_def)
qed

lemma burned_file:
  assumes "sdm_url_config url mode opts = Inr plan"
  shows "take 256 (cd_ndef (burned_card params plan c)) =
    pl_ndef_bytes plan @ take (256 - length (pl_ndef_bytes plan)) (drop (length (pl_ndef_bytes plan)) (cd_ndef c))"
  using sdm_url_config_plan_ok [OF assms] by (simp add: burned_card_def plan_ok_def)

lemma wiped_blank: "parse_ndef_uri (take 256 (cd_ndef (wiped_card c))) = None"
  by (simp add: wiped_card_def parse_ndef_uri_def be_nat_def Let_def)

lemma lifecycle:
  assumes env: "rng_ok env" "ready (h_card h)" "h_failures h < 9" "cd_keys (view (h_card h)) = replicate 5 FACTORY_KEY"
    and keys: "keys = derive_keys (ce_cmac env) issuer (CardUid (cd_uid (view (h_card h)))) (ucast (bo_version opts))"
      "keys_sized (card_keys_of_set keys)" "never_accepts env refuses (key_bytes (ks_k0 keys)) FACTORY_KEY"
    and opts: "\<not> bo_dry_run opts" "str_contains ''{picc'' url \<and> str_contains ''{mac}'' url" "bo_confirm_uid opts \<in> {None, Some (cd_uid (view (h_card h)))}"
    and plan: "sdm_url_config (standardize_url_template url) Aes burn_sdm_opts = Inr plan" "sdm_file_read (pl_sdm_settings plan) \<noteq> None"
    and content: "\<And>p. parse_ndef_uri (pl_ndef_bytes plan @ p) \<noteq> None"
      "\<And>p. pre_verify_check env keys (cd_uid (view (h_card h))) (pl_ndef_bytes plan @ p) = (Inr () :: ('e CliError, unit) result)"
  shows "\<exists>h1 rep1 h2 h3 rep2 h4. cmd_burn env E issuer url opts h = Some (Inr (), h1) \<and>
    cmd_diagnose env E verify issuer json h1 = Some (Inr rep1, h2) \<and> dr_state rep1 = CARD_STATE_PROVISIONED \<and>
    cmd_wipe env E \<lparr>ws_issuer_key = Some issuer, ws_raw_keys = None, ws_version = bo_version opts\<rparr>
      \<lparr>wo_verbose = verbose, wo_dry_run = False, wo_skip_preverify = False, wo_confirm_uid = None\<rparr> h2 = Some (Inr (), h3) \<and>
    cmd_diagnose env E verify issuer json h3 = Some (Inr rep2, h4) \<and> dr_state rep2 = CARD_STATE_BLANK \<and>
    dr_provenance rep2 = FactoryDefault \<and> ready (h_card h4) \<and>
    view (h_card h1) = burned_card (cli_params url (card_keys_of_set keys) (bo_version opts)) plan (view (h_card h)) \<and>
    view (h_card h4) = wiped_card (view (h_card h1)) \<and> h_failures h4 \<le> h_failures h + 1"
proof -
  let ?c = "view (h_card h)" and ?burned = "burned_card (cli_params url (card_keys_of_set keys) (bo_version opts)) plan (view (h_card h))"
  obtain h1 where 1: "cmd_burn env E issuer url opts h = Some (Inr (), h1)" "ready (h_card h1)" "view (h_card h1) = ?burned"
    "h_failures h1 \<le> h_failures h + 1"
    using cmd_burn_ok [OF env(1-3), of "card_keys_of_set keys" issuer opts url plan] env(4) keys opts plan(1) by auto
  have b: "cd_uid ?burned = cd_uid ?c" "cd_keys ?burned = card_key_bytes (card_keys_of_set keys)"
    "is_sdm_functionally_active (fv_sdm (cd_settings ?burned))" "parse_ndef_uri (take 256 (cd_ndef ?burned)) \<noteq> None"
    "pre_verify_check env keys (cd_uid ?c) (take 256 (cd_ndef ?burned)) = (Inr () :: ('e CliError, unit) result)"
    using plan(2) content unfolding burned_file [OF plan(1)]
    by (simp_all add: burned_card_def cli_params_def is_sdm_functionally_active_def)
  obtain rep1 h2 where 2: "cmd_diagnose env E verify issuer json h1 = Some (Inr rep1, h2)" "ready (h_card h2)" "view (h_card h2) = ?burned"
    "h_failures h2 = h_failures h1" "dr_state rep1 = CARD_STATE_PROVISIONED"
    using cmd_diagnose_run [OF env(1) 1(2), of verify issuer json] b(3,4) unfolding kept_def 1(3) by blast
  obtain h3 where 3: "cmd_wipe env E \<lparr>ws_issuer_key = Some issuer, ws_raw_keys = None, ws_version = bo_version opts\<rparr>
      \<lparr>wo_verbose = verbose, wo_dry_run = False, wo_skip_preverify = False, wo_confirm_uid = None\<rparr> h2 = Some (Inr (), h3)"
    "ready (h_card h3)" "view (h_card h3) = wiped_card ?burned" "h_failures h3 = h_failures h2"
    using cmd_wipe_derived [OF env(1) 2(2), unfolded 2(3) b(1), OF keys(1) b(2) keys(3) b(5)] by blast
  have w: "\<not> is_sdm_functionally_active (fv_sdm (cd_settings (wiped_card ?burned)))" "cd_keys (wiped_card ?burned) ! 0 = FACTORY_KEY"
    by (simp_all add: wiped_card_def is_sdm_functionally_active_def)
  obtain rep2 h4 where 4: "cmd_diagnose env E verify issuer json h3 = Some (Inr rep2, h4)" "ready (h_card h4)" "view (h_card h4) = wiped_card ?burned"
    "h_failures h4 = h_failures h3" "dr_state rep2 = CARD_STATE_BLANK" "dr_provenance rep2 = FactoryDefault"
    using cmd_diagnose_run [OF env(1) 3(2), of verify issuer json] w wiped_blank [of ?burned] unfolding kept_def 3(3) by auto
  show ?thesis
    apply (rule exI [of _ h1], rule exI [of _ rep1], rule exI [of _ h2], rule exI [of _ h3], rule exI [of _ rep2], rule exI [of _ h4])
    using 1 2 3 4 by simp
qed

lemma cycle:
  assumes env: "rng_ok env" "ready (h_card h)" "h_failures h < 8" "cd_keys (view (h_card h)) = replicate 5 FACTORY_KEY"
    and keys: "keys = derive_keys (ce_cmac env) issuer (CardUid (cd_uid (view (h_card h)))) (ucast version)"
      "keys_sized (card_keys_of_set keys)" "never_accepts env refuses (key_bytes (ks_k0 keys)) FACTORY_KEY"
    and url: "str_contains ''{picc'' url \<and> str_contains ''{mac}'' url"
    and plan: "sdm_url_config (standardize_url_template url) Aes burn_sdm_opts = Inr plan"
    and content: "\<And>p. pre_verify_check env keys (cd_uid (view (h_card h))) (pl_ndef_bytes plan @ p) = (Inr () :: ('e CliError, unit) result)"
  shows "\<exists>h'. cmd_cycle env E issuer url version verbose h = Some (Inr (), h') \<and> ready (h_card h') \<and>
    view (h_card h') = burned_card (cli_params url (card_keys_of_set keys) version) plan
      (wiped_card (burned_card (cli_params url (card_keys_of_set keys) version) plan (view (h_card h))))"
proof -
  let ?c = "view (h_card h)" and ?burned = "burned_card (cli_params url (card_keys_of_set keys) version) plan"
  let ?opts = "\<lparr>bo_version = version, bo_verbose = verbose, bo_dry_run = False, bo_confirm_uid = None, bo_force = False\<rparr>"
  have f: "h_failures h < 9" "x \<le> h_failures h + 1 \<Longrightarrow> x < 9" for x
    using env(3) by (simp_all add: word_less_nat_alt word_le_nat_alt unat_word_ariths)
  obtain h1 where 1: "cmd_burn env E issuer url ?opts h = Some (Inr (), h1)" "ready (h_card h1)" "view (h_card h1) = ?burned ?c"
    "h_failures h1 \<le> h_failures h + 1"
    using cmd_burn_ok [OF env(1,2) f(1), of "card_keys_of_set keys" issuer ?opts url plan] env(4) keys url plan by auto
  have b: "cd_uid (?burned x) = cd_uid x" "cd_keys (?burned x) = card_key_bytes (card_keys_of_set keys)"
    "pre_verify_check env keys (cd_uid ?c) (take 256 (cd_ndef (?burned x))) = (Inr () :: ('e CliError, unit) result)" for x
    using content unfolding burned_file [OF plan] by (simp_all add: burned_card_def cli_params_def)
  obtain h2 where 2: "cmd_wipe env E \<lparr>ws_issuer_key = Some issuer, ws_raw_keys = None, ws_version = version\<rparr>
      \<lparr>wo_verbose = verbose, wo_dry_run = False, wo_skip_preverify = False, wo_confirm_uid = None\<rparr> h1 = Some (Inr (), h2)"
    "ready (h_card h2)" "view (h_card h2) = wiped_card (?burned ?c)" "h_failures h2 = h_failures h1"
    using cmd_wipe_derived [OF env(1) 1(2), unfolded 1(3) b(1), OF keys(1) b(2) keys(3) b(3)] by blast
  have w: "cd_uid (wiped_card (?burned ?c)) = cd_uid ?c" "cd_keys (wiped_card (?burned ?c)) = replicate 5 FACTORY_KEY"
    using b(1) by (simp_all add: wiped_card_def)
  obtain h3 where 3: "cmd_burn env E issuer url ?opts h2 = Some (Inr (), h3)" "ready (h_card h3)"
    "view (h_card h3) = ?burned (wiped_card (?burned ?c))"
    using cmd_burn_ok [OF env(1) 2(2), of "card_keys_of_set keys" issuer ?opts url plan] w keys url plan f(2) 1(4) 2(3,4) by auto
  show ?thesis
    using 1(1) 2(1) 3 by (simp add: cmd_cycle_def cycle_burn_def bind_p_def)
qed

lemma testck_version_ok:
  assumes "live s (h_card h)" "cd_versions (view (h_card h)) ! 1 = v"
  shows "\<exists>s' h'. testck_version E v s h = Some (Inr s', h') \<and> live s' (h_card h') \<and> view (h_card h') = view (h_card h)"
  using key_version [OF assms(1), of Key1] assms(2)
  by (auto simp: testck_version_def bind_p_def on_card_def map_err_p_def key_index_simps return_p_def)

lemma testck_change_ok:
  assumes "live s (h_card h)" "length new = 16" "cd_keys (view (h_card h)) ! 1 = old"
  shows "\<exists>s' h'. on_card (map_err_p CeSession (auth_change_key E s NmKey1 new v old)) h = Some (Inr s', h') \<and>
    live s' (h_card h') \<and> view (h_card h') = set_key 1 new v (view (h_card h))"
  using change_key_ok [OF assms(1,2), of 1 NmKey1 old v] assms(3)
  by (auto simp: on_card_def map_err_p_def key_of_non_master_def key_index_simps)

lemma testck_ok:
  assumes "rng_ok env" "ready (h_card h)" "cd_keys (view (h_card h)) ! 0 = FACTORY_KEY" "cd_keys (view (h_card h)) ! 1 = FACTORY_KEY"
    "cd_versions (view (h_card h)) ! 1 = 0"
  shows "\<exists>h'. cmd_testck env E h = Some (Inr (), h') \<and> ready (h_card h') \<and> view (h_card h') = view (h_card h)"
proof -
  let ?c = "view (h_card h)" and ?h0 = "h\<lparr>h_audit := h_audit h @ [(''testck: starting'', Some StaticTestKey)]\<rparr>"
  let ?tested = "set_key 1 TEST_KEY 1 ?c"
  have len: "length TEST_KEY = 16" "length FACTORY_KEY = 16" "replicate 16 0 = FACTORY_KEY"
    by (simp_all add: TEST_KEY_def FACTORY_KEY_def)
  have shape: "length (cd_keys ?c) = 5" "length (cd_versions ?c) = 5" "length (cd_uid ?c) = 7"
    using shape [OF assms(2)] by simp_all
  then have t: "cd_versions ?tested ! 1 = 1" "cd_keys ?tested ! 1 = TEST_KEY" "set_key 1 FACTORY_KEY 0 ?tested = ?c"
    using assms(4,5) by (simp_all add: set_key_def list_update_same_conv)
  obtain ra where ra: "gen_rnd_a env ?h0 = (Some (Inr ra, ?h0\<lparr>h_rng := Suc (h_rng h)\<rparr>) :: (('e CliError, bytes) result \<times> 't host) option)"
    "length ra = 16"
    using gen_rnd_ok [OF assms(1), of ?h0] by auto
  obtain s t1 where 1: "authenticate_aes E session_new Key0 FACTORY_KEY ra (h_card h) = Some (Inr s, t1)" "live s t1" "view t1 = ?c"
    using authenticate [OF assms(2) ra(2), of Key0 FACTORY_KEY] assms(3) by (auto simp: key_index_simps)
  let ?h1 = "?h0\<lparr>h_rng := Suc (h_rng h), h_card := t1\<rparr>"
  obtain s2 h2 where 2: "testck_version E 0 s ?h1 = Some (Inr s2, h2)" "live s2 (h_card h2)" "view (h_card h2) = ?c"
    using testck_version_ok [of s ?h1 0] 1 assms(5) by auto
  obtain s3 h3 where 3: "on_card (map_err_p CeSession (auth_change_key E s2 NmKey1 TEST_KEY 1 FACTORY_KEY)) h2 = Some (Inr s3, h3)"
    "live s3 (h_card h3)" "view (h_card h3) = ?tested"
    using testck_change_ok [OF 2(2) len(1), unfolded 2(3), OF assms(4)] by blast
  obtain s4 h4 where 4: "testck_version E 1 s3 h3 = Some (Inr s4, h4)" "live s4 (h_card h4)" "view (h_card h4) = ?tested"
    using testck_version_ok [OF 3(2), unfolded 3(3), OF t(1)] by blast
  obtain s5 h5 where 5: "on_card (map_err_p CeSession (auth_change_key E s4 NmKey1 FACTORY_KEY 0 TEST_KEY)) h4 = Some (Inr s5, h5)"
    "live s5 (h_card h5)" "view (h_card h5) = ?c"
    using testck_change_ok [OF 4(2) len(2), unfolded 4(3), OF t(2), of 0] t(3) by auto
  obtain s6 h6 where 6: "testck_version E 0 s5 h5 = Some (Inr s6, h6)" "live s6 (h_card h6)" "view (h_card h6) = ?c"
    using testck_version_ok [OF 5(2), unfolded 5(3), OF assms(5)] by blast
  have "on_card (map_err_p CeSession (get_selected_uid E)) h = Some (Inr (UidFixed (cd_uid ?c)), h)"
    using selected_uid [OF assms(2)] by (simp add: on_card_def map_err_p_def)
  moreover have "on_card (map_err_p CeSession (authenticate_aes E session_new Key0 FACTORY_KEY ra)) (?h0\<lparr>h_rng := Suc (h_rng h)\<rparr>) = Some (Inr s, ?h1)"
    using 1(1) by (simp add: on_card_def map_err_p_def)
  ultimately show ?thesis
    using ra(1) 2(1) 3(1) 4(1) 5(1) 6 live_ready [OF 6(2)] unfolding cmd_testck_def len(3)
    by (simp add: bind_p_def log_event_with_provenance_def)
qed

end

section \<open>The commands on the mock card\<close>

text \<open>
  C22. The life of a card at the command line: on a blank card, \<open>burn\<close> succeeds, \<open>diagnose\<close> then says
  PROVISIONED, \<open>wipe\<close> with the same issuer key succeeds, and \<open>diagnose\<close> says BLANK with factory keys; afterwards
  the card carries factory keys, factory versions and no SDM configuration.
\<close>
theorem card_lifecycle:
  assumes env: "rng_ok env" "mock_ready A (h_card h)" "h_failures h < 9" "mk_keys (h_card h) = replicate 5 FACTORY_KEY"
    and keys: "keys = derive_keys (ce_cmac env) issuer (CardUid (mk_uid (h_card h))) (ucast (bo_version opts))"
      "keys_sized (card_keys_of_set keys)" "never_accepts env (mock_refuses A) (key_bytes (ks_k0 keys)) FACTORY_KEY"
    and opts: "\<not> bo_dry_run opts" "bo_confirm_uid opts \<in> {None, Some (mk_uid (h_card h))}"
    and url: "url = prefix @ pre @ d # ''p={picc:uid+ctr}'' @ d' # ''c={mac}''"
    and prefix: "detect_uri_prefix (as_bytes (prefix @ bolt_template (pre @ d # ''p='') (d' # ''c='') [])) = (code, length prefix)"
    and plain: "list_all text_byte (as_bytes (prefix @ pre))" "is_url_delim d" "is_url_delim d'" "length pre \<le> 190"
  shows "\<exists>h1 rep1 h2 h3 rep2 h4. cmd_burn env (mock_link A False) issuer url opts h = Some (Inr (), h1) \<and>
    cmd_diagnose env (mock_link A False) verify issuer json h1 = Some (Inr rep1, h2) \<and> dr_state rep1 = CARD_STATE_PROVISIONED \<and>
    cmd_wipe env (mock_link A False) \<lparr>ws_issuer_key = Some issuer, ws_raw_keys = None, ws_version = bo_version opts\<rparr>
      \<lparr>wo_verbose = verbose, wo_dry_run = False, wo_skip_preverify = False, wo_confirm_uid = None\<rparr> h2 = Some (Inr (), h3) \<and>
    cmd_diagnose env (mock_link A False) verify issuer json h3 = Some (Inr rep2, h4) \<and> dr_state rep2 = CARD_STATE_BLANK \<and>
    dr_provenance rep2 = FactoryDefault \<and> mk_keys (h_card h1) = card_key_bytes (card_keys_of_set keys) \<and>
    mk_keys (h_card h4) = replicate 5 FACTORY_KEY \<and> mk_key_versions (h_card h4) = replicate 5 KEY_VERSION_BLANK \<and>
    fv_sdm (cd_settings (mock_card (h_card h4))) = None"
proof -
  note plan = lnurl_plan [OF prefix plain]
  have card: "cd_keys (mock_card (h_card h)) = mk_keys (h_card h)" "cd_uid (mock_card (h_card h)) = mk_uid (h_card h)"
    by (simp_all add: mock_card_def)
  have contains: "str_contains ''{picc'' url \<and> str_contains ''{mac}'' url"
    unfolding url using bolt_url_contains by blast
  have pre: "list_all text_byte (as_bytes pre)"
    using plain(1) by simp
  have content: "parse_ndef_uri ((ndef_header (55 + length pre) code @ bolt_content (as_bytes (pre @ d # ''p='')) (as_bytes (d' # ''c='')) []) @ p) \<noteq> None"
    "pre_verify_check env keys (mk_uid (h_card h)) ((ndef_header (55 + length pre) code @ bolt_content (as_bytes (pre @ d # ''p='')) (as_bytes (d' # ''c='')) []) @ p) =
      (Inr () :: (MockTransportError CliError, unit) result)" for p
    using untapped_file [OF prefix pre plain(2-4), of p] untapped_preverify [OF prefix pre plain(2-4), of env keys "mk_uid (h_card h)" p] by simp_all
  let ?plan = "\<lparr>pl_ndef_bytes = ndef_header (55 + length pre) code @ bolt_content (as_bytes (pre @ d # ''p='')) (as_bytes (d' # ''c='')) [],
    pl_sdm_settings = bolt_sdm burn_sdm_opts (10 + length pre) (45 + length pre), pl_offset = 7, pl_prefix_len = length prefix, pl_prefix_code = code\<rparr>"
  have planned: "sdm_url_config (standardize_url_template url) Aes burn_sdm_opts = Inr ?plan"
    unfolding url plan(1) by (rule plan(2))
  have active: "sdm_file_read (pl_sdm_settings ?plan) \<noteq> None"
    by (simp add: bolt_sdm_def)
  obtain h1 rep1 h2 h3 rep2 h4 where run: "cmd_burn env (mock_link A False) issuer url opts h = Some (Inr (), h1)"
    "cmd_diagnose env (mock_link A False) verify issuer json h1 = Some (Inr rep1, h2)" "dr_state rep1 = CARD_STATE_PROVISIONED"
    "cmd_wipe env (mock_link A False) \<lparr>ws_issuer_key = Some issuer, ws_raw_keys = None, ws_version = bo_version opts\<rparr>
      \<lparr>wo_verbose = verbose, wo_dry_run = False, wo_skip_preverify = False, wo_confirm_uid = None\<rparr> h2 = Some (Inr (), h3)"
    "cmd_diagnose env (mock_link A False) verify issuer json h3 = Some (Inr rep2, h4)" "dr_state rep2 = CARD_STATE_BLANK"
    "dr_provenance rep2 = FactoryDefault"
    and cards: "mock_card (h_card h1) = burned_card (cli_params url (card_keys_of_set keys) (bo_version opts)) ?plan (mock_card (h_card h))"
      "mock_card (h_card h4) = wiped_card (mock_card (h_card h1))"
    using mock_reader.lifecycle [OF env(1-3), where keys = keys and issuer = issuer and opts = opts and url = url and plan = ?plan
        and verify = verify and json = json and verbose = verbose]
      keys opts planned active contains content env(4) unfolding card by auto
  have "mk_keys (h_card h1) = card_key_bytes (card_keys_of_set keys)" "mk_keys (h_card h4) = replicate 5 FACTORY_KEY"
    "mk_key_versions (h_card h4) = replicate 5 KEY_VERSION_BLANK" "fv_sdm (cd_settings (mock_card (h_card h4))) = None"
    using cards by (simp_all add: burned_card_def wiped_card_def cli_params_def mock_card_def)
  with run show ?thesis
    by blast
qed

definition demo_env :: cli_env where
  "demo_env = \<lparr>ce_assume = False, ce_rng = (\<lambda>_. Some (replicate 16 9)),
    ce_cmac = (\<lambda>k m. [0, 1, 2, 3, 4, 5, 6, 7, 8, 9, 10, 11, 12, 13, 14, 15]), ce_cbc_dec = (\<lambda>k iv b. None),
    ce_http = (\<lambda>url. None), ce_json = (\<lambda>body. None)\<rparr>"

definition demo_host :: "MockTransport host" where
  "demo_host = \<lparr>h_card = mock_new, h_rng = 0, h_failures = 0, h_audit = []\<rparr>"

definition demo_burn_opts :: BurnOptions where
  "demo_burn_opts = \<lparr>bo_version = 1, bo_verbose = False, bo_dry_run = False, bo_confirm_uid = None, bo_force = False\<rparr>"

definition demo_url :: string where "demo_url = ''lnurlw://x/?p={picc:uid+ctr}&c={mac}''"

definition demo_set :: CardKeySet where
  "demo_set = derive_keys (ce_cmac demo_env) (replicate 16 7) (CardUid MOCK_UID) 1"

lemma demo_host_facts:
  "rng_ok demo_env" "mock_ready xor_crate (h_card demo_host)" "h_failures demo_host = 0"
  "mk_keys (h_card demo_host) = replicate 5 FACTORY_KEY" "mk_uid (h_card demo_host) = MOCK_UID"
  "mk_key_versions (h_card demo_host) = replicate 5 0"
  using mock_new_ready
  by (simp_all add: rng_ok_def demo_env_def demo_host_def mock_new_def mock_with_state_def FACTORY_KEY_def)

lemma demo_set_facts:
  "keys_sized (card_keys_of_set demo_set)" "key_bytes (ks_k0 demo_set) = [0, 1, 2, 3, 4, 5, 6, 7, 8, 9, 10, 11, 12, 13, 14, 15]"
  by code_simp+

lemma demo_refused: "never_accepts demo_env (mock_refuses xor_crate) (key_bytes (ks_k0 demo_set)) FACTORY_KEY"
proof -
  have "mock_refuses xor_crate (replicate 16 9) [0, 1, 2, 3, 4, 5, 6, 7, 8, 9, 10, 11, 12, 13, 14, 15] FACTORY_KEY"
    by code_simp
  then show ?thesis
    unfolding demo_set_facts(2) by (simp add: never_accepts_def demo_env_def)
qed

lemma demo_template:
  "demo_url = [] @ ''lnurlw://x/'' @ CHR ''?'' # ''p={picc:uid+ctr}'' @ CHR ''&'' # ''c={mac}''"
  "detect_uri_prefix (as_bytes ([] @ bolt_template (''lnurlw://x/'' @ CHR ''?'' # ''p='') (CHR ''&'' # ''c='') [])) = (0, length ([] :: string))"
  "list_all text_byte (as_bytes ([] @ ''lnurlw://x/''))" "is_url_delim (CHR ''?'')" "is_url_delim (CHR ''&'')" "length ''lnurlw://x/'' \<le> 190"
  by (simp add: demo_url_def, code_simp, simp_all add: text_byte_def is_url_delim_def)

theorem card_lifecycle_witness:
  "\<exists>h1 rep1 h2 h3 rep2 h4. cmd_burn demo_env (mock_link xor_crate False) (replicate 16 7) demo_url demo_burn_opts demo_host = Some (Inr (), h1) \<and>
    cmd_diagnose demo_env (mock_link xor_crate False) (\<lambda>_ _ _ _. Some ()) (replicate 16 7) False h1 = Some (Inr rep1, h2) \<and>
    dr_state rep1 = CARD_STATE_PROVISIONED \<and>
    cmd_wipe demo_env (mock_link xor_crate False) \<lparr>ws_issuer_key = Some (replicate 16 7), ws_raw_keys = None, ws_version = 1\<rparr>
      \<lparr>wo_verbose = False, wo_dry_run = False, wo_skip_preverify = False, wo_confirm_uid = None\<rparr> h2 = Some (Inr (), h3) \<and>
    cmd_diagnose demo_env (mock_link xor_crate False) (\<lambda>_ _ _ _. Some ()) (replicate 16 7) False h3 = Some (Inr rep2, h4) \<and>
    dr_state rep2 = CARD_STATE_BLANK"
proof -
  have "demo_set = derive_keys (ce_cmac demo_env) (replicate 16 7) (CardUid (mk_uid (h_card demo_host))) (ucast (bo_version demo_burn_opts))"
    by (simp add: demo_set_def demo_host_facts(5) demo_burn_opts_def)
  then show ?thesis
    using card_lifecycle [OF demo_host_facts(1,2) _ demo_host_facts(4) _ demo_set_facts(1) demo_refused _ _ demo_template,
        of "replicate 16 7" demo_burn_opts "\<lambda>_ _ _ _. Some ()" False False]
    by (fastforce simp: demo_host_facts(3) demo_burn_opts_def)
qed

text \<open>
  The burn-wipe-burn cycle on a blank card succeeds and leaves the card provisioned: the derived keys at
  the requested version, the planned file, and an SDM configuration.
\<close>
theorem cycle_provisions:
  assumes env: "rng_ok env" "mock_ready A (h_card h)" "h_failures h < 8" "mk_keys (h_card h) = replicate 5 FACTORY_KEY"
    and keys: "keys = derive_keys (ce_cmac env) issuer (CardUid (mk_uid (h_card h))) (ucast version)"
      "keys_sized (card_keys_of_set keys)" "never_accepts env (mock_refuses A) (key_bytes (ks_k0 keys)) FACTORY_KEY"
    and url: "url = prefix @ pre @ d # ''p={picc:uid+ctr}'' @ d' # ''c={mac}''"
    and prefix: "detect_uri_prefix (as_bytes (prefix @ bolt_template (pre @ d # ''p='') (d' # ''c='') [])) = (code, length prefix)"
    and plain: "list_all text_byte (as_bytes (prefix @ pre))" "is_url_delim d" "is_url_delim d'" "length pre \<le> 190"
  shows "\<exists>h'. cmd_cycle env (mock_link A False) issuer url version verbose h = Some (Inr (), h') \<and>
    mk_keys (h_card h') = card_key_bytes (card_keys_of_set keys) \<and> mk_key_versions (h_card h') = replicate 5 version \<and>
    (\<exists>sdm. fv_sdm (cd_settings (mock_card (h_card h'))) = Some sdm \<and> is_sdm_functionally_active (Some sdm)) \<and>
    (\<exists>nu. parse_ndef_uri (mk_ndef (h_card h')) = Some nu)"
proof -
  note plan = lnurl_plan [OF prefix plain]
  let ?plan = "\<lparr>pl_ndef_bytes = ndef_header (55 + length pre) code @ bolt_content (as_bytes (pre @ d # ''p='')) (as_bytes (d' # ''c='')) [],
    pl_sdm_settings = bolt_sdm burn_sdm_opts (10 + length pre) (45 + length pre), pl_offset = 7, pl_prefix_len = length prefix, pl_prefix_code = code\<rparr>"
  have planned: "sdm_url_config (standardize_url_template url) Aes burn_sdm_opts = Inr ?plan"
    unfolding url plan(1) by (rule plan(2))
  have card: "cd_keys (mock_card (h_card h)) = mk_keys (h_card h)" "cd_uid (mock_card (h_card h)) = mk_uid (h_card h)"
    by (simp_all add: mock_card_def)
  have contains: "str_contains ''{picc'' url \<and> str_contains ''{mac}'' url"
    unfolding url using bolt_url_contains by blast
  have pre: "list_all text_byte (as_bytes pre)"
    using plain(1) by simp
  have content: "pre_verify_check env keys (mk_uid (h_card h)) (pl_ndef_bytes ?plan @ p) = (Inr () :: (MockTransportError CliError, unit) result)" for p
    using untapped_preverify [OF prefix pre plain(2-4), of env keys "mk_uid (h_card h)" p] by simp
  obtain h' where run: "cmd_cycle env (mock_link A False) issuer url version verbose h = Some (Inr (), h')"
    "mock_card (h_card h') = burned_card (cli_params url (card_keys_of_set keys) version) ?plan
      (wiped_card (burned_card (cli_params url (card_keys_of_set keys) version) ?plan (mock_card (h_card h))))"
    using mock_reader.cycle [OF env(1-3), where keys = keys and issuer = issuer and version = version and url = url and plan = ?plan and verbose = verbose]
      keys planned contains content env(4) unfolding card by auto
  have "cd_ndef (mock_card (h_card h')) = pl_ndef_bytes ?plan @ drop (length (pl_ndef_bytes ?plan)) (cd_ndef (wiped_card (burned_card
      (cli_params url (card_keys_of_set keys) version) ?plan (mock_card (h_card h)))))"
    unfolding run(2) by (simp add: burned_card_def)
  then have "\<exists>nu. parse_ndef_uri (mk_ndef (h_card h')) = Some nu"
    using untapped_file [OF prefix pre plain(2-4)] by (simp add: mock_card_def)
  moreover have "mk_keys (h_card h') = card_key_bytes (card_keys_of_set keys)" "mk_key_versions (h_card h') = replicate 5 version"
    "fv_sdm (cd_settings (mock_card (h_card h'))) = Some (pl_sdm_settings ?plan)"
    using run(2) by (simp_all add: burned_card_def wiped_card_def cli_params_def mock_card_def)
  moreover have "is_sdm_functionally_active (Some (pl_sdm_settings ?plan))"
    by (simp add: is_sdm_functionally_active_def bolt_sdm_def)
  ultimately show ?thesis
    using run(1) by blast
qed

theorem cycle_provisions_witness:
  "\<exists>h'. cmd_cycle demo_env (mock_link xor_crate False) (replicate 16 7) demo_url 1 False demo_host = Some (Inr (), h') \<and>
    mk_key_versions (h_card h') = replicate 5 1"
proof -
  have "demo_set = derive_keys (ce_cmac demo_env) (replicate 16 7) (CardUid (mk_uid (h_card demo_host))) (ucast (1 :: byte))"
    by (simp add: demo_set_def demo_host_facts(5))
  then show ?thesis
    using cycle_provisions [OF demo_host_facts(1,2) _ demo_host_facts(4) _ demo_set_facts(1) demo_refused demo_template,
        of "replicate 16 7" 1 False] by (auto simp: demo_host_facts(3))
qed

text \<open>
  C24. The burn command's guards come before its first authentication: with \<open>--dry-run\<close>, with an identifier
  that does not match, or with a URL lacking a placeholder and no \<open>--force\<close>, the card keeps its keys, versions, file and
  settings, no challenge is drawn, nothing is logged, and success is reported only for a dry run.
\<close>
theorem burn_guards_safe:
  assumes "mock_ready A (h_card h)"
    and "bo_dry_run opts \<or> \<not> bo_force opts \<and> (\<not> str_contains ''{picc'' url \<or> \<not> str_contains ''{mac}'' url) \<or>
      (\<exists>e. bo_confirm_uid opts = Some e \<and> e \<noteq> mk_uid (h_card h))"
  shows "\<exists>r h'. burn_card env (mock_link A False) keys url opts prov h = Some (r, h') \<and> mock_ready A (h_card h') \<and>
    mock_card (h_card h') = mock_card (h_card h) \<and> h_rng h' = h_rng h \<and> h_audit h' = h_audit h \<and> (r = Inr () \<longrightarrow> bo_dry_run opts)"
  using mock_reader.burn_card_guarded [OF assms(1), of opts url env keys prov] assms(2)
  by (auto simp: kept_def mock_card_def)

theorem burn_guards_safe_witness:
  "\<exists>r h'. burn_card demo_env (mock_link xor_crate False) demo_keys ''lnurlw://x/'' demo_burn_opts ProxyIssued demo_host = Some (r, h') \<and>
    r \<noteq> Inr () \<and> mock_card (h_card h') = mock_card (h_card demo_host)"
proof -
  have "\<not> bo_force demo_burn_opts \<and> \<not> str_contains ''{picc'' ''lnurlw://x/''" "\<not> bo_dry_run demo_burn_opts"
    by (simp_all add: demo_burn_opts_def strip_prefix_def)
  then show ?thesis
    using burn_guards_safe [OF demo_host_facts(2), of demo_burn_opts "''lnurlw://x/''" demo_env demo_keys ProxyIssued]
    by auto
qed

text \<open>
  C23. Verify before mutation: wiping with a raw keyset of which any of the five keys is wrong never changes
  the card and never reports success, except that a dry run reports its plan.
\<close>
theorem raw_wipe_wrong_key_safe:
  assumes "rng_ok env" "mock_ready A (h_card h)"
    and "mk_keys (h_card h) ! 0 = FACTORY_KEY \<or> never_accepts env (mock_refuses A) (mk_keys (h_card h) ! 0) FACTORY_KEY"
    and "ws_issuer_key src = None" "ws_raw_keys src = Some raw" "length raw = 5" "list_all (\<lambda>k. length k = 16) raw"
    and "i < 5" "never_accepts env (mock_refuses A) (mk_keys (h_card h) ! i) (raw ! i)"
  shows "\<exists>r h'. cmd_wipe env (mock_link A False) src opts h = Some (r, h') \<and> mock_card (h_card h') = mock_card (h_card h) \<and>
    (r = Inr () \<longrightarrow> wo_dry_run opts)"
  using mock_reader.cmd_wipe_wrong_key [OF assms(1,2), of src raw i opts] assms(3-)
  by (auto simp: kept_def mock_card_def list_all_iff)

theorem raw_wipe_wrong_key_safe_witness:
  "\<exists>r h'. cmd_wipe demo_env (mock_link xor_crate False)
      \<lparr>ws_issuer_key = None, ws_raw_keys = Some (replicate 4 FACTORY_KEY @ [[0, 1, 2, 3, 4, 5, 6, 7, 8, 9, 10, 11, 12, 13, 14, 15]]), ws_version = 1\<rparr>
      \<lparr>wo_verbose = False, wo_dry_run = False, wo_skip_preverify = True, wo_confirm_uid = Some MOCK_UID\<rparr> demo_host = Some (r, h') \<and>
    r \<noteq> Inr () \<and> mock_card (h_card h') = mock_card (h_card demo_host)"
proof -
  let ?k = "[0, 1, 2, 3, 4, 5, 6, 7, 8, 9, 10, 11, 12, 13, 14, 15] :: bytes"
  let ?src = "\<lparr>ws_issuer_key = None, ws_raw_keys = Some (replicate 4 FACTORY_KEY @ [?k]), ws_version = 1\<rparr>"
  let ?opts = "\<lparr>wo_verbose = False, wo_dry_run = False, wo_skip_preverify = True, wo_confirm_uid = Some MOCK_UID\<rparr>"
  have "mock_refuses xor_crate (replicate 16 9) FACTORY_KEY ?k"
    by code_simp
  then have "never_accepts demo_env (mock_refuses xor_crate) (mk_keys (h_card demo_host) ! 4) ?k"
    by (simp add: never_accepts_def demo_env_def demo_host_facts(4))
  then show ?thesis
    using raw_wipe_wrong_key_safe [OF demo_host_facts(1,2), of ?src "replicate 4 FACTORY_KEY @ [?k]" 4 ?opts]
    by (simp add: demo_host_facts(4) FACTORY_KEY_def nth_append list_all_iff) blast
qed

text \<open>
  C37. \<open>diagnose\<close> is harmless and complete: on any card that answers, blank, provisioned or half wiped, it
  returns a report for that card's identifier, leaves keys, versions, file and settings as they are, and counts no failure.
\<close>
theorem diagnose_harmless:
  assumes "rng_ok env" "mock_ready A (h_card h)"
  shows "\<exists>rep h'. cmd_diagnose env (mock_link A False) verify issuer json h = Some (Inr rep, h') \<and> dr_uid rep = mk_uid (h_card h) \<and>
    mock_ready A (h_card h') \<and> mock_card (h_card h') = mock_card (h_card h) \<and> h_failures h' = h_failures h"
  using mock_reader.cmd_diagnose_run [OF assms, of verify issuer json] by (auto simp: kept_def mock_card_def)

theorem diagnose_harmless_witness:
  "\<exists>rep h'. cmd_diagnose demo_env (mock_link xor_crate False) (\<lambda>_ _ _ _. Some ()) (replicate 16 7) True demo_host = Some (Inr rep, h') \<and>
    dr_uid rep = MOCK_UID \<and> mock_card (h_card h') = mock_card (h_card demo_host)"
  using diagnose_harmless [OF demo_host_facts(1,2), of "\<lambda>_ _ _ _. Some ()" "replicate 16 7" True]
  by (auto simp: demo_host_facts(5))

text \<open>
  The ChangeKey self-test on a blank card passes and undoes itself: key one and its version end as they
  began, and nothing else changes.
\<close>
theorem testck_restores:
  assumes "rng_ok env" "mock_ready A (h_card h)" "mk_keys (h_card h) ! 0 = FACTORY_KEY" "mk_keys (h_card h) ! 1 = FACTORY_KEY"
    "mk_key_versions (h_card h) ! 1 = 0"
  shows "\<exists>h'. cmd_testck env (mock_link A False) h = Some (Inr (), h') \<and> mock_ready A (h_card h') \<and>
    mock_card (h_card h') = mock_card (h_card h)"
  using mock_reader.testck_ok [OF assms(1,2)] assms(3-) by (simp add: mock_card_def)

theorem testck_restores_witness:
  "\<exists>h'. cmd_testck demo_env (mock_link xor_crate False) demo_host = Some (Inr (), h') \<and> mock_card (h_card h') = mock_card (h_card demo_host)"
  using testck_restores [OF demo_host_facts(1,2)]
  by (auto simp: demo_host_facts(4,6))

theorem auth_ladder_bounded_witness:
  "\<exists>r h'. auth_ladder demo_env (mock_link xor_crate False) Key0 FACTORY_KEY 0 demo_host = Some (r, h') \<and> h_rng h' \<le> h_rng demo_host + 11"
proof -
  obtain h' where run: "auth_ladder demo_env (mock_link xor_crate False) Key0 FACTORY_KEY 0 demo_host = Some (Inr LadderAccepted, h')"
    using mock_reader.ladder_accepted [OF demo_host_facts(1,2), of Key0 FACTORY_KEY 0] demo_host_facts(4)
    by (auto simp: mock_card_def key_index_def key_as_byte_def)
  show ?thesis
    using auth_ladder_bounded [OF run] run by blast
qed

lemma try_auth_factory:
  "\<exists>h'. try_auth demo_env (mock_link xor_crate False) FACTORY_KEY 1 (demo_host\<lparr>h_audit := l\<rparr>) = Some (Inr ScSuccess, h')"
proof -
  have "length (replicate 16 9 :: bytes) = 16" "cd_keys (mock_card (h_card demo_host)) ! key_index Key0 = FACTORY_KEY"
    using demo_host_facts(4) by (simp_all add: mock_card_def key_index_def key_as_byte_def)
  then obtain s m' where "authenticate_aes (mock_link xor_crate False) session_new Key0 FACTORY_KEY (replicate 16 9) (h_card demo_host) = Some (Inr s, m')"
    using mock.authenticate [OF demo_host_facts(2)] by blast
  then show ?thesis
    by (simp add: catch_p_def gen_rnd_a_def demo_env_def on_card_def return_p_def)
qed

theorem scan_keys_breaker_witness:
  "\<exists>r h'. cmd_scan_keys demo_env (mock_link xor_crate False) (replicate 16 7) 1 demo_host = Some (r, h') \<and> h_failures h' < 10"
proof -
  have uid: "on_card (map_err_p CeSession (get_selected_uid (mock_link xor_crate False))) demo_host = Some (Inr (UidFixed MOCK_UID), demo_host)"
    by (simp add: on_card_def map_err_p_def get_selected_uid_def bind_p_def demo_host_facts(5) MOCK_UID_def return_p_def)
  obtain rest where "scan_candidates demo_env (replicate 16 7) (uid_to_fixed (UidFixed MOCK_UID)) = (''factory K0 (zeros)'', FACTORY_KEY) # rest"
    by (simp add: scan_candidates_def Let_def FACTORY_KEY_def)
  then obtain a h' where run: "cmd_scan_keys demo_env (mock_link xor_crate False) (replicate 16 7) 1 demo_host = Some (Inr a, h')"
    using try_auth_factory [of "h_audit demo_host @ [(''scan-keys: trying factory K0 (zeros)'', None)]"]
    by (auto simp: cmd_scan_keys_def uid bind_p_def clamp_attempts_def log_event_def log_event_with_provenance_def return_p_def)
  show ?thesis
    using scan_keys_breaker [OF run] run demo_host_facts(3) by auto
qed

theorem raw_wipe_needs_uid_witness:
  "cmd_wipe demo_env (mock_link xor_crate False) \<lparr>ws_issuer_key = None, ws_raw_keys = Some (replicate 5 FACTORY_KEY), ws_version = 1\<rparr>
    \<lparr>wo_verbose = False, wo_dry_run = False, wo_skip_preverify = True, wo_confirm_uid = None\<rparr> demo_host = Some (Inl CeRawNeedsUid, demo_host)"
  by (rule raw_wipe_needs_uid) simp_all

section \<open>Proxy provisioning\<close>

lemma contains_no_brace: "CHR ''{'' \<notin> set s \<Longrightarrow> str_contains (CHR ''{'' # pat) (s @ t) = str_contains (CHR ''{'' # pat) t"
  by (induction s) (auto simp: strip_prefix_def)


definition demo_response :: ProvisionResponse where
  "demo_response = \<lparr>pr_protocol_name = ''create_bolt_card_response'', pr_protocol_version = 2, pr_card_name = ''c'',
    pr_lnurlw_base = ''lnurlw://h/w'', pr_k0 = replicate 32 (CHR ''1''), pr_k1 = replicate 32 (CHR ''2''), pr_k2 = replicate 32 (CHR ''3''),
    pr_k3 = replicate 32 (CHR ''4''), pr_k4 = replicate 32 (CHR ''5''), pr_uid_privacy = ''true''\<rparr>"


end
