(* ===== verification/Iso14443.thy ===== *)
theory Iso14443
  imports Channel
begin

text \<open>
  The block protocol under the MFRC522 reader (\<open>crates/iso14443-session\<close>): frame checksum, session state,
  exchange of one APDU with chaining in both directions, waiting-time extension and error recovery. The block
  codec and the toggling rules belong to the \<open>iso14443\<close> crate and the radio to the transceiver; both are parameters.
  The two loops of an exchange have no bound of their own, so they are partial functions: \<open>None\<close> is a run that
  does not return.
\<close>

section \<open>Parameters\<close>

datatype ('e, 'x) PcdError = PcdTransceiver 'e | PcdProtocol 'x

datatype 'b Action = AcComplete bytes | AcReply 'b | AcChainingAck | AcChainingRetransmit | AcOther

text \<open>The \<open>iso14443\<close> crate: protocol handler, block codec, RATS and ATS.\<close>

record ('h, 'b, 'x, 'a, 'd) iso_crate =
  ic_other :: 'x
  ic_frame_size :: 'x
  ic_handler :: "byte option \<Rightarrow> 'h"
  ic_begin_exchange :: "'h \<Rightarrow> 'h"
  ic_build_iblock :: "bytes \<Rightarrow> bool \<Rightarrow> 'h \<Rightarrow> ('x, 'b) result \<times> 'h"
  ic_build_rnak :: "'h \<Rightarrow> ('x, 'b) result \<times> 'h"
  ic_build_deselect :: "'h \<Rightarrow> ('x, 'b) result \<times> 'h"
  ic_process_received :: "'b \<Rightarrow> 'h \<Rightarrow> ('x, 'b Action) result \<times> 'h"
  ic_to_bytes :: "'b \<Rightarrow> ('x, bytes) result"
  ic_try_from :: "bytes \<Rightarrow> ('x, 'b) result"
  ic_from_crc_verified :: "bytes \<Rightarrow> ('x, 'b) result"
  ic_has_cid :: "'b \<Rightarrow> bool"
  ic_is_wtx :: "'b \<Rightarrow> bool"
  ic_is_deselect :: "'b \<Rightarrow> bool"
  ic_payload :: "'b \<Rightarrow> bytes"
  ic_rats :: "'d \<Rightarrow> byte \<Rightarrow> byte"
  ic_fsd :: "'d \<Rightarrow> nat"
  ic_ats_try_from :: "bytes \<Rightarrow> ('x, 'a) result"
  ic_ats_crc_verified :: "bytes \<Rightarrow> ('x, 'a) result"
  ic_fsc :: "'a \<Rightarrow> nat"

text \<open>The \<open>PcdTransceiver\<close> trait.\<close>

record ('t, 'e) transceiver =
  tc_transceive :: "bytes \<Rightarrow> 't \<Rightarrow> ('e, bytes) result \<times> 't"
  tc_try_enable_hw_crc :: "'t \<Rightarrow> bool \<times> 't"
  tc_try_set_timeout_ms :: "u32 \<Rightarrow> 't \<Rightarrow> 't"

section \<open>Checksum\<close>

definition crc_a_bit :: "u16 \<Rightarrow> u16" where
  "crc_a_bit crc = (if crc AND 0x0001 \<noteq> 0 then drop_bit 1 crc XOR 0x8408 else drop_bit 1 crc)"

definition crc_a_byte :: "u16 \<Rightarrow> byte \<Rightarrow> u16" where
  "crc_a_byte crc b = (crc_a_bit ^^ 8) (crc XOR ucast b)"

definition crc_a_reg :: "bytes \<Rightarrow> u16" where
  "crc_a_reg data = foldl crc_a_byte 0x6363 data"

definition crc_a :: "bytes \<Rightarrow> byte \<times> byte" where
  "crc_a data = (let crc = crc_a_reg data in (ucast (crc AND 0x00FF), ucast (drop_bit 8 crc)))"

definition append_crc_a :: "bytes \<Rightarrow> bytes" where
  "append_crc_a data = (case crc_a data of (c1, c2) \<Rightarrow> data @ [c1, c2])"

section \<open>Session\<close>

definition MAX_RETRIES :: nat where
  "MAX_RETRIES = 2"

record 'h PcdSession =
  is_hw_crc :: bool
  is_fsc :: nat
  is_fsd :: nat
  is_handler :: 'h
  is_base_fwt_ms :: u32

definition from_ats :: "('h, 'b, 'x, 'a, 'd) iso_crate \<Rightarrow> 'a \<Rightarrow> byte option \<Rightarrow> bool \<Rightarrow> 'h PcdSession" where
  "from_ats I ats cid hw_crc =
    \<lparr>is_hw_crc = hw_crc, is_fsc = ic_fsc I ats, is_fsd = ic_fsc I ats, is_handler = ic_handler I cid, is_base_fwt_ms = 0\<rparr>"

definition from_connect ::
    "('h, 'b, 'x, 'a, 'd) iso_crate \<Rightarrow> ('t, 'e) transceiver \<Rightarrow> 'd \<Rightarrow> byte \<Rightarrow>
      't \<Rightarrow> (('e, 'x) PcdError, 'h PcdSession \<times> 'a) result \<times> 't" where
  "from_connect I T fsdi cid t =
    (case tc_try_enable_hw_crc T t of (hw_crc, t) \<Rightarrow>
      let rats = [0xE0, ic_rats I fsdi cid]
      in case tc_transceive T (if hw_crc then rats else append_crc_a rats) t of
           (Inl e, t) \<Rightarrow> (Inl (PcdTransceiver e), t)
         | (Inr resp, t) \<Rightarrow>
             (bind_r (map_err PcdProtocol ((if hw_crc then ic_ats_crc_verified I else ic_ats_try_from I) resp)) (\<lambda>ats.
               Inr (\<lparr>is_hw_crc = hw_crc, is_fsc = ic_fsc I ats, is_fsd = ic_fsd I fsdi,
                 is_handler = ic_handler I (Some cid), is_base_fwt_ms = 0\<rparr>, ats)), t))"

definition set_fsd :: "nat \<Rightarrow> 'h PcdSession \<Rightarrow> 'h PcdSession" where
  "set_fsd fsd s = s\<lparr>is_fsd := fsd\<rparr>"

definition set_fsc :: "nat \<Rightarrow> 'h PcdSession \<Rightarrow> 'h PcdSession" where
  "set_fsc fsc s = s\<lparr>is_fsc := fsc\<rparr>"

definition set_base_fwt_ms :: "u32 \<Rightarrow> 'h PcdSession \<Rightarrow> 'h PcdSession" where
  "set_base_fwt_ms ms s = s\<lparr>is_base_fwt_ms := ms\<rparr>"

text \<open>A call of the protocol handler.\<close>

type_synonym ('h, 't, 'e, 'x, 'a) pcd = "('h PcdSession \<times> 't, ('e, 'x) PcdError, 'a) prog"

definition on_handler :: "('h \<Rightarrow> ('x, 'a) result \<times> 'h) \<Rightarrow> ('h, 't, 'e, 'x, 'a) pcd" where
  "on_handler f = (\<lambda>(s, t). case f (is_handler s) of (r, h) \<Rightarrow> Some (map_err PcdProtocol r, (s\<lparr>is_handler := h\<rparr>, t)))"

definition set_timeout :: "('t, 'e) transceiver \<Rightarrow> u32 \<Rightarrow> ('h, 't, 'e, 'x, unit) pcd" where
  "set_timeout T ms = (\<lambda>(s, t). Some (Inr (), (s, tc_try_set_timeout_ms T ms t)))"

section \<open>One block\<close>

definition transceive_block ::
    "('h, 'b, 'x, 'a, 'd) iso_crate \<Rightarrow> ('t, 'e) transceiver \<Rightarrow> 'b \<Rightarrow> ('h, 't, 'e, 'x, 'b) pcd" where
  "transceive_block I T block = (\<lambda>(s, t).
    case ic_to_bytes I block of
      Inl x \<Rightarrow> Some (Inl (PcdProtocol x), (s, t))
    | Inr data \<Rightarrow>
        (case tc_transceive T (if is_hw_crc s then data else append_crc_a data) t of
          (Inl e, t) \<Rightarrow> Some (Inl (PcdTransceiver e), (s, t))
        | (Inr resp, t) \<Rightarrow>
            if length resp + (if is_hw_crc s then 2 else 0) > is_fsd s
            then Some (Inl (PcdProtocol (ic_frame_size I)), (s, t))
            else Some (map_err PcdProtocol ((if is_hw_crc s then ic_from_crc_verified I else ic_try_from I) resp), (s, t))))"

text \<open>The retry loop; its argument is the number of retries left.\<close>

fun recovery_loop ::
    "('h, 'b, 'x, 'a, 'd) iso_crate \<Rightarrow> ('t, 'e) transceiver \<Rightarrow> 'b \<Rightarrow> bool \<Rightarrow> nat \<Rightarrow> ('h, 't, 'e, 'x, 'b) pcd" where
  "recovery_loop I T block receiving_chain 0 = throw_p (PcdProtocol (ic_other I))"
| "recovery_loop I T block receiving_chain (Suc n) =
    bind_p (if receiving_chain then return_p block else on_handler (ic_build_rnak I)) (\<lambda>recovery.
      catch_p (transceive_block I T recovery) (\<lambda>r. case r of
        Inr resp \<Rightarrow> return_p resp
      | Inl _ \<Rightarrow> recovery_loop I T block receiving_chain n))"

definition transceive_with_recovery ::
    "('h, 'b, 'x, 'a, 'd) iso_crate \<Rightarrow> ('t, 'e) transceiver \<Rightarrow> 'b \<Rightarrow> bool \<Rightarrow> ('h, 't, 'e, 'x, 'b) pcd" where
  "transceive_with_recovery I T block receiving_chain =
    catch_p (transceive_block I T block) (\<lambda>r. case r of
      Inr resp \<Rightarrow> return_p resp
    | Inl _ \<Rightarrow> recovery_loop I T block receiving_chain MAX_RETRIES)"

definition deselect :: "('h, 'b, 'x, 'a, 'd) iso_crate \<Rightarrow> ('t, 'e) transceiver \<Rightarrow> ('h, 't, 'e, 'x, unit) pcd" where
  "deselect I T =
    bind_p (on_handler (ic_build_deselect I)) (\<lambda>block.
    catch_p (transceive_block I T block) (\<lambda>r.
      if (case r of Inr resp \<Rightarrow> ic_is_deselect I resp | Inl _ \<Rightarrow> False) then return_p ()
      else bind_p (transceive_block I T block) (\<lambda>resp.
        if ic_is_deselect I resp then return_p () else throw_p (PcdProtocol (ic_other I)))))"

section \<open>Exchange\<close>

text \<open>A reply of the reader; a waiting-time extension stretches the timeout around its echo.\<close>

definition wtx_timeout :: "('h, 'b, 'x, 'a, 'd) iso_crate \<Rightarrow> 'b \<Rightarrow> u32 \<Rightarrow> u32" where
  "wtx_timeout I reply base =
    (let wtxm = (case ic_payload I reply of [] \<Rightarrow> 1 | b # _ \<Rightarrow> ucast b) in max (wtxm * base) base)"

definition send_reply ::
    "('h, 'b, 'x, 'a, 'd) iso_crate \<Rightarrow> ('t, 'e) transceiver \<Rightarrow> 'b \<Rightarrow> ('h, 't, 'e, 'x, 'b) pcd" where
  "send_reply I T reply = (\<lambda>(s, t).
    let base = is_base_fwt_ms s
    in if ic_is_wtx I reply \<and> base > 0
       then bind_p (set_timeout T (wtx_timeout I reply base)) (\<lambda>_.
            catch_p (transceive_with_recovery I T reply True) (\<lambda>r.
            bind_p (set_timeout T base) (\<lambda>_. lift_r r))) (s, t)
       else transceive_with_recovery I T reply True (s, t))"

lemma bind_p_mono [partial_function_mono]:
  assumes "mono_option (\<lambda>f. m f st)" "\<And>a st. mono_option (\<lambda>f. k f a st)"
  shows "mono_option (\<lambda>f. bind_p (m f) (k f) st)"
proof -
  have "bind_p (m f) (k f) st = Option.bind (m f st) (\<lambda>(r, st). case r of Inl e \<Rightarrow> Some (Inl e, st) | Inr a \<Rightarrow> k f a st)" for f
    by (auto simp: bind_p_def split: option.splits sum.splits)
  moreover have "mono_option (\<lambda>f. case x of (r, st) \<Rightarrow> (case r of Inl e \<Rightarrow> Some (Inl e, st) | Inr a \<Rightarrow> k f a st))" for x
    using assms(2) by (cases x; cases "fst x") (auto simp: monotone_def flat_ord_def)
  ultimately show ?thesis
    using assms(1) by (simp add: bind_mono)
qed

partial_function (option) collect_response ::
    "('h, 'b, 'x, 'a, 'd) iso_crate \<Rightarrow> ('t, 'e) transceiver \<Rightarrow> 'b \<Rightarrow>
      'h PcdSession \<times> 't \<Rightarrow> ((('e, 'x) PcdError, bytes) result \<times> 'h PcdSession \<times> 't) option" where
  "collect_response I T block st =
    bind_p (on_handler (ic_process_received I block)) (\<lambda>action. case action of
      AcComplete data \<Rightarrow> return_p data
    | AcReply reply \<Rightarrow> bind_p (send_reply I T reply) (\<lambda>block. collect_response I T block)
    | _ \<Rightarrow> throw_p (PcdProtocol (ic_other I))) st"

text \<open>The sending loop, from an offset; its result is the answer to the last chunk.\<close>

partial_function (option) send_chain ::
    "('h, 'b, 'x, 'a, 'd) iso_crate \<Rightarrow> ('t, 'e) transceiver \<Rightarrow> nat \<Rightarrow> bytes \<Rightarrow> nat \<Rightarrow> 'b option \<Rightarrow>
      'h PcdSession \<times> 't \<Rightarrow> ((('e, 'x) PcdError, 'b option) result \<times> 'h PcdSession \<times> 't) option" where
  "send_chain I T max_inf apdu offset last_resp st =
    (if \<not> offset < length apdu then Some (Inr last_resp, st)
     else let stop = min (offset + max_inf) (length apdu);
              chaining = (stop < length apdu)
          in bind_p (on_handler (ic_build_iblock I (take (stop - offset) (drop offset apdu)) chaining)) (\<lambda>iblock.
             bind_p (transceive_with_recovery I T iblock False) (\<lambda>resp st.
               if chaining then
                 bind_p (on_handler (ic_process_received I resp)) (\<lambda>action. case action of
                   AcChainingAck \<Rightarrow> send_chain I T max_inf apdu stop last_resp
                 | AcChainingRetransmit \<Rightarrow> send_chain I T max_inf apdu offset last_resp
                 | _ \<Rightarrow> throw_p (PcdProtocol (ic_other I))) st
               else send_chain I T max_inf apdu stop (Some resp) st)) st)"

declare collect_response.simps [code] send_chain.simps [code]

definition begin_exchange :: "('h, 'b, 'x, 'a, 'd) iso_crate \<Rightarrow> ('h, 't, 'e, 'x, unit) pcd" where
  "begin_exchange I = on_handler (\<lambda>h. (Inr (), ic_begin_exchange I h))"

definition exchange ::
    "('h, 'b, 'x, 'a, 'd) iso_crate \<Rightarrow> ('t, 'e) transceiver \<Rightarrow> bytes \<Rightarrow> ('h, 't, 'e, 'x, bytes) pcd" where
  "exchange I T apdu =
    bind_p (begin_exchange I) (\<lambda>_.
    bind_p (on_handler (ic_build_iblock I [] False)) (\<lambda>probe.
    bind_p (\<lambda>(s, t). Some (Inr (is_fsc s - (1 + (if ic_has_cid I probe then 1 else 0) + 2)), (s, t))) (\<lambda>max_inf.
      if max_inf = 0 then throw_p (PcdProtocol (ic_other I))
      else bind_p (send_chain I T max_inf apdu 0 None) (\<lambda>last_resp.
        case last_resp of
          None \<Rightarrow> throw_p (PcdProtocol (ic_other I))
        | Some first \<Rightarrow> collect_response I T first))))"

section \<open>Checksum\<close>

lemma crc_a_bit_zero: "\<not> bit c 0 \<Longrightarrow> crc_a_bit c = drop_bit 1 c"
  by (auto simp: crc_a_bit_def bit_0 and_one_eq even_iff_mod_2_eq_zero)

lemma crc_a_bits:
  assumes "take_bit 8 c = (0 :: u16)" "n \<le> 8"
  shows "(crc_a_bit ^^ n) c = drop_bit n c"
  using assms(2)
proof (induction n)
  case (Suc n)
  have "\<not> bit (take_bit 8 c) n"
    using assms(1) by simp
  then have "\<not> bit (drop_bit n c) 0"
    using Suc.prems by (simp add: bit_take_bit_iff bit_drop_bit_eq)
  then show ?case
    using Suc by (simp add: crc_a_bit_zero)
qed simp

lemma crc_a_byte_low: "crc_a_byte c (ucast c) = drop_bit 8 c"
proof -
  have "take_bit 8 (c XOR ucast (ucast c :: byte)) = 0"
    by (rule bit_eqI) (auto simp: bit_simps)
  then have "crc_a_byte c (ucast c) = drop_bit 8 (c XOR ucast (ucast c :: byte))"
    unfolding crc_a_byte_def by (rule crc_a_bits) simp
  also have "\<dots> = drop_bit 8 c"
    by (rule bit_eqI) (auto simp: bit_simps)
  finally show ?thesis .
qed

text \<open>A frame with its checksum leaves the register at zero, which is how the receiver accepts it.\<close>

lemma append_crc_a_residue: "crc_a_reg (append_crc_a data) = 0"
proof -
  let ?c = "crc_a_reg data"
  have "crc_a_reg (append_crc_a data) = crc_a_byte (crc_a_byte ?c (ucast (?c AND 0xFF))) (ucast (drop_bit 8 ?c))"
    by (simp add: append_crc_a_def crc_a_def crc_a_reg_def Let_def)
  also have "ucast (?c AND 0xFF) = (ucast (take_bit 8 ?c) :: byte)"
    by (simp add: take_bit_eq_mask mask_eq_exp_minus_1)
  also have "\<dots> = ucast ?c"
    by (rule bit_eqI) (auto simp: bit_simps)
  finally have "crc_a_reg (append_crc_a data) = drop_bit 8 (drop_bit 8 ?c)"
    by (simp add: crc_a_byte_low)
  also have "\<dots> = 0"
    by (rule bit_eqI) (auto simp: bit_simps dest: bit_imp_le_length)
  finally show ?thesis .
qed

section \<open>Termination\<close>

text \<open>A transceiver whose successful answers use up a finite supply; \<open>uses_up\<close> is the same for a program over it.\<close>

definition spends :: "('t \<Rightarrow> nat) \<Rightarrow> 't \<Rightarrow> 'e + 'a \<Rightarrow> 't \<Rightarrow> bool" where
  "spends left t r t' = (case r of Inl _ \<Rightarrow> left t' \<le> left t | Inr _ \<Rightarrow> left t' < left t)"

definition runs_dry :: "('t, 'e) transceiver \<Rightarrow> ('t \<Rightarrow> nat) \<Rightarrow> bool" where
  "runs_dry T left \<longleftrightarrow>
    (\<forall>frame t. case tc_transceive T frame t of (r, t') \<Rightarrow> spends left t r t') \<and>
    (\<forall>ms t. left (tc_try_set_timeout_ms T ms t) \<le> left t)"

definition uses_up :: "('t \<Rightarrow> nat) \<Rightarrow> ('h, 't, 'e, 'x, 'a) pcd \<Rightarrow> bool" where
  "uses_up left m \<longleftrightarrow> (\<forall>s t. \<exists>r s' t'. m (s, t) = Some (r, (s', t')) \<and> spends left t r t')"

definition stays :: "('t \<Rightarrow> nat) \<Rightarrow> ('h, 't, 'e, 'x, 'a) pcd \<Rightarrow> bool" where
  "stays left m \<longleftrightarrow> (\<forall>s t. \<exists>r s' t'. m (s, t) = Some (r, (s', t')) \<and> left t' \<le> left t)"

lemma spends_simps [simp]:
  "spends left t (Inl e) t' = (left t' \<le> left t)"
  "spends left t (Inr a) t' = (left t' < left t)"
  by (simp_all add: spends_def)

lemma spends_le: "spends left t r t' \<Longrightarrow> left t' \<le> left t"
  by (auto simp: spends_def split: sum.splits)

lemma spends_trans: "left t1 \<le> left t \<Longrightarrow> spends left t1 r t' \<Longrightarrow> spends left t r t'"
  by (auto simp: spends_def split: sum.splits)

lemma uses_upE:
  assumes "uses_up left m"
  obtains r s' t' where "m (s, t) = Some (r, (s', t'))" "spends left t r t'"
  using assms unfolding uses_up_def by blast

lemma stays_handler: "stays left (on_handler f)"
  by (auto simp: stays_def on_handler_def split: prod.splits)

lemma stays_return: "stays left (return_p a)"
  by (simp add: stays_def)

lemma uses_up_block:
  assumes "runs_dry T left"
  shows "uses_up left (transceive_block I T b)"
  unfolding uses_up_def
proof (intro allI)
  fix s :: "'c PcdSession" and t
  show "\<exists>r s' t'. transceive_block I T b (s, t) = Some (r, (s', t')) \<and> spends left t r t'"
  proof (cases "ic_to_bytes I b")
    case (Inr data)
    obtain r t' where "tc_transceive T (if is_hw_crc s then data else append_crc_a data) t = (r, t')" "spends left t r t'"
      using assms unfolding runs_dry_def by (metis (no_types, lifting) case_prodE)
    then show ?thesis
      using Inr by (cases r) (auto simp: transceive_block_def spends_def map_err_def split: sum.splits)
  qed (simp add: transceive_block_def)
qed

lemma uses_up_catch:
  assumes "uses_up left m" "\<And>e. uses_up left (f (Inl e))" "\<And>a. f (Inr a) = return_p a"
  shows "uses_up left (catch_p m f)"
  unfolding uses_up_def
proof (intro allI)
  fix s t
  obtain r s1 t1 where 1: "m (s, t) = Some (r, (s1, t1))" "spends left t r t1"
    using uses_upE [OF assms(1)] .
  show "\<exists>r s' t'. catch_p m f (s, t) = Some (r, (s', t')) \<and> spends left t r t'"
  proof (cases r)
    case (Inl e)
    obtain r' s2 t2 where "f (Inl e) (s1, t1) = Some (r', (s2, t2))" "spends left t1 r' t2"
      using uses_upE [OF assms(2)] .
    with 1 Inl show ?thesis
      by (auto simp: catch_p_def intro: spends_trans)
  qed (use 1 assms(3) in \<open>auto simp: catch_p_def\<close>)
qed

lemma uses_up_bind:
  assumes "stays left m" "\<And>a. uses_up left (f a)"
  shows "uses_up left (bind_p m f)"
  unfolding uses_up_def
proof (intro allI)
  fix s t
  obtain r s1 t1 where 1: "m (s, t) = Some (r, (s1, t1))" "left t1 \<le> left t"
    using assms(1) unfolding stays_def by blast
  show "\<exists>r s' t'. bind_p m f (s, t) = Some (r, (s', t')) \<and> spends left t r t'"
  proof (cases r)
    case (Inr a)
    obtain r' s2 t2 where "f a (s1, t1) = Some (r', (s2, t2))" "spends left t1 r' t2"
      using uses_upE [OF assms(2)] .
    with 1 Inr show ?thesis
      by (auto simp: bind_p_def intro: spends_trans)
  qed (use 1 in \<open>auto simp: bind_p_def\<close>)
qed

lemma uses_up_recovery:
  assumes "runs_dry T left"
  shows "uses_up left (recovery_loop I T b rc n)"
proof (induction n)
  case (Suc n)
  then show ?case
    using assms by (auto intro!: uses_up_bind uses_up_catch uses_up_block stays_handler stays_return)
qed (simp add: uses_up_def)

lemma uses_up_transceive: "runs_dry T left \<Longrightarrow> uses_up left (transceive_with_recovery I T b rc)"
  by (auto simp: transceive_with_recovery_def intro!: uses_up_catch uses_up_block uses_up_recovery)

lemma uses_up_reply:
  assumes "runs_dry T left"
  shows "uses_up left (send_reply I T b)"
  unfolding uses_up_def
proof (intro allI)
  fix s t
  have dry: "left (tc_try_set_timeout_ms T ms t) \<le> left t" for ms t
    using assms by (simp add: runs_dry_def)
  show "\<exists>r s' t'. send_reply I T b (s, t) = Some (r, (s', t')) \<and> spends left t r t'"
  proof (cases "ic_is_wtx I b \<and> 0 < is_base_fwt_ms s")
    case True
    define ms where "ms = wtx_timeout I b (is_base_fwt_ms s)"
    obtain r s' t' where "transceive_with_recovery I T b True (s, tc_try_set_timeout_ms T ms t) = Some (r, (s', t'))"
      "spends left (tc_try_set_timeout_ms T ms t) r t'"
      using uses_upE [OF uses_up_transceive [OF assms]] .
    then show ?thesis
      using dry [of ms t] dry [of "is_base_fwt_ms s" t']
      using True by (cases r) (simp_all add: send_reply_def Let_def bind_p_def catch_p_def set_timeout_def flip: ms_def)
  next
    case False
    then have "send_reply I T b (s, t) = transceive_with_recovery I T b True (s, t)"
      by (auto simp: send_reply_def Let_def)
    then show ?thesis
      using uses_up_transceive [OF assms, of I b True] by (simp add: uses_up_def)
  qed
qed

lemma on_handler_run:
  obtains r s1 where "on_handler f (s, t) = Some (r, (s1, t))"
  by (cases "f (is_handler s)") (auto simp: on_handler_def)

text \<open>A program that returns from every state with no more left than \<open>n\<close>.\<close>

definition returns_at :: "('t \<Rightarrow> nat) \<Rightarrow> nat \<Rightarrow> ('h, 't, 'e, 'x, 'a) pcd \<Rightarrow> bool" where
  "returns_at left n m \<longleftrightarrow> (\<forall>s t. left t \<le> n \<longrightarrow> (\<exists>r st'. m (s, t) = Some (r, st')))"

lemma returns_at_pure: "returns_at left n (return_p a)" "returns_at left n (throw_p e)"
  by (simp_all add: returns_at_def)

lemma returns_at_if: "returns_at left n m \<Longrightarrow> returns_at left n m' \<Longrightarrow> returns_at left n (\<lambda>st. if c then m st else m' st)"
  by (simp add: returns_at_def)

lemma returns_at_bind:
  assumes "stays left m" "\<And>a. returns_at left n (f a)"
  shows "returns_at left n (bind_p m f)"
  unfolding returns_at_def
proof (intro allI impI)
  fix s t
  assume "left t \<le> n"
  obtain r s1 t1 where "m (s, t) = Some (r, (s1, t1))" "left t1 \<le> left t"
    using assms(1) unfolding stays_def by blast
  then show "\<exists>r st'. bind_p m f (s, t) = Some (r, st')"
    using assms(2) \<open>left t \<le> n\<close> by (cases r) (auto simp: bind_p_def returns_at_def)
qed

lemma returns_at_spend:
  assumes "uses_up left m" "\<And>a n'. n' < n \<Longrightarrow> returns_at left n' (f a)"
  shows "returns_at left n (bind_p m f)"
  unfolding returns_at_def
proof (intro allI impI)
  fix s t
  assume "left t \<le> n"
  obtain r s1 t1 where 1: "m (s, t) = Some (r, (s1, t1))" "spends left t r t1"
    using uses_upE [OF assms(1)] .
  show "\<exists>r st'. bind_p m f (s, t) = Some (r, st')"
  proof (cases r)
    case (Inr a)
    then have "left t1 < n"
      using 1 \<open>left t \<le> n\<close> by simp
    from assms(2) [OF this, of a] show ?thesis
      using 1 Inr by (simp add: returns_at_def bind_p_def)
  qed (use 1 in \<open>simp add: bind_p_def\<close>)
qed

lemma collect_response_returns:
  assumes "runs_dry T left"
  shows "returns_at left n (collect_response I T b)"
proof (induction n arbitrary: b rule: less_induct)
  case (less n)
  have "returns_at left n (bind_p (on_handler (ic_process_received I b)) (\<lambda>action. case action of
      AcComplete data \<Rightarrow> return_p data
    | AcReply reply \<Rightarrow> bind_p (send_reply I T reply) (\<lambda>block. collect_response I T block)
    | _ \<Rightarrow> throw_p (PcdProtocol (ic_other I))))"
    using less assms
    by (intro returns_at_bind stays_handler)
      (auto intro!: returns_at_pure returns_at_spend uses_up_reply split: Action.split)
  then show ?case
    by (simp add: returns_at_def collect_response.simps)
qed

lemma send_chain_returns:
  assumes "runs_dry T left"
  shows "returns_at left n (send_chain I T max_inf apdu offset l)"
proof (induction n arbitrary: offset l rule: less_induct)
  case (less n)
  let ?stop = "min (offset + max_inf) (length apdu)"
  let ?chaining = "?stop < length apdu"
  have "returns_at left n' (\<lambda>st. if ?chaining then
                 bind_p (on_handler (ic_process_received I resp)) (\<lambda>action. case action of
                   AcChainingAck \<Rightarrow> send_chain I T max_inf apdu ?stop l
                 | AcChainingRetransmit \<Rightarrow> send_chain I T max_inf apdu offset l
                 | _ \<Rightarrow> throw_p (PcdProtocol (ic_other I))) st
               else send_chain I T max_inf apdu ?stop (Some resp) st)" if "n' < n" for n' resp
    using less that by (auto intro!: returns_at_if returns_at_bind stays_handler returns_at_pure split: Action.split)
  then have "returns_at left n (bind_p (on_handler (ic_build_iblock I (take (?stop - offset) (drop offset apdu)) ?chaining)) (\<lambda>iblock.
             bind_p (transceive_with_recovery I T iblock False) (\<lambda>resp st.
               if ?chaining then
                 bind_p (on_handler (ic_process_received I resp)) (\<lambda>action. case action of
                   AcChainingAck \<Rightarrow> send_chain I T max_inf apdu ?stop l
                 | AcChainingRetransmit \<Rightarrow> send_chain I T max_inf apdu offset l
                 | _ \<Rightarrow> throw_p (PcdProtocol (ic_other I))) st
               else send_chain I T max_inf apdu ?stop (Some resp) st)))"
    using assms by (intro returns_at_bind returns_at_spend stays_handler uses_up_transceive)
  then show ?case
    by (simp add: returns_at_def send_chain.simps [of I T max_inf apdu offset] Let_def)
qed

text \<open>
  C18. An exchange with the card ends as soon as the card falls silent: on a transceiver that gives only finitely
  many answers, sending any APDU returns, with a result or an error, whatever the card answers and however often it
  asks for retransmission or more time.
\<close>
theorem exchange_terminates:
  assumes "runs_dry T left"
  shows "\<exists>r st'. exchange I T apdu st = Some (r, st')"
proof -
  have "\<exists>r st'. bind_p (send_chain I T max_inf apdu 0 None) (\<lambda>last_resp.
      case last_resp of None \<Rightarrow> throw_p (PcdProtocol (ic_other I)) | Some first \<Rightarrow> collect_response I T first) (s, t) = Some (r, st')"
    for max_inf s t
  proof -
    obtain r s1 t1 where "send_chain I T max_inf apdu 0 None (s, t) = Some (r, (s1, t1))"
      using send_chain_returns [OF assms, of "left t" I max_inf apdu 0 None] unfolding returns_at_def
      by (metis order_refl surj_pair)
    then show ?thesis
      using collect_response_returns [OF assms, of "left t1" I]
      by (cases r) (auto simp: bind_p_def returns_at_def split: option.split)
  qed
  then show ?thesis
    by (cases st) (simp add: exchange_def begin_exchange_def bind_p_def on_handler_def split: prod.split sum.split)
qed

section \<open>Timeouts\<close>

definition keeps_timeout :: "('t, 'e) transceiver \<Rightarrow> ('t \<Rightarrow> u32) \<Rightarrow> bool" where
  "keeps_timeout T timeout \<longleftrightarrow>
    (\<forall>frame t. timeout (snd (tc_transceive T frame t)) = timeout t) \<and>
    (\<forall>ms t. timeout (tc_try_set_timeout_ms T ms t) = ms)"

text \<open>Programs that end with the base timeout when they start with it.\<close>

definition settles :: "('t \<Rightarrow> u32) \<Rightarrow> 'h PcdSession \<times> 't \<Rightarrow> 'h PcdSession \<times> 't \<Rightarrow> bool" where
  "settles timeout st st' \<longleftrightarrow> is_base_fwt_ms (fst st') = is_base_fwt_ms (fst st) \<and>
    (timeout (snd st) = is_base_fwt_ms (fst st) \<longrightarrow> timeout (snd st') = is_base_fwt_ms (fst st))"

definition settled :: "('t \<Rightarrow> u32) \<Rightarrow> ('h, 't, 'e, 'x, 'a) pcd \<Rightarrow> bool" where
  "settled timeout m \<longleftrightarrow> (\<forall>st r st'. m st = Some (r, st') \<longrightarrow> settles timeout st st')"

lemma settles_refl [simp]: "settles timeout st st"
  by (simp add: settles_def)

lemma settles_trans [trans]: "settles timeout st st1 \<Longrightarrow> settles timeout st1 st2 \<Longrightarrow> settles timeout st st2"
  by (simp add: settles_def)

lemma settledD: "settled timeout m \<Longrightarrow> m st = Some (r, st') \<Longrightarrow> settles timeout st st'"
  unfolding settled_def by blast

lemma settled_bind: "settled timeout m \<Longrightarrow> (\<And>a. settled timeout (f a)) \<Longrightarrow> settled timeout (bind_p m f)"
  unfolding settled_def bind_p_def by (fastforce split: option.splits sum.splits prod.splits intro: settles_trans)

lemma settled_if: "settled timeout m \<Longrightarrow> settled timeout m' \<Longrightarrow> settled timeout (\<lambda>st. if c then m st else m' st)"
  by (simp add: settled_def)

lemma settled_catch: "settled timeout m \<Longrightarrow> (\<And>r. settled timeout (f r)) \<Longrightarrow> settled timeout (catch_p m f)"
  unfolding settled_def catch_p_def by (fastforce split: option.splits prod.splits intro: settles_trans)

lemma settled_pure: "settled timeout (return_p a)" "settled timeout (throw_p e)" "settled timeout (on_handler f)"
  by (auto simp: settled_def settles_def on_handler_def split: prod.splits)

lemma settled_block:
  assumes "keeps_timeout T timeout"
  shows "settled timeout (transceive_block I T b)"
proof -
  have "timeout t' = timeout t" if "tc_transceive T frame t = (r, t')" for frame t r t'
    using that assms unfolding keeps_timeout_def by (metis snd_conv)
  then show ?thesis
    by (auto simp: settled_def settles_def transceive_block_def split: sum.splits prod.splits if_splits)
qed

lemma settled_recovery: "keeps_timeout T timeout \<Longrightarrow> settled timeout (recovery_loop I T b rc n)"
  by (induction n) (auto intro!: settled_pure settled_bind settled_catch settled_block split: sum.splits)

lemma settled_transceive: "keeps_timeout T timeout \<Longrightarrow> settled timeout (transceive_with_recovery I T b rc)"
  unfolding transceive_with_recovery_def
  by (auto intro!: settled_pure settled_catch settled_block settled_recovery split: sum.splits)

lemma settled_reply:
  assumes "keeps_timeout T timeout"
  shows "settled timeout (send_reply I T b)"
  unfolding settled_def
proof (intro allI impI)
  fix st r st'
  assume run: "send_reply I T b st = Some (r, st')"
  obtain s t s' t' where st: "st = (s, t)" "st' = (s', t')"
    by fastforce
  show "settles timeout st st'"
  proof (cases "ic_is_wtx I b \<and> 0 < is_base_fwt_ms s")
    case True
    then obtain t1 t2 where run1: "transceive_with_recovery I T b True (s, t1) = Some (r, (s', t2))"
      "t' = tc_try_set_timeout_ms T (is_base_fwt_ms s) t2"
      using run st by (auto simp: send_reply_def Let_def bind_p_def catch_p_def set_timeout_def lift_r_def split: option.splits)
    then show ?thesis
      using settledD [OF settled_transceive [OF assms] run1(1)] assms st by (auto simp: settles_def keeps_timeout_def)
  next
    case False
    then have "send_reply I T b st = transceive_with_recovery I T b True st"
      by (auto simp: st send_reply_def Let_def)
    then show ?thesis
      using run settledD [OF settled_transceive [OF assms]] by metis
  qed
qed

lemma settled_collect:
  fixes I :: "('h, 'b, 'x, 'a, 'd) iso_crate" and T :: "('t, 'e) transceiver" and timeout :: "'t \<Rightarrow> u32"
  assumes "keeps_timeout T timeout"
  shows "settled timeout (collect_response I T b)"
proof -
  have "keeps_timeout T timeout \<longrightarrow> settles timeout st (snd y)" if run: "collect_response I T b st = Some y" for b st y
  proof (rule collect_response.raw_induct [where P = "\<lambda>I T b st y. keeps_timeout T timeout \<longrightarrow> settles timeout st (snd y)", OF _ run], intro impI)
    fix self and I :: "('h, 'b, 'x, 'a, 'd) iso_crate" and T :: "('t, 'e) transceiver" and b st y
    let ?body = "bind_p (on_handler (ic_process_received I b)) (\<lambda>action. case action of
        AcComplete data \<Rightarrow> return_p data
      | AcReply reply \<Rightarrow> bind_p (send_reply I T reply) (\<lambda>block. self I T block)
      | _ \<Rightarrow> throw_p (PcdProtocol (ic_other I)))"
    assume IH: "\<And>I T b st y. self I T b st = Some y \<Longrightarrow> keeps_timeout T timeout \<longrightarrow> settles timeout st (snd y)"
      and eq: "?body st = Some y" and kt: "keeps_timeout T timeout"
    have "settled timeout (self I T block)" for block
      using IH kt unfolding settled_def by fastforce
    then have "settled timeout ?body"
      using kt by (intro settled_bind settled_pure) (auto intro!: settled_bind settled_pure settled_reply split: Action.split)
    then show "settles timeout st (snd y)"
      using eq settledD [of timeout ?body st "fst y" "snd y"] by simp
  qed
  then show ?thesis
    using assms unfolding settled_def by fastforce
qed

lemma settled_send:
  fixes I :: "('h, 'b, 'x, 'a, 'd) iso_crate" and T :: "('t, 'e) transceiver" and timeout :: "'t \<Rightarrow> u32"
  assumes "keeps_timeout T timeout"
  shows "settled timeout (send_chain I T max_inf apdu offset l)"
proof -
  have "keeps_timeout T timeout \<longrightarrow> settles timeout st (snd y)" if run: "send_chain I T max_inf apdu offset l st = Some y" for offset l st y
  proof (rule send_chain.raw_induct [where P = "\<lambda>I T m a off l st y. keeps_timeout T timeout \<longrightarrow> settles timeout st (snd y)", OF _ run], intro impI)
    fix self :: "_ \<Rightarrow> _ \<Rightarrow> _ \<Rightarrow> _ \<Rightarrow> _ \<Rightarrow> _ \<Rightarrow> ('h, 't, 'e, 'x, 'b option) pcd" and I :: "('h, 'b, 'x, 'a, 'd) iso_crate"
      and T :: "('t, 'e) transceiver" and m off :: nat and a :: bytes and l :: "'b option" and st y
    let ?body = "\<lambda>stop chaining. bind_p (on_handler (ic_build_iblock I (take (stop - off) (drop off a)) chaining)) (\<lambda>iblock.
             bind_p (transceive_with_recovery I T iblock False) (\<lambda>resp st.
               if chaining then
                 bind_p (on_handler (ic_process_received I resp)) (\<lambda>action. case action of
                   AcChainingAck \<Rightarrow> self I T m a stop l
                 | AcChainingRetransmit \<Rightarrow> self I T m a off l
                 | _ \<Rightarrow> throw_p (PcdProtocol (ic_other I))) st
               else self I T m a stop (Some resp) st))"
    assume IH: "\<And>I T m a off l st y. self I T m a off l st = Some y \<Longrightarrow> keeps_timeout T timeout \<longrightarrow> settles timeout st (snd y)"
      and eq: "(if \<not> off < length a then Some (Inr l, st)
        else let stop = min (off + m) (length a); chaining = (stop < length a) in ?body stop chaining st) = Some y"
      and kt: "keeps_timeout T timeout"
    have self: "settled timeout (self I T m a off l)" for off l
      using IH kt unfolding settled_def by fastforce
    have "settled timeout (?body stop chaining)" for stop chaining
      using kt self by (auto intro!: settled_if settled_bind settled_pure settled_transceive split: Action.split)
    then show "settles timeout st (snd y)"
      using eq settledD [of timeout "?body stop chaining" st "fst y" "snd y" for stop chaining]
      by (cases "off < length a") (auto simp: Let_def)
  qed
  then show ?thesis
    using assms unfolding settled_def by fastforce
qed

text \<open>
  C31. The waiting time of the reader is back at its base value after every exchange, whatever extensions the card
  asked for and whether or not the exchange succeeded.
\<close>
theorem exchange_restores_timeout:
  assumes "keeps_timeout T timeout" "exchange I T apdu (s, t) = Some (r, (s', t'))" "timeout t = is_base_fwt_ms s"
  shows "timeout t' = is_base_fwt_ms s' \<and> is_base_fwt_ms s' = is_base_fwt_ms s"
proof -
  have "settled timeout (\<lambda>(s, t). Some (Inr (f s), (s, t)))" for f
    by (auto simp: settled_def)
  then have "settled timeout (exchange I T apdu)"
    unfolding exchange_def begin_exchange_def using assms(1)
    by (auto intro!: settled_bind settled_pure settled_send settled_collect split: option.split)
  then show ?thesis
    using settledD [where m = "exchange I T apdu"] assms(2,3) by (fastforce simp: settles_def)
qed

section \<open>A scripted reader\<close>

text \<open>The transceiver of the crate's own tests: canned answers in order, then failures; and a block codec with
  one-byte control fields and no block numbers.\<close>

definition scripted :: "(bytes list \<times> u32, unit) transceiver" where
  "scripted =
    \<lparr>tc_transceive = (\<lambda>_ (rs, ms). case rs of [] \<Rightarrow> (Inl (), ([], ms)) | r # rs \<Rightarrow> (Inr r, (rs, ms))),
     tc_try_enable_hw_crc = (\<lambda>t. (False, t)),
     tc_try_set_timeout_ms = (\<lambda>ms (rs, _). (rs, ms))\<rparr>"

definition plain_blocks :: "(unit, bytes, unit, nat, nat) iso_crate" where
  "plain_blocks =
    \<lparr>ic_other = (), ic_frame_size = (), ic_handler = (\<lambda>_. ()), ic_begin_exchange = id,
     ic_build_iblock = (\<lambda>d chaining h. (Inr ((if chaining then 0x12 else 0x02) # d), h)),
     ic_build_rnak = (\<lambda>h. (Inr [0xB2], h)), ic_build_deselect = (\<lambda>h. (Inr [0xC2], h)),
     ic_process_received = (\<lambda>b h. (case b of
         [] \<Rightarrow> Inl ()
       | pcb # d \<Rightarrow> Inr (if pcb = 0xF2 then AcReply b else if pcb = 0xA2 then AcChainingAck else AcComplete d), h)),
     ic_to_bytes = Inr, ic_try_from = (\<lambda>f. Inr (take (length f - 2) f)), ic_from_crc_verified = Inr,
     ic_has_cid = (\<lambda>_. False), ic_is_wtx = (\<lambda>b. b \<noteq> [] \<and> hd b = 0xF2), ic_is_deselect = (\<lambda>b. b = [0xC2]), ic_payload = tl,
     ic_rats = (\<lambda>_ cid. cid), ic_fsd = id, ic_ats_try_from = (\<lambda>_. Inr 64), ic_ats_crc_verified = (\<lambda>_. Inr 64), ic_fsc = id\<rparr>"

definition demo_session :: "unit PcdSession" where
  "demo_session = set_base_fwt_ms 100 (from_ats plain_blocks 6 None False)"

lemma scripted_runs_dry: "runs_dry scripted (\<lambda>(rs, _). length rs)"
  by (auto simp: runs_dry_def scripted_def split: list.splits)

lemma scripted_keeps_timeout: "keeps_timeout scripted snd"
  by (auto simp: keeps_timeout_def scripted_def split: list.splits)

theorem exchange_terminates_witness:
  "\<exists>r st'. exchange plain_blocks scripted [1, 2, 3, 4, 5] (demo_session, ([[0xA2, 0, 0], [0xF2, 2, 0, 0]], 100)) = Some (r, st')"
  by (rule exchange_terminates [OF scripted_runs_dry])

lemma chained_exchange:
  "exchange plain_blocks scripted [1, 2, 3, 4, 5] (demo_session, ([[0xA2, 0, 0], [0xF2, 2, 0, 0], [2, 0x90, 0, 0, 0]], 100)) =
    Some (Inr [0x90, 0], (demo_session, ([], 100)))"
  by code_simp

theorem exchange_restores_timeout_witness:
  "\<exists>r s' t'. exchange plain_blocks scripted [1, 2, 3, 4, 5] (demo_session, ([[0xA2, 0, 0], [0xF2, 2, 0, 0], [2, 0x90, 0, 0, 0]], 100)) =
      Some (r, (s', t')) \<and> snd t' = 100"
  using exchange_restores_timeout [OF scripted_keeps_timeout chained_exchange] chained_exchange
  by (auto simp: demo_session_def set_base_fwt_ms_def)

end
