(* ===== verification/Readers.thy ===== *)
theory Readers
  imports Iso14443
begin

text \<open>
  The NFC front ends as transports: the MFRC522 over the block protocol (\<open>crates/bolty-mfrc522\<close>), the PN532 device
  and its transport (\<open>crates/pn532-transport\<close>, \<open>crates/bolty-pn532\<close>) and the PN7160 (\<open>crates/bolty-pn7160\<close>). The chip
  drivers, the radio and delays are parameters acting on a hardware state.
\<close>

section \<open>Status words\<close>

text \<open>\<open>split_response\<close>, the same in the three crates but for their error types.\<close>

definition split_response :: "(nat \<Rightarrow> 'e) \<Rightarrow> bytes \<Rightarrow> ('e, Response) result" where
  "split_response invalid_length response =
    (if length response < 2 then Inl (invalid_length (length response))
     else let split = length response - 2
          in Inr \<lparr>rs_data = take split response, rs_sw1 = response ! split, rs_sw2 = response ! (split + 1)\<rparr>)"

lemma split_response_join:
  "split_response bad response = Inr r \<longleftrightarrow> response = rs_data r @ [rs_sw1 r, rs_sw2 r]"
proof
  assume "split_response bad response = Inr r"
  then have "2 \<le> length response" and r: "r = \<lparr>rs_data = take (length response - 2) response,
      rs_sw1 = response ! (length response - 2), rs_sw2 = response ! (length response - 2 + 1)\<rparr>"
    by (auto simp: split_response_def Let_def split: if_splits)
  then obtain n where n: "length response = n + 2"
    by (metis le_add_diff_inverse2)
  have "response = take n response @ [response ! n, response ! (n + 1)]"
    using n by (metis (no_types, lifting) Cons_nth_drop_Suc Suc_eq_plus1 add_2_eq_Suc' append_take_drop_id drop_all lessI less_Suc_eq order_refl)
  then show "response = rs_data r @ [rs_sw1 r, rs_sw2 r]"
    using n r by simp
next
  assume "response = rs_data r @ [rs_sw1 r, rs_sw2 r]"
  then show "split_response bad response = Inr r"
    by (cases r) (simp add: split_response_def Let_def nth_append)
qed

section \<open>MFRC522\<close>

datatype ('e, 'w, 'x) MfError =
    MfMfrc522 'e | MfActivation 'w | MfProtocol "('e, 'x) PcdError" | MfInvalidCid
  | MfInvalidResponseLength nat | MfInvalidUidLength nat | MfUnsupportedTag

record activation =
  av_iso14443_4_compliant :: bool
  av_uid :: bytes

text \<open>The transceiver driver, the wake-up of the \<open>iso14443\<close> crate, the delay hook and what the crate reads off an ATS.\<close>

record ('t, 'e, 'w, 'a, 'd) mfrc522 =
  mf_transceiver :: "('t, 'e) transceiver"
  mf_prepare_for_activation :: "'t \<Rightarrow> ('e, unit) result \<times> 't"
  mf_prepare_for_activation_with_delays :: "'t \<Rightarrow> ('e, unit) result \<times> 't"
  mf_delay_ms :: "u32 \<Rightarrow> 't \<Rightarrow> 't"
  mf_wakeup :: "'t \<Rightarrow> ('w, activation) result \<times> 't"
  mf_enable_hw_crc :: "'t \<Rightarrow> ('e, unit) result \<times> 't"
  mf_set_timeout_ms :: "u32 \<Rightarrow> 't \<Rightarrow> ('e, unit) result \<times> 't"
  mf_timeout :: 'e
  mf_cid0 :: "byte option"
  mf_fsd64 :: 'd
  mf_fwt_micros :: "'a \<Rightarrow> nat"
  mf_ats_bytes :: "'a \<Rightarrow> bytes option"

definition ACTIVATION_ATTEMPTS :: nat where
  "ACTIVATION_ATTEMPTS = 4"

definition ACTIVATION_SETTLE_MS :: u32 where
  "ACTIVATION_SETTLE_MS = 15"

definition is_retryable_activation_error :: "('e, 'w, 'x) MfError \<Rightarrow> bool" where
  "is_retryable_activation_error e =
    (case e of MfUnsupportedTag \<Rightarrow> False | MfInvalidUidLength _ \<Rightarrow> False | MfInvalidCid \<Rightarrow> False | _ \<Rightarrow> True)"

definition validate_uid :: "bytes \<Rightarrow> (('e, 'w, 'x) MfError, unit) result" where
  "validate_uid uid = (if length uid = 4 \<or> length uid = 7 then Inr () else Inl (MfInvalidUidLength (length uid)))"

text \<open>The waiting time with and without the standard library.\<close>

definition frame_wait_time_ms_std :: "('t, 'e, 'w, 'a, 'd) mfrc522 \<Rightarrow> 'a \<Rightarrow> u32" where
  "frame_wait_time_ms_std M ats =
    (let us = of_nat (mf_fwt_micros M ats) :: u32 in if us = 0 then 5 else us div 1000 + 10)"

definition fwi_from_ats :: "('t, 'e, 'w, 'a, 'd) mfrc522 \<Rightarrow> 'a \<Rightarrow> byte option" where
  "fwi_from_ats M ats =
    Option.bind (mf_ats_bytes M ats) (\<lambda>bytes.
      if length bytes \<le> 1 then None
      else let t0 = bytes ! 1;
               i = (if t0 AND 0x10 \<noteq> 0 then 3 else 2)
           in if t0 AND 0x20 = 0 then None
              else if i < length bytes then Some (drop_bit 4 (bytes ! i)) else None)"

definition frame_wait_time_ms :: "('t, 'e, 'w, 'a, 'd) mfrc522 \<Rightarrow> 'a \<Rightarrow> u32" where
  "frame_wait_time_ms M ats =
    (let fwi = (case fwi_from_ats M ats of None \<Rightarrow> 4 | Some f \<Rightarrow> unat f);
         us = 302 * 2 ^ fwi :: nat
     in of_nat (us div 1000) + 10)"

record ('t, 'h) Mfrc522Transport =
  mt_transceiver :: 't
  mt_session :: "'h PcdSession"
  mt_uid :: bytes

type_synonym ('t, 'e, 'w, 'x, 'h) mf_result = "(('e, 'w, 'x) MfError, ('t, 'h) Mfrc522Transport) result \<times> 't"

definition from_activation ::
    "('h, 'b, 'x, 'a, 'd) iso_crate \<Rightarrow> ('t, 'e, 'w, 'a, 'd) mfrc522 \<Rightarrow> ('a \<Rightarrow> u32) \<Rightarrow> activation \<Rightarrow> 't \<Rightarrow>
      ('t, 'e, 'w, 'x, 'h) mf_result" where
  "from_activation I M fwt activation t =
    (if \<not> av_iso14443_4_compliant activation then (Inl MfUnsupportedTag, t)
     else case validate_uid (av_uid activation) of Inl e \<Rightarrow> (Inl e, t) | Inr _ \<Rightarrow>
     case mf_cid0 M of None \<Rightarrow> (Inl MfInvalidCid, t) | Some cid \<Rightarrow>
     case from_connect I (mf_transceiver M) (mf_fsd64 M) cid t of
       (Inl e, t) \<Rightarrow> (Inl (MfProtocol e), t)
     | (Inr (_, ats), t) \<Rightarrow>
         (case mf_enable_hw_crc M t of
           (Inl e, t) \<Rightarrow> (Inl (MfMfrc522 e), t)
         | (Inr _, t) \<Rightarrow>
             let session = set_fsd (min (ic_fsc I ats) 64) (set_fsc (min (ic_fsc I ats) 64) (from_ats I ats None True))
             in case mf_set_timeout_ms M (fwt ats) t of
                  (Inl e, t) \<Rightarrow> (Inl (MfMfrc522 e), t)
                | (Inr _, t) \<Rightarrow>
                    (Inr \<lparr>mt_transceiver = t, mt_session = set_base_fwt_ms (fwt ats) session, mt_uid = av_uid activation\<rparr>, t)))"

definition activate_after_prepare ::
    "('h, 'b, 'x, 'a, 'd) iso_crate \<Rightarrow> ('t, 'e, 'w, 'a, 'd) mfrc522 \<Rightarrow> ('a \<Rightarrow> u32) \<Rightarrow> 't \<Rightarrow> ('t, 'e, 'w, 'x, 'h) mf_result" where
  "activate_after_prepare I M fwt t =
    (case mf_wakeup M t of
      (Inl e, t) \<Rightarrow> (Inl (MfActivation e), t)
    | (Inr activation, t) \<Rightarrow> from_activation I M fwt activation t)"

definition mf_activate ::
    "('h, 'b, 'x, 'a, 'd) iso_crate \<Rightarrow> ('t, 'e, 'w, 'a, 'd) mfrc522 \<Rightarrow> ('a \<Rightarrow> u32) \<Rightarrow> 't \<Rightarrow> ('t, 'e, 'w, 'x, 'h) mf_result" where
  "mf_activate I M fwt t =
    (case mf_prepare_for_activation M t of
      (Inl e, t) \<Rightarrow> (Inl (MfMfrc522 e), t)
    | (Inr _, t) \<Rightarrow> activate_after_prepare I M fwt t)"

text \<open>One round of the ladder, up to the answer to the wake-up.\<close>

definition wake_round ::
    "('t, 'e, 'w, 'a, 'd) mfrc522 \<Rightarrow> 't \<Rightarrow> ('e + 'w, activation) result \<times> 't" where
  "wake_round M t =
    (case mf_prepare_for_activation_with_delays M t of
      (Inl e, t) \<Rightarrow> (Inl (Inl e), t)
    | (Inr _, t) \<Rightarrow> apfst (map_err Inr) (mf_wakeup M (mf_delay_ms M ACTIVATION_SETTLE_MS t)))"

fun activation_ladder ::
    "('h, 'b, 'x, 'a, 'd) iso_crate \<Rightarrow> ('t, 'e, 'w, 'a, 'd) mfrc522 \<Rightarrow> ('a \<Rightarrow> u32) \<Rightarrow> nat \<Rightarrow> ('e, 'w, 'x) MfError option \<Rightarrow> 't \<Rightarrow>
      ('t, 'e, 'w, 'x, 'h) mf_result" where
  "activation_ladder I M fwt 0 last_err t = (Inl (case last_err of None \<Rightarrow> MfMfrc522 (mf_timeout M) | Some e \<Rightarrow> e), t)"
| "activation_ladder I M fwt (Suc n) last_err t =
    (case wake_round M t of
      (Inr activation, t) \<Rightarrow> from_activation I M fwt activation t
    | (Inl e, t) \<Rightarrow> activation_ladder I M fwt n (Some (case_sum MfMfrc522 MfActivation e)) t)"

definition activate_with_delays ::
    "('h, 'b, 'x, 'a, 'd) iso_crate \<Rightarrow> ('t, 'e, 'w, 'a, 'd) mfrc522 \<Rightarrow> ('a \<Rightarrow> u32) \<Rightarrow> 't \<Rightarrow> ('t, 'e, 'w, 'x, 'h) mf_result" where
  "activate_with_delays I M fwt t = activation_ladder I M fwt ACTIVATION_ATTEMPTS None t"

definition mf_transmit ::
    "('h, 'b, 'x, 'a, 'd) iso_crate \<Rightarrow> ('t, 'e, 'w, 'a, 'd) mfrc522 \<Rightarrow> bytes \<Rightarrow>
      (('t, 'h) Mfrc522Transport, ('e, 'w, 'x) MfError, Response) prog" where
  "mf_transmit I M apdu st =
    (case exchange I (mf_transceiver M) apdu (mt_session st, mt_transceiver st) of
      None \<Rightarrow> None
    | Some (r, (session, t)) \<Rightarrow>
        Some (bind_r (map_err MfProtocol r) (split_response MfInvalidResponseLength),
          st\<lparr>mt_session := session, mt_transceiver := t\<rparr>))"

definition mf_link ::
    "aes_crate \<Rightarrow> bool \<Rightarrow> ('h, 'b, 'x, 'a, 'd) iso_crate \<Rightarrow> ('t, 'e, 'w, 'a, 'd) mfrc522 \<Rightarrow>
      (('t, 'h) Mfrc522Transport, ('e, 'w, 'x) MfError) link" where
  "mf_link aes compatible I M =
    \<lparr>lk_aes = aes, lk_transmit = mf_transmit I M, lk_get_uid = (\<lambda>st. Some (Inr (mt_uid st), st)), lk_compat = compatible\<rparr>"

section \<open>PN532\<close>

datatype PnError = PnNotInitialized | PnNoCard | PnCommunication | PnBufferOverflow

datatype pn_request =
    GetFirmwareVersion | SamConfiguration | InListOneIsoATarget | InDataExchange bytes | InRelease byte

text \<open>The \<open>pn532\<close> crate and the reset pin: one request with the length of the answer and a timeout, and the pin levels.\<close>

record 'c pn532 =
  pn_process :: "pn_request \<Rightarrow> nat \<Rightarrow> nat \<Rightarrow> 'c \<Rightarrow> bytes option \<times> 'c"
  pn_set_low :: "'c \<Rightarrow> bool \<times> 'c"
  pn_set_high :: "'c \<Rightarrow> bool \<times> 'c"
  pn_delay_ms :: "u32 \<Rightarrow> 'c \<Rightarrow> 'c"
  pn_buf :: nat

definition max_response_len :: "nat \<Rightarrow> nat" where
  "max_response_len buf = buf - 9"

definition byte_at :: "bytes \<Rightarrow> nat \<Rightarrow> byte \<Rightarrow> byte" where
  "byte_at bs i d = (if i < length bs then bs ! i else d)"

definition get_firmware_version :: "'c pn532 \<Rightarrow> ('c, PnError, byte \<times> byte) prog" where
  "get_firmware_version N c =
    (case pn_process N GetFirmwareVersion 4 50 c of
      (None, c) \<Rightarrow> Some (Inl PnCommunication, c)
    | (Some response, c) \<Rightarrow>
        Some (if length response < 4 \<or> response ! 0 \<noteq> 0x32 then Inl PnCommunication
              else Inr (byte_at response 1 0, byte_at response 2 0), c))"

definition configure_sam :: "'c pn532 \<Rightarrow> ('c, PnError, unit) prog" where
  "configure_sam N c =
    (case pn_process N SamConfiguration 0 50 c of
      (None, c) \<Rightarrow> Some (Inl PnCommunication, c)
    | (Some _, c) \<Rightarrow> Some (Inr (), c))"

definition inlist_passive_target :: "'c pn532 \<Rightarrow> ('c, PnError, (byte \<times> bytes) option) prog" where
  "inlist_passive_target N c =
    (case pn_process N InListOneIsoATarget (min (max_response_len (pn_buf N)) 20) 1000 c of
      (None, c) \<Rightarrow> Some (Inl PnCommunication, c)
    | (Some response, c) \<Rightarrow>
        Some (Inr (if byte_at response 0 0 = 0 then None
          else let uid_len = unat (byte_at response 5 0)
               in Some (byte_at response 1 0,
                 if 6 + uid_len \<le> length response then take uid_len (drop 6 response) else [])), c))"

definition in_data_exchange :: "'c pn532 \<Rightarrow> byte \<Rightarrow> bytes \<Rightarrow> ('c, PnError, bytes) prog" where
  "in_data_exchange N target_num data c =
    (case pn_process N (InDataExchange (target_num # data)) (max_response_len (pn_buf N)) 1000 c of
      (None, c) \<Rightarrow> Some (Inl PnCommunication, c)
    | (Some result, c) \<Rightarrow> Some (if byte_at result 0 0xFF \<noteq> 0 then Inl PnCommunication else Inr (drop 1 result), c))"

definition in_release :: "'c pn532 \<Rightarrow> byte \<Rightarrow> 'c \<Rightarrow> 'c" where
  "in_release N target_num c = snd (pn_process N (InRelease target_num) 0 50 c)"

record 'c Pn532Device =
  pv_chip :: 'c
  pv_target_num :: "byte option"
  pv_initialized :: bool
  pv_uid :: "bytes option"

definition pn_device_new :: "'c \<Rightarrow> 'c Pn532Device" where
  "pn_device_new c = \<lparr>pv_chip = c, pv_target_num = None, pv_initialized = False, pv_uid = None\<rparr>"

definition on_chip :: "('c, 'e, 'a) prog \<Rightarrow> ('c Pn532Device, 'e, 'a) prog" where
  "on_chip m d = (case m (pv_chip d) of None \<Rightarrow> None | Some (r, c) \<Rightarrow> Some (r, d\<lparr>pv_chip := c\<rparr>))"

definition pin_level :: "('c \<Rightarrow> bool \<times> 'c) \<Rightarrow> ('c, PnError, unit) prog" where
  "pin_level f c = (case f c of (ok, c) \<Rightarrow> Some (if ok then Inr () else Inl PnCommunication, c))"

definition init_with_delay :: "'c pn532 \<Rightarrow> ('c Pn532Device, PnError, unit) prog" where
  "init_with_delay N =
    bind_p (on_chip (pin_level (pn_set_low N))) (\<lambda>_.
    bind_p (on_chip (\<lambda>c. Some (Inr (), pn_delay_ms N 100 c))) (\<lambda>_.
    bind_p (on_chip (pin_level (pn_set_high N))) (\<lambda>_.
    bind_p (on_chip (\<lambda>c. Some (Inr (), pn_delay_ms N 500 c))) (\<lambda>_.
    bind_p (on_chip (get_firmware_version N)) (\<lambda>_.
    bind_p (on_chip (configure_sam N)) (\<lambda>_.
      (\<lambda>d. Some (Inr (), d\<lparr>pv_initialized := True\<rparr>))))))))"

definition detect_card :: "'c pn532 \<Rightarrow> ('c Pn532Device, PnError, bool) prog" where
  "detect_card N d =
    (if \<not> pv_initialized d then Some (Inr False, d)
     else catch_p (on_chip (inlist_passive_target N)) (\<lambda>r d. case r of
         Inr (Some (target_num, uid)) \<Rightarrow> Some (Inr True, d\<lparr>pv_target_num := Some target_num, pv_uid := Some uid\<rparr>)
       | _ \<Rightarrow> Some (Inr False, d\<lparr>pv_target_num := None, pv_uid := None\<rparr>)) d)"

definition exchange_apdu :: "'c pn532 \<Rightarrow> bytes \<Rightarrow> ('c Pn532Device, PnError, bytes) prog" where
  "exchange_apdu N apdu d =
    (if \<not> pv_initialized d then Some (Inl PnNotInitialized, d)
     else case pv_target_num d of
       None \<Rightarrow> Some (Inl PnNoCard, d)
     | Some target_num \<Rightarrow> on_chip (in_data_exchange N target_num apdu) d)"

definition release_card :: "'c pn532 \<Rightarrow> 'c Pn532Device \<Rightarrow> 'c Pn532Device" where
  "release_card N d =
    (case pv_target_num d of
      None \<Rightarrow> d
    | Some target_num \<Rightarrow> d\<lparr>pv_chip := in_release N target_num (pv_chip d), pv_target_num := None, pv_uid := None\<rparr>)"

datatype PtError = PtDevice PnError | PtInvalidResponseLength nat | PtNoCard

record 'c Pn532Transport =
  pt_device :: "'c Pn532Device"
  pt_uid :: "bytes option"

definition on_device :: "('c Pn532Device, PnError, 'a) prog \<Rightarrow> ('c Pn532Transport, PtError, 'a) prog" where
  "on_device m t = (case m (pt_device t) of None \<Rightarrow> None | Some (r, d) \<Rightarrow> Some (map_err PtDevice r, t\<lparr>pt_device := d\<rparr>))"

definition finish_activation :: "'c pn532 \<Rightarrow> ('c Pn532Transport, PtError, unit) prog" where
  "finish_activation N =
    bind_p (on_device (detect_card N)) (\<lambda>found.
      if \<not> found then throw_p PtNoCard
      else (\<lambda>t. Some (Inr (), t\<lparr>pt_uid := pv_uid (pt_device t)\<rparr>)))"

definition pn_activate_with_delay :: "'c pn532 \<Rightarrow> ('c Pn532Transport, PtError, unit) prog" where
  "pn_activate_with_delay N t =
    bind_p (if pv_initialized (pt_device t) then return_p () else on_device (init_with_delay N)) (\<lambda>_. finish_activation N) t"

text \<open>\<open>activate\<close> where the device has no default delay: only a device that is initialized already gets further.\<close>

definition pn_activate :: "'c pn532 \<Rightarrow> ('c Pn532Transport, PtError, unit) prog" where
  "pn_activate N t =
    bind_p (if pv_initialized (pt_device t) then return_p () else throw_p (PtDevice PnNotInitialized)) (\<lambda>_. finish_activation N) t"

definition pn_release :: "'c pn532 \<Rightarrow> 'c Pn532Transport \<Rightarrow> 'c Pn532Transport" where
  "pn_release N t = t\<lparr>pt_device := release_card N (pt_device t), pt_uid := None\<rparr>"

definition pn_transmit :: "'c pn532 \<Rightarrow> bytes \<Rightarrow> ('c Pn532Transport, PtError, Response) prog" where
  "pn_transmit N apdu = bind_p (on_device (exchange_apdu N apdu)) (\<lambda>response. lift_r (split_response PtInvalidResponseLength response))"

definition pn_get_uid :: "('c Pn532Transport, PtError, bytes) prog" where
  "pn_get_uid t = Some (ok_or PtNoCard (pt_uid t), t)"

definition pn_link :: "aes_crate \<Rightarrow> bool \<Rightarrow> 'c pn532 \<Rightarrow> ('c Pn532Transport, PtError) link" where
  "pn_link aes compatible N = \<lparr>lk_aes = aes, lk_transmit = pn_transmit N, lk_get_uid = pn_get_uid, lk_compat = compatible\<rparr>"

section \<open>PN7160\<close>

text \<open>The NCI driver: its calls return a length together with what they left in the caller's buffer.\<close>

record ('d, 'e) pn7160 =
  p7_init :: "'d \<Rightarrow> ('e, unit) result \<times> 'd"
  p7_power_on :: "'d \<Rightarrow> ('e, nat \<times> bytes) result \<times> 'd"
  p7_uid :: "'d \<Rightarrow> bytes"
  p7_transmit_apdu :: "bytes \<Rightarrow> 'd \<Rightarrow> ('e, nat \<times> bytes) result \<times> 'd"
  p7_buffer_too_small :: 'e

datatype 'e P7Error = P7Init 'e | P7PowerOn 'e | P7Exchange 'e | P7InvalidResponseLength nat

record 'd Pn7160Transport =
  p7_driver :: 'd
  p7_cur_uid :: bytes
  p7_atr :: bytes

definition get_prefix :: "nat \<Rightarrow> bytes \<Rightarrow> bytes option" where
  "get_prefix n buf = (if n \<le> length buf then Some (take n buf) else None)"

definition p7_new_initialized :: "('d, 'e) pn7160 \<Rightarrow> 'd \<Rightarrow> ('e P7Error, 'd Pn7160Transport) result" where
  "p7_new_initialized N d =
    (case p7_init N d of
      (Inl e, d) \<Rightarrow> Inl (P7Init e)
    | (Inr _, d) \<Rightarrow> Inr \<lparr>p7_driver = d, p7_cur_uid = [], p7_atr = []\<rparr>)"

definition power_on :: "('d, 'e) pn7160 \<Rightarrow> ('d Pn7160Transport, 'e P7Error, unit) prog" where
  "power_on N t =
    (case p7_power_on N (p7_driver t) of
      (Inl e, d) \<Rightarrow> Some (Inl (P7PowerOn e), t\<lparr>p7_driver := d\<rparr>)
    | (Inr (n, atr), d) \<Rightarrow>
        (case get_prefix n atr of
          None \<Rightarrow> Some (Inl (P7PowerOn (p7_buffer_too_small N)), t\<lparr>p7_driver := d\<rparr>)
        | Some atr \<Rightarrow> Some (Inr (), t\<lparr>p7_driver := d, p7_atr := atr, p7_cur_uid := p7_uid N d\<rparr>)))"

definition p7_activate :: "('d, 'e) pn7160 \<Rightarrow> 'd \<Rightarrow> (('e P7Error, 'd Pn7160Transport) result) option" where
  "p7_activate N d =
    (case p7_new_initialized N d of
      Inl e \<Rightarrow> Some (Inl e)
    | Inr t \<Rightarrow> (case power_on N t of None \<Rightarrow> None | Some (Inl e, _) \<Rightarrow> Some (Inl e) | Some (Inr _, t) \<Rightarrow> Some (Inr t)))"

definition p7_transmit :: "('d, 'e) pn7160 \<Rightarrow> bytes \<Rightarrow> ('d Pn7160Transport, 'e P7Error, Response) prog" where
  "p7_transmit N apdu t =
    (case p7_transmit_apdu N apdu (p7_driver t) of
      (Inl e, d) \<Rightarrow> Some (Inl (P7Exchange e), t\<lparr>p7_driver := d\<rparr>)
    | (Inr (n, buf), d) \<Rightarrow>
        Some (bind_r (ok_or (P7Exchange (p7_buffer_too_small N)) (get_prefix n buf)) (split_response P7InvalidResponseLength),
          t\<lparr>p7_driver := d\<rparr>))"

definition p7_link :: "aes_crate \<Rightarrow> bool \<Rightarrow> ('d, 'e) pn7160 \<Rightarrow> ('d Pn7160Transport, 'e P7Error) link" where
  "p7_link aes compatible N =
    \<lparr>lk_aes = aes, lk_transmit = p7_transmit N, lk_get_uid = (\<lambda>t. Some (Inr (p7_cur_uid t), t)), lk_compat = compatible\<rparr>"

section \<open>Properties\<close>

text \<open>The transceiver after a number of unanswered rounds.\<close>

primrec after_rounds :: "('t, 'e, 'w, 'a, 'd) mfrc522 \<Rightarrow> nat \<Rightarrow> 't \<Rightarrow> 't" where
  "after_rounds M 0 t = t"
| "after_rounds M (Suc n) t = after_rounds M n (snd (wake_round M t))"

text \<open>An answered wake-up goes straight into the session setup: the ladder issues no other.\<close>

lemma activation_ladder_answer:
  assumes "\<And>i. i < k \<Longrightarrow> \<exists>e. fst (wake_round M (after_rounds M i t)) = Inl e"
    and "wake_round M (after_rounds M k t) = (Inr act, t')" and "k < n"
  shows "activation_ladder I M fwt n le t = from_activation I M fwt act t'"
  using assms
proof (induction k arbitrary: n le t)
  case 0
  then show ?case
    by (cases n) simp_all
next
  case (Suc k)
  obtain e t1 where 1: "wake_round M t = (Inl e, t1)"
    using Suc.prems(1) [of 0] by (cases "wake_round M t") auto
  obtain n' where n': "n = Suc n'" "k < n'"
    using Suc.prems(3) by (cases n) auto
  have "\<exists>e. fst (wake_round M (after_rounds M i t1)) = Inl e" if "i < k" for i
    using Suc.prems(1) [of "Suc i"] that by (simp add: 1)
  then show ?case
    using Suc.IH [of t1 n'] Suc.prems(2) n' by (simp add: 1)
qed

text \<open>Frames of an activated MFRC522 fit its 64-byte queue, and the session knows the waiting time set in the reader.\<close>

lemma from_activation_session:
  assumes "from_activation I M fwt act t = (Inr tr, t')"
  shows "is_fsc (mt_session tr) \<le> 64" "is_fsd (mt_session tr) \<le> 64" "is_hw_crc (mt_session tr)" "mt_transceiver tr = t'"
    "mt_uid tr = av_uid act" "length (mt_uid tr) = 4 \<or> length (mt_uid tr) = 7"
  using assms
  by (auto simp: from_activation_def validate_uid_def set_fsd_def set_fsc_def set_base_fwt_ms_def from_ats_def Let_def
      split: if_splits sum.splits option.splits prod.splits)

lemma frame_wait_time_bound: "unat (frame_wait_time_ms M ats) \<le> 9905"
proof -
  define fwi where "fwi = (case fwi_from_ats M ats of None \<Rightarrow> 4 | Some f \<Rightarrow> unat f)"
  have "unat (drop_bit 4 b) < 16" for b :: byte
    using unsigned_less [of b, where 'a = nat] by (simp add: unat_drop_bit_eq drop_bit_eq_div unat_div)
  then have "fwi \<le> 15"
    by (auto simp: fwi_def fwi_from_ats_def Let_def less_Suc_eq_le [symmetric] split: option.splits bind_splits if_splits)
  then have "302 * 2 ^ fwi \<le> (302 * 2 ^ 15 :: nat)"
    by (intro mult_le_mono2 power_increasing) auto
  then have "(302 * 2 ^ fwi :: nat) div 1000 \<le> 9895"
    by simp
  moreover have "frame_wait_time_ms M ats = of_nat ((302 * 2 ^ fwi) div 1000 + 10)"
    by (simp add: frame_wait_time_ms_def Let_def fwi_def)
  ultimately show ?thesis
    by (simp only: unat_of_nat) simp
qed

text \<open>With the waiting times an ATS can announce, an extension never overflows its 32 bits.\<close>

lemma wtx_timeout_exact:
  assumes "unat base \<le> 9905"
  shows "unat (wtx_timeout I reply base) = max (case ic_payload I reply of [] \<Rightarrow> 1 | b # _ \<Rightarrow> unat b) 1 * unat base"
proof -
  define w where "w = (case ic_payload I reply of [] \<Rightarrow> 1 | b # _ \<Rightarrow> (ucast b :: u32))"
  have w: "unat w = (case ic_payload I reply of [] \<Rightarrow> 1 | b # _ \<Rightarrow> unat b)"
    by (simp add: w_def unsigned_ucast_eq take_bit_nat_eq_self_iff order.strict_trans [OF unsigned_less] split: list.split)
  moreover have "unat w \<le> 255"
    using unsigned_less [where 'a = nat and 'b = 8] by (auto simp: w less_Suc_eq_le [symmetric] split: list.splits)
  then have "unat w * unat base \<le> 255 * 9905"
    using assms by (intro mult_le_mono)
  then have "unat (w * base) = unat w * unat base"
    by (simp add: unat_mult_lem [THEN iffD1])
  ultimately show ?thesis
    by (cases "unat w") (auto simp: wtx_timeout_def Let_def max_def word_le_nat_alt simp flip: w_def)
qed

text \<open>After a failed activation the PN532 transport still reports the identifier of the card it saw before.\<close>

lemma pn_stale_uid:
  assumes "pv_initialized (pt_device t)" "fst (pn_process N InListOneIsoATarget (min (max_response_len (pn_buf N)) 20) 1000 (pv_chip (pt_device t))) = Some [0]"
    "pt_uid t = Some uid"
  shows "\<exists>t'. pn_activate_with_delay N t = Some (Inl PtNoCard, t') \<and> pn_get_uid t' = Some (Inr uid, t') \<and>
    pn_transmit N apdu t' = Some (Inl (PtDevice PnNoCard), t')"
  using assms
  by (cases "pn_process N InListOneIsoATarget (min (max_response_len (pn_buf N)) 20) 1000 (pv_chip (pt_device t))")
    (auto simp: pn_activate_with_delay_def finish_activation_def bind_p_def on_device_def detect_card_def catch_p_def on_chip_def
      inlist_passive_target_def byte_at_def pn_get_uid_def ok_or_def pn_transmit_def exchange_apdu_def)

end
