(* ===== verification/FwConsole.thy ===== *)
theory FwConsole
  imports Assessment Utf8
begin

text \<open>
  The console of the ESP32 firmware: \<open>console_framing.rs\<close> folds the bytes of the serial line into lines of
  bounded length, \<open>commands.rs\<close> turns a line into a command. A \<open>heapless::String\<close> is a string whose
  \<open>push\<close> fails beyond its capacity. The framing refines a reference that splits the whole stream at
  newlines.
\<close>

section \<open>Strings of bounded capacity\<close>

definition hl_push_str :: "nat \<Rightarrow> string \<Rightarrow> string \<Rightarrow> string option" where
  "hl_push_str cap s t = (if length s + length t \<le> cap then Some (s @ t) else None)"

text \<open>\<open>byte as char\<close> is the character with that code point; pushing it appends its UTF-8 form.\<close>

definition latin1_char :: "byte \<Rightarrow> string" where
  "latin1_char b =
    str_of_bytes (if b < 0x80 then [b] else [0xC0 OR drop_bit 6 b, 0x80 OR (b AND 0x3F)])"

definition eq_ignore_ascii_case :: "string \<Rightarrow> string \<Rightarrow> bool" where
  "eq_ignore_ascii_case a b = (map ascii_lower a = map ascii_lower b)"

definition is_ascii_whitespace :: "char \<Rightarrow> bool" where
  "is_ascii_whitespace c = (of_char c \<in> {0x09, 0x0A, 0x0C, 0x0D, 0x20 :: nat})"

function split_ascii_whitespace :: "string \<Rightarrow> string list" where
  "split_ascii_whitespace s =
    (case dropWhile is_ascii_whitespace s of
      [] \<Rightarrow> []
    | c # r \<Rightarrow> (c # takeWhile (\<lambda>x. \<not> is_ascii_whitespace x) r) #
        split_ascii_whitespace (dropWhile (\<lambda>x. \<not> is_ascii_whitespace x) r))"
  by pat_completeness auto
termination
proof (relation "measure length", goal_cases)
  case (2 s c r)
  have "length (dropWhile (\<lambda>x. \<not> is_ascii_whitespace x) r) \<le> length r" "length (c # r) \<le> length s"
    using length_dropWhile_le [of is_ascii_whitespace s] 2 by (simp_all add: length_dropWhile_le)
  then show ?case
    by simp
qed simp

declare split_ascii_whitespace.simps [simp del]

section \<open>Framing\<close>

definition MAX_LINE_LEN :: nat where
  "MAX_LINE_LEN = 512"

datatype LineEvent = EvLine string | EvOverflow

record LineAssembler =
  la_line :: string
  la_discarding :: bool
  la_done :: bool

definition assembler_new :: LineAssembler where
  "assembler_new = \<lparr>la_line = [], la_discarding = False, la_done = False\<rparr>"

definition feed :: "nat \<Rightarrow> LineAssembler \<Rightarrow> byte \<Rightarrow> LineEvent option \<times> LineAssembler" where
  "feed cap la byte =
    (let la = (if la_done la then la\<lparr>la_line := [], la_done := False\<rparr> else la)
     in if byte = 0x0D then (None, la)
        else if byte = 0x0A then
          (if la_discarding la then (None, la\<lparr>la_discarding := False\<rparr>)
           else if la_line la = [] then (None, la)
           else (Some (EvLine (la_line la)), la\<lparr>la_done := True\<rparr>))
        else if la_discarding la then (None, la)
        else case hl_push_str cap (la_line la) (latin1_char byte) of
            None \<Rightarrow> (Some EvOverflow, la\<lparr>la_line := [], la_discarding := True\<rparr>)
          | Some l \<Rightarrow> (None, la\<lparr>la_line := l\<rparr>))"

text \<open>The console loop: every byte that arrives is fed, the events are acted on in order.\<close>

fun feed_all :: "nat \<Rightarrow> LineAssembler \<Rightarrow> bytes \<Rightarrow> LineEvent list \<times> LineAssembler" where
  "feed_all cap la [] = ([], la)"
| "feed_all cap la (b # bs) =
    (let (e, la1) = feed cap la b; (es, la2) = feed_all cap la1 bs
     in ((case e of None \<Rightarrow> es | Some x \<Rightarrow> x # es), la2))"

section \<open>Commands\<close>

datatype ButtonMode = Simple | Legacy

definition button_mode_as_str :: "ButtonMode \<Rightarrow> string" where
  "button_mode_as_str m = (case m of Simple \<Rightarrow> ''simple'' | Legacy \<Rightarrow> ''legacy'')"

definition button_mode_from_str :: "string \<Rightarrow> ButtonMode option" where
  "button_mode_from_str s =
    (if eq_ignore_ascii_case s ''simple'' then Some Simple
     else if eq_ignore_ascii_case s ''legacy'' then Some Legacy else None)"

datatype Command =
    CmHelp | CmI2cScan | CmUid | CmStatus
  | CmSetKeys CardKeys | CmSetIssuer AesKey | CmSetUrl string
  | CmSetWifi (wifi_ssid: string) (wifi_password: string) | CmWifiOff
  | CmOta (ota_url: string) (ota_signature: string)
  | CmBurn | CmWipe | CmNdef | CmAuth | CmVer | CmKeyVer | CmCheck | CmDummyBurn | CmReset | CmInspect
  | CmPicc | CmDiagnose | CmDeriveKeys | CmIssuer | CmHwInfo
  | CmButtonMode | CmButtonModeSet ButtonMode | CmSetToken "string option"

datatype CommandError = UnknownCommand | InvalidArgs | MissingArgs

definition parse_hex_key :: "string \<Rightarrow> bytes option" where
  "parse_hex_key s = (case decode_hex 16 s of Inl _ \<Rightarrow> None | Inr k \<Rightarrow> Some k)"

definition parse_key_arg :: "string list \<Rightarrow> (CommandError, bytes \<times> string list) result" where
  "parse_key_arg parts =
    (case parts of
      [] \<Rightarrow> Inl MissingArgs
    | v # rest \<Rightarrow> bind_r (ok_or InvalidArgs (parse_hex_key v)) (\<lambda>k. Inr (k, rest)))"

definition parse_keys_command :: "string list \<Rightarrow> (CommandError, Command) result" where
  "parse_keys_command parts =
    bind_r (parse_key_arg parts) (\<lambda>(k0, parts).
    bind_r (parse_key_arg parts) (\<lambda>(k1, parts).
    bind_r (parse_key_arg parts) (\<lambda>(k2, parts).
    bind_r (parse_key_arg parts) (\<lambda>(k3, parts).
    bind_r (parse_key_arg parts) (\<lambda>(k4, parts).
      if parts \<noteq> [] then Inl InvalidArgs
      else Inr (CmSetKeys \<lparr>ck_k0 = AesKey k0, ck_k1 = AesKey k1, ck_k2 = AesKey k2, ck_k3 = AesKey k3,
        ck_k4 = AesKey k4\<rparr>))))))"

definition parse_issuer_command :: "string list \<Rightarrow> (CommandError, Command) result" where
  "parse_issuer_command parts =
    (case parts of
      [] \<Rightarrow> Inr CmIssuer
    | hex # rest \<Rightarrow> bind_r (ok_or InvalidArgs (parse_hex_key hex)) (\<lambda>key.
        if rest \<noteq> [] then Inl InvalidArgs else Inr (CmSetIssuer (AesKey key))))"

definition bounded :: "nat \<Rightarrow> string \<Rightarrow> (CommandError, string) result" where
  "bounded cap s = ok_or InvalidArgs (hl_push_str cap [] s)"

definition parse_url_command :: "string list \<Rightarrow> (CommandError, Command) result" where
  "parse_url_command parts =
    (case parts of
      [] \<Rightarrow> Inl MissingArgs
    | url # rest \<Rightarrow> if rest \<noteq> [] then Inl InvalidArgs
        else bind_r (bounded 256 url) (\<lambda>lnurl. Inr (CmSetUrl lnurl)))"

definition parse_wifi_command :: "string list \<Rightarrow> (CommandError, Command) result" where
  "parse_wifi_command parts =
    (case parts of
      [] \<Rightarrow> Inl MissingArgs
    | first # rest \<Rightarrow>
        if eq_ignore_ascii_case first ''off'' then (if rest \<noteq> [] then Inl InvalidArgs else Inr CmWifiOff)
        else case rest of
          [] \<Rightarrow> Inl MissingArgs
        | password # rest \<Rightarrow> if rest \<noteq> [] then Inl InvalidArgs
            else bind_r (bounded 32 first) (\<lambda>ssid. bind_r (bounded 64 password) (\<lambda>pw. Inr (CmSetWifi ssid pw))))"

definition parse_ota_command :: "string list \<Rightarrow> (CommandError, Command) result" where
  "parse_ota_command parts =
    (case parts of
      url # signature # rest \<Rightarrow> if rest \<noteq> [] then Inl InvalidArgs
        else bind_r (bounded 256 url) (\<lambda>u. bind_r (bounded 128 signature) (\<lambda>sig. Inr (CmOta u sig)))
    | _ \<Rightarrow> Inl MissingArgs)"

definition parse_button_mode_command :: "string list \<Rightarrow> (CommandError, Command) result" where
  "parse_button_mode_command parts =
    (case parts of
      [] \<Rightarrow> Inr CmButtonMode
    | arg # rest \<Rightarrow> bind_r (ok_or InvalidArgs (button_mode_from_str arg)) (\<lambda>mode.
        if rest \<noteq> [] then Inl InvalidArgs else Inr (CmButtonModeSet mode)))"

definition parse_token_command :: "string list \<Rightarrow> (CommandError, Command) result" where
  "parse_token_command parts =
    (case parts of
      [] \<Rightarrow> Inl MissingArgs
    | arg # rest \<Rightarrow> if rest \<noteq> [] then Inl InvalidArgs
        else if arg \<in> {''off'', ''none'', ''clear''} then Inr (CmSetToken None)
        else bind_r (bounded 64 arg) (\<lambda>token. Inr (CmSetToken (Some token))))"

definition expect_no_args :: "string list \<Rightarrow> (CommandError, unit) result" where
  "expect_no_args parts = (if parts \<noteq> [] then Inl InvalidArgs else Inr ())"

text \<open>The words that take no argument. All command words differ, so the order of the comparisons is immaterial.\<close>

definition PLAIN_COMMANDS :: "(string \<times> Command) list" where
  "PLAIN_COMMANDS =
    [(''help'', CmHelp), (''i2cscan'', CmI2cScan), (''uid'', CmUid), (''status'', CmStatus), (''burn'', CmBurn),
     (''wipe'', CmWipe), (''ndef'', CmNdef), (''auth'', CmAuth), (''ver'', CmVer), (''keyver'', CmKeyVer),
     (''check'', CmCheck), (''inspect'', CmInspect), (''picc'', CmPicc), (''diagnose'', CmDiagnose),
     (''derivekeys'', CmDeriveKeys), (''reset'', CmReset), (''hwinfo'', CmHwInfo)]"

definition parse_command :: "string \<Rightarrow> (CommandError, Command) result" where
  "parse_command line =
    (let trimmed = str_trim line
     in if trimmed = [] then Inl UnknownCommand
        else case split_ascii_whitespace trimmed of
          [] \<Rightarrow> Inl UnknownCommand
        | command # parts \<Rightarrow>
            (case find (\<lambda>(w, _). eq_ignore_ascii_case command w) PLAIN_COMMANDS of
              Some (_, c) \<Rightarrow> bind_r (expect_no_args parts) (\<lambda>_. Inr c)
            | None \<Rightarrow>
                if eq_ignore_ascii_case command ''keys'' then parse_keys_command parts
                else if eq_ignore_ascii_case command ''issuer'' then parse_issuer_command parts
                else if eq_ignore_ascii_case command ''url'' then parse_url_command parts
                else if eq_ignore_ascii_case command ''wifi'' then parse_wifi_command parts
                else if eq_ignore_ascii_case command ''ota'' then parse_ota_command parts
                else if eq_ignore_ascii_case command ''button-mode'' then parse_button_mode_command parts
                else if eq_ignore_ascii_case command ''token'' then parse_token_command parts
                else Inl UnknownCommand))"

datatype PreDispatchCommand =
    PdCrashlog | PdHwTest | PdProvisionCert | PdProvisionOtaKey string
  | PdForceOn | PdForceOff | PdForceStatus | PdGroveOn | PdGroveOff | PdGroveStatus

text \<open>The argument of \<open>force\<close> and \<open>grove\<close>.\<close>

definition on_off :: "string option \<Rightarrow> 'a \<Rightarrow> 'a \<Rightarrow> 'a \<Rightarrow> 'a option" where
  "on_off arg on off status =
    (case arg of
      None \<Rightarrow> Some status
    | Some a \<Rightarrow> if eq_ignore_ascii_case a ''on'' then Some on
        else if eq_ignore_ascii_case a ''off'' then Some off else None)"

definition parse_pre_dispatch_command :: "string \<Rightarrow> PreDispatchCommand option" where
  "parse_pre_dispatch_command line =
    (let trimmed = str_trim line;
         head = takeWhile (\<lambda>c. \<not> is_ascii_whitespace c) trimmed;
         tail = dropWhile (\<lambda>c. \<not> is_ascii_whitespace c) trimmed;
         rest = (if tail = [] then None else Some (str_trim tail))
     in if rest = None \<and> eq_ignore_ascii_case head ''crashlog'' then Some PdCrashlog
        else if rest = None \<and> eq_ignore_ascii_case head ''hwtest'' then Some PdHwTest
        else if rest = None \<and> eq_ignore_ascii_case head ''provision-cert'' then Some PdProvisionCert
        else if rest \<noteq> None \<and> eq_ignore_ascii_case head ''provision-ota-key'' then Some (PdProvisionOtaKey (the rest))
        else if eq_ignore_ascii_case head ''force'' then on_off rest PdForceOn PdForceOff PdForceStatus
        else if eq_ignore_ascii_case head ''grove'' then on_off rest PdGroveOn PdGroveOff PdGroveStatus
        else None)"

section \<open>Framing refines splitting the stream at newlines\<close>

text \<open>The reference: the complete lines of a stream and what follows the last newline.\<close>

fun stream_lines :: "bytes \<Rightarrow> bytes list \<times> bytes" where
  "stream_lines [] = ([], [])"
| "stream_lines (b # bs) =
    (let (ls, r) = stream_lines bs
     in if b = 0x0A then ([] # ls, r) else case ls of [] \<Rightarrow> ([], b # r) | l # ls' \<Rightarrow> ((b # l) # ls', r))"

definition console_text :: "bytes \<Rightarrow> string" where
  "console_text bs = concat (map latin1_char (filter (\<lambda>b. b \<noteq> 0x0D) bs))"

definition overflow_event :: "nat \<Rightarrow> bytes \<Rightarrow> LineEvent list" where
  "overflow_event cap bs = (if length (console_text bs) > cap then [EvOverflow] else [])"

definition line_events :: "nat \<Rightarrow> bytes \<Rightarrow> LineEvent list" where
  "line_events cap bs =
    (if length (console_text bs) > cap then [EvOverflow]
     else if console_text bs = [] then [] else [EvLine (console_text bs)])"

lemma stream_lines_join:
  "stream_lines bs = (ls, r) \<Longrightarrow> bs = concat (map (\<lambda>l. l @ [0x0A]) ls) @ r \<and> list_all (\<lambda>l. 0x0A \<notin> set l) (r # ls)"
  by (induction bs arbitrary: ls r) (auto split: prod.splits if_splits list.splits)

lemma feed_all_append:
  "feed_all cap la (xs @ ys) =
    (let (es, la1) = feed_all cap la xs; (fs, la2) = feed_all cap la1 ys in (es @ fs, la2))"
  by (induction xs arbitrary: la) (auto split: prod.splits option.splits)

text \<open>The state after the bytes \<open>seg\<close> of a line.\<close>

definition in_line :: "nat \<Rightarrow> bytes \<Rightarrow> LineAssembler \<Rightarrow> bool" where
  "in_line cap seg la =
    (if la_done la then seg = [] \<and> \<not> la_discarding la
     else la_discarding la = (length (console_text seg) > cap) \<and>
       la_line la = (if length (console_text seg) > cap then [] else console_text seg))"

lemma console_text_simps [simp]:
  "console_text [] = []" "console_text [b] = (if b = 0x0D then [] else latin1_char b)"
  "console_text (xs @ [b]) = console_text xs @ (if b = 0x0D then [] else latin1_char b)"
  by (simp_all add: console_text_def)

lemma latin1_char_not_Nil [simp]: "latin1_char b \<noteq> []"
  by (simp add: latin1_char_def str_of_bytes_def)

lemma feed_in_line:
  assumes "in_line cap seg la" "b \<noteq> 0x0A"
  shows "\<exists>la'. feed cap la b = (if length (console_text (seg @ [b])) > cap \<and> length (console_text seg) \<le> cap
      then Some EvOverflow else None, la') \<and> in_line cap (seg @ [b]) la'"
  using assms by (auto simp: in_line_def feed_def hl_push_str_def split: if_splits)

lemma feed_line:
  assumes "0x0A \<notin> set seg" "in_line cap [] la"
  shows "\<exists>la'. feed_all cap la seg = (overflow_event cap seg, la') \<and> in_line cap seg la'"
  using assms(1)
proof (induction seg rule: rev_induct)
  case Nil
  then show ?case
    using assms(2) by (simp add: overflow_event_def)
next
  case (snoc b seg)
  then obtain la1 where 1: "feed_all cap la seg = (overflow_event cap seg, la1)" "in_line cap seg la1"
    by auto
  then show ?case
    using feed_in_line [OF 1(2), of b] snoc.prems
    by (auto simp: feed_all_append overflow_event_def split: if_splits)
qed

lemma feed_newline:
  assumes "in_line cap seg la"
  shows "\<exists>la'. feed cap la 0x0A = (if length (console_text seg) > cap \<or> console_text seg = [] then None
      else Some (EvLine (console_text seg)), la') \<and> in_line cap [] la'"
  using assms by (auto simp: in_line_def feed_def split: if_splits)

lemma feed_lines:
  assumes "list_all (\<lambda>l. 0x0A \<notin> set l) (r # ls)" "in_line cap [] la"
  shows "fst (feed_all cap la (concat (map (\<lambda>l. l @ [0x0A]) ls) @ r)) = concat (map (line_events cap) ls) @ overflow_event cap r"
  using assms
proof (induction ls arbitrary: la)
  case Nil
  then show ?case
    using feed_line [of r cap la] by auto
next
  case (Cons l ls)
  obtain la1 where 1: "feed_all cap la l = (overflow_event cap l, la1)" "in_line cap l la1"
    using feed_line [of l cap la] Cons.prems by auto
  obtain la2 where 2: "feed cap la1 0x0A = (if length (console_text l) > cap \<or> console_text l = [] then None
      else Some (EvLine (console_text l)), la2)" "in_line cap [] la2"
    using feed_newline [OF 1(2)] by auto
  show ?case
    using Cons.IH [OF _ 2(2)] Cons.prems 1(1) 2(1)
    by (auto simp: feed_all_append line_events_def overflow_event_def split: prod.splits if_splits)
qed

text \<open>
  C28. The console's framing refines line splitting: for every stream of bytes and every capacity the
  events are those of the complete lines in order, a line that does not fit is reported exactly once and never
  delivered in part, and no byte of it reaches a later line.
\<close>
theorem console_framing_refines:
  "(let (ls, r) = stream_lines bs
    in bs = concat (map (\<lambda>l. l @ [0x0A]) ls) @ r \<and> list_all (\<lambda>l. 0x0A \<notin> set l) (r # ls) \<and>
      fst (feed_all cap assembler_new bs) = concat (map (line_events cap) ls) @ overflow_event cap r)"
proof -
  obtain ls r where s: "stream_lines bs = (ls, r)"
    by force
  note j = stream_lines_join [OF s]
  have "in_line cap [] assembler_new"
    by (simp add: in_line_def assembler_new_def)
  then show ?thesis
    using feed_lines [of r ls cap assembler_new] j s by auto
qed

section \<open>What the parser accepts\<close>

definition command_ok :: "Command \<Rightarrow> bool" where
  "command_ok c =
    (case c of
      CmSetKeys ks \<Rightarrow> list_all (\<lambda>k. length (key_bytes k) = 16) [ck_k0 ks, ck_k1 ks, ck_k2 ks, ck_k3 ks, ck_k4 ks]
    | CmSetIssuer k \<Rightarrow> length (key_bytes k) = 16
    | CmSetUrl u \<Rightarrow> length u \<le> 256
    | CmSetWifi s p \<Rightarrow> length s \<le> 32 \<and> length p \<le> 64
    | CmOta u s \<Rightarrow> length u \<le> 256 \<and> length s \<le> 128
    | CmSetToken t \<Rightarrow> (case t of None \<Rightarrow> True | Some s \<Rightarrow> length s \<le> 64 \<and> s \<notin> {''off'', ''none'', ''clear''})
    | CmDummyBurn \<Rightarrow> False
    | _ \<Rightarrow> True)"

lemma ok_or_Inr_iff: "ok_or e x = Inr a \<longleftrightarrow> x = Some a"
  by (simp add: ok_or_def split: option.splits)

lemma parse_hex_key_length: "parse_hex_key s = Some k \<Longrightarrow> length k = 16"
  by (auto simp: parse_hex_key_def decode_hex_eq dest: hex_pairs_length split: sum.splits if_splits option.splits)

lemma bounded_Inr: "bounded cap s = Inr t \<longleftrightarrow> t = s \<and> length s \<le> cap"
  by (auto simp: bounded_def ok_or_def hl_push_str_def)

lemmas parser_inv = bind_r_Inr_iff ok_or_Inr_iff bounded_Inr command_ok_def

lemma parse_args_ok:
  "parse_keys_command parts = Inr c \<Longrightarrow> command_ok c"
  "parse_issuer_command parts = Inr c \<Longrightarrow> command_ok c"
  "parse_url_command parts = Inr c \<Longrightarrow> command_ok c"
  "parse_wifi_command parts = Inr c \<Longrightarrow> command_ok c"
  "parse_ota_command parts = Inr c \<Longrightarrow> command_ok c"
  "parse_button_mode_command parts = Inr c \<Longrightarrow> command_ok c"
  "parse_token_command parts = Inr c \<Longrightarrow> command_ok c"
  by (auto simp: parse_keys_command_def parse_key_arg_def parse_issuer_command_def parser_inv
      dest!: parse_hex_key_length split: if_splits list.splits)
    (auto simp: parse_url_command_def parse_wifi_command_def parse_ota_command_def
      parse_button_mode_command_def parse_token_command_def parser_inv split: if_splits list.splits)

lemma plain_command_ok:
  "find (\<lambda>(w, _). eq_ignore_ascii_case cmd w) PLAIN_COMMANDS = Some (w, c) \<Longrightarrow> command_ok c"
proof -
  assume "find (\<lambda>(w, _). eq_ignore_ascii_case cmd w) PLAIN_COMMANDS = Some (w, c)"
  then have "(w, c) \<in> set PLAIN_COMMANDS"
    by (auto simp: find_Some_iff in_set_conv_nth)
  moreover have "list_all (\<lambda>(_, c). command_ok c) PLAIN_COMMANDS"
    by (simp add: PLAIN_COMMANDS_def command_ok_def)
  ultimately show ?thesis
    by (auto simp: list_all_iff)
qed



lemma first_word:
  assumes "takeWhile (\<lambda>c. \<not> is_ascii_whitespace c) s \<noteq> []"
  shows "\<exists>parts. split_ascii_whitespace s = takeWhile (\<lambda>c. \<not> is_ascii_whitespace c) s # parts"
  using assms by (subst split_ascii_whitespace.simps) (cases s; auto split: if_splits)

lemma parse_unknown_word:
  assumes "head = takeWhile (\<lambda>c. \<not> is_ascii_whitespace c) (str_trim line)" "eq_ignore_ascii_case head w"
    "w \<in> {''crashlog'', ''hwtest'', ''provision-cert'', ''provision-ota-key'', ''force'', ''grove''}"
  shows "parse_command line = Inl UnknownCommand"
proof -
  have lower: "map ascii_lower head = w"
    using assms(2,3) by (auto simp: eq_ignore_ascii_case_def ascii_lower_def)
  then have "head \<noteq> []"
    using assms(3) by auto
  then obtain parts where "split_ascii_whitespace (str_trim line) = head # parts"
    using first_word [of "str_trim line"] assms(1) by auto
  moreover have "str_trim line \<noteq> []"
    using \<open>head \<noteq> []\<close> assms(1) by auto
  moreover have eq: "eq_ignore_ascii_case head v = (w = v)" if "map ascii_lower v = v" for v
    using that lower by (simp add: eq_ignore_ascii_case_def)
  moreover have "list_all (\<lambda>v. map ascii_lower v = v) (map fst PLAIN_COMMANDS @
      [''keys'', ''issuer'', ''url'', ''wifi'', ''ota'', ''button-mode'', ''token''])"
    by code_simp
  then have words: "list_all (\<lambda>v. eq_ignore_ascii_case head v = (w = v)) (map fst PLAIN_COMMANDS @
      [''keys'', ''issuer'', ''url'', ''wifi'', ''ota'', ''button-mode'', ''token''])"
    by (rule list.pred_mono_strong) (rule eq)
  have "list_all (\<lambda>v. v \<noteq> w) (map fst PLAIN_COMMANDS @ [''keys'', ''issuer'', ''url'', ''wifi'', ''ota'', ''button-mode'', ''token''])"
    using assms(3) by (auto simp: PLAIN_COMMANDS_def)
  then have "list_all (\<lambda>v. \<not> eq_ignore_ascii_case head v) (map fst PLAIN_COMMANDS @
      [''keys'', ''issuer'', ''url'', ''wifi'', ''ota'', ''button-mode'', ''token''])"
    using words by (auto simp: list_all_iff)
  ultimately show ?thesis
    by (simp add: parse_command_def find_None_iff PLAIN_COMMANDS_def)
qed

text \<open>
  C40. The two command surfaces are disjoint: a line that the console loop handles itself (crash log,
  hardware test, provisioning, safety switch, Grove power) is no command of the dispatcher, so
  no line can be read in two ways.
\<close>
theorem console_surfaces_disjoint:
  assumes "parse_pre_dispatch_command line = Some p"
  shows "parse_command line = Inl UnknownCommand"
proof -
  let ?head = "takeWhile (\<lambda>c. \<not> is_ascii_whitespace c) (str_trim line)"
  let ?words = "{''crashlog'', ''hwtest'', ''provision-cert'', ''provision-ota-key'', ''force'', ''grove''}"
  have "parse_pre_dispatch_command line = None" if "\<forall>w \<in> ?words. \<not> eq_ignore_ascii_case ?head w"
    using that by (simp add: parse_pre_dispatch_command_def Let_def)
  then obtain w where "w \<in> ?words" "eq_ignore_ascii_case ?head w"
    using assms by (metis option.distinct(1))
  then show ?thesis
    using parse_unknown_word [of ?head line w] by simp
qed

theorem console_surfaces_disjoint_witness:
  "parse_pre_dispatch_command ''force'' = Some PdForceStatus \<and> parse_command ''force'' = Inl UnknownCommand"
proof -
  have "str_trim ''force'' = ''force''"
    by (rule str_trim_ends) simp_all
  then have "parse_pre_dispatch_command ''force'' = Some PdForceStatus"
    by (simp add: parse_pre_dispatch_command_def eq_ignore_ascii_case_def ascii_lower_def is_ascii_whitespace_def on_off_def)
  then show ?thesis
    using console_surfaces_disjoint by blast
qed

end
