(* ===== verification/FwNvs.thy ===== *)
theory FwNvs
  imports FwConsole NdefUri
begin

text \<open>
  The firmware's non-volatile storage, \<open>firmware/nvs.rs\<close>: what is kept across resets in the namespace
  \<open>bolty\<close>. The flash library of ESP-IDF is the argument \<open>nvs_api\<close>; \<open>nvs_ok\<close> states what its documentation
  promises. Every load and save opens a handle and closes it, which leaves no trace in the model.
\<close>

datatype nvs_value = NvStr bytes | NvU8 byte | NvU32 u32 | NvBlob bytes

record 'f nvs_api =
  nv_open :: "bool \<Rightarrow> 'f \<Rightarrow> bool"
  nv_get :: "string \<Rightarrow> 'f \<Rightarrow> nvs_value option"
  nv_set :: "string \<Rightarrow> nvs_value \<Rightarrow> 'f \<Rightarrow> bool \<times> 'f"
  nv_commit :: "'f \<Rightarrow> bool \<times> 'f"

text \<open>A value that was set and committed is read back, and no other key changes.\<close>

definition nvs_ok :: "'f nvs_api \<Rightarrow> bool" where
  "nvs_ok N \<longleftrightarrow>
    (\<forall>k v f f'. nv_set N k v f = (True, f') \<longrightarrow> nv_get N k f' = Some v \<and> (\<forall>j. j \<noteq> k \<longrightarrow> nv_get N j f' = nv_get N j f)) \<and>
    (\<forall>f f' b k. nv_commit N f = (b, f') \<longrightarrow> nv_get N k f' = nv_get N k f) \<and>
    (\<forall>w k v f b f'. nv_set N k v f = (b, f') \<longrightarrow> nv_open N w f' = nv_open N w f) \<and>
    (\<forall>w f b f'. nv_commit N f = (b, f') \<longrightarrow> nv_open N w f' = nv_open N w f)"

section \<open>Strings\<close>

definition MAX_LNURL_LEN :: nat where
  "MAX_LNURL_LEN = 256"

definition MAX_BTN_MODE_LEN :: nat where
  "MAX_BTN_MODE_LEN = 16"

text \<open>A stored string carries its terminating zero; the first call asks for its length only.\<close>

definition load_str :: "'f nvs_api \<Rightarrow> nat \<Rightarrow> string \<Rightarrow> 'f \<Rightarrow> string option" where
  "load_str N cap key f =
    (if \<not> nv_open N False f then None
     else case nv_get N key f of
       Some (NvStr v) \<Rightarrow>
         if length v = 0 \<or> length v > cap + 1 then None
         else (case from_utf8 (take (length v - 1) v) of
           None \<Rightarrow> None
         | Some s \<Rightarrow> hl_push_str cap [] s)
     | _ \<Rightarrow> None)"

text \<open>The C library reads the buffer up to its first zero.\<close>

definition save_str :: "'f nvs_api \<Rightarrow> nat \<Rightarrow> string \<Rightarrow> string \<Rightarrow> 'f \<Rightarrow> bool \<times> 'f" where
  "save_str N cap key s f =
    (if length s \<ge> cap then (False, f)
     else if \<not> nv_open N True f then (False, f)
     else case nv_set N key (NvStr (takeWhile (\<lambda>b. b \<noteq> 0) (as_bytes s) @ [0])) f of
       (False, f) \<Rightarrow> (False, f)
     | (True, f) \<Rightarrow> nv_commit N f)"

definition load_lnurl :: "'f nvs_api \<Rightarrow> 'f \<Rightarrow> string option" where
  "load_lnurl N = load_str N MAX_LNURL_LEN ''lnurl''"

definition save_lnurl :: "'f nvs_api \<Rightarrow> string \<Rightarrow> 'f \<Rightarrow> bool \<times> 'f" where
  "save_lnurl N = save_str N MAX_LNURL_LEN ''lnurl''"

definition load_button_mode :: "'f nvs_api \<Rightarrow> 'f \<Rightarrow> string option" where
  "load_button_mode N = load_str N MAX_BTN_MODE_LEN ''btn_mode''"

definition save_button_mode :: "'f nvs_api \<Rightarrow> string \<Rightarrow> 'f \<Rightarrow> bool \<times> 'f" where
  "save_button_mode N = save_str N MAX_BTN_MODE_LEN ''btn_mode''"

section \<open>Numbers\<close>

definition commit_if :: "'f nvs_api \<Rightarrow> bool \<times> 'f \<Rightarrow> 'f" where
  "commit_if N r = (case r of (False, f) \<Rightarrow> f | (True, f) \<Rightarrow> snd (nv_commit N f))"

definition save_force_flag :: "'f nvs_api \<Rightarrow> bool \<Rightarrow> 'f \<Rightarrow> 'f" where
  "save_force_flag N force f =
    (if \<not> nv_open N True f then f else commit_if N (nv_set N ''force'' (NvU8 (if force then 1 else 0)) f))"

definition load_force_flag :: "'f nvs_api \<Rightarrow> 'f \<Rightarrow> bool" where
  "load_force_flag N f =
    (if \<not> nv_open N False f then False
     else case nv_get N ''force'' f of Some (NvU8 v) \<Rightarrow> v \<noteq> 0 | _ \<Rightarrow> False)"

definition load_boot_count :: "'f nvs_api \<Rightarrow> 'f \<Rightarrow> u32" where
  "load_boot_count N f =
    (if \<not> nv_open N False f then 0
     else case nv_get N ''bootcnt'' f of Some (NvU32 v) \<Rightarrow> v | _ \<Rightarrow> 0)"

definition save_boot_count :: "'f nvs_api \<Rightarrow> u32 \<Rightarrow> 'f \<Rightarrow> 'f" where
  "save_boot_count N count f =
    (if \<not> nv_open N True f then f else commit_if N (nv_set N ''bootcnt'' (NvU32 count) f))"

definition save_crash_info :: "'f nvs_api \<Rightarrow> byte \<Rightarrow> u32 \<Rightarrow> 'f \<Rightarrow> 'f" where
  "save_crash_info N reason boot_count f =
    (if \<not> nv_open N True f then f
     else case nv_set N ''crashrsn'' (NvU8 reason) f of
       (rc_reason, f) \<Rightarrow> (case nv_set N ''crashboot'' (NvU32 boot_count) f of
         (rc_boot, f) \<Rightarrow> commit_if N (rc_reason \<and> rc_boot, f)))"

definition load_crash_info :: "'f nvs_api \<Rightarrow> 'f \<Rightarrow> (byte \<times> u32) option" where
  "load_crash_info N f =
    (if \<not> nv_open N False f then None
     else case (nv_get N ''crashrsn'' f, nv_get N ''crashboot'' f) of
       (Some (NvU8 reason), Some (NvU32 boot_count)) \<Rightarrow> Some (reason, boot_count)
     | _ \<Rightarrow> None)"

section \<open>Certificate and OTA key\<close>

definition MAX_CERT_DER_LEN :: nat where
  "MAX_CERT_DER_LEN = 2048"

definition MAX_KEY_DER_LEN :: nat where
  "MAX_KEY_DER_LEN = 2048"

definition save_cert_der :: "'f nvs_api \<Rightarrow> bytes \<Rightarrow> bytes \<Rightarrow> 'f \<Rightarrow> bool \<times> 'f" where
  "save_cert_der N cert key f =
    (if length cert > MAX_CERT_DER_LEN \<or> length key > MAX_KEY_DER_LEN then (False, f)
     else if \<not> nv_open N True f then (False, f)
     else case nv_set N ''certder'' (NvBlob cert) f of
       (rc_cert, f) \<Rightarrow> (case nv_set N ''keyder'' (NvBlob key) f of
         (rc_key, f) \<Rightarrow> if rc_cert \<and> rc_key then nv_commit N f else (False, f)))"

definition load_blob :: "'f nvs_api \<Rightarrow> string \<Rightarrow> 'f \<Rightarrow> bytes option" where
  "load_blob N key f = (case nv_get N key f of Some (NvBlob b) \<Rightarrow> Some b | _ \<Rightarrow> None)"

definition load_cert_der :: "'f nvs_api \<Rightarrow> 'f \<Rightarrow> (bytes \<times> bytes) option" where
  "load_cert_der N f =
    (if \<not> nv_open N False f then None
     else case load_blob N ''certder'' f of
       None \<Rightarrow> None
     | Some cert \<Rightarrow> if length cert = 0 \<or> length cert > MAX_CERT_DER_LEN then None
         else (case load_blob N ''keyder'' f of
           None \<Rightarrow> None
         | Some key \<Rightarrow> if length key = 0 \<or> length key > MAX_KEY_DER_LEN then None else Some (cert, key)))"

definition has_cert :: "'f nvs_api \<Rightarrow> 'f \<Rightarrow> bool" where
  "has_cert N f =
    (if \<not> nv_open N False f then False
     else case load_blob N ''certder'' f of None \<Rightarrow> False | Some cert \<Rightarrow> length cert > 0)"

definition save_ota_pubkey :: "'f nvs_api \<Rightarrow> bytes \<Rightarrow> 'f \<Rightarrow> bool \<times> 'f" where
  "save_ota_pubkey N key f =
    (if \<not> nv_open N True f then (False, f)
     else case nv_set N ''otakey'' (NvBlob key) f of
       (False, f) \<Rightarrow> (False, f)
     | (True, f) \<Rightarrow> nv_commit N f)"

definition load_ota_pubkey :: "'f nvs_api \<Rightarrow> 'f \<Rightarrow> bytes option" where
  "load_ota_pubkey N f =
    (if \<not> nv_open N False f then None
     else case load_blob N ''otakey'' f of
       None \<Rightarrow> None
     | Some key \<Rightarrow> if length key \<noteq> 32 then None else Some key)"

section \<open>What was saved is loaded\<close>

lemma nvs_get_set:
  assumes "nvs_ok N" "nv_set N k v f = (True, f')"
  shows "nv_get N k f' = Some v" "j \<noteq> k \<Longrightarrow> nv_get N j f' = nv_get N j f"
  using assms unfolding nvs_ok_def by blast+

lemma nvs_get_commit: "nvs_ok N \<Longrightarrow> nv_commit N f = (b, f') \<Longrightarrow> nv_get N k f' = nv_get N k f"
  unfolding nvs_ok_def by blast

lemma nvs_open_set: "nvs_ok N \<Longrightarrow> nv_set N k v f = (b, f') \<Longrightarrow> nv_open N w f' = nv_open N w f"
  unfolding nvs_ok_def by blast

lemma nvs_open_commit: "nvs_ok N \<Longrightarrow> nv_commit N f = (b, f') \<Longrightarrow> nv_open N w f' = nv_open N w f"
  unfolding nvs_ok_def by blast

lemma takeWhile_nonzero: "0 \<notin> set (as_bytes s) \<Longrightarrow> takeWhile (\<lambda>b. b \<noteq> 0) (as_bytes s) = as_bytes s"
  by (auto simp: takeWhile_eq_all_conv)

lemma save_load_str:
  assumes "nvs_ok N" "nv_open N False f" "save_str N cap key s f = (True, f')"
    "0 \<notin> set (as_bytes s)" "utf8_valid (as_bytes s)"
  shows "load_str N cap key f' = Some s"
proof -
  obtain f1 where 1: "nv_set N key (NvStr (as_bytes s @ [0])) f = (True, f1)" "nv_commit N f1 = (True, f')" "length s < cap"
    using assms(3,4) by (auto simp: save_str_def takeWhile_nonzero split: if_splits prod.splits bool.splits)
  have "nv_get N key f' = Some (NvStr (as_bytes s @ [0]))" "nv_open N False f'"
    using nvs_get_set(1) [OF assms(1) 1(1)] nvs_get_commit [OF assms(1) 1(2)]
      nvs_open_set [OF assms(1) 1(1)] nvs_open_commit [OF assms(1) 1(2)] assms(2) by simp_all
  then show ?thesis
    using 1(3) assms(5) by (simp add: load_str_def from_utf8_def hl_push_str_def)
qed

text \<open>What the device stores survives a reset; a URL must be free of zero bytes.\<close>

lemma save_load_lnurl:
  assumes "nvs_ok N" "nv_open N False f" "save_lnurl N url f = (True, f')" "0 \<notin> set (as_bytes url)" "utf8_valid (as_bytes url)"
  shows "load_lnurl N f' = Some url"
  using save_load_str [OF assms(1,2)] assms(3-) by (simp add: load_lnurl_def save_lnurl_def)

lemma save_load_button_mode:
  assumes "nvs_ok N" "nv_open N False f" "save_button_mode N (button_mode_as_str m) f = (True, f')"
  shows "Option.bind (load_button_mode N f') button_mode_from_str = Some m"
proof -
  have "load_button_mode N f' = Some (button_mode_as_str m)"
    using save_load_str [OF assms(1,2) assms(3) [unfolded save_button_mode_def]]
    by (cases m) (simp_all add: load_button_mode_def button_mode_as_str_def as_bytes_def utf8_width_def utf8_tail_ok_def)
  then show ?thesis
    by (cases m) (simp_all add: button_mode_as_str_def button_mode_from_str_def eq_ignore_ascii_case_def ascii_lower_def)
qed

lemma save_load_cert:
  assumes "nvs_ok N" "nv_open N False f" "save_cert_der N cert key f = (True, f')" "cert \<noteq> []" "key \<noteq> []"
  shows "load_cert_der N f' = Some (cert, key) \<and> has_cert N f'"
proof -
  obtain f1 f2 where 1: "nv_set N ''certder'' (NvBlob cert) f = (True, f1)" "nv_set N ''keyder'' (NvBlob key) f1 = (True, f2)"
    "nv_commit N f2 = (True, f')" "length cert \<le> MAX_CERT_DER_LEN" "length key \<le> MAX_KEY_DER_LEN"
    using assms(3) by (auto simp: save_cert_der_def split: if_splits prod.splits)
  have "nv_get N ''certder'' f' = Some (NvBlob cert)" "nv_get N ''keyder'' f' = Some (NvBlob key)" "nv_open N False f'"
    using nvs_get_set(1) [OF assms(1) 1(1)] nvs_get_set(1) [OF assms(1) 1(2)]
      nvs_get_set(2) [OF assms(1) 1(2), of "''certder''"] nvs_get_commit [OF assms(1) 1(3)]
      nvs_open_set [OF assms(1) 1(1)] nvs_open_set [OF assms(1) 1(2)] nvs_open_commit [OF assms(1) 1(3)] assms(2) by simp_all
  then show ?thesis
    using assms(4,5) 1(4,5) by (simp add: load_cert_der_def has_cert_def load_blob_def)
qed

lemma save_load_ota_pubkey:
  assumes "nvs_ok N" "nv_open N False f" "save_ota_pubkey N k f = (True, f')" "length k = 32"
  shows "load_ota_pubkey N f' = Some k"
proof -
  obtain f1 where 1: "nv_set N ''otakey'' (NvBlob k) f = (True, f1)" "nv_commit N f1 = (True, f')"
    using assms(3) by (auto simp: save_ota_pubkey_def split: if_splits prod.splits bool.splits)
  have "nv_get N ''otakey'' f' = Some (NvBlob k)" "nv_open N False f'"
    using nvs_get_set(1) [OF assms(1) 1(1)] nvs_get_commit [OF assms(1) 1(2)]
      nvs_open_set [OF assms(1) 1(1)] nvs_open_commit [OF assms(1) 1(2)] assms(2) by simp_all
  then show ?thesis
    using assms(4) by (simp add: load_ota_pubkey_def load_blob_def)
qed

end
