(* ===== verification/FwService.thy ===== *)
theory FwService
  imports FwNvs Cli
begin

text \<open>
  The card service of the ESP32 firmware: \<open>service.rs\<close> and \<open>workflow.rs\<close> (the service interface and the
  dispatcher that console, REST server and job runner share), \<open>ota_validity.rs\<close>, and the implementation in
  \<open>firmware/service.rs\<close>, \<open>firmware/card_operations.rs\<close> and \<open>firmware/utils.rs\<close>. The reader front end is an argument:
  an activation and the \<open>link\<close> it opens. Operations are programs over the service's state whose
  errors are the unsuccessful \<open>WorkflowResult\<close> values.
\<close>

section \<open>Results and status\<close>

datatype WorkflowResult = WrSuccess | CardNotPresent | AuthFailed | AuthDelay | WipeRefused | WrError string

record ServiceStatus =
  ss_last_uid :: "bytes option"
  ss_nfc_ready :: bool
  ss_lnurl :: "string option"

text \<open>The service interface, a record of its operations.\<close>

record 's BoltyService =
  bs_burn :: "AesKey option \<Rightarrow> CardKeys option \<Rightarrow> string \<Rightarrow> 's \<Rightarrow> (WorkflowResult \<times> 's) option"
  bs_wipe :: "AesKey option \<Rightarrow> CardKeys option \<Rightarrow> 's \<Rightarrow> (WorkflowResult \<times> 's) option"
  bs_inspect :: "('s, WorkflowResult, CardAssessment) prog"
  bs_check_blank :: "'s \<Rightarrow> (WorkflowResult \<times> 's) option"
  bs_get_status :: "'s \<Rightarrow> ServiceStatus"
  bs_sync_from :: "BoltyConfig \<Rightarrow> 's \<Rightarrow> 's"

section \<open>The OTA validity gate\<close>

text \<open>\<open>vg_marker\<close>: the platform's mark-valid call is installed. \<open>note_serve_evidence\<close> returns whether this call
  ran it; its return code is only logged.\<close>

record ValidityGate =
  vg_marker :: bool
  vg_marked :: bool

definition gate_new :: ValidityGate where
  "gate_new = \<lparr>vg_marker = False, vg_marked = False\<rparr>"

definition gate_arm :: "ValidityGate \<Rightarrow> bool \<times> ValidityGate" where
  "gate_arm g = (if vg_marked g then (False, g) else (True, g\<lparr>vg_marker := True\<rparr>))"

definition note_serve_evidence :: "ValidityGate \<Rightarrow> bool \<times> ValidityGate" where
  "note_serve_evidence g =
    (if \<not> vg_marker g then (False, g)
     else if vg_marked g then (False, g)
     else (True, g\<lparr>vg_marked := True\<rparr>))"

section \<open>The dispatcher\<close>

record 's fw_core =
  fc_service :: 's
  fc_config :: BoltyConfig
  fc_gate :: ValidityGate

definition dispatch_error :: "string \<Rightarrow> WorkflowResult" where
  "dispatch_error message = (case hl_push_str 64 [] message of None \<Rightarrow> WrError [] | Some m \<Rightarrow> WrError m)"

definition note_card_transaction :: "WorkflowResult \<Rightarrow> 's fw_core \<Rightarrow> 's fw_core" where
  "note_card_transaction result c =
    (if result = WrSuccess then c\<lparr>fc_gate := snd (note_serve_evidence (fc_gate c))\<rparr> else c)"

text \<open>A call of the service, followed by the note for the gate.\<close>

definition card_transaction ::
    "('s \<Rightarrow> (WorkflowResult \<times> 's) option) \<Rightarrow> 's fw_core \<Rightarrow> (WorkflowResult \<times> 's fw_core) option" where
  "card_transaction m c =
    (case m (fc_service c) of
      None \<Rightarrow> None
    | Some (result, s) \<Rightarrow> Some (result, note_card_transaction result (c\<lparr>fc_service := s\<rparr>)))"

definition dispatch_command ::
    "'s BoltyService \<Rightarrow> Command \<Rightarrow> 's fw_core \<Rightarrow> (WorkflowResult \<times> 's fw_core) option" where
  "dispatch_command S cmd c =
    (case cmd of
      CmSetKeys keys \<Rightarrow> Some (WrSuccess, c\<lparr>fc_config := (fc_config c)\<lparr>pending_keys := Some keys\<rparr>\<rparr>)
    | CmSetIssuer k \<Rightarrow> Some (WrSuccess, c\<lparr>fc_config := (fc_config c)\<lparr>pending_issuer := Some k\<rparr>\<rparr>)
    | CmSetUrl url \<Rightarrow> Some (WrSuccess, c\<lparr>fc_config := (fc_config c)\<lparr>lnurl := Some url\<rparr>\<rparr>)
    | CmBurn \<Rightarrow>
        (case lnurl (fc_config c) of
          None \<Rightarrow> Some (dispatch_error ''missing lnurl'', c)
        | Some url \<Rightarrow>
            if pending_keys (fc_config c) = None \<and> pending_issuer (fc_config c) = None
            then Some (dispatch_error ''missing keys or issuer'', c)
            else if \<not> force_unsafe (fc_config c) \<and> \<not> str_contains ''{mac}'' url
            then Some (dispatch_error ''lnurl missing {mac} SDM template marker'', c)
            else card_transaction (bs_burn S (pending_issuer (fc_config c)) (pending_keys (fc_config c)) url) c)
    | CmWipe \<Rightarrow> card_transaction (bs_wipe S (pending_issuer (fc_config c)) (pending_keys (fc_config c))) c
    | CmKeyVer \<Rightarrow> card_transaction (\<lambda>s. case bs_inspect S s of
        None \<Rightarrow> None | Some (Inl err, s) \<Rightarrow> Some (err, s) | Some (Inr _, s) \<Rightarrow> Some (WrSuccess, s)) c
    | CmInspect \<Rightarrow> card_transaction (\<lambda>s. case bs_inspect S s of
        None \<Rightarrow> None | Some (Inl err, s) \<Rightarrow> Some (err, s) | Some (Inr _, s) \<Rightarrow> Some (WrSuccess, s)) c
    | CmCheck \<Rightarrow> card_transaction (bs_check_blank S) c
    | _ \<Rightarrow> Some (WrSuccess, c))"

text \<open>\<open>dispatch_command\<close> and the \<open>sync_from\<close> that every caller runs after it.\<close>

definition dispatch_sync ::
    "'s BoltyService \<Rightarrow> Command \<Rightarrow> 's fw_core \<Rightarrow> (WorkflowResult \<times> 's fw_core) option" where
  "dispatch_sync S cmd c =
    (case dispatch_command S cmd c of
      None \<Rightarrow> None
    | Some (result, c) \<Rightarrow> Some (result, c\<lparr>fc_service := bs_sync_from S (fc_config c) (fc_service c)\<rparr>))"

section \<open>Utilities of the service\<close>

definition copy_uid7 :: "bytes \<Rightarrow> bytes option" where
  "copy_uid7 uid = (if length uid \<noteq> 7 then None else Some uid)"

definition uid_storage_from_fixed :: "bytes \<Rightarrow> bytes option" where
  "uid_storage_from_fixed uid = Some (uid @ replicate 5 0)"

definition copy_lnurl :: "string \<Rightarrow> string option" where
  "copy_lnurl value = hl_push_str 256 [] value"

definition looks_factory_default :: "FileSettingsView option \<Rightarrow> bool" where
  "looks_factory_default settings =
    (case settings of
      None \<Rightarrow> False
    | Some fs \<Rightarrow> fv_file_size fs = 256 \<and> fv_comm_mode fs = CommPlain \<and> fv_sdm fs = None \<and>
        ar_read (fv_access_rights fs) = AccFree \<and> ar_write (fv_access_rights fs) = AccFree \<and>
        ar_read_write (fv_access_rights fs) = AccFree \<and> ar_change (fv_access_rights fs) = AccKey Key0)"

definition workflow_error :: "string \<Rightarrow> WorkflowResult" where
  "workflow_error message =
    (case hl_push_str 64 [] message of None \<Rightarrow> WrError ''workflow error'' | Some m \<Rightarrow> WrError m)"

definition nfc_unavailable_result :: WorkflowResult where
  "nfc_unavailable_result = workflow_error ''nfc unavailable''"

text \<open>\<open>fe_debug\<close> stands for the derived \<open>Debug\<close> text of an error in the 64 bytes of an \<open>ErrorString\<close>,
  \<open>fe_verify\<close> for the SDM verifier and \<open>fe_verified_uid\<close> for the identifier it reports.\<close>

record ('t, 'e, 'f, 'v) fw_env =
  fe_link :: "('t, 'e) link"
  fe_activate :: "'t \<Rightarrow> ((unit, bytes) result \<times> 't) option"
  fe_rng :: "nat \<Rightarrow> bytes"
  fe_cmac :: cmac_fun
  fe_verify :: "Sdm \<Rightarrow> bytes \<Rightarrow> bytes \<Rightarrow> bytes \<Rightarrow> 'v option"
  fe_verified_uid :: "'v \<Rightarrow> bytes option"
  fe_nvs :: "'f nvs_api"
  fe_debug :: "'e Error \<Rightarrow> string"

definition map_ntag_error :: "('t, 'e, 'f, 'v) fw_env \<Rightarrow> 'e Error \<Rightarrow> WorkflowResult" where
  "map_ntag_error env err =
    (if is_authentication_delay err then AuthDelay
     else case err of ErSession (ErrorResponse _) \<Rightarrow> AuthFailed | _ \<Rightarrow> WrError (fe_debug env err))"

section \<open>State of the service\<close>

record ('t, 'f) Esp32BoltyService =
  es_transceiver :: "'t option"
  es_raw_i2c :: "(byte \<Rightarrow> bool) option"
  es_last_i2c_scan :: bytes
  es_current_config :: BoltyConfig
  es_keys :: "CardKeys option"
  es_authenticated_key0 :: "AesKey option"
  es_last_card :: CardAssessment
  es_status :: ServiceStatus
  es_display_init_ok :: bool
  es_i2c_baudrate :: u32
  es_flash :: 'f
  es_rng :: nat

type_synonym ('t, 'f, 'a) fw = "(('t, 'f) Esp32BoltyService, WorkflowResult, 'a) prog"

definition set_nfc_ready :: "bool \<Rightarrow> ('t, 'f) Esp32BoltyService \<Rightarrow> ('t, 'f) Esp32BoltyService" where
  "set_nfc_ready b s = s\<lparr>es_status := (es_status s)\<lparr>ss_nfc_ready := b\<rparr>\<rparr>"

definition sync_config :: "'f nvs_api \<Rightarrow> ('t, 'f) Esp32BoltyService \<Rightarrow> ('t, 'f) Esp32BoltyService" where
  "sync_config N s =
    (let s = s\<lparr>es_status := (es_status s)\<lparr>ss_lnurl := lnurl (es_current_config s),
               ss_nfc_ready := (es_transceiver s \<noteq> None)\<rparr>\<rparr>;
         s = (if es_keys s = None then s\<lparr>es_keys := pending_keys (es_current_config s)\<rparr> else s)
     in case lnurl (es_current_config s) of
       None \<Rightarrow> s
     | Some url \<Rightarrow> s\<lparr>es_flash := snd (save_lnurl N url (es_flash s))\<rparr>)"

definition service_new ::
    "'f nvs_api \<Rightarrow> 't option \<Rightarrow> (byte \<Rightarrow> bool) option \<Rightarrow> bytes \<Rightarrow> BoltyConfig \<Rightarrow> bool \<Rightarrow> u32 \<Rightarrow> 'f \<Rightarrow>
      ('t, 'f) Esp32BoltyService" where
  "service_new N transceiver raw_i2c last_i2c_scan current_config display_init_ok i2c_baudrate flash =
    sync_config N \<lparr>es_transceiver = transceiver, es_raw_i2c = raw_i2c, es_last_i2c_scan = last_i2c_scan,
      es_current_config = current_config, es_keys = None, es_authenticated_key0 = None,
      es_last_card = assessment_default,
      es_status = \<lparr>ss_last_uid = None, ss_nfc_ready = (transceiver \<noteq> None), ss_lnurl = None\<rparr>,
      es_display_init_ok = display_init_ok, es_i2c_baudrate = i2c_baudrate, es_flash = flash, es_rng = 0\<rparr>"

definition sync_from ::
    "'f nvs_api \<Rightarrow> BoltyConfig \<Rightarrow> ('t, 'f) Esp32BoltyService \<Rightarrow> ('t, 'f) Esp32BoltyService" where
  "sync_from N config s = sync_config N (s\<lparr>es_current_config := config\<rparr>)"

definition nfc_available :: "('t, 'f) Esp32BoltyService \<Rightarrow> bool" where
  "nfc_available s = (es_transceiver s \<noteq> None)"

text \<open>The addresses 0x03 to 0x77 that acknowledge a write.\<close>

definition scan_i2c_bus :: "(byte \<Rightarrow> bool) \<Rightarrow> bytes" where
  "scan_i2c_bus ack = filter ack (map of_nat [0x03 ..< 0x78])"

definition i2c_scan :: "('t, 'f) Esp32BoltyService \<Rightarrow> bytes \<times> ('t, 'f) Esp32BoltyService" where
  "i2c_scan s =
    (let s = (case es_raw_i2c s of None \<Rightarrow> s | Some i2c \<Rightarrow> s\<lparr>es_last_i2c_scan := scan_i2c_bus i2c\<rparr>)
     in (es_last_i2c_scan s, s))"

definition fw_rnd_a :: "('t, 'e, 'f, 'v) fw_env \<Rightarrow> ('t, 'f, AesKey) fw" where
  "fw_rnd_a env s = Some (Inr (AesKey (fe_rng env (es_rng s))), s\<lparr>es_rng := es_rng s + 1\<rparr>)"

definition activate_transport :: "('t, 'e, 'f, 'v) fw_env \<Rightarrow> ('t, 'f, bytes) fw" where
  "activate_transport env s =
    (case es_transceiver s of
      None \<Rightarrow> Some (Inl nfc_unavailable_result, (set_nfc_ready False s)\<lparr>es_last_card := assessment_default\<rparr>)
    | Some t \<Rightarrow>
        (case fe_activate env t of
          None \<Rightarrow> None
        | Some (Inl _, t) \<Rightarrow> Some (Inl CardNotPresent,
            (set_nfc_ready True (s\<lparr>es_transceiver := Some t\<rparr>))\<lparr>es_last_card := assessment_default\<rparr>)
        | Some (Inr uid, t) \<Rightarrow> Some (Inr uid, s\<lparr>es_transceiver := Some t\<rparr>)))"

text \<open>A driver call over the activated transport.\<close>

definition over_card :: "('t, 'x, 'a) prog \<Rightarrow> (('t, 'f) Esp32BoltyService, 'x, 'a) prog" where
  "over_card m s =
    (case es_transceiver s of
      None \<Rightarrow> None
    | Some t \<Rightarrow> (case m t of None \<Rightarrow> None | Some (r, t) \<Rightarrow> Some (r, s\<lparr>es_transceiver := Some t\<rparr>)))"

definition modify_fw :: "(('t, 'f) Esp32BoltyService \<Rightarrow> ('t, 'f) Esp32BoltyService) \<Rightarrow> ('t, 'f, unit) fw" where
  "modify_fw f s = Some (Inr (), f s)"

definition get_fw :: "('t, 'f, ('t, 'f) Esp32BoltyService) fw" where
  "get_fw s = Some (Inr s, s)"

text \<open>What an operation records about the card it has seen.\<close>

definition saw_card :: "bytes \<Rightarrow> CardAssessment \<Rightarrow> ('t, 'f, unit) fw" where
  "saw_card uid a = modify_fw (\<lambda>s. s\<lparr>es_status := (es_status s)\<lparr>ss_last_uid := Some uid, ss_nfc_ready := True\<rparr>,
    es_last_card := a\<rparr>)"

section \<open>Operations\<close>

definition card_present :: "('t, 'e, 'f, 'v) fw_env \<Rightarrow> ('t, 'f, bool) fw" where
  "card_present env = catch_p (activate_transport env) (\<lambda>r. return_p (case r of Inl _ \<Rightarrow> False | Inr _ \<Rightarrow> True))"

definition poll_safe :: "('t, 'e, 'f, 'v) fw_env \<Rightarrow> ('t, 'f, CardAssessment option) fw" where
  "poll_safe env =
    ok_p (bind_p (activate_transport env) (\<lambda>uid.
      bind_p (lift_r (ok_or CardNotPresent (copy_uid7 uid))) (\<lambda>_.
        bind_p (map_err_p (map_ntag_error env) (over_card (safe_inspect (fe_link env) (fe_verify env) None None))) (\<lambda>inspect.
          let state = (case si_file_settings inspect of
              None \<Rightarrow> StateUnknown
            | Some settings \<Rightarrow> if sdm_still_active (fv_sdm settings) then StateProvisioned 0 else StateBlank);
            assessment = assessment_default\<lparr>ca_present := True, ca_uid := uid_storage_from_fixed (si_uid inspect),
              ca_uid_len := 7, ca_state := state\<rparr>
          in bind_p (saw_card (si_uid inspect) assessment) (\<lambda>_. return_p assessment)))))"

definition inspect_with_key :: "('t, 'e, 'f, 'v) fw_env \<Rightarrow> AesKey \<Rightarrow> ('t, 'f, CardAssessment) fw" where
  "inspect_with_key env key =
    bind_p (activate_transport env) (\<lambda>raw_uid.
    bind_p (lift_r (ok_or (workflow_error ''unsupported uid length'') (copy_uid7 raw_uid))) (\<lambda>uid.
    bind_p (fw_rnd_a env) (\<lambda>rnd.
    bind_p (map_err_p (map_ntag_error env) (over_card (check_key_versions (fe_link env) key rnd))) (\<lambda>key_versions.
    bind_p get_fw (\<lambda>s.
      let config = es_current_config s;
          issuers = (case pending_issuer config of
              None \<Rightarrow> []
            | Some k \<Rightarrow> [issuer_config_default\<lparr>ic_name := issuer_name config, issuer_key := k\<rparr>]);
          assessment = assess_card (fe_cmac env) (CardUid uid) key_versions issuers
      in bind_p (modify_fw (\<lambda>s. s\<lparr>es_authenticated_key0 := Some key\<rparr>)) (\<lambda>_.
         bind_p (saw_card uid assessment) (\<lambda>_. return_p assessment)))))))"

record 'v PiccResult =
  pc_inspect :: "'v SafeInspectResult"
  pc_keys_loaded :: bool
  pc_keys_confirmed :: bool
  pc_uid_match :: "bool option"

definition picc :: "('t, 'e, 'f, 'v) fw_env \<Rightarrow> ('t, 'f, 'v PiccResult) fw" where
  "picc env =
    bind_p get_fw (\<lambda>s. let keys = es_keys s; keys_loaded = (keys \<noteq> None) in
    bind_p (activate_transport env) (\<lambda>_.
    bind_p (map_err_p (map_ntag_error env) (over_card (safe_inspect (fe_link env) (fe_verify env)
        (map_option ck_k1 keys) (map_option ck_k2 keys)))) (\<lambda>inspect.
      let uid_match = Option.bind (si_sdm_verification inspect)
            (\<lambda>v. map_option (\<lambda>u. u = si_uid inspect) (fe_verified_uid env v));
          keys_confirmed = (si_sdm_verification inspect \<noteq> None \<and> keys_loaded)
      in bind_p (saw_card (si_uid inspect) (assessment_default\<lparr>
            ca_state := (if keys_confirmed then StateProvisioned 0 else StateUnknown), ca_present := True,
            ca_uid := uid_storage_from_fixed (si_uid inspect), ca_uid_len := 7,
            ca_has_ndef := (si_ndef_bytes inspect \<noteq> None)\<rparr>)) (\<lambda>_.
         bind_p (case keys of
             Some ks \<Rightarrow> if keys_confirmed then modify_fw (\<lambda>s. s\<lparr>es_authenticated_key0 := Some (ck_k0 ks)\<rparr>) else return_p ()
           | None \<Rightarrow> return_p ()) (\<lambda>_.
           return_p \<lparr>pc_inspect = inspect, pc_keys_loaded = keys_loaded, pc_keys_confirmed = keys_confirmed,
             pc_uid_match = uid_match\<rparr>)))))"

datatype DiagnoseState = DgBlank | DgProvisioned | DgAuthDelay | DgInconsistent

record 'v DiagnoseResult =
  dg_inspect :: "'v SafeInspectResult"
  dg_zero_key_attempted :: bool
  dg_zero_key_auth_ok :: bool
  dg_state :: DiagnoseState

text \<open>One authentication whose session is dropped.\<close>

definition probe_key0 ::
    "('t, 'e, 'f, 'v) fw_env \<Rightarrow> bytes \<Rightarrow> (('e SessionError, unit) result \<Rightarrow> ('t, 'f, 'a) fw) \<Rightarrow> ('t, 'f, 'a) fw" where
  "probe_key0 env key k =
    bind_p (fw_rnd_a env) (\<lambda>rnd.
      catch_p (over_card (authenticate_aes (fe_link env) session_new Key0 key (key_bytes rnd)))
        (\<lambda>r. k (case r of Inl err \<Rightarrow> Inl err | Inr _ \<Rightarrow> Inr ())))"

definition diagnose :: "('t, 'e, 'f, 'v) fw_env \<Rightarrow> ('t, 'f, 'v DiagnoseResult) fw" where
  "diagnose env =
    bind_p (activate_transport env) (\<lambda>_.
    bind_p (map_err_p (map_ntag_error env) (over_card (safe_inspect (fe_link env) (fe_verify env) None None))) (\<lambda>inspect.
    bind_p
      (if looks_factory_default (si_file_settings inspect)
       then probe_key0 env FACTORY_KEY (\<lambda>r. return_p (True,
         case r of Inr _ \<Rightarrow> (True, DgBlank)
         | Inl err \<Rightarrow> (False, if is_session_auth_delay err then DgAuthDelay else DgInconsistent)))
       else return_p (False, False,
         if si_file_settings inspect \<noteq> None \<or> si_ndef_bytes inspect \<noteq> None then DgProvisioned else DgInconsistent))
      (\<lambda>(attempted, auth_ok, state).
    bind_p (saw_card (si_uid inspect) (assessment_default\<lparr>
        ca_state := (case state of DgBlank \<Rightarrow> StateBlank | DgProvisioned \<Rightarrow> StateProvisioned 0 | _ \<Rightarrow> StateUnknown),
        ca_present := True, ca_uid := uid_storage_from_fixed (si_uid inspect), ca_uid_len := 7,
        ca_has_ndef := (si_ndef_bytes inspect \<noteq> None), ca_zero_key_auth_ok := auth_ok\<rparr>)) (\<lambda>_.
      return_p \<lparr>dg_inspect = inspect, dg_zero_key_attempted = attempted, dg_zero_key_auth_ok = auth_ok,
        dg_state = state\<rparr>))))"

definition factory_keys :: CardKeys where
  "factory_keys = \<lparr>ck_k0 = AesKey FACTORY_KEY, ck_k1 = AesKey FACTORY_KEY, ck_k2 = AesKey FACTORY_KEY,
    ck_k3 = AesKey FACTORY_KEY, ck_k4 = AesKey FACTORY_KEY\<rparr>"

text \<open>The keys of an operation: derived from the staged issuer key, or the staged keys.\<close>

definition staged_keys ::
    "('t, 'e, 'f, 'v) fw_env \<Rightarrow> AesKey option \<Rightarrow> CardKeys option \<Rightarrow> bytes \<Rightarrow> WorkflowResult \<Rightarrow>
      (WorkflowResult, CardKeys) result" where
  "staged_keys env issuer keys raw_uid missing =
    (case issuer of
      Some ik \<Rightarrow>
        (case copy_uid7 raw_uid of
          None \<Rightarrow> Inl (workflow_error ''unsupported uid length'')
        | Some uid \<Rightarrow> Inr (card_keys_of_set (derive_keys (fe_cmac env) (key_bytes ik) (CardUid uid)
            (ucast (key_version issuer_config_default)))))
    | None \<Rightarrow> ok_or missing keys)"

definition burn_keys :: "('t, 'e, 'f, 'v) fw_env \<Rightarrow> CardKeys \<Rightarrow> ('t, 'f, AesKey \<times> CardKeys) fw" where
  "burn_keys env keyset =
    probe_key0 env FACTORY_KEY (\<lambda>r. case r of
      Inr _ \<Rightarrow> return_p (AesKey FACTORY_KEY, factory_keys)
    | Inl err \<Rightarrow> if is_session_auth_delay err then throw_p AuthDelay
        else probe_key0 env (key_bytes (ck_k0 keyset)) (\<lambda>r. case r of
          Inr _ \<Rightarrow> return_p (ck_k0 keyset, keyset)
        | Inl err \<Rightarrow> throw_p (if is_session_auth_delay err then AuthDelay else AuthFailed)))"

text \<open>An operation's outcome as one value.\<close>

definition outcome :: "('t, 'f, unit) fw \<Rightarrow> ('t, 'f) Esp32BoltyService \<Rightarrow> (WorkflowResult \<times> ('t, 'f) Esp32BoltyService) option" where
  "outcome m s = (case m s of
      None \<Rightarrow> None
    | Some (Inl err, s) \<Rightarrow> Some (err, s)
    | Some (Inr _, s) \<Rightarrow> Some (WrSuccess, s))"

definition service_burn :: "('t, 'e, 'f, 'v) fw_env \<Rightarrow> AesKey option \<Rightarrow> CardKeys option \<Rightarrow> string \<Rightarrow> ('t, 'f, unit) fw" where
  "service_burn env issuer keys url =
    bind_p (activate_transport env) (\<lambda>raw_uid.
    bind_p (lift_r (staged_keys env issuer keys raw_uid (workflow_error ''missing keys or issuer''))) (\<lambda>card_keys.
    bind_p (burn_keys env card_keys) (\<lambda>(current_key, previous_keys).
    bind_p (fw_rnd_a env) (\<lambda>rnd.
    bind_p (map_err_p (map_ntag_error env) (over_card (burn (fe_link env)
        \<lparr>bp_lnurl = url, bp_keys = card_keys, bp_key_version = key_version issuer_config_default,
          bp_current_key = current_key, bp_previous_keys = previous_keys\<rparr> rnd))) (\<lambda>uid.
      modify_fw (\<lambda>s. sync_config (fe_nvs env)
        (s\<lparr>es_status := (es_status s)\<lparr>ss_last_uid := Some uid, ss_nfc_ready := True\<rparr>,
          es_keys := Some card_keys, es_authenticated_key0 := Some (ck_k0 card_keys),
          es_current_config := (es_current_config s)\<lparr>pending_keys := Some card_keys, lnurl := copy_lnurl url\<rparr>\<rparr>)))))))"

definition service_wipe :: "('t, 'e, 'f, 'v) fw_env \<Rightarrow> AesKey option \<Rightarrow> CardKeys option \<Rightarrow> ('t, 'f, unit) fw" where
  "service_wipe env issuer keys =
    bind_p get_fw (\<lambda>s0.
    bind_p (activate_transport env) (\<lambda>raw_uid.
    bind_p (lift_r (staged_keys env issuer keys raw_uid WipeRefused)) (\<lambda>card_keys.
    bind_p
      (if force_unsafe (es_current_config s0) then return_p ()
       else catch_p (over_card (safe_inspect (fe_link env) (fe_verify env) None None)) (\<lambda>r. case r of
           Inr inspect \<Rightarrow>
             if looks_factory_default (si_file_settings inspect) \<and> si_ndef_bytes inspect = None
             then throw_p WipeRefused else return_p ()
         | Inl _ \<Rightarrow> return_p ())) (\<lambda>_.
    bind_p (fw_rnd_a env) (\<lambda>rnd.
    bind_p (map_err_p (map_ntag_error env) (over_card (wipe (fe_link env) card_keys rnd))) (\<lambda>uid.
    bind_p (modify_fw (\<lambda>s. s\<lparr>es_keys := None, es_authenticated_key0 := Some (AesKey FACTORY_KEY)\<rparr>)) (\<lambda>_.
      saw_card uid (assessment_default\<lparr>ca_state := StateBlank, ca_present := True,
        ca_uid := uid_storage_from_fixed uid, ca_uid_len := 7\<rparr>))))))))"

definition service_inspect :: "('t, 'e, 'f, 'v) fw_env \<Rightarrow> ('t, 'f, CardAssessment) fw" where
  "service_inspect env =
    bind_p get_fw (\<lambda>s. case es_keys s of
      None \<Rightarrow> inspect_with_key env (AesKey FACTORY_KEY)
    | Some keys \<Rightarrow> catch_p (inspect_with_key env (ck_k0 keys)) (\<lambda>r. case r of
        Inr assessment \<Rightarrow> return_p assessment
      | Inl err \<Rightarrow> if err = AuthFailed \<or> err = CardNotPresent then inspect_with_key env (AesKey FACTORY_KEY)
          else throw_p err))"

definition service_check_blank :: "('t, 'e, 'f, 'v) fw_env \<Rightarrow> ('t, 'f, unit) fw" where
  "service_check_blank env =
    bind_p (service_inspect env) (\<lambda>assessment.
      if ca_state assessment = StateBlank then return_p () else throw_p (workflow_error ''card not blank''))"

definition esp32_service :: "('t, 'e, 'f, 'v) fw_env \<Rightarrow> ('t, 'f) Esp32BoltyService BoltyService" where
  "esp32_service env =
    \<lparr>bs_burn = (\<lambda>issuer keys url. outcome (service_burn env issuer keys url)),
     bs_wipe = (\<lambda>issuer keys. outcome (service_wipe env issuer keys)),
     bs_inspect = service_inspect env,
     bs_check_blank = outcome (service_check_blank env),
     bs_get_status = es_status,
     bs_sync_from = sync_from (fe_nvs env)\<rparr>"

end
