(* ===== verification/FwRest.thy ===== *)
theory FwRest
  imports FwService
begin

text \<open>
  The REST server of the firmware, \<open>rest.rs\<close>, and the job runner of the main loop. A handler maps a request and the
  shared state to a response and the new state; \<open>None\<close> is a panic. The HTTP library is represented by what it
  delivers: the header, the announced length, the chunks of the body, and whether the response reaches the
  client. The clock is an argument. A mutex can be poisoned, which the \<open>_ok\<close> flags record.
\<close>

section \<open>State\<close>

datatype JobStatus = Idle | Pending | Running | Completed

datatype JobCommand = JcBurn | JcWipe

definition job_as_str :: "JobCommand \<Rightarrow> string" where
  "job_as_str c = (case c of JcBurn \<Rightarrow> ''burn'' | JcWipe \<Rightarrow> ''wipe'')"

definition job_from_str :: "string \<Rightarrow> JobCommand option" where
  "job_from_str s =
    (if eq_ignore_ascii_case s ''burn'' then Some JcBurn
     else if eq_ignore_ascii_case s ''wipe'' then Some JcWipe else None)"

definition job_to_command :: "JobCommand \<Rightarrow> Command" where
  "job_to_command c = (case c of JcBurn \<Rightarrow> CmBurn | JcWipe \<Rightarrow> CmWipe)"

record JobSlot =
  js_id :: u32
  js_status :: JobStatus
  js_command :: "JobCommand option"
  js_result :: "WorkflowResult option"

definition job_slot_new :: JobSlot where
  "job_slot_new = \<lparr>js_id = 0, js_status = Idle, js_command = None, js_result = None\<rparr>"

definition job_submit :: "JobCommand \<Rightarrow> JobSlot \<Rightarrow> bool \<times> JobSlot" where
  "job_submit cmd slot =
    (if js_status slot \<noteq> Idle \<and> js_status slot \<noteq> Completed then (False, slot)
     else (True, \<lparr>js_id = (if js_id slot + 1 = 0 then 1 else js_id slot + 1), js_status = Pending,
       js_command = Some cmd, js_result = None\<rparr>))"

record 's rest_state =
  rt_core :: "'s fw_core"
  rt_config_ok :: bool
  rt_service_ok :: bool
  rt_last_write_us :: int
  rt_rate_ok :: bool
  rt_job :: JobSlot
  rt_job_ok :: bool
  rt_ticks :: nat

record 'io http_request =
  hq_authorization :: "string option"
  hq_content_len :: "nat option"
  hq_stream :: "('io, bytes) result list"
  hq_send_error :: "'io option"

record http_response =
  hr_status :: nat
  hr_reason :: string
  hr_retry_after :: "string option"
  hr_body :: string

type_synonym ('io, 's) handler =
  "'io http_request \<Rightarrow> 's rest_state \<Rightarrow> (('io, http_response) result \<times> 's rest_state) option"

section \<open>JSON texts\<close>

text \<open>The characters of a text, each with its UTF-8 bytes.\<close>

fun str_chars :: "string \<Rightarrow> string list" where
  "str_chars [] = []"
| "str_chars (c # cs) =
    (let w = utf8_width (of_char c) - 1 in (c # take w cs) # str_chars (drop w cs))"

definition escape_char :: "string \<Rightarrow> string" where
  "escape_char ch =
    (if ch = [CHR 0x5C] then [CHR 0x5C, CHR 0x5C]
     else if ch = [CHR 0x22] then [CHR 0x5C, CHR 0x22]
     else if ch = [CHR 0x0A] then [CHR 0x5C, CHR ''n'']
     else if ch = [CHR 0x0D] then [CHR 0x5C, CHR ''r'']
     else if ch = [CHR 0x09] then [CHR 0x5C, CHR ''t'']
     else ch)"

text \<open>Pushes are tried in order; the first that does not fit stops \<open>push_escaped_json\<close>, and the callers go on
  with what was written.\<close>

fun push_all :: "nat \<Rightarrow> string \<Rightarrow> string list \<Rightarrow> bool \<times> string" where
  "push_all cap out [] = (True, out)"
| "push_all cap out (p # ps) =
    (case hl_push_str cap out p of None \<Rightarrow> (False, out) | Some out \<Rightarrow> push_all cap out ps)"

definition hl_push :: "nat \<Rightarrow> string \<Rightarrow> string \<Rightarrow> string" where
  "hl_push cap t out = (case hl_push_str cap out t of None \<Rightarrow> out | Some out \<Rightarrow> out)"

definition push_escaped_json :: "nat \<Rightarrow> string \<Rightarrow> string \<Rightarrow> bool \<times> string" where
  "push_escaped_json cap value out = push_all cap out (map escape_char (str_chars value))"

definition push_json_key :: "nat \<Rightarrow> string \<Rightarrow> string \<Rightarrow> string" where
  "push_json_key cap key out =
    snd (push_all cap out ([[CHR 0x22]] @ map escape_char (str_chars key) @ [[CHR 0x22, CHR '':'']]))"

definition push_json_string :: "nat \<Rightarrow> string \<Rightarrow> string \<Rightarrow> string" where
  "push_json_string cap value out =
    snd (push_all cap out ([[CHR 0x22]] @ map escape_char (str_chars value) @ [[CHR 0x22]]))"

definition push_uid_hex :: "bytes \<Rightarrow> string" where
  "push_uid_hex uid =
    concat (map (\<lambda>b. [HEX_UPPER ! unat (drop_bit 4 b), HEX_UPPER ! unat (b AND 0xf)]) uid)"

definition bool_str :: "bool \<Rightarrow> string" where
  "bool_str b = (if b then ''true'' else ''false'')"

definition json_ok :: "string \<Rightarrow> string" where
  "json_ok extra =
    hl_push 512 ''}'' ((if extra \<noteq> [] then hl_push 512 extra \<circ> hl_push 512 '','' else id) (hl_push 512 ''{\"ok\":true'' []))"

definition json_err :: "string \<Rightarrow> string" where
  "json_err msg =
    hl_push 256 ''\"}'' (snd (push_escaped_json 256 msg (hl_push 256 ''{\"ok\":false,\"error\":\"'' [])))"

definition json_err_hint :: "string \<Rightarrow> string \<Rightarrow> string" where
  "json_err_hint msg hint =
    (let out = snd (push_escaped_json 256 msg (hl_push 256 ''{\"ok\":false,\"error\":\"'' []));
         out = snd (push_escaped_json 256 hint (hl_push 256 ''\",\"hint\":\"'' out))
     in hl_push 256 ''\"}'' out)"

definition uid_hex_string :: "ServiceStatus \<Rightarrow> string" where
  "uid_hex_string status = (case ss_last_uid status of None \<Rightarrow> [] | Some uid \<Rightarrow> push_uid_hex uid)"

definition json_status :: "ServiceStatus \<Rightarrow> string" where
  "json_status status =
    (let uid = uid_hex_string status;
         out = hl_push 480 (bool_str (ss_nfc_ready status)) (push_json_key 480 ''nfc_ready'' []);
         out = push_json_key 480 ''uid'' (hl_push 480 '','' out);
         out = push_json_string 480 (if uid = [] then ''none'' else uid) out;
         out = push_json_key 480 ''lnurl'' (hl_push 480 '','' out);
         out = push_json_string 480 (case ss_lnurl status of None \<Rightarrow> ''none'' | Some url \<Rightarrow> url) out
     in json_ok out)"

definition workflow_error_message :: "WorkflowResult \<Rightarrow> string" where
  "workflow_error_message result =
    (case result of
      WrSuccess \<Rightarrow> ''success''
    | CardNotPresent \<Rightarrow> ''card not present '' @ EM_DASH @ '' place an NTAG424 card on the reader''
    | AuthFailed \<Rightarrow> ''authentication failed '' @ EM_DASH @ '' wrong issuer key or card already blank''
    | AuthDelay \<Rightarrow> ''authentication delay '' @ EM_DASH @ '' send AuthFirst repeatedly in the same connection to clear''
    | WipeRefused \<Rightarrow> ''wipe refused '' @ EM_DASH @ '' card may already be blank or in inconsistent state''
    | WrError _ \<Rightarrow> ''operation failed '' @ EM_DASH @ '' check card state with diagnose'')"

definition workflow_result_json :: "WorkflowResult \<Rightarrow> string" where
  "workflow_result_json result =
    (case result of
      WrSuccess \<Rightarrow> ''\"success\"''
    | CardNotPresent \<Rightarrow> ''\"card_not_present\"''
    | AuthFailed \<Rightarrow> ''\"auth_failed\"''
    | AuthDelay \<Rightarrow> ''\"auth_delay\"''
    | WipeRefused \<Rightarrow> ''\"wipe_refused\"''
    | WrError msg \<Rightarrow> hl_push 128 ''\"'' (snd (push_escaped_json 128 msg (hl_push 128 ''\"error: '' []))))"

definition status_message :: "nat \<Rightarrow> string" where
  "status_message status =
    (if status = 200 then ''OK'' else if status = 400 then ''Bad Request'' else if status = 401 then ''Unauthorized''
     else if status = 404 then ''Not Found'' else if status = 413 then ''Payload Too Large''
     else if status = 429 then ''Too Many Requests'' else ''Internal Server Error'')"

section \<open>Reading a request\<close>

definition str_find :: "string \<Rightarrow> string \<Rightarrow> nat option" where
  "str_find pat s = find (\<lambda>i. take (length pat) (drop i s) = pat) [0 ..< Suc (length s - length pat)]"

fun json_content :: "bool \<Rightarrow> string \<Rightarrow> string option" where
  "json_content escaped [] = None"
| "json_content escaped (c # cs) =
    (if c = CHR 0x22 \<and> \<not> escaped then Some []
     else map_option ((#) c) (json_content (c = CHR 0x5C \<and> \<not> escaped) cs))"

definition extract_json_string :: "string \<Rightarrow> string \<Rightarrow> string option" where
  "extract_json_string body key =
    Option.bind (hl_push_str 32 [] ([CHR 0x22] @ key @ [CHR 0x22])) (\<lambda>pattern.
    Option.bind (str_find pattern body) (\<lambda>key_start.
      let after_key = drop (key_start + length pattern) body
      in Option.bind (str_find '':'' after_key) (\<lambda>colon.
        (case str_trim_start (drop (colon + 1) after_key) of
          q # content \<Rightarrow> if q = CHR 0x22 then json_content False content else None
        | [] \<Rightarrow> None))))"

definition parse_key_field :: "string \<Rightarrow> string \<Rightarrow> (string, AesKey) result" where
  "parse_key_field body key =
    bind_r (ok_or (if key \<in> {''k0'', ''k1'', ''k2'', ''k3'', ''k4''} then ''missing '' @ key else ''missing key field'')
      (extract_json_string body key)) (\<lambda>value.
      map_err (\<lambda>_. ''invalid hex key'') (aes_key_from_hex value))"

definition parse_card_keys :: "string \<Rightarrow> (string, CardKeys) result" where
  "parse_card_keys body =
    bind_r (parse_key_field body ''k0'') (\<lambda>k0.
    bind_r (parse_key_field body ''k1'') (\<lambda>k1.
    bind_r (parse_key_field body ''k2'') (\<lambda>k2.
    bind_r (parse_key_field body ''k3'') (\<lambda>k3.
    bind_r (parse_key_field body ''k4'') (\<lambda>k4.
      Inr \<lparr>ck_k0 = k0, ck_k1 = k1, ck_k2 = k2, ck_k3 = k3, ck_k4 = k4\<rparr>)))))"

datatype 'io ReadBodyError = RbIo 'io | RbTooLarge | RbInvalidUtf8

definition MAX_BODY_LEN :: nat where
  "MAX_BODY_LEN = 512"

text \<open>A read fills at most the rest of the announced length; an empty read ends the body.\<close>

fun read_loop :: "('io, bytes) result list \<Rightarrow> nat \<Rightarrow> bytes \<Rightarrow> ('io, bytes) result" where
  "read_loop [] len acc = Inr acc"
| "read_loop (chunk # stream) len acc =
    (if length acc < len then
       (case chunk of
         Inl err \<Rightarrow> Inl err
       | Inr [] \<Rightarrow> Inr acc
       | Inr bytes \<Rightarrow> read_loop stream len (acc @ take (len - length acc) bytes))
     else Inr acc)"

text \<open>\<open>length as usize\<close> keeps the low 32 bits of the announced length.\<close>

definition read_body :: "'io http_request \<Rightarrow> ('io ReadBodyError, string) result" where
  "read_body rq =
    (case hq_content_len rq of
      None \<Rightarrow> Inr []
    | Some n \<Rightarrow>
        let len = n mod 2 ^ 32
        in if len > MAX_BODY_LEN then Inl RbTooLarge
           else bind_r (map_err RbIo (read_loop (hq_stream rq) len [])) (\<lambda>bytes.
             ok_or RbInvalidUtf8 (from_utf8 bytes)))"

datatype TokenScope = ScopeRead | ScopeWrite

text \<open>\<open>header[..7]\<close> panics when byte 7 lies inside a character.\<close>

definition bearer_token :: "'io http_request \<Rightarrow> string option option" where
  "bearer_token rq =
    (case hq_authorization rq of
      None \<Rightarrow> Some None
    | Some header \<Rightarrow>
        if length header < 7 then Some None
        else if 7 < length header \<and> utf8_cont (of_char (header ! 7)) then None
        else if eq_ignore_ascii_case (take 7 header) ''Bearer '' then Some (Some (drop 7 header))
        else Some None)"

text \<open>Lengths and bytes are accumulated in one machine word; a missing byte counts as zero.\<close>

definition byte_or_zero :: "bytes \<Rightarrow> nat \<Rightarrow> byte" where
  "byte_or_zero bs i = (if i < length bs then bs ! i else 0)"

definition token_eq :: "bytes \<Rightarrow> bytes \<Rightarrow> bool" where
  "token_eq expected provided =
    (foldl (\<lambda>diff i. diff OR ucast (byte_or_zero expected i XOR byte_or_zero provided i))
      ((of_nat (length expected) :: u32) XOR of_nat (length provided)) [0 ..< max (length expected) (length provided)] = 0)"

definition is_authorized :: "'io http_request \<Rightarrow> TokenScope \<Rightarrow> 's rest_state \<Rightarrow> bool option" where
  "is_authorized rq scope st =
    (if \<not> rt_config_ok st then Some False
     else case (case scope of ScopeRead \<Rightarrow> rest_read_token | ScopeWrite \<Rightarrow> rest_write_token) (fc_config (rt_core st)) of
       None \<Rightarrow> Some True
     | Some expected \<Rightarrow>
         (case bearer_token rq of
           None \<Rightarrow> None
         | Some None \<Rightarrow> Some False
         | Some (Some provided) \<Rightarrow> Some (token_eq (as_bytes expected) (as_bytes provided))))"

section \<open>Responding\<close>

definition respond_json :: "'io http_request \<Rightarrow> nat \<Rightarrow> string \<Rightarrow> 's rest_state \<Rightarrow> (('io, http_response) result \<times> 's rest_state) option" where
  "respond_json rq status body st =
    Some (case hq_send_error rq of
      Some err \<Rightarrow> (Inl err, st)
    | None \<Rightarrow> (Inr \<lparr>hr_status = status, hr_reason = status_message status, hr_retry_after = None, hr_body = body\<rparr>,
        if 200 \<le> status \<and> status < 300
        then st\<lparr>rt_core := (rt_core st)\<lparr>fc_gate := snd (note_serve_evidence (fc_gate (rt_core st)))\<rparr>\<rparr> else st))"

definition respond_rate_limited :: "'io http_request \<Rightarrow> nat \<Rightarrow> 's rest_state \<Rightarrow> (('io, http_response) result \<times> 's rest_state) option" where
  "respond_rate_limited rq retry_secs st =
    Some (case hq_send_error rq of
      Some err \<Rightarrow> Inl err
    | None \<Rightarrow> Inr \<lparr>hr_status = 429, hr_reason = status_message 429, hr_retry_after = Some (dec_string retry_secs),
        hr_body = json_err_hint ''rate limited'' ''wait before sending another write request''\<rparr>, st)"

section \<open>Rate limit\<close>

definition WRITE_COOLDOWN_US :: int where
  "WRITE_COOLDOWN_US = 5000000"

definition timer_get_time :: "(nat \<Rightarrow> int) \<Rightarrow> 's rest_state \<Rightarrow> int \<times> 's rest_state" where
  "timer_get_time time st = (time (rt_ticks st), st\<lparr>rt_ticks := rt_ticks st + 1\<rparr>)"

definition check_rate_limit :: "(nat \<Rightarrow> int) \<Rightarrow> 's rest_state \<Rightarrow> nat option \<times> 's rest_state" where
  "check_rate_limit time st =
    (if \<not> rt_rate_ok st then (None, st)
     else case timer_get_time time st of (now, st) \<Rightarrow>
       let elapsed = now - rt_last_write_us st
       in if elapsed < WRITE_COOLDOWN_US then (Some (nat ((WRITE_COOLDOWN_US - elapsed) div 1000000) + 1), st)
          else (None, st))"

definition record_rate_limit :: "(nat \<Rightarrow> int) \<Rightarrow> 's rest_state \<Rightarrow> 's rest_state" where
  "record_rate_limit time st =
    (if rt_rate_ok st then case timer_get_time time st of (now, st) \<Rightarrow> st\<lparr>rt_last_write_us := now\<rparr> else st)"

section \<open>Handlers\<close>

text \<open>The three guards at the head of the handlers.\<close>

definition with_auth :: "TokenScope \<Rightarrow> ('io, 's) handler \<Rightarrow> ('io, 's) handler" where
  "with_auth scope k rq st =
    (case is_authorized rq scope st of
      None \<Rightarrow> None
    | Some False \<Rightarrow> respond_json rq 401 (json_err_hint ''unauthorized'' ''set a token via serial: token <value>'') st
    | Some True \<Rightarrow> k rq st)"

definition with_rate :: "(nat \<Rightarrow> int) \<Rightarrow> ('io, 's) handler \<Rightarrow> ('io, 's) handler" where
  "with_rate time k rq st =
    (case check_rate_limit time st of
      (Some retry_secs, st) \<Rightarrow> respond_rate_limited rq retry_secs st
    | (None, st) \<Rightarrow> k rq st)"

definition with_body :: "(string \<Rightarrow> ('io, 's) handler) \<Rightarrow> ('io, 's) handler" where
  "with_body k rq st =
    (case read_body rq of
      Inl RbTooLarge \<Rightarrow> respond_json rq 413 (json_err_hint ''request too large'' ''max 512 bytes'') st
    | Inl RbInvalidUtf8 \<Rightarrow> respond_json rq 400 (json_err_hint ''invalid utf-8 body'' ''ensure Content-Type is application/json'') st
    | Inl (RbIo err) \<Rightarrow> Some (Inl err, st)
    | Inr body \<Rightarrow> k body rq st)"

text \<open>\<open>with_state\<close> around \<open>dispatch_command\<close> and \<open>sync_from\<close>.\<close>

definition run_command ::
    "'s BoltyService \<Rightarrow> Command \<Rightarrow> 's rest_state \<Rightarrow> ((string, WorkflowResult) result \<times> 's rest_state) option" where
  "run_command S cmd st =
    (if \<not> rt_config_ok st then Some (Inl ''config unavailable'', st)
     else if \<not> rt_service_ok st then Some (Inl ''service unavailable'', st)
     else case dispatch_sync S cmd (rt_core st) of
       None \<Rightarrow> None
     | Some (result, core) \<Rightarrow> Some (Inr result, st\<lparr>rt_core := core\<rparr>))"

text \<open>The responses to a result, given the body for success.\<close>

definition respond_result ::
    "('s rest_state \<Rightarrow> ('io, 's) handler) \<Rightarrow> 'io http_request \<Rightarrow> ((string, WorkflowResult) result \<times> 's rest_state) option \<Rightarrow>
      (('io, http_response) result \<times> 's rest_state) option" where
  "respond_result success rq r =
    (case r of
      None \<Rightarrow> None
    | Some (Inr WrSuccess, st) \<Rightarrow> success st rq st
    | Some (Inr other, st) \<Rightarrow> respond_json rq 200 (json_err (workflow_error_message other)) st
    | Some (Inl message, st) \<Rightarrow> respond_json rq 500 (json_err message) st)"

definition current_status :: "'s BoltyService \<Rightarrow> 's rest_state \<Rightarrow> ServiceStatus" where
  "current_status S st =
    (if rt_service_ok st then bs_get_status S (fc_service (rt_core st))
     else \<lparr>ss_last_uid = None, ss_nfc_ready = False, ss_lnurl = None\<rparr>)"

definition with_status :: "'s BoltyService \<Rightarrow> (ServiceStatus \<Rightarrow> ('io, 's) handler) \<Rightarrow> ('io, 's) handler" where
  "with_status S k rq st =
    (if \<not> rt_service_ok st
     then respond_json rq 500 (json_err_hint ''service unavailable'' ''NFC reader may not be initialized'') st
     else k (bs_get_status S (fc_service (rt_core st))) rq st)"

definition handle_status :: "'s BoltyService \<Rightarrow> ('io, 's) handler" where
  "handle_status S = with_auth ScopeRead (with_status S (\<lambda>status rq. respond_json rq 200 (json_status status)))"

definition handle_uid :: "'s BoltyService \<Rightarrow> ('io, 's) handler" where
  "handle_uid S = with_auth ScopeRead (with_status S (\<lambda>status rq.
    case ss_last_uid status of
      None \<Rightarrow> respond_json rq 200 (json_err_hint ''no uid'' ''place a card on the reader'')
    | Some uid \<Rightarrow> respond_json rq 200 (json_ok (push_json_string 64 (push_uid_hex uid) (push_json_key 64 ''uid'' [])))))"

definition handle_check :: "'s BoltyService \<Rightarrow> ('io, 's) handler" where
  "handle_check S = with_auth ScopeRead (\<lambda>rq st.
    case run_command S CmCheck st of
      None \<Rightarrow> None
    | Some (Inr WrSuccess, st) \<Rightarrow> respond_json rq 200 (json_ok ''\"blank\":true'') st
    | Some (Inr (WrError message), st) \<Rightarrow>
        respond_json rq 200 (if message = ''card not blank'' then json_ok ''\"blank\":false''
          else json_err (workflow_error_message (WrError message))) st
    | Some (Inr other, st) \<Rightarrow> respond_json rq 200 (json_err (workflow_error_message other)) st
    | Some (Inl message, st) \<Rightarrow> respond_json rq 500 (json_err message) st)"

definition handle_keys :: "'s BoltyService \<Rightarrow> (nat \<Rightarrow> int) \<Rightarrow> ('io, 's) handler" where
  "handle_keys S time = with_auth ScopeWrite (with_rate time (with_body (\<lambda>body rq st.
    case parse_card_keys body of
      Inl message \<Rightarrow> respond_json rq 400 (json_err message) st
    | Inr keys \<Rightarrow> respond_result (\<lambda>st rq _. respond_json rq 200 (json_ok []) (record_rate_limit time st)) rq
        (run_command S (CmSetKeys keys) st))))"

definition handle_url :: "'s BoltyService \<Rightarrow> (nat \<Rightarrow> int) \<Rightarrow> ('io, 's) handler" where
  "handle_url S time = with_auth ScopeWrite (with_rate time (with_body (\<lambda>body rq st.
    case extract_json_string body ''url'' of
      None \<Rightarrow> respond_json rq 400 (json_err_hint ''missing url'' ''send JSON: {\"url\":\"https://...\"}'') st
    | Some url \<Rightarrow>
        (case hl_push_str 256 [] url of
          None \<Rightarrow> respond_json rq 400 (json_err_hint ''url too long'' ''max 256 characters'') st
        | Some url \<Rightarrow> respond_result (\<lambda>st rq _. respond_json rq 200 (json_ok []) (record_rate_limit time st)) rq
            (run_command S (CmSetUrl url) st)))))"

definition handle_action :: "'s BoltyService \<Rightarrow> (nat \<Rightarrow> int) \<Rightarrow> Command \<Rightarrow> ('io, 's) handler" where
  "handle_action S time command = with_auth ScopeWrite (with_rate time (\<lambda>rq st.
    case run_command S command st of
      None \<Rightarrow> None
    | Some (Inr WrSuccess, st) \<Rightarrow> respond_json rq 200 (json_ok ''\"status\":\"done\"'') (record_rate_limit time st)
    | Some (Inr _, st) \<Rightarrow> respond_json rq 200 ''{\"ok\":false,\"status\":\"error\"}'' st
    | Some (Inl _, st) \<Rightarrow> respond_json rq 500 ''{\"ok\":false,\"status\":\"error\"}'' st))"

text \<open>The reported number is computed before the slot is asked.\<close>

definition handle_job_submit :: "(nat \<Rightarrow> int) \<Rightarrow> ('io, 's) handler" where
  "handle_job_submit time = with_auth ScopeWrite (with_rate time (with_body (\<lambda>body rq st.
    case extract_json_string body ''command'' of
      None \<Rightarrow> respond_json rq 400 (json_err_hint ''missing command'' ''send JSON: {\"command\":\"burn\"}'') st
    | Some cmd_str \<Rightarrow>
        (case job_from_str cmd_str of
          None \<Rightarrow> respond_json rq 400 (json_err_hint ''invalid command'' ''must be \"burn\" or \"wipe\"'') st
        | Some cmd \<Rightarrow>
            if \<not> rt_job_ok st then respond_json rq 500 (json_err ''job slot unavailable'') st
            else case job_submit cmd (rt_job st) of
              (False, _) \<Rightarrow> respond_json rq 409 (json_err_hint ''job in progress'' ''poll GET /api/job for completion'') st
            | (True, slot) \<Rightarrow> respond_json rq 201
                (''{\"ok\":true,\"job_id\":'' @ dec_string (unat (js_id (rt_job st) + 1)) @ '',\"status\":\"pending\",\"command\":\"'' @
                  job_as_str cmd @ ''\"}'')
                (record_rate_limit time (st\<lparr>rt_job := slot\<rparr>))))))"

definition handle_job_status :: "('io, 's) handler" where
  "handle_job_status = with_auth ScopeRead (\<lambda>rq st.
    if \<not> rt_job_ok st then respond_json rq 500 (json_err ''job slot unavailable'') st
    else let slot = rt_job st;
           status_str = (case js_status slot of
             Idle \<Rightarrow> ''idle'' | Pending \<Rightarrow> ''pending'' | Running \<Rightarrow> ''running'' | Completed \<Rightarrow> ''completed'');
           cmd_str = (case js_command slot of None \<Rightarrow> ''none'' | Some c \<Rightarrow> job_as_str c);
           result_str = (case js_result slot of None \<Rightarrow> ''null'' | Some r \<Rightarrow> workflow_result_json r)
         in respond_json rq 200
           (''{\"ok\":true,\"job_id\":'' @ dec_string (unat (js_id slot)) @ '',\"status\":\"'' @ status_str @ ''\",\"command\":\"'' @
             cmd_str @ ''\",\"result\":'' @ result_str @ ''}'') st)"

definition handle_keyver :: "'s BoltyService \<Rightarrow> ('io, 's) handler" where
  "handle_keyver S = with_auth ScopeRead (\<lambda>rq st.
    respond_result (\<lambda>st rq _. respond_json rq 200
      (''{\"ok\":true,\"nfc_ready\":'' @ bool_str (ss_nfc_ready (current_status S st)) @ '',\"uid\":\"'' @
        uid_hex_string (current_status S st) @ ''\"}'') st) rq (run_command S CmKeyVer st))"

definition handle_ndef :: "'s BoltyService \<Rightarrow> ('io, 's) handler" where
  "handle_ndef S = with_auth ScopeRead (\<lambda>rq st.
    respond_result (\<lambda>st rq _. respond_json rq 200 (json_ok ''\"ndef\":\"read\"'') st) rq (run_command S CmNdef st))"

definition handle_diagnose :: "'s BoltyService \<Rightarrow> ('io, 's) handler" where
  "handle_diagnose S = with_auth ScopeRead (\<lambda>rq st.
    respond_result (\<lambda>st rq _. respond_json rq 200 (json_ok ''\"state\":\"ok\"'') st) rq (run_command S CmDiagnose st))"

definition handle_inspect :: "'s BoltyService \<Rightarrow> ('io, 's) handler" where
  "handle_inspect S = with_auth ScopeRead (\<lambda>rq st.
    respond_result (\<lambda>st rq _.
      let status = current_status S st;
          url = (case ss_lnurl status of None \<Rightarrow> [] | Some configured \<Rightarrow> snd (push_escaped_json 128 configured []))
      in respond_json rq 200
        (''{\"ok\":true,\"nfc_ready\":'' @ bool_str (ss_nfc_ready status) @ '',\"uid\":\"'' @ uid_hex_string status @
          ''\",\"lnurl\":\"'' @ url @ ''\"}'') st) rq (run_command S CmInspect st))"

datatype Method = Get | Post

text \<open>The routes that \<open>RestServer::start\<close> registers.\<close>

definition rest_route :: "'s BoltyService \<Rightarrow> (nat \<Rightarrow> int) \<Rightarrow> Method \<Rightarrow> string \<Rightarrow> ('io, 's) handler option" where
  "rest_route S time m path =
    (case m of
      Get \<Rightarrow>
        if path = ''/api/status'' then Some (handle_status S)
        else if path = ''/api/uid'' then Some (handle_uid S)
        else if path = ''/api/check'' then Some (handle_check S)
        else if path = ''/api/keyver'' then Some (handle_keyver S)
        else if path = ''/api/ndef'' then Some (handle_ndef S)
        else if path = ''/api/diagnose'' then Some (handle_diagnose S)
        else if path = ''/api/inspect'' then Some (handle_inspect S)
        else if path = ''/api/job'' then Some handle_job_status
        else None
    | Post \<Rightarrow>
        if path = ''/api/keys'' then Some (handle_keys S time)
        else if path = ''/api/url'' then Some (handle_url S time)
        else if path = ''/api/burn'' then Some (handle_action S time CmBurn)
        else if path = ''/api/wipe'' then Some (handle_action S time CmWipe)
        else if path = ''/api/job'' then Some (handle_job_submit time)
        else None)"

section \<open>The job runner\<close>

text \<open>The runner takes the slot's lock twice and the locks of configuration and service in between, so requests
  can be served while a job runs: the three sections are steps of their own.\<close>

definition job_claim :: "'s rest_state \<Rightarrow> JobCommand option \<times> 's rest_state" where
  "job_claim st =
    (if \<not> rt_job_ok st \<or> js_status (rt_job st) \<noteq> Pending then (None, st)
     else case js_command (rt_job st) of
       None \<Rightarrow> (None, st)
     | Some cmd \<Rightarrow> (Some cmd, st\<lparr>rt_job := (rt_job st)\<lparr>js_status := Running\<rparr>\<rparr>))"

definition job_execute :: "'s BoltyService \<Rightarrow> JobCommand \<Rightarrow> 's rest_state \<Rightarrow> (WorkflowResult \<times> 's rest_state) option" where
  "job_execute S cmd st =
    (case run_command S (job_to_command cmd) st of
      None \<Rightarrow> None
    | Some (Inl _, st) \<Rightarrow> Some (WrError ''lock failed'', st)
    | Some (Inr result, st) \<Rightarrow> Some (result, st))"

definition job_complete :: "WorkflowResult \<Rightarrow> 's rest_state \<Rightarrow> 's rest_state" where
  "job_complete result st =
    (if rt_job_ok st then st\<lparr>rt_job := (rt_job st)\<lparr>js_status := Completed, js_result := Some result\<rparr>\<rparr> else st)"

definition process_rest_job :: "'s BoltyService \<Rightarrow> 's rest_state \<Rightarrow> 's rest_state option" where
  "process_rest_job S st =
    (case job_claim st of
      (None, st) \<Rightarrow> Some st
    | (Some cmd, st) \<Rightarrow>
        (case job_execute S cmd st of
          None \<Rightarrow> None
        | Some (result, st) \<Rightarrow> Some (job_complete result st)))"

end
