(* ===== verification/FwRestTheorems.thy ===== *)
theory FwRestTheorems
  imports FwRest
begin

text \<open>
  Properties of the REST server of the firmware (\<open>FwRest\<close>): authorization of every route, the hand-over of
  jobs from the HTTP handlers to the main loop as an interleaved run, the spacing of accepted writes and the
  completion of jobs.
\<close>

section \<open>Tokens\<close>

lemma foldl_or_eq_0:
  "(foldl (\<lambda>diff i. diff OR f i) (acc :: u32) xs = 0) = (acc = 0 \<and> list_all (\<lambda>i. f i = 0) xs)"
  by (induction xs arbitrary: acc) (auto simp: or_eq_0_iff)

lemma word_xor_eq_0: "(a XOR b = 0) = (a = b)" for a b :: "'w :: len word"
  by (metis xor.assoc xor.left_neutral xor.right_neutral xor_self_eq)

lemma ucast_byte_eq_0: "((ucast (b :: byte) :: u32) = 0) = (b = 0)"
proof
  assume "(ucast b :: u32) = 0"
  then have "unat (ucast b :: u32) = 0"
    by simp
  then show "b = 0"
    using unsigned_less [of b, where 'a = nat] by (simp add: unsigned_ucast_eq take_bit_eq_mod unat_eq_zero)
qed simp

lemma token_eq_iff:
  assumes "length a < 2 ^ 32" "length b < 2 ^ 32"
  shows "token_eq a b = (a = b)"
proof
  assume t: "token_eq a b"
  have len: "(of_nat (length a) :: u32) = of_nat (length b)" and
    eq: "\<And>i. i < max (length a) (length b) \<Longrightarrow> (ucast (byte_or_zero a i XOR byte_or_zero b i) :: u32) = 0"
    using t by (auto simp: token_eq_def foldl_or_eq_0 list_all_iff word_xor_eq_0)
  have "length a = length b"
    using arg_cong [OF len, of unat] assms by (simp add: unat_of_nat)
  moreover have "a ! i = b ! i" if "i < length a" for i
  proof -
    have "(ucast (a ! i XOR b ! i) :: u32) = 0"
      using eq [of i] that calculation by (simp add: byte_or_zero_def)
    then show ?thesis
      by (simp add: ucast_byte_eq_0 word_xor_eq_0)
  qed
  ultimately show "a = b"
    by (rule nth_equalityI)
next
  assume "a = b"
  then show "token_eq a b"
    by (simp only: token_eq_def foldl_or_eq_0 list_all_iff) simp
qed

lemma as_bytes_inject: "as_bytes a = as_bytes b \<longleftrightarrow> a = b"
  by (metis str_of_bytes_as_bytes)

definition scope_of :: "Method \<Rightarrow> TokenScope" where
  "scope_of m = (case m of Get \<Rightarrow> ScopeRead | Post \<Rightarrow> ScopeWrite)"

definition scope_token :: "TokenScope \<Rightarrow> BoltyConfig \<Rightarrow> string option" where
  "scope_token scope c = (case scope of ScopeRead \<Rightarrow> rest_read_token c | ScopeWrite \<Rightarrow> rest_write_token c)"

lemma route_authorizes:
  assumes "rest_route S time m path = Some h"
  shows "\<exists>k. h = with_auth (scope_of m) k"
  using assms
  by (auto simp: rest_route_def scope_of_def handle_status_def handle_uid_def handle_check_def handle_keyver_def handle_ndef_def
      handle_diagnose_def handle_inspect_def handle_job_status_def handle_keys_def handle_url_def handle_action_def
      handle_job_submit_def split: Method.splits if_splits)


section \<open>What a request does to the limiter and the job slot\<close>

definition same_limits :: "'s rest_state \<Rightarrow> 's rest_state \<Rightarrow> bool" where
  "same_limits st st' \<longleftrightarrow> rt_job st' = rt_job st \<and> rt_ticks st' = rt_ticks st \<and> rt_last_write_us st' = rt_last_write_us st \<and>
    rt_rate_ok st' = rt_rate_ok st \<and> rt_job_ok st' = rt_job_ok st"

text \<open>A handler leaves the slot alone or submits to it.\<close>

definition slot_step :: "'s rest_state \<Rightarrow> 's rest_state \<Rightarrow> bool" where
  "slot_step st st' \<longleftrightarrow> rt_rate_ok st' = rt_rate_ok st \<and> rt_job_ok st' = rt_job_ok st \<and>
    (rt_job st' = rt_job st \<or> (\<exists>cmd. job_submit cmd (rt_job st) = (True, rt_job st')) \<and> rt_job_ok st)"

text \<open>After the limiter: at most one write is recorded, at the next reading of the clock.\<close>

definition limited_step :: "(nat \<Rightarrow> int) \<Rightarrow> 's rest_state \<Rightarrow> 's rest_state \<Rightarrow> bool" where
  "limited_step time st st' \<longleftrightarrow> slot_step st st' \<and>
    (rt_ticks st' = rt_ticks st \<and> rt_last_write_us st' = rt_last_write_us st \<or>
     rt_rate_ok st \<and> rt_ticks st' = rt_ticks st + 1 \<and> rt_last_write_us st' = time (rt_ticks st))"

text \<open>A whole request: a write is recorded only after the limiter let it pass.\<close>

definition request_step :: "(nat \<Rightarrow> int) \<Rightarrow> 's rest_state \<Rightarrow> 's rest_state \<Rightarrow> bool" where
  "request_step time st st' \<longleftrightarrow> slot_step st st' \<and>
    (rt_ticks st' \<le> rt_ticks st + 1 \<and> rt_last_write_us st' = rt_last_write_us st \<or>
     rt_rate_ok st \<and> rt_ticks st' = rt_ticks st + 2 \<and> WRITE_COOLDOWN_US \<le> time (rt_ticks st) - rt_last_write_us st \<and>
     rt_last_write_us st' = time (rt_ticks st + 1))"

definition handles :: "('s rest_state \<Rightarrow> 's rest_state \<Rightarrow> bool) \<Rightarrow> ('io, 's) handler \<Rightarrow> bool" where
  "handles R h \<longleftrightarrow> (\<forall>rq st r st'. h rq st = Some (r, st') \<longrightarrow> R st st')"

lemma handlesI: "(\<And>rq st r st'. h rq st = Some (r, st') \<Longrightarrow> R st st') \<Longrightarrow> handles R h"
  by (simp add: handles_def)

lemma handlesD: "handles R h \<Longrightarrow> h rq st = Some (r, st') \<Longrightarrow> R st st'"
  by (simp add: handles_def)

lemma same_compose:
  "same_limits st st1 \<Longrightarrow> same_limits st1 st' \<Longrightarrow> same_limits st st'"
  "same_limits st st1 \<Longrightarrow> limited_step time st1 st' \<Longrightarrow> limited_step time st st'"
  "limited_step time st st1 \<Longrightarrow> same_limits st1 st' \<Longrightarrow> limited_step time st st'"
  "same_limits st st' \<Longrightarrow> limited_step time st st'"
  "same_limits st st' \<Longrightarrow> request_step time st st'"
  by (auto simp: same_limits_def limited_step_def request_step_def slot_step_def)

lemma respond_same: "respond_json rq status body st = Some (r, st') \<Longrightarrow> same_limits st st'"
  by (auto simp: respond_json_def same_limits_def split: option.splits if_splits)

lemma run_same: "run_command S cmd st = Some (r, st') \<Longrightarrow> same_limits st st'"
  by (auto simp: run_command_def same_limits_def split: option.splits if_splits)

lemma record_step: "limited_step time st (record_rate_limit time st)"
  by (auto simp: record_rate_limit_def limited_step_def slot_step_def timer_get_time_def)

lemma with_auth_handles: "handles R k \<Longrightarrow> (\<And>st st'. same_limits st st' \<Longrightarrow> R st st') \<Longrightarrow> handles R (with_auth scope k)"
  by (auto simp: handles_def with_auth_def dest: respond_same split: option.splits bool.splits)

lemma with_status_handles: "(\<And>status. handles R (k status)) \<Longrightarrow> (\<And>st st'. same_limits st st' \<Longrightarrow> R st st') \<Longrightarrow> handles R (with_status S k)"
  by (auto simp: handles_def with_status_def dest: respond_same split: if_splits)

lemma with_body_handles: "(\<And>body. handles R (k body)) \<Longrightarrow> (\<And>st st'. same_limits st st' \<Longrightarrow> R st st') \<Longrightarrow> handles R (with_body k)"
  by (rule handlesI) (auto simp: with_body_def same_limits_def dest: respond_same handlesD split: sum.splits ReadBodyError.splits)

lemma with_rate_handles:
  assumes "handles (limited_step time) k"
  shows "handles (request_step time) (with_rate time k)"
proof (rule handlesI)
  fix rq st r st'
  assume h: "with_rate time k rq st = Some (r, st')"
  obtain lim st1 where c: "check_rate_limit time st = (lim, st1)"
    by force
  show "request_step time st st'"
  proof (cases lim)
    case None
    then have "limited_step time st1 st'"
      using h c assms by (auto simp: with_rate_def dest: handlesD)
    moreover have "if rt_rate_ok st then st1 = st\<lparr>rt_ticks := rt_ticks st + 1\<rparr> \<and> WRITE_COOLDOWN_US \<le> time (rt_ticks st) - rt_last_write_us st
        else st1 = st"
      using c None by (auto simp: check_rate_limit_def timer_get_time_def Let_def split: if_splits)
    ultimately show ?thesis
      by (auto simp: limited_step_def request_step_def slot_step_def split: if_splits)
  next
    case (Some n)
    then have "st' = st1"
      using h c by (simp add: with_rate_def respond_rate_limited_def)
    then show ?thesis
      using c Some by (auto simp: request_step_def slot_step_def check_rate_limit_def timer_get_time_def Let_def split: if_splits)
  qed
qed

lemma respond_result_handles:
  assumes "respond_result success rq (run_command S cmd st) = Some (r, st')"
    and "\<And>st1. success st1 rq st1 = Some (r, st') \<Longrightarrow> limited_step time st1 st'"
  shows "limited_step time st st'"
proof -
  obtain x st1 where x: "run_command S cmd st = Some (x, st1)"
    using assms(1) by (auto simp: respond_result_def split: option.splits)
  have "limited_step time st1 st'"
    using assms x by (auto simp: respond_result_def dest: respond_same intro: same_compose split: sum.splits WorkflowResult.splits)
  then show ?thesis
    using run_same [OF x] same_compose(2) by blast
qed

lemma respond_recorded:
  "respond_json rq status body (record_rate_limit time st) = Some (r, st') \<Longrightarrow> limited_step time st st'"
  using respond_same record_step same_compose(3) by blast

lemma run_recorded:
  assumes "respond_result (\<lambda>st rq _. respond_json rq 200 body (record_rate_limit time st)) rq (run_command S cmd st) = Some (r, st')"
  shows "limited_step time st st'"
  using respond_result_handles [OF assms] respond_recorded by blast

lemma respond_limited: "respond_json rq status body st = Some (r, st') \<Longrightarrow> limited_step time st st'"
  by (rule same_compose(4)) (rule respond_same)

lemma limited_request: "handles (limited_step time) k \<Longrightarrow> handles (request_step time) (with_auth scope (with_rate time k))"
  by (intro with_auth_handles with_rate_handles same_compose(5))

lemma limited_body: "(\<And>body. handles (limited_step time) (k body)) \<Longrightarrow> handles (limited_step time) (with_body k)"
  by (intro with_body_handles same_compose(4))

lemma keys_handle: "handles (request_step time) (handle_keys S time)"
  unfolding handle_keys_def
  by (intro limited_request limited_body handlesI)
    (auto dest: respond_limited run_recorded split: sum.splits)

lemma url_handle: "handles (request_step time) (handle_url S time)"
  unfolding handle_url_def
  by (intro limited_request limited_body handlesI)
    (auto dest: respond_limited run_recorded split: option.splits)

lemma action_handle:
  fixes S :: "'b BoltyService"
  shows "handles (request_step time) (handle_action S time cmd :: ('a, 'b) handler)"
  unfolding handle_action_def
proof (intro limited_request handlesI)
  fix rq :: "'a http_request" and st st' :: "'b rest_state" and r
  assume h: "(case run_command S cmd st of
      None \<Rightarrow> None
    | Some (Inr WrSuccess, st) \<Rightarrow> respond_json rq 200 (json_ok ''\"status\":\"done\"'') (record_rate_limit time st)
    | Some (Inr _, st) \<Rightarrow> respond_json rq 200 ''{\"ok\":false,\"status\":\"error\"}'' st
    | Some (Inl _, st) \<Rightarrow> respond_json rq 500 ''{\"ok\":false,\"status\":\"error\"}'' st) = Some (r, st')"
  then obtain x st1 where x: "run_command S cmd st = Some (x, st1)"
    by (auto split: option.splits)
  have "limited_step time st1 st'"
    using h x by (auto dest: respond_limited respond_recorded split: sum.splits WorkflowResult.splits)
  then show "limited_step time st st'"
    using run_same [OF x] same_compose(2) by blast
qed

lemma submit_handle: "handles (request_step time) (handle_job_submit time :: ('a, 'b) handler)"
proof -
  have sub: "limited_step time st st'"
    if "respond_json rq status body (record_rate_limit time (st\<lparr>rt_job := slot\<rparr>)) = Some (r, st')" "job_submit cmd (rt_job st) = (True, slot)"
      "rt_job_ok st" for rq :: "'a http_request" and st st' :: "'b rest_state" and status body r slot cmd
    using respond_same [OF that(1)] that(2,3)
    by (auto simp: same_limits_def limited_step_def slot_step_def record_rate_limit_def timer_get_time_def split: if_splits)
  show ?thesis
    unfolding handle_job_submit_def
    by (intro limited_request limited_body handlesI)
      (auto dest: respond_limited intro: sub split: option.splits if_splits prod.splits bool.splits)
qed

lemma read_result:
  assumes "respond_result success rq (run_command S cmd st) = Some (r, st')"
    and "\<And>st1. success st1 rq st1 = Some (r, st') \<Longrightarrow> same_limits st1 st'"
  shows "same_limits st st'"
proof -
  obtain x st1 where x: "run_command S cmd st = Some (x, st1)"
    using assms(1) by (auto simp: respond_result_def split: option.splits)
  have "same_limits st1 st'"
    using assms x by (auto simp: respond_result_def dest: respond_same split: sum.splits WorkflowResult.splits)
  then show ?thesis
    using run_same [OF x] same_compose(1) by blast
qed

lemma read_request: "handles same_limits k \<Longrightarrow> handles same_limits (with_auth scope k)"
  "(\<And>status. handles same_limits (f status)) \<Longrightarrow> handles same_limits (with_status S f)"
  by (intro with_auth_handles with_status_handles; assumption)+

lemma check_handle: "handles same_limits (handle_check S)"
  unfolding handle_check_def
proof (intro read_request handlesI, goal_cases)
  case (1 rq st r st')
  then obtain x st1 where x: "run_command S CmCheck st = Some (x, st1)"
    by (auto split: option.splits)
  have "same_limits st1 st'"
    using 1 x by (auto dest: respond_same split: sum.splits WorkflowResult.splits)
  then show ?case
    using run_same [OF x] same_compose(1) by blast
qed

lemma status_handle: "handles same_limits (handle_status S)" "handles same_limits (handle_uid S)" "handles same_limits handle_job_status"
  unfolding handle_status_def handle_uid_def handle_job_status_def
  by (intro read_request handlesI; auto simp: Let_def dest: respond_same split: option.splits if_splits)+

lemma inspect_handle:
  "handles same_limits (handle_keyver S)" "handles same_limits (handle_ndef S)" "handles same_limits (handle_diagnose S)"
  "handles same_limits (handle_inspect S)"
  unfolding handle_keyver_def handle_ndef_def handle_diagnose_def handle_inspect_def Let_def
  by (intro read_request handlesI; erule read_result; erule respond_same)+

lemma route_handles:
  assumes "rest_route S time m path = Some h"
  shows "handles (request_step time) h"
proof -
  have "handles same_limits h \<or> handles (request_step time) h"
    using assms keys_handle [of time S] url_handle [of time S] action_handle [of time S] submit_handle [of time]
      check_handle [of S] status_handle(1,2) [of S] status_handle(3) inspect_handle [of S]
    by (auto simp: rest_route_def split: Method.splits if_splits)
  then show ?thesis
    by (auto simp: handles_def intro: same_compose(5))
qed

section \<open>Requests and the job runner, interleaved\<close>

text \<open>Where the runner is, and what an observer sees: a job accepted, a job run with its result, the time of a
  recorded write.\<close>

datatype Runner = RnWait | RnClaimed JobCommand | RnDone WorkflowResult

datatype rest_event = Accepted JobCommand | Ran JobCommand WorkflowResult | Wrote int

definition request_events :: "'s rest_state \<Rightarrow> 's rest_state \<Rightarrow> rest_event list" where
  "request_events st st' =
    (if rt_job st' \<noteq> rt_job st then [Accepted (the (js_command (rt_job st')))] else []) @
    (if rt_ticks st' = rt_ticks st + 2 then [Wrote (rt_last_write_us st')] else [])"

inductive rest_run ::
    "'s BoltyService \<Rightarrow> (nat \<Rightarrow> int) \<Rightarrow> 's rest_state \<times> Runner \<Rightarrow> rest_event list \<Rightarrow> 's rest_state \<times> Runner \<Rightarrow> bool"
  for S :: "'s BoltyService" and time :: "nat \<Rightarrow> int" and start :: "'s rest_state \<times> Runner" where
  rest_start: "rest_run S time start [] start"
| rest_request: "rest_run S time start es (st, rn) \<Longrightarrow> rest_route S time m path = Some h \<Longrightarrow> h rq st = Some (r :: (unit, http_response) result, st') \<Longrightarrow>
    rest_run S time start (es @ request_events st st') (st', rn)"
| rest_claim: "rest_run S time start es (st, RnWait) \<Longrightarrow> job_claim st = (Some cmd, st') \<Longrightarrow>
    rest_run S time start es (st', RnClaimed cmd)"
| rest_execute: "rest_run S time start es (st, RnClaimed cmd) \<Longrightarrow> job_execute S cmd st = Some (result, st') \<Longrightarrow>
    rest_run S time start (es @ [Ran cmd result]) (st', RnDone result)"
| rest_complete: "rest_run S time start es (st, RnDone result) \<Longrightarrow>
    rest_run S time start es (job_complete result st, RnWait)"

definition accepted :: "rest_event list \<Rightarrow> JobCommand list" where
  "accepted es = concat (map (\<lambda>e. case e of Accepted c \<Rightarrow> [c] | _ \<Rightarrow> []) es)"

definition ran :: "rest_event list \<Rightarrow> JobCommand list" where
  "ran es = concat (map (\<lambda>e. case e of Ran c _ \<Rightarrow> [c] | _ \<Rightarrow> []) es)"

definition writes :: "rest_event list \<Rightarrow> int list" where
  "writes es = concat (map (\<lambda>e. case e of Wrote t \<Rightarrow> [t] | _ \<Rightarrow> []) es)"

text \<open>The job that was accepted and not yet run.\<close>

definition outstanding :: "JobSlot \<Rightarrow> Runner \<Rightarrow> JobCommand list" where
  "outstanding slot rn =
    (case rn of
      RnWait \<Rightarrow> (if js_status slot = Pending then [the (js_command slot)] else [])
    | RnClaimed cmd \<Rightarrow> [cmd]
    | RnDone _ \<Rightarrow> [])"

definition slot_wf :: "JobSlot \<Rightarrow> Runner \<Rightarrow> bool" where
  "slot_wf slot rn \<longleftrightarrow>
    (js_status slot = Running) = (rn \<noteq> RnWait) \<and>
    (js_status slot = Pending \<longrightarrow> js_command slot \<noteq> None \<and> js_result slot = None) \<and>
    (js_status slot = Completed \<longrightarrow> js_result slot \<noteq> None) \<and>
    (\<forall>cmd. rn = RnClaimed cmd \<longrightarrow> js_command slot = Some cmd)"

lemma event_lists [simp]:
  "accepted [] = []" "ran [] = []" "writes [] = []"
  "accepted (es @ fs) = accepted es @ accepted fs" "ran (es @ fs) = ran es @ ran fs" "writes (es @ fs) = writes es @ writes fs"
  "accepted [Accepted c] = [c]" "accepted [Ran c w] = []" "accepted [Wrote t] = []"
  "ran [Accepted c] = []" "ran [Ran c w] = [c]" "ran [Wrote t] = []"
  "writes [Accepted c] = []" "writes [Ran c w] = []" "writes [Wrote t] = [t]"
  by (simp_all add: accepted_def ran_def writes_def)

lemma request_event_lists:
  "accepted (request_events st st') = (if rt_job st' \<noteq> rt_job st then [the (js_command (rt_job st'))] else [])"
  "ran (request_events st st') = []"
  "writes (request_events st st') = (if rt_ticks st' = rt_ticks st + 2 then [rt_last_write_us st'] else [])"
  by (simp_all add: request_events_def)

lemma submit_changes: "job_submit cmd slot = (True, slot') \<Longrightarrow>
    slot' \<noteq> slot \<and> js_status slot \<in> {Idle, Completed} \<and> js_status slot' = Pending \<and> js_command slot' = Some cmd \<and> js_result slot' = None"
  by (auto simp: job_submit_def split: if_splits) (metis JobSlot.select_convs(1) add_cancel_right_right one_neq_zero)+

lemma execute_same: "job_execute S cmd st = Some (r, st') \<Longrightarrow> same_limits st st'"
  by (auto simp: job_execute_def dest: run_same split: option.splits prod.splits sum.splits)

text \<open>
  C16. Every job that the REST server accepts is run exactly once, in order, whatever requests arrive while it
  waits or runs: along every interleaving the commands run, followed by the one still outstanding, are the
  commands accepted; the slot says "running" exactly while the runner holds a job, and a completed job has a result.
\<close>
theorem jobs_run_once:
  assumes "rest_run S time (st0, RnWait) es (st, rn)" "rt_job st0 = job_slot_new" "rt_job_ok st0"
  shows "accepted es = ran es @ outstanding (rt_job st) rn \<and> slot_wf (rt_job st) rn"
proof -
  have "accepted es = ran es @ outstanding (rt_job (fst x)) (snd x) \<and> slot_wf (rt_job (fst x)) (snd x) \<and> rt_job_ok (fst x)"
    if "rest_run S time (st0, RnWait) es x" for x
    using that
  proof (induction rule: rest_run.induct)
    case rest_start
    then show ?case
      using assms(2,3) by (simp add: job_slot_new_def outstanding_def slot_wf_def)
  next
    case (rest_request es st rn m path h rq r st')
    have step: "slot_step st st'"
      using handlesD [OF route_handles [OF rest_request.hyps(2)] rest_request.hyps(3)] by (simp add: request_step_def)
    then show ?case
      using rest_request.IH
      by (auto simp: slot_step_def request_event_lists outstanding_def slot_wf_def dest!: submit_changes split: Runner.splits)
  next
    case (rest_claim es st cmd st')
    then show ?case
      by (auto simp: job_claim_def outstanding_def slot_wf_def split: if_splits option.splits)
  next
    case (rest_execute es st cmd result st')
    then show ?case
      using execute_same [OF rest_execute.hyps(2)] by (auto simp: same_limits_def outstanding_def slot_wf_def)
  next
    case (rest_complete es st result)
    then show ?case
      by (auto simp: job_complete_def outstanding_def slot_wf_def)
  qed
  from this [OF assms(1)] show ?thesis
    by simp
qed


text \<open>
  C29. An accepted job completes: when the service returns from every command, three steps of the runner take a
  pending job to completed with a result, and the pass of the main loop does exactly these three steps.
\<close>
theorem pending_job_completes:
  assumes "\<And>cmd c. dispatch_sync S cmd c \<noteq> None" "rt_job_ok st" "slot_wf (rt_job st) RnWait" "js_status (rt_job st) = Pending"
  shows "\<exists>cmd result st'. js_command (rt_job st) = Some cmd \<and> rest_run S time (st, RnWait) [Ran cmd result] (st', RnWait) \<and>
    process_rest_job S st = Some st' \<and> js_status (rt_job st') = Completed \<and> js_result (rt_job st') = Some result"
proof -
  obtain cmd where cmd: "js_command (rt_job st) = Some cmd"
    using assms(3,4) by (auto simp: slot_wf_def)
  let ?st1 = "st\<lparr>rt_job := (rt_job st)\<lparr>js_status := Running\<rparr>\<rparr>"
  have claim: "job_claim st = (Some cmd, ?st1)"
    using assms(2,4) cmd by (simp add: job_claim_def)
  have "job_execute S cmd ?st1 \<noteq> None"
    using assms(1) [of "job_to_command cmd" "rt_core st"] by (auto simp: job_execute_def run_command_def split: option.splits)
  then obtain result st2 where exec: "job_execute S cmd ?st1 = Some (result, st2)"
    by force
  have "rest_run S time (st, RnWait) ([] @ [Ran cmd result]) (st2, RnDone result)"
    by (rule rest_execute [OF rest_claim [OF rest_start claim] exec])
  then have "rest_run S time (st, RnWait) [Ran cmd result] (job_complete result st2, RnWait)"
    by (auto intro: rest_complete)
  moreover have "process_rest_job S st = Some (job_complete result st2)"
    using claim exec by (simp add: process_rest_job_def)
  moreover have "rt_job_ok st2"
    using execute_same [OF exec] assms(2) by (simp add: same_limits_def)
  ultimately show ?thesis
    using cmd by (intro exI [of _ cmd] exI [of _ result] exI [of _ "job_complete result st2"]) (simp add: job_complete_def)
qed

section \<open>Examples\<close>

text \<open>A service without a card and a server in its first state, with a write token set.\<close>

definition idle_service :: "unit BoltyService" where
  "idle_service = \<lparr>bs_burn = (\<lambda>_ _ _ s. Some (CardNotPresent, s)), bs_wipe = (\<lambda>_ _ s. Some (CardNotPresent, s)),
    bs_inspect = throw_p CardNotPresent, bs_check_blank = (\<lambda>s. Some (CardNotPresent, s)),
    bs_get_status = (\<lambda>_. \<lparr>ss_last_uid = None, ss_nfc_ready = True, ss_lnurl = None\<rparr>), bs_sync_from = (\<lambda>_ s. s)\<rparr>"

definition first_state :: "unit rest_state" where
  "first_state =
    \<lparr>rt_core = \<lparr>fc_service = (), fc_config = bolty_config_default\<lparr>rest_write_token := Some ''secret''\<rparr>, fc_gate = gate_new\<rparr>,
     rt_config_ok = True, rt_service_ok = True, rt_last_write_us = 0, rt_rate_ok = True, rt_job = job_slot_new,
     rt_job_ok = True, rt_ticks = 0\<rparr>"

definition wipe_request :: "string \<Rightarrow> unit http_request" where
  "wipe_request header = \<lparr>hq_authorization = Some header, hq_content_len = Some 18,
    hq_stream = [Inr (as_bytes ''{\"command\":''), Inr (as_bytes ''\"wipe\"}'')], hq_send_error = None\<rparr>"

definition demo_clock :: "nat \<Rightarrow> int" where
  "demo_clock n = 6000000 + int n"


lemma str_trim_start_hd:
  assumes "s \<noteq> []" "32 < (of_char (hd s) :: nat) \<and> of_char (hd s) < (128 :: nat)"
  shows "str_trim_start s = s"
proof -
  have "list_all (\<lambda>w. w \<noteq> [] \<and> (hd w \<le> 0x20 \<or> 0x80 \<le> hd w)) WHITE_SPACE"
    by (simp add: WHITE_SPACE_def)
  moreover have "char_of (unat b) \<noteq> c" if "b \<le> 0x20 \<or> 0x80 \<le> b" "32 < (of_char c :: nat) \<and> of_char c < (128 :: nat)"
    for b :: byte and c
    using that unsigned_less [of b, where 'a = nat] by (auto simp: word_le_nat_alt of_char_of)
  ultimately have "first_prefix (map str_of_bytes WHITE_SPACE) s = 0"
    using assms by (auto intro!: first_prefix_hd simp: list_all_iff str_of_bytes_def hd_map)
  then show ?thesis
    by (simp add: str_trim_start_def trim_prefixes_same)
qed

lemma wipe_accepted:
  "case handle_job_submit demo_clock (wipe_request ''Bearer secret'') first_state of None \<Rightarrow> False
   | Some (r, st') \<Rightarrow> request_events first_state st' = [Accepted JcWipe, Wrote 6000001]"
proof -
  let ?body = "''{\"command\":\"wipe\"}''"
  have "is_authorized (wipe_request ''Bearer secret'') ScopeWrite first_state = Some True"
    by (simp add: is_authorized_def bearer_token_def eq_ignore_ascii_case_def wipe_request_def first_state_def token_eq_iff utf8_cont_def)
  moreover have "read_body (wipe_request ''Bearer secret'') = Inr ?body"
  proof -
    have "utf8_valid (as_bytes ?body)"
      by (rule utf8_ascii) simp
    then have "from_utf8 (as_bytes ?body) = Some ?body"
      by (simp only: from_utf8_def str_of_bytes_as_bytes if_True)
    moreover have "read_body (wipe_request ''Bearer secret'') = ok_or RbInvalidUtf8 (from_utf8 (as_bytes ?body))"
      by (simp add: read_body_def wipe_request_def MAX_BODY_LEN_def)
    ultimately show ?thesis
      by (simp only: ok_or_def option.case)
  qed
  moreover have "check_rate_limit demo_clock first_state = (None, first_state\<lparr>rt_ticks := 1\<rparr>)"
    by (simp add: check_rate_limit_def demo_clock_def timer_get_time_def first_state_def WRITE_COOLDOWN_US_def)
  moreover have "str_find ''\"command\"'' ?body = Some 1" "str_find '':'' '':\"wipe\"}'' = Some 0" "json_content False ''wipe\"}'' = Some ''wipe''"
    by (simp_all add: str_find_def upt_rec)
  then have "extract_json_string ?body ''command'' = Some ''wipe''"
    by (simp add: extract_json_string_def hl_push_str_def str_trim_start_hd)
  moreover have "job_from_str ''wipe'' = Some JcWipe"
    by (simp add: job_from_str_def eq_ignore_ascii_case_def ascii_lower_def)
  ultimately show ?thesis
    by (simp add: handle_job_submit_def with_auth_def with_rate_def with_body_def first_state_def job_submit_def job_slot_new_def
        respond_json_def wipe_request_def record_rate_limit_def timer_get_time_def demo_clock_def request_events_def)
qed

lemma wipe_run:
  "\<exists>st. rest_run idle_service demo_clock (first_state, RnWait) [Accepted JcWipe, Wrote 6000001] (st, RnWait)"
proof -
  obtain r st' where s: "handle_job_submit demo_clock (wipe_request ''Bearer secret'') first_state = Some (r :: (unit, http_response) result, st')"
    "request_events first_state st' = [Accepted JcWipe, Wrote 6000001]"
    using wipe_accepted by (auto split: option.splits)
  have "rest_route idle_service demo_clock Post ''/api/job'' = Some (handle_job_submit demo_clock)"
    by (simp add: rest_route_def)
  from rest_request [OF rest_start this s(1)] show ?thesis
    using s(2) by auto
qed

theorem jobs_run_once_witness:
  "\<exists>st. rest_run idle_service demo_clock (first_state, RnWait) [Accepted JcWipe, Wrote 6000001] (st, RnWait) \<and>
    [JcWipe] = outstanding (rt_job st) RnWait"
proof -
  obtain st where st: "rest_run idle_service demo_clock (first_state, RnWait) [Accepted JcWipe, Wrote 6000001] (st, RnWait)"
    using wipe_run by blast
  have "accepted [Accepted JcWipe, Wrote 6000001] = [JcWipe]" "ran [Accepted JcWipe, Wrote 6000001] = []"
    by (simp_all add: accepted_def ran_def)
  then show ?thesis
    using jobs_run_once [OF st] st by (auto simp: first_state_def)
qed


theorem pending_job_completes_witness:
  "\<exists>result st'. process_rest_job idle_service (first_state\<lparr>rt_job := snd (job_submit JcWipe job_slot_new)\<rparr>) = Some st' \<and>
    js_status (rt_job st') = Completed \<and> js_result (rt_job st') = Some result"
proof -
  have "dispatch_sync idle_service cmd c \<noteq> None" for cmd c
    by (cases cmd) (simp_all add: dispatch_sync_def dispatch_command_def idle_service_def card_transaction_def throw_p_def split: option.splits)
  then show ?thesis
    using pending_job_completes [of idle_service "first_state\<lparr>rt_job := snd (job_submit JcWipe job_slot_new)\<rparr>" demo_clock]
    by (auto simp: first_state_def job_submit_def job_slot_new_def slot_wf_def)
qed

end
