(* ===== verification/FwLife.thy ===== *)
theory FwLife
  imports FwService CliTheorems
begin

text \<open>
  The firmware's card operations on any card that keeps the contract of \<open>ntag_reader\<close>, and on the mock card: what
  \<open>burn\<close> and \<open>wipe\<close> of the service do to a card, and the two through the dispatcher that all front ends share.
\<close>

section \<open>Operations over the contract of a card\<close>

text \<open>The firmware's front end before a card: an activation finds the card and leaves it as it is, and random numbers
  have the size of a key.\<close>

definition fw_reader :: "('t, 'e, 'f, 'v) fw_env \<Rightarrow> ('t \<Rightarrow> card) \<Rightarrow> ('t \<Rightarrow> bool) \<Rightarrow> bool" where
  "fw_reader env view ready \<longleftrightarrow>
    (\<forall>t. ready t \<longrightarrow> (\<exists>t'. fe_activate env t = Some (Inr (cd_uid (view t)), t') \<and> ready t' \<and> view t' = view t)) \<and>
    (\<forall>n. length (fe_rng env n) = 16)"

definition fw_params :: "string \<Rightarrow> CardKeys \<Rightarrow> BurnParams" where
  "fw_params url keys =
    \<lparr>bp_lnurl = url, bp_keys = keys, bp_key_version = key_version issuer_config_default,
     bp_current_key = AesKey FACTORY_KEY, bp_previous_keys = factory_keys\<rparr>"

context ntag_reader
begin

lemma mirroring_ok:
  assumes "ready t" "synced s t"
  shows "\<exists>m t' s'. inspect_mirroring E settings ndef (t, s) = Some (Inr m, (t', s')) \<and> ready t' \<and> view t' = view t"
proof (cases "Option.bind settings fv_sdm")
  case None
  then show ?thesis
    using assms by (auto simp: inspect_mirroring_def split: option.splits)
next
  case (Some sdm)
  then obtain fs where "settings = Some fs" "fv_sdm fs = Some sdm"
    by (cases settings) auto
  then show ?thesis
    using plain_read [OF assms] by (auto simp: inspect_mirroring_def bind_p_def ok_p_def catch_p_def)
qed

lemma safe_inspect_ok:
  assumes "ready t"
  shows "\<exists>r t'. safe_inspect E verify k1 k2 t = Some (Inr r, t') \<and> ready t' \<and> view t' = view t \<and>
    si_file_settings r = Some (cd_settings (view t)) \<and> si_ndef_bytes r = Some (take 256 (cd_ndef (view t)))"
proof -
  obtain v t1 where 1: "unauth_get_version E t = Some (Inr v, t1)" "ready t1" "view t1 = view t" "synced session_new t1"
    using version [OF assms] synced_new by metis
  obtain t2 s2 where 2: "unauth_get_file_settings E Ndef (t1, session_new) = Some (Inr (cd_settings (view t)), (t2, s2))"
    "synced s2 t2" "ready t2" "view t2 = view t"
    using plain_settings [OF 1(2,4)] 1(3) by metis
  obtain t3 s3 where 3: "read_file_unauthenticated E Ndef 0 256 (t2, s2) = Some (Inr (take 256 (cd_ndef (view t))), (t3, s3))"
    "synced s3 t3" "ready t3" "view t3 = view t"
    using plain_read [OF 2(3,2)] 2(4) by metis
  obtain m t4 s4 where 4: "inspect_mirroring E (Some (cd_settings (view t))) (Some (take 256 (cd_ndef (view t)))) (t3, s3) =
      Some (Inr m, (t4, s4))" "ready t4" "view t4 = view t"
    using mirroring_ok [OF 3(3,2)] 3(4) by metis
  show ?thesis
    using 1(1) 2(1) 3(1) 4 selected_uid [OF assms]
    by (auto simp: safe_inspect_def own_def on_link_def bind_p_def sess_def map_err_p_def ok_p_def catch_p_def)
qed


lemma fw_activate:
  assumes "fw_reader env view ready" "es_transceiver s = Some t" "ready t"
  shows "\<exists>t'. activate_transport env s = Some (Inr (cd_uid (view t)), s\<lparr>es_transceiver := Some t'\<rparr>) \<and> ready t' \<and> view t' = view t"
  using assms by (fastforce simp: fw_reader_def activate_transport_def)

lemma fw_probe:
  assumes "fw_reader env view ready" "fe_link env = E" "es_transceiver s = Some t" "ready t" "cd_keys (view t) ! 0 = key"
  shows "\<exists>t'. (\<forall>k. probe_key0 env key k s = k (Inr ()) (s\<lparr>es_rng := es_rng s + 1, es_transceiver := Some t'\<rparr>)) \<and> ready t' \<and> view t' = view t"
proof -
  have "length (fe_rng env (es_rng s)) = 16" "cd_keys (view t) ! key_index Key0 = key"
    using assms(1,5) by (simp_all add: fw_reader_def key_index_simps)
  then obtain sess t' where run: "authenticate_aes E session_new Key0 key (fe_rng env (es_rng s)) t = Some (Inr sess, t')" "live sess t'"
    "view t' = view t"
    using authenticate [OF assms(4)] by blast
  have "probe_key0 env key k s = k (Inr ()) (s\<lparr>es_rng := es_rng s + 1, es_transceiver := Some t'\<rparr>)" for k
    using run(1) assms(2,3) by (simp add: probe_key0_def fw_rnd_a_def bind_p_def catch_p_def over_card_def)
  then show ?thesis
    using run live_ready by blast
qed

lemma service_burn_ok:
  assumes reader: "fw_reader env view ready" "fe_link env = E" "es_transceiver s = Some t" "ready t"
    and blank: "cd_keys (view t) = replicate 5 FACTORY_KEY"
    and keys: "staged_keys env issuer keys (cd_uid (view t)) (workflow_error ''missing keys or issuer'') = Inr card_keys" "keys_sized card_keys"
    and plan: "sdm_url_config (standardize_url_template url) Aes burn_sdm_opts = Inr plan"
  shows "\<exists>s' t'. service_burn env issuer keys url s = Some (Inr (), s') \<and> es_transceiver s' = Some t' \<and> ready t' \<and>
    view t' = burned_card (fw_params url card_keys) plan (view t)"
proof -
  obtain t1 where 1: "activate_transport env s = Some (Inr (cd_uid (view t)), s\<lparr>es_transceiver := Some t1\<rparr>)" "ready t1" "view t1 = view t"
    using fw_activate [OF reader(1,3,4)] by blast
  let ?s1 = "s\<lparr>es_transceiver := Some t1\<rparr>"
  obtain t2 where "\<forall>k. probe_key0 env FACTORY_KEY k ?s1 =
      (k (Inr ()) (?s1\<lparr>es_rng := es_rng ?s1 + 1, es_transceiver := Some t2\<rparr>) :: ((WorkflowResult, AesKey \<times> CardKeys) result \<times> _) option)"
    "ready t2" "view t2 = view t"
    using fw_probe [OF reader(1,2) _ 1(2), of ?s1 FACTORY_KEY] 1(3) blank by auto
  then have 2: "burn_keys env card_keys ?s1 =
      Some (Inr (AesKey FACTORY_KEY, factory_keys), s\<lparr>es_rng := es_rng s + 1, es_transceiver := Some t2\<rparr>)" "ready t2" "view t2 = view t"
    by (simp_all add: burn_keys_def)
  let ?s2 = "s\<lparr>es_rng := es_rng s + 1, es_transceiver := Some t2\<rparr>" and ?rnd = "AesKey (fe_rng env (es_rng s + 1))"
  have "length (key_bytes ?rnd) = 16" "cd_keys (view t2) = key_bytes (bp_current_key (fw_params url card_keys)) # tl (card_key_bytes (bp_previous_keys (fw_params url card_keys)))"
    using reader(1) 2(3) blank by (simp_all add: fw_reader_def fw_params_def card_key_bytes_def factory_keys_def numeral_eq_Suc)
  then obtain t3 where 3: "burn E (fw_params url card_keys) ?rnd t2 = Some (Inr (cd_uid (view t)), t3)" "ready t3"
    "view t3 = burned_card (fw_params url card_keys) plan (view t)"
    using burn_ok [OF 2(2), of ?rnd "fw_params url card_keys" plan] keys(2) plan 2(3) by (auto simp: fw_params_def)
  have sync: "es_transceiver (sync_config N x) = es_transceiver x" for N x
    by (simp add: sync_config_def Let_def split: option.splits)
  show ?thesis
    using 1(1) 2(1) 3 keys(1) reader(2)
    by (simp add: service_burn_def bind_p_def lift_r_def fw_rnd_a_def map_err_p_def over_card_def modify_fw_def sync fw_params_def)
qed

lemma service_wipe_ok:
  assumes reader: "fw_reader env view ready" "fe_link env = E" "es_transceiver s = Some t" "ready t"
    and keys: "staged_keys env issuer keys (cd_uid (view t)) WipeRefused = Inr card_keys" "cd_keys (view t) = card_key_bytes card_keys"

  shows "\<exists>s' t'. service_wipe env issuer keys s = Some (Inr (), s') \<and> es_transceiver s' = Some t' \<and> ready t' \<and>
    view t' = wiped_card (view t) \<and> ca_state (es_last_card s') = StateBlank"
proof -
  obtain t1 where 1: "activate_transport env s = Some (Inr (cd_uid (view t)), s\<lparr>es_transceiver := Some t1\<rparr>)" "ready t1" "view t1 = view t"
    using fw_activate [OF reader(1,3,4)] by blast
  let ?s1 = "s\<lparr>es_transceiver := Some t1\<rparr>"
  obtain t2 where 2: "(if force_unsafe (es_current_config s) then return_p ()
       else catch_p (over_card (safe_inspect (fe_link env) (fe_verify env) None None)) (\<lambda>r. case r of
           Inr inspect \<Rightarrow>
             if looks_factory_default (si_file_settings inspect) \<and> si_ndef_bytes inspect = None
             then throw_p WipeRefused else return_p ()
         | Inl _ \<Rightarrow> return_p ())) ?s1 = Some (Inr (), s\<lparr>es_transceiver := Some t2\<rparr>)" "ready t2" "view t2 = view t"
  proof (cases "force_unsafe (es_current_config s)")
    case False
    then show ?thesis
      using safe_inspect_ok [OF 1(2), of "fe_verify env" None None] 1(3) reader(2) that
      by (auto simp: catch_p_def over_card_def)
  qed (use 1 that in auto)
  let ?rnd = "AesKey (fe_rng env (es_rng s))"
  obtain t3 where 3: "wipe E card_keys ?rnd t2 = Some (Inr (cd_uid (view t)) :: ('e Error, bytes) result, t3)" "ready t3"
    "view t3 = wiped_card (view t)"
    using wipe_ok [OF 2(2), of ?rnd card_keys] reader(1) keys(2) 2(3) by (auto simp: fw_reader_def)
  show ?thesis
    using 1(1) 2(1) 3 keys(1) reader(2)
    by (simp add: service_wipe_def bind_p_def lift_r_def get_fw_def fw_rnd_a_def map_err_p_def over_card_def modify_fw_def saw_card_def)
qed

text \<open>The guard of \<open>wipe\<close> wants the NDEF file to be unreadable, which no card with free read access satisfies.\<close>

lemma wipe_guard_passes:
  assumes reader: "fw_reader env view ready" "fe_link env = E" "es_transceiver s = Some t" "ready t"
    and keys: "staged_keys env issuer keys (cd_uid (view t)) WipeRefused = Inr card_keys"
    and run: "service_wipe env issuer keys s = Some (r, s')"
  shows "r \<noteq> Inl WipeRefused"
proof -
  obtain t1 where 1: "activate_transport env s = Some (Inr (cd_uid (view t)), s\<lparr>es_transceiver := Some t1\<rparr>)" "ready t1" "view t1 = view t"
    using fw_activate [OF reader(1,3,4)] by blast
  obtain i t2 where 2: "safe_inspect E (fe_verify env) None None t1 = Some (Inr i, t2)" "si_ndef_bytes i \<noteq> None"
    using safe_inspect_ok [OF 1(2)] by fastforce
  have "map_ntag_error env e \<noteq> WipeRefused" for e
    by (simp add: map_ntag_error_def split: Error.splits SessionError.splits)
  then have "map_err (map_ntag_error env) x \<noteq> Inl WipeRefused" for x :: "('e Error, 'x) result"
    by (cases x) simp_all
  then show ?thesis
    using run 1(1) 2 keys reader(2)
    by (auto simp: service_wipe_def bind_p_def lift_r_def get_fw_def fw_rnd_a_def map_err_p_def over_card_def modify_fw_def saw_card_def
        catch_p_def split: if_splits option.splits sum.splits prod.splits)
qed

end

section \<open>The life of a card at the device\<close>

lemma sync_from_transceiver: "es_transceiver (sync_from N c s) = es_transceiver s"
  by (simp add: sync_from_def sync_config_def Let_def split: option.splits)

lemma staged_issuer:
  assumes "length uid = 7"
  shows "staged_keys env (Some issuer) keys uid missing =
    Inr (card_keys_of_set (derive_keys (fe_cmac env) (key_bytes issuer) (CardUid uid) (ucast KEY_VERSION_PROVISIONED)))"
  using assms by (simp add: staged_keys_def copy_uid7_def issuer_config_default_def)


text \<open>On the mock card, which answers reads like a factory card, \<open>wipe\<close> is never refused: the check for a blank card
  that \<open>force off\<close> is said to enable does not hold back the authentication with the derived key.\<close>

lemma blank_wipe_not_refused:
  assumes "fe_link env = mock_link A False" "fw_reader env mock_card (mock_ready A)"
    and "es_transceiver s = Some m" "mock_ready A m" "mk_keys m = replicate 5 FACTORY_KEY"
    and "\<not> force_unsafe (es_current_config s)" "service_wipe env (Some issuer) keys s = Some (r, s')"
  shows "r \<noteq> Inl WipeRefused"
proof -
  have "length (cd_uid (mock_card m)) = 7"
    using assms(4) by (simp add: mock_ready_def mock_wf_def mock_card_def)
  then show ?thesis
    using mock_reader.wipe_guard_passes [OF assms(2,1,3,4) staged_issuer assms(7)] by blast
qed

definition demo_fw_env :: "(MockTransport, MockTransportError, unit, unit) fw_env" where
  "demo_fw_env =
    \<lparr>fe_link = mock_link xor_crate False, fe_activate = (\<lambda>m. Some (Inr (mk_uid m), m)), fe_rng = (\<lambda>_. replicate 16 9),
     fe_cmac = ce_cmac demo_env, fe_verify = (\<lambda>_ _ _ _. None), fe_verified_uid = (\<lambda>_. None),
     fe_nvs = \<lparr>nv_open = (\<lambda>_ _. False), nv_get = (\<lambda>_ _. None), nv_set = (\<lambda>_ _ f. (False, f)), nv_commit = (\<lambda>f. (False, f))\<rparr>,
     fe_debug = (\<lambda>_. [])\<rparr>"

definition demo_fw_core :: "(MockTransport, unit) Esp32BoltyService fw_core" where
  "demo_fw_core =
    (let config = bolty_config_default\<lparr>lnurl := Some demo_url, pending_issuer := Some (AesKey (replicate 16 7))\<rparr>
     in \<lparr>fc_service = service_new (fe_nvs demo_fw_env) (Some mock_new) None [] config False 100000 (), fc_config = config,
         fc_gate = snd (gate_arm gate_new)\<rparr>)"

lemma demo_fw_facts:
  "fe_link demo_fw_env = mock_link xor_crate False" "fw_reader demo_fw_env mock_card (mock_ready xor_crate)"
  "es_transceiver (fc_service demo_fw_core) = Some mock_new" "mk_keys mock_new = replicate 5 FACTORY_KEY"
  "pending_issuer (fc_config demo_fw_core) = Some (AesKey (replicate 16 7))" "lnurl (fc_config demo_fw_core) = Some demo_url"
  "card_keys_of_set demo_set =
    card_keys_of_set (derive_keys (fe_cmac demo_fw_env) (key_bytes (AesKey (replicate 16 7))) (CardUid (mk_uid mock_new)) (ucast KEY_VERSION_PROVISIONED))"
  "vg_marker (fc_gate demo_fw_core)"
  using demo_host_facts(4,5)
  by (simp_all add: demo_fw_env_def fw_reader_def mock_card_def demo_fw_core_def service_new_def sync_config_def Let_def
      gate_arm_def gate_new_def demo_set_def demo_host_def KEY_VERSION_PROVISIONED_def)


end
