(* ===== verification/FwOta.thy ===== *)
theory FwOta
  imports FwNvs Cli
begin

text \<open>
  Firmware updates: the push server on the OTA port (\<open>ota_header.rs\<close>, \<open>ota_server.rs\<close>) and the signed pull
  (\<open>ota.rs\<close>). The flash interface, the HTTP client, the hash and the signature check are parameters; a client is
  the bytes it sends before it stalls or closes. \<open>flash_log\<close> wraps the flash interface to record the calls made.
\<close>

section \<open>Header and authorization\<close>

definition MAGIC_V1 :: bytes where
  "MAGIC_V1 = as_bytes ''OTA1''"

definition MAGIC_V2 :: bytes where
  "MAGIC_V2 = as_bytes ''OTA2''"

definition TOKEN_LEN :: nat where
  "TOKEN_LEN = 32"

definition validate_size :: "nat \<Rightarrow> nat \<Rightarrow> (string, unit) result" where
  "validate_size announced partition_size =
    (if announced = 0 then Inl ''bad size''
     else if announced > partition_size then Inl ''announced image larger than the OTA partition''
     else Inr ())"

text \<open>The token is baked in at build time; one of the wrong length panics.\<close>

definition compiled_token :: "string option \<Rightarrow> bytes option option" where
  "compiled_token env =
    (case env of
      None \<Rightarrow> Some None
    | Some tok \<Rightarrow> if length tok \<noteq> TOKEN_LEN then None else Some (Some (as_bytes tok)))"

definition authorize :: "bytes \<Rightarrow> bytes option \<Rightarrow> bytes option \<Rightarrow> (string, unit) result" where
  "authorize magic token expected =
    (case (magic = MAGIC_V2, expected) of
      (True, Some want) \<Rightarrow>
        bind_r (ok_or ''OTA2 header missing token payload'' token) (\<lambda>got.
          if got = want then Inr () else Inl ''OTA token mismatch'')
    | (True, None) \<Rightarrow> Inr ()
    | (False, Some _) \<Rightarrow> Inl ''OTA1 refused: this build requires a token (use OTA2)''
    | (False, None) \<Rightarrow> if magic = MAGIC_V1 then Inr () else Inl ''bad magic'')"

section \<open>Push server\<close>

text \<open>The calls of the flash interface; each reports whether it succeeded.\<close>

datatype flash_op = OtaBegin | OtaWrite bytes | OtaAbort | OtaEnd | OtaSetBoot

record 'p flash =
  fo_partition_size :: "nat option"
  fo_call :: "flash_op \<Rightarrow> 'p \<Rightarrow> bool \<times> 'p"

definition flash_log :: "'p flash \<Rightarrow> ('p \<times> flash_op list) flash" where
  "flash_log A =
    \<lparr>fo_partition_size = fo_partition_size A,
     fo_call = (\<lambda>op (p, ops). case fo_call A op p of (ok, p) \<Rightarrow> (ok, (p, ops @ [op])))\<rparr>"

text \<open>The state of a connection: what the client still sends, and the flash.\<close>

type_synonym ('p, 'a) ota = "(bytes \<times> 'p, string, 'a) prog"

definition read_exact :: "string \<Rightarrow> nat \<Rightarrow> ('p, bytes) ota" where
  "read_exact err n = (\<lambda>(stream, p).
    if length stream < n then Some (Inl err, ([], p)) else Some (Inr (take n stream), (drop n stream, p)))"

definition flash_call :: "'p flash \<Rightarrow> flash_op \<Rightarrow> string \<Rightarrow> ('p, unit) ota" where
  "flash_call A op err = (\<lambda>(stream, p). case fo_call A op p of (ok, p) \<Rightarrow> Some (if ok then Inr () else Inl err, (stream, p)))"

definition CHUNK :: nat where
  "CHUNK = 1024"

function stream_image :: "'p flash \<Rightarrow> nat \<Rightarrow> ('p, unit) ota" where
  "stream_image A remaining =
    (if remaining = 0 then return_p ()
     else let want = min remaining CHUNK
          in bind_p (read_exact ''image read failed'' want) (\<lambda>buf.
             bind_p (flash_call A (OtaWrite buf) ''esp_ota_write failed'') (\<lambda>_.
               stream_image A (remaining - want))))"
  by pat_completeness auto
termination
  by (relation "measure snd") (auto simp: CHUNK_def)

declare stream_image.simps [simp del]

text \<open>Writing the announced image: every failure of the transfer aborts the handle, the boot partition is switched last.\<close>

definition ota_flash :: "'p flash \<Rightarrow> nat \<Rightarrow> ('p, unit) ota" where
  "ota_flash A image_size =
    bind_p (flash_call A OtaBegin ''esp_ota_begin failed'') (\<lambda>_.
    bind_p (catch_p (stream_image A image_size) (\<lambda>r. case r of
        Inr _ \<Rightarrow> return_p ()
      | Inl message \<Rightarrow> (\<lambda>(stream, p). Some (Inl message, (stream, snd (fo_call A OtaAbort p)))))) (\<lambda>_.
    bind_p (flash_call A OtaEnd (''esp_ota_end failed '' @ EM_DASH @ '' image rejected'')) (\<lambda>_.
      flash_call A OtaSetBoot ''set_boot_partition failed'')))"

text \<open>One connection; a result without error is the restart into the new image.\<close>

definition announced_size :: "bytes \<Rightarrow> nat" where
  "announced_size header =
    unat (header ! 4) + 256 * unat (header ! 5) + 65536 * unat (header ! 6) + 16777216 * unat (header ! 7)"

definition ota_handle :: "'p flash \<Rightarrow> string option \<Rightarrow> ('p, unit) ota" where
  "ota_handle A env =
    bind_p (read_exact ''header read failed'' 8) (\<lambda>header.
      let magic = take 4 header; image_size = announced_size header
      in case fo_partition_size A of
           None \<Rightarrow> throw_p (''no OTA partition '' @ EM_DASH @ '' partition table lacks ota slots'')
         | Some partition_size \<Rightarrow>
             bind_p (lift_r (validate_size image_size partition_size)) (\<lambda>_.
               case compiled_token env of
                 None \<Rightarrow> panic_p
               | Some expected \<Rightarrow>
                   bind_p
                     (if magic = MAGIC_V2
                      then bind_p (read_exact ''token read failed'' TOKEN_LEN) (\<lambda>token. lift_r (authorize magic (Some token) expected))
                      else lift_r (authorize magic None expected)) (\<lambda>_.
                     ota_flash A image_size)))"

section \<open>Signed pull\<close>

datatype 'e OtaError =
    OtaEsp 'e | OtaHttp string | OtaInvalidStatus nat | OtaEmptyImage | OtaSignatureUnprovisioned | OtaSignatureInvalid

datatype update_op = UpInitiate | UpWrite bytes | UpComplete

text \<open>The HTTP response is its status and the results of the successive reads, of at most a chunk each; the body ends
  with an empty read. \<open>ou_call\<close> is the update partition, \<open>ou_connect\<close> the request.\<close>

record ('p, 'e) updater =
  ou_pubkey :: "bytes option"
  ou_connect :: "string \<Rightarrow> ('e OtaError, nat \<times> (string, bytes) result list) result"
  ou_call :: "update_op \<Rightarrow> 'p \<Rightarrow> 'e option \<times> 'p"
  ou_sha256 :: "bytes \<Rightarrow> bytes"
  ou_verify :: "bytes \<Rightarrow> bytes \<Rightarrow> bytes \<Rightarrow> bool"

definition update_log :: "('p, 'e) updater \<Rightarrow> ('p \<times> update_op list, 'e) updater" where
  "update_log U =
    \<lparr>ou_pubkey = ou_pubkey U, ou_connect = ou_connect U,
     ou_call = (\<lambda>op (p, ops). case ou_call U op p of (e, p) \<Rightarrow> (e, (p, ops @ [op]))),
     ou_sha256 = ou_sha256 U, ou_verify = ou_verify U\<rparr>"

definition update_call :: "('p, 'e) updater \<Rightarrow> update_op \<Rightarrow> ('p, 'e OtaError, unit) prog" where
  "update_call U op p = (case ou_call U op p of (None, p) \<Rightarrow> Some (Inr (), p) | (Some e, p) \<Rightarrow> Some (Inl (OtaEsp e), p))"

text \<open>The download loop; it returns the bytes written, which are also the bytes hashed.\<close>

fun download :: "('p, 'e) updater \<Rightarrow> (string, bytes) result list \<Rightarrow> bytes \<Rightarrow> ('p, 'e OtaError, bytes) prog" where
  "download U [] written = return_p written"
| "download U (Inl e # rest) written = throw_p (OtaHttp e)"
| "download U (Inr buf # rest) written =
    (if buf = [] then return_p written
     else bind_p (update_call U (UpWrite buf)) (\<lambda>_. download U rest (written @ buf)))"

definition ota_update :: "('p, 'e) updater \<Rightarrow> string \<Rightarrow> string \<Rightarrow> ('p, 'e OtaError, unit) prog" where
  "ota_update U url signature_hex =
    bind_p (lift_r (ok_or OtaSignatureUnprovisioned (ou_pubkey U))) (\<lambda>signing_key.
    bind_p (lift_r (map_err (\<lambda>_. OtaSignatureInvalid) (decode_hex 64 signature_hex))) (\<lambda>expected_sig.
    bind_p (lift_r (ou_connect U url)) (\<lambda>(status, body).
      if status \<noteq> 200 then throw_p (OtaInvalidStatus status)
      else
        bind_p (update_call U UpInitiate) (\<lambda>_.
        bind_p (download U body []) (\<lambda>written.
          if written = [] then throw_p OtaEmptyImage
          else if \<not> ou_verify U signing_key (ou_sha256 U written) expected_sig then throw_p OtaSignatureInvalid
          else update_call U UpComplete)))))"

section \<open>Properties of the push server\<close>

text \<open>What the calls of a program were, for a flash that records them.\<close>

fun written :: "flash_op list \<Rightarrow> bytes" where
  "written [] = []"
| "written (OtaWrite buf # ops) = buf @ written ops"
| "written (_ # ops) = written ops"

lemma written_append [simp]: "written (xs @ ys) = written xs @ written ys"
  by (induction xs rule: written.induct) simp_all

definition is_write :: "flash_op \<Rightarrow> bool" where
  "is_write op = (case op of OtaWrite buf \<Rightarrow> length buf \<le> CHUNK | _ \<Rightarrow> False)"

lemma flash_log_size [simp]: "fo_partition_size (flash_log A) = fo_partition_size A"
  by (simp add: flash_log_def)

lemma log_call:
  "flash_call (flash_log A) op err (stream, (p, ops)) = Some (r, st') \<longleftrightarrow>
    (\<exists>p'. st' = (stream, (p', ops @ [op])) \<and> fo_call A op p = (r = Inr (), p') \<and> (r = Inr () \<or> r = Inl err))"
  by (cases "fo_call A op p") (auto simp: flash_call_def flash_log_def)

lemma stream_image_log:
  assumes "stream_image (flash_log A) n (stream, (p, ops)) = Some (r, (stream', (p', ops')))"
  shows "\<exists>new. ops' = ops @ new \<and> list_all is_write new \<and>
    (r = Inr () \<longrightarrow> n \<le> length stream \<and> written new = take n stream)"
  using assms
proof (induction n arbitrary: stream p ops r rule: less_induct)
  case (less n)
  show ?case
  proof (cases "n = 0")
    case False
    let ?want = "min n CHUNK"
    show ?thesis
    proof (cases "length stream < ?want")
      case True
      then show ?thesis
        using less.prems False by (subst (asm) stream_image.simps) (auto simp: Let_def bind_p_def read_exact_def)
    next
      case long: False
      obtain r1 p1 where 1: "flash_call (flash_log A) (OtaWrite (take ?want stream)) ''esp_ota_write failed'' (drop ?want stream, (p, ops)) =
          Some (r1, (drop ?want stream, (p1, ops @ [OtaWrite (take ?want stream)])))"
        by (cases "fo_call A (OtaWrite (take ?want stream)) p") (simp add: flash_call_def flash_log_def)
      have w: "is_write (OtaWrite (take ?want stream))"
        by (simp add: is_write_def)
      show ?thesis
      proof (cases r1)
        case (Inl e)
        then show ?thesis
          using less.prems False long 1 w by (subst (asm) stream_image.simps) (auto simp: Let_def bind_p_def read_exact_def)
      next
        case (Inr u)
        then have "stream_image (flash_log A) (n - ?want) (drop ?want stream, (p1, ops @ [OtaWrite (take ?want stream)])) =
            Some (r, (stream', (p', ops')))"
          using less.prems False long 1 by (subst (asm) stream_image.simps) (auto simp: Let_def bind_p_def read_exact_def)
        moreover have "n - ?want < n"
          using False by (simp add: CHUNK_def)
        ultimately obtain new where new: "ops' = (ops @ [OtaWrite (take ?want stream)]) @ new" "list_all is_write new"
          "r = Inr () \<longrightarrow> n - ?want \<le> length (drop ?want stream) \<and> written new = take (n - ?want) (drop ?want stream)"
          using less.IH by blast
        show ?thesis
        proof (intro exI conjI)
          show "ops' = ops @ OtaWrite (take ?want stream) # new"
            using new(1) by simp
          show "list_all is_write (OtaWrite (take ?want stream) # new)"
            using w new(2) by simp
          show "r = Inr () \<longrightarrow> n \<le> length stream \<and> written (OtaWrite (take ?want stream) # new) = take n stream"
            using new(3) long by (auto simp flip: take_add)
        qed
      qed
    qed
  qed (use less.prems in \<open>subst (asm) stream_image.simps, auto\<close>)
qed

lemma ota_flash_log:
  assumes "ota_flash (flash_log A) image_size (stream, (p, ops)) = Some (r, (stream', (p', ops')))"
  shows "\<exists>writes tail. ops' = ops @ OtaBegin # writes @ tail \<and> list_all is_write writes \<and>
    tail \<in> {[], [OtaAbort], [OtaEnd], [OtaEnd, OtaSetBoot]} \<and> (r = Inr () \<longrightarrow> tail = [OtaEnd, OtaSetBoot]) \<and>
    (OtaEnd \<in> set tail \<longrightarrow> image_size \<le> length stream \<and> written writes = take image_size stream)"
proof -
  obtain r1 p1 where 1: "flash_call (flash_log A) OtaBegin ''esp_ota_begin failed'' (stream, (p, ops)) = Some (r1, (stream, (p1, ops @ [OtaBegin])))"
    by (cases "fo_call A OtaBegin p") (simp add: flash_call_def flash_log_def)
  show ?thesis
  proof (cases r1)
    case (Inl e)
    then show ?thesis
      using assms 1 by (auto simp: ota_flash_def bind_p_def intro!: exI [of _ "[]"])
  next
    case (Inr u)
    let ?st = "(stream, (p1, ops @ [OtaBegin]))"
    obtain r2 st2 p2 ops2 where 2: "stream_image (flash_log A) image_size ?st = Some (r2, (st2, (p2, ops2)))"
      using assms 1 Inr by (auto simp: ota_flash_def bind_p_def catch_p_def split: option.splits)
    obtain writes where w: "ops2 = (ops @ [OtaBegin]) @ writes" "list_all is_write writes"
      "r2 = Inr () \<longrightarrow> image_size \<le> length stream \<and> written writes = take image_size stream"
      using stream_image_log [OF 2] by blast
    show ?thesis
    proof (cases r2)
      case (Inl e)
      then have "r = Inl e \<and> ops' = ops2 @ [OtaAbort]"
        using assms 1 \<open>r1 = Inr u\<close> 2
        by (cases "fo_call A OtaAbort p2") (auto simp: ota_flash_def bind_p_def catch_p_def flash_log_def)
      then show ?thesis
        by (intro exI [where x = writes] exI [where x = "[OtaAbort]"]) (use w in simp)
    next
      case (Inr u2)
      obtain ok3 p3 where 3: "fo_call A OtaEnd p2 = (ok3, p3)"
        by fastforce
      obtain ok4 p4 where 4: "fo_call A OtaSetBoot p3 = (ok4, p4)"
        by fastforce
      have "r = (if ok3 then if ok4 then Inr () else Inl ''set_boot_partition failed''
          else Inl (''esp_ota_end failed '' @ EM_DASH @ '' image rejected'')) \<and>
        ops' = ops2 @ (if ok3 then [OtaEnd, OtaSetBoot] else [OtaEnd])"
        using assms 1 \<open>r1 = Inr u\<close> 2 Inr 3 4
        by (auto simp: ota_flash_def bind_p_def catch_p_def flash_call_def flash_log_def split: if_splits)
      then show ?thesis
        by (intro exI [where x = writes] exI [where x = "if ok3 then [OtaEnd, OtaSetBoot] else [OtaEnd]"])
          (use w Inr in \<open>auto split: if_splits\<close>)
    qed
  qed
qed

text \<open>The checks that come before the first call of the flash.\<close>

definition push_allowed :: "string option \<Rightarrow> bytes \<Rightarrow> bool" where
  "push_allowed env stream =
    (case compiled_token env of
      None \<Rightarrow> False
    | Some None \<Rightarrow> take 4 stream = MAGIC_V1 \<or> take 4 stream = MAGIC_V2
    | Some (Some tok) \<Rightarrow> take 4 stream = MAGIC_V2 \<and> take TOKEN_LEN (drop 8 stream) = tok)"

definition push_image :: "bytes \<Rightarrow> bytes" where
  "push_image stream = drop (if take 4 stream = MAGIC_V2 then 8 + TOKEN_LEN else 8) stream"

lemma ota_handle_split:
  assumes "ota_handle (flash_log A) env (stream, (p, [])) = Some (r, (stream', (p', ops)))"
  shows "(ops = [] \<and> r \<noteq> Inr ()) \<or>
    (\<exists>psize. fo_partition_size A = Some psize \<and> 0 < announced_size stream \<and> announced_size stream \<le> psize \<and> push_allowed env stream \<and>
      ota_flash (flash_log A) (announced_size stream) (push_image stream, (p, [])) = Some (r, (stream', (p', ops))))"
proof (cases "length stream < 8 \<or> fo_partition_size A = None")
  case True
  then show ?thesis
    using assms by (auto simp: ota_handle_def bind_p_def read_exact_def Let_def split: if_splits)
next
  case False
  then obtain psize where psize: "fo_partition_size A = Some psize" and len: "8 \<le> length stream"
    by auto
  have hd: "announced_size (take 8 stream) = announced_size stream" "take 4 (take 8 stream) = take 4 stream"
    using len by (simp_all add: announced_size_def)
  show ?thesis
    using assms len unfolding ota_handle_def
    by (auto simp: bind_p_def read_exact_def psize hd add.commute Let_def validate_size_def authorize_def
        push_allowed_def push_image_def ok_or_def bind_r_def lift_r_def split: if_splits option.splits sum.splits)
qed


text \<open>A flash that accepts everything, and a client that pushes three bytes to an armed build.\<close>

definition demo_flash :: "unit flash" where
  "demo_flash = \<lparr>fo_partition_size = Some 1000, fo_call = (\<lambda>_ p. (True, p))\<rparr>"

definition demo_push :: bytes where
  "demo_push = as_bytes ''OTA2'' @ [3, 0, 0, 0] @ as_bytes (replicate 32 CHR ''k'') @ [7, 8, 9, 10]"

lemma demo_push_run:
  "ota_handle (flash_log demo_flash) (Some (replicate 32 CHR ''k'')) (demo_push, ((), [])) =
    Some (Inr (), ([10], ((), [OtaBegin, OtaWrite [7, 8, 9], OtaEnd, OtaSetBoot])))"
  by (simp add: ota_handle_def bind_p_def catch_p_def read_exact_def demo_flash_def flash_log_def announced_size_def
      compiled_token_def TOKEN_LEN_def MAGIC_V2_def authorize_def ota_flash_def flash_call_def stream_image.simps CHUNK_def
      Let_def validate_size_def demo_push_def as_bytes_def lift_r_def ok_or_def)


section \<open>Properties of the signed pull\<close>

lemma update_log_simps [simp]:
  "ou_pubkey (update_log U) = ou_pubkey U" "ou_connect (update_log U) = ou_connect U"
  "ou_sha256 (update_log U) = ou_sha256 U" "ou_verify (update_log U) = ou_verify U"
  by (simp_all add: update_log_def)

lemma update_call_log:
  assumes "update_call (update_log U) op (p, ops) = Some (r, (p', ops'))"
  shows "ops' = ops @ [op]"
  using assms by (cases "ou_call U op p") (auto simp: update_call_def update_log_def split: option.splits)

lemma download_log:
  assumes "download (update_log U) body got (p, ops) = Some (r, (p', ops'))"
  shows "\<exists>bufs. ops' = ops @ map UpWrite bufs \<and> (\<forall>image. r = Inr image \<longrightarrow> image = got @ concat bufs)"
  using assms
proof (induction "update_log U" body got arbitrary: p ops rule: download.induct)
  case (3 buf rest got)
  show ?case
  proof (cases "buf = []")
    case False
    obtain r1 p1 where 1: "update_call (update_log U) (UpWrite buf) (p, ops) = Some (r1, (p1, ops @ [UpWrite buf]))"
      by (cases "ou_call U (UpWrite buf) p"; cases "fst (ou_call U (UpWrite buf) p)") (simp_all add: update_call_def update_log_def)
    show ?thesis
    proof (cases r1)
      case (Inl e)
      then show ?thesis
        using "3.prems" False 1 by (auto simp: bind_p_def intro!: exI [of _ "[buf]"])
    next
      case (Inr u)
      then have "download (update_log U) rest (got @ buf) (p1, ops @ [UpWrite buf]) = Some (r, (p', ops'))"
        using "3.prems" False 1 by (simp add: bind_p_def)
      then obtain bufs where "ops' = (ops @ [UpWrite buf]) @ map UpWrite bufs" "\<forall>image. r = Inr image \<longrightarrow> image = (got @ buf) @ concat bufs"
        using "3.hyps" [OF False] by blast
      then show ?thesis
        by (intro exI [of _ "buf # bufs"]) simp
    qed
  qed (use "3.prems" in \<open>auto intro!: exI [of _ "[]"]\<close>)
qed (auto intro!: exI [of _ "[]"])

text \<open>An update is completed only for an image, non-empty and fully written, whose hash carries the announced
  signature under the provisioned key.\<close>

text \<open>
  C26. A pulled image is only committed with a valid signature: the update is completed only after every byte of the
  response was written in order and the hash of exactly these bytes verified, under the stored key, against the signature
  given on the console; without a stored key, with a malformed signature or an empty image it never is.
\<close>
theorem ota_update_verified:
  assumes "ota_update (update_log U) url sig (p, []) = Some (r, (p', ops))" "UpComplete \<in> set ops"
  shows "\<exists>key s bufs. ou_pubkey U = Some key \<and> decode_hex 64 sig = Inr s \<and> ops = UpInitiate # map UpWrite bufs @ [UpComplete] \<and>
    concat bufs \<noteq> [] \<and> ou_verify U key (ou_sha256 U (concat bufs)) s"
proof -
  obtain key s status body where k: "ou_pubkey U = Some key" "decode_hex 64 sig = Inr s" "ou_connect U url = Inr (status, body)" "status = 200"
    using assms by (auto simp: ota_update_def bind_p_def lift_r_def ok_or_def map_err_def split: option.splits sum.splits if_splits)
  obtain r1 p1 where 1: "update_call (update_log U) UpInitiate (p, []) = Some (r1, (p1, [UpInitiate]))"
    by (cases "ou_call U UpInitiate p"; cases "fst (ou_call U UpInitiate p)") (simp_all add: update_call_def update_log_def)
  then obtain u where r1: "r1 = Inr u"
    using assms k by (cases r1) (auto simp: ota_update_def bind_p_def lift_r_def)
  obtain r2 p2 ops2 where 2: "download (update_log U) body [] (p1, [UpInitiate]) = Some (r2, (p2, ops2))"
    using assms(1) k 1 r1 by (auto simp: ota_update_def bind_p_def lift_r_def split: option.splits)
  then obtain bufs where bufs: "ops2 = [UpInitiate] @ map UpWrite bufs" "\<forall>image. r2 = Inr image \<longrightarrow> image = concat bufs"
    using download_log [OF 2] by auto
  show ?thesis
  proof (cases r2)
    case (Inl e)
    then show ?thesis
      using assms k 1 r1 2 bufs by (auto simp: ota_update_def bind_p_def lift_r_def)
  next
    case (Inr image)
    then have rest: "(if image = [] then throw_p OtaEmptyImage
        else if \<not> ou_verify U key (ou_sha256 U image) s then throw_p OtaSignatureInvalid
        else update_call (update_log U) UpComplete) (p2, ops2) = Some (r, (p', ops))"
      using assms(1) k 1 r1 2 Inr by (auto simp: ota_update_def bind_p_def lift_r_def ok_or_def map_err_def split: if_splits)
    then have "image \<noteq> [] \<and> ou_verify U key (ou_sha256 U image) s \<and> ops = ops2 @ [UpComplete]"
      using assms(2) bufs(1) by (auto split: if_splits dest: update_call_log)
    then show ?thesis
      using k bufs Inr by auto
  qed
qed

text \<open>An updater that serves two chunks and accepts the signature of its hash.\<close>

definition demo_updater :: "(unit, unit) updater" where
  "demo_updater =
    \<lparr>ou_pubkey = Some (replicate 32 1), ou_connect = (\<lambda>_. Inr (200, [Inr [1, 2], Inr [3], Inr []])), ou_call = (\<lambda>_ p. (None, p)),
     ou_sha256 = (\<lambda>m. m), ou_verify = (\<lambda>key m s. m = [1, 2, 3])\<rparr>"

theorem ota_update_verified_witness:
  "\<exists>bufs s. decode_hex 64 (replicate 128 CHR ''0'') = Inr s \<and> concat bufs = [1, 2, 3] \<and>
    ota_update (update_log demo_updater) ''u'' (replicate 128 CHR ''0'') ((), []) =
      Some (Inr (), ((), UpInitiate # map UpWrite bufs @ [UpComplete]))"
proof -
  have "decode_hex 64 (replicate 128 CHR ''0'') = Inr (replicate 64 0)"
    by code_simp
  then have run: "ota_update (update_log demo_updater) ''u'' (replicate 128 CHR ''0'') ((), []) =
      Some (Inr (), ((), [UpInitiate, UpWrite [1, 2], UpWrite [3], UpComplete]))"
    by (simp add: ota_update_def demo_updater_def update_log_def bind_p_def lift_r_def update_call_def ok_or_def map_err_def)
  show ?thesis
    using ota_update_verified [OF run] run by (fastforce simp: demo_updater_def)
qed

end
