(* ===== verification/FwInput.thy ===== *)
theory FwInput
  imports FwNvs
begin

text \<open>
  Inputs of the firmware besides the console: the debounced buttons (\<open>button.rs\<close>) and the state of the BLE command
  service (\<open>ble.rs\<close>), with the calls it makes on the Bluetooth stack as a parameter.
\<close>

section \<open>Buttons\<close>

datatype ButtonEvent = NoEvent | Click | LongPress

record ButtonDebounce =
  bd_debounce_count :: byte
  bd_debounced_pressed :: bool
  bd_press_start_ms :: "64 word"
  bd_long_press_fired :: bool

definition debounce_new :: ButtonDebounce where
  "debounce_new = \<lparr>bd_debounce_count = 0, bd_debounced_pressed = False, bd_press_start_ms = 0, bd_long_press_fired = False\<rparr>"

definition DEBOUNCE_TICKS :: byte where
  "DEBOUNCE_TICKS = 2"

definition LONG_PRESS_MS :: "64 word" where
  "LONG_PRESS_MS = 1000"

definition saturating_inc :: "byte \<Rightarrow> byte" where
  "saturating_inc b = (if b = 255 then 255 else b + 1)"

definition saturating_diff :: "64 word \<Rightarrow> 64 word \<Rightarrow> 64 word" where
  "saturating_diff a b = (if b \<le> a then a - b else 0)"

definition debounce_update :: "bool \<Rightarrow> 64 word \<Rightarrow> ButtonDebounce \<Rightarrow> ButtonEvent \<times> ButtonDebounce" where
  "debounce_update raw_pressed now_ms b =
    (if raw_pressed then
       if \<not> bd_debounced_pressed b then
         let b = b\<lparr>bd_debounce_count := saturating_inc (bd_debounce_count b)\<rparr>
         in (NoEvent, if bd_debounce_count b \<ge> DEBOUNCE_TICKS
               then b\<lparr>bd_debounced_pressed := True, bd_press_start_ms := now_ms, bd_long_press_fired := False\<rparr> else b)
       else if \<not> bd_long_press_fired b \<and> saturating_diff now_ms (bd_press_start_ms b) \<ge> LONG_PRESS_MS
       then (LongPress, b\<lparr>bd_long_press_fired := True\<rparr>)
       else (NoEvent, b)
     else
       let b = b\<lparr>bd_debounce_count := 0\<rparr>
       in if bd_debounced_pressed b
          then (if \<not> bd_long_press_fired b then Click else NoEvent, b\<lparr>bd_debounced_pressed := False\<rparr>)
          else (NoEvent, b))"

definition buttons_poll ::
    "bool \<Rightarrow> bool \<Rightarrow> 64 word \<Rightarrow> ButtonDebounce \<times> ButtonDebounce \<Rightarrow> (ButtonEvent \<times> ButtonEvent) \<times> ButtonDebounce \<times> ButtonDebounce" where
  "buttons_poll front_low side_low now_ms = (\<lambda>(front, side).
    case debounce_update front_low now_ms front of (fe, front) \<Rightarrow>
    case debounce_update side_low now_ms side of (se, side) \<Rightarrow> ((fe, se), (front, side)))"

text \<open>The mode lives in an atomic byte.\<close>

definition get_button_mode :: "byte \<Rightarrow> ButtonMode" where
  "get_button_mode v = (if v = 1 then Legacy else Simple)"

definition set_button_mode :: "ButtonMode \<Rightarrow> byte" where
  "set_button_mode m = (case m of Simple \<Rightarrow> 0 | Legacy \<Rightarrow> 1)"

fun debounce_run :: "(bool \<times> 64 word) list \<Rightarrow> ButtonDebounce \<Rightarrow> ButtonEvent list \<times> ButtonDebounce" where
  "debounce_run [] b = ([], b)"
| "debounce_run ((raw, now) # samples) b =
    (case debounce_update raw now b of (e, b) \<Rightarrow>
     case debounce_run samples b of (es, b) \<Rightarrow> (if e = NoEvent then es else e # es, b))"

subsection \<open>What the debouncer reports\<close>

text \<open>The samples as runs during which the button is held, each but the last closed by a release.\<close>

fun presses :: "(bool \<times> 64 word) list \<Rightarrow> 64 word list list \<times> 64 word list" where
  "presses [] = ([], [])"
| "presses ((raw, now) # samples) =
    (case presses samples of (closed, open) \<Rightarrow>
      if \<not> raw then ([] # closed, open)
      else case closed of [] \<Rightarrow> ([], now # open) | ts # closed \<Rightarrow> ((now # ts) # closed, open))"

text \<open>A run of at least two samples is a press from its second sample on: long when a later sample is a second away,
  a click when it is released before that.\<close>

definition is_long :: "64 word list \<Rightarrow> bool" where
  "is_long ts = (case ts of _ # start # later \<Rightarrow> list_ex (\<lambda>t. LONG_PRESS_MS \<le> saturating_diff t start) later | _ \<Rightarrow> False)"

definition press_events :: "bool \<Rightarrow> 64 word list \<Rightarrow> ButtonEvent list" where
  "press_events released ts =
    (if length ts < 2 then [] else if is_long ts then [LongPress] else if released then [Click] else [])"

lemma debounce_run_append:
  "debounce_run (xs @ ys) b =
    (case debounce_run xs b of (e1, b1) \<Rightarrow> case debounce_run ys b1 of (e2, b2) \<Rightarrow> (e1 @ e2, b2))"
  by (induction xs b rule: debounce_run.induct) (simp_all split: prod.splits)

lemma presses_held: "presses (map (Pair True) ts) = ([], ts)"
  by (induction ts) simp_all

lemma presses_released: "presses (map (Pair True) ts @ (False, now) # samples) = (ts # fst (presses samples), snd (presses samples))"
  by (induction ts) (simp_all split: prod.splits)

lemma held_later:
  assumes "bd_debounced_pressed b" "\<not> bd_long_press_fired b"
  shows "debounce_run (map (Pair True) ts) b =
    (if list_ex (\<lambda>t. LONG_PRESS_MS \<le> saturating_diff t (bd_press_start_ms b)) ts then ([LongPress], b\<lparr>bd_long_press_fired := True\<rparr>)
     else ([], b))"
proof -
  have fired: "debounce_run (map (Pair True) ts) b = ([], b)" if "bd_debounced_pressed b" "bd_long_press_fired b" for ts b
    using that by (induction ts) (simp_all add: debounce_update_def)
  show ?thesis
    using assms by (induction ts) (auto simp: debounce_update_def fired)
qed

text \<open>A run of held samples from a released button.\<close>

lemma held_run:
  assumes "\<not> bd_debounced_pressed b" "bd_debounce_count b = 0"
  shows "\<exists>b'. debounce_run (map (Pair True) ts) b = (press_events False ts, b') \<and>
    bd_debounced_pressed b' = (2 \<le> length ts) \<and> (2 \<le> length ts \<longrightarrow> bd_long_press_fired b' = is_long ts)"
proof -
  have two: "\<not> (2 :: byte) \<le> 1"
    by (simp add: word_le_nat_alt)
  consider "ts = []" | t where "ts = [t]" | t start later where "ts = t # start # later"
    by (metis neq_Nil_conv)
  then show ?thesis
  proof cases
    case 3
    let ?b = "b\<lparr>bd_debounce_count := 2, bd_debounced_pressed := True, bd_press_start_ms := start, bd_long_press_fired := False\<rparr>"
    have "debounce_run (map (Pair True) ts) b = debounce_run (map (Pair True) later) ?b"
      using assms two by (simp add: 3 debounce_update_def saturating_inc_def DEBOUNCE_TICKS_def Let_def split: prod.split)
    then show ?thesis
      using held_later [of ?b later] by (auto simp: 3 press_events_def is_long_def)
  qed (use assms two in \<open>simp_all add: press_events_def debounce_update_def saturating_inc_def DEBOUNCE_TICKS_def Let_def\<close>)
qed

lemma released_run:
  assumes "\<not> bd_debounced_pressed b" "bd_debounce_count b = 0"
  shows "\<exists>b'. debounce_run (map (Pair True) ts @ [(False, now)]) b = (press_events True ts, b') \<and>
    \<not> bd_debounced_pressed b' \<and> bd_debounce_count b' = 0"
proof -
  obtain b1 where "debounce_run (map (Pair True) ts) b = (press_events False ts, b1)" "bd_debounced_pressed b1 = (2 \<le> length ts)"
    "2 \<le> length ts \<longrightarrow> bd_long_press_fired b1 = is_long ts"
    using held_run [OF assms] by blast
  then show ?thesis
    by (auto simp: debounce_run_append debounce_update_def press_events_def Let_def)
qed

text \<open>
  C27. Every press of a button is reported exactly once, and bounces never: for any sequence of samples the events are
  those of the runs during which the button was held, a click for a short press once it is released, one long press
  for a long one while it is still held, and nothing for a run of a single sample.
\<close>
theorem debounce_refines:
  "fst (debounce_run samples debounce_new) =
    concat (map (press_events True) (fst (presses samples))) @ press_events False (snd (presses samples))"
proof -
  have "fst (debounce_run samples b) =
      concat (map (press_events True) (fst (presses samples))) @ press_events False (snd (presses samples))"
    if "\<not> bd_debounced_pressed b" "bd_debounce_count b = 0" for b
    using that
  proof (induction "length samples" arbitrary: samples b rule: less_induct)
    case less
    define ts where "ts = map snd (takeWhile fst samples)"
    have "map (Pair True) (map snd xs) = xs" if "\<forall>x \<in> set xs. fst x" for xs :: "(bool \<times> 64 word) list"
      using that by (induction xs) auto
    from this [of "takeWhile fst samples"] have held: "map (Pair True) ts = takeWhile fst samples"
      unfolding ts_def using set_takeWhileD by metis
    show ?case
    proof (cases "dropWhile fst samples")
      case Nil
      then have "samples = map (Pair True) ts"
        using held takeWhile_dropWhile_id [of fst samples] by (metis append_Nil2)
      then show ?thesis
        using held_run [OF less.prems, of ts] by (auto simp: presses_held)
    next
      case (Cons x rest)
      then have "\<not> fst x"
        by (simp add: dropWhile_eq_Cons_conv)
      then obtain now where x: "x = (False, now)"
        by (cases x) simp
      have samples: "samples = (map (Pair True) ts @ [(False, now)]) @ rest"
        using held Cons x takeWhile_dropWhile_id [of fst samples] by (metis append_Cons append_Nil append_assoc)
      obtain b1 where b1: "debounce_run (map (Pair True) ts @ [(False, now)]) b = (press_events True ts, b1)"
        "\<not> bd_debounced_pressed b1" "bd_debounce_count b1 = 0"
        using released_run [OF less.prems] by blast
      have "fst (debounce_run samples b) = press_events True ts @ fst (debounce_run rest b1)"
        unfolding samples debounce_run_append [of _ rest] b1(1) by (simp split: prod.split)
      moreover have "presses samples = (ts # fst (presses rest), snd (presses rest))"
        by (simp add: samples presses_released)
      moreover have "length rest < length samples"
        by (simp add: samples)
      ultimately show ?thesis
        using less.hyps [of rest b1] b1(2,3) by simp
    qed
  qed
  then show ?thesis
    by (simp add: debounce_new_def)
qed

section \<open>BLE command service\<close>

record 'a ble_connection =
  bc_peer :: 'a
  bc_conn_id :: u16
  bc_subscribed :: bool

record 'a ble_state =
  bl_gatt_if :: "byte option"
  bl_service_handle :: "u16 option"
  bl_cmd_handle :: "u16 option"
  bl_rsp_handle :: "u16 option"
  bl_rsp_cccd_handle :: "u16 option"
  bl_connections :: "'a ble_connection list"
  bl_cmd_queue :: "string list"

definition ble_state_default :: "'a ble_state" where
  "ble_state_default = \<lparr>bl_gatt_if = None, bl_service_handle = None, bl_cmd_handle = None, bl_rsp_handle = None,
    bl_rsp_cccd_handle = None, bl_connections = [], bl_cmd_queue = []\<rparr>"

definition MAX_CONNECTIONS :: nat where
  "MAX_CONNECTIONS = 2"

definition CMD_QUEUE_SIZE :: nat where
  "CMD_QUEUE_SIZE = 8"

datatype ble_uuid = CmdCharUuid | RspCharUuid | CccdUuid | OtherUuid

datatype 'a gatts_event =
    ServiceRegistered bool u16 | ServiceCreated bool u16
  | CharacteristicAdded bool u16 u16 ble_uuid | DescriptorAdded bool u16 ble_uuid
  | PeerConnected u16 'a | PeerDisconnected 'a
  | GattWrite u16 u32 u16 u16 bool bytes | OtherEvent

text \<open>The calls on the stack, each of which may fail.\<close>

datatype ble_call =
    SetDeviceName | SetAdvConf | CreateService byte | StartService u16 | AddCharacteristic u16 ble_uuid
  | AddDescriptor u16 ble_uuid | StartAdvertising | GattOk byte u16 u32 | Notify byte u16 u16 bytes

type_synonym 'g ble_stack = "ble_call \<Rightarrow> 'g \<Rightarrow> bool \<times> 'g"

fun ble_calls :: "'g ble_stack \<Rightarrow> ble_call list \<Rightarrow> 'g \<Rightarrow> 'g" where
  "ble_calls B [] g = g"
| "ble_calls B (c # cs) g = (case B c g of (ok, g) \<Rightarrow> if ok then ble_calls B cs g else g)"

definition vec_push :: "nat \<Rightarrow> 'x \<Rightarrow> 'x list \<Rightarrow> 'x list" where
  "vec_push cap x xs = (if length xs < cap then xs @ [x] else xs)"

definition swap_remove :: "nat \<Rightarrow> 'x list \<Rightarrow> 'x list" where
  "swap_remove i xs = butlast (xs[i := last xs])"

fun find_index :: "('x \<Rightarrow> bool) \<Rightarrow> 'x list \<Rightarrow> nat option" where
  "find_index P [] = None"
| "find_index P (x # xs) = (if P x then Some 0 else map_option Suc (find_index P xs))"

definition on_gap_event :: "'g ble_stack \<Rightarrow> bool option \<Rightarrow> 'g \<Rightarrow> 'g" where
  "on_gap_event B advertising_configured g = (if advertising_configured = Some True then ble_calls B [StartAdvertising] g else g)"

definition on_gatts_event ::
    "'g ble_stack \<Rightarrow> byte \<Rightarrow> 'a gatts_event \<Rightarrow> 'a ble_state \<times> 'g \<Rightarrow> 'a ble_state \<times> 'g" where
  "on_gatts_event B gatt_if event = (\<lambda>(st, g).
    case event of
      ServiceRegistered ok app_id \<Rightarrow>
        if ok \<and> app_id = 0 then (st\<lparr>bl_gatt_if := Some gatt_if\<rparr>, ble_calls B [SetDeviceName, SetAdvConf, CreateService gatt_if] g)
        else (st, g)
    | ServiceCreated ok h \<Rightarrow>
        if ok then (st\<lparr>bl_service_handle := Some h\<rparr>,
          ble_calls B [StartService h, AddCharacteristic h CmdCharUuid, AddCharacteristic h RspCharUuid] g)
        else (st, g)
    | CharacteristicAdded ok attr h uuid \<Rightarrow>
        if \<not> ok \<or> bl_service_handle st \<noteq> Some h then (st, g)
        else if uuid = CmdCharUuid then (st\<lparr>bl_cmd_handle := Some attr\<rparr>, g)
        else if uuid = RspCharUuid then (st\<lparr>bl_rsp_handle := Some attr\<rparr>, ble_calls B [AddDescriptor h CccdUuid] g)
        else (st, g)
    | DescriptorAdded ok attr uuid \<Rightarrow>
        (if ok \<and> uuid = CccdUuid then st\<lparr>bl_rsp_cccd_handle := Some attr\<rparr> else st, g)
    | PeerConnected conn_id addr \<Rightarrow>
        (st\<lparr>bl_connections := vec_push MAX_CONNECTIONS \<lparr>bc_peer = addr, bc_conn_id = conn_id, bc_subscribed = False\<rparr> (bl_connections st)\<rparr>, g)
    | PeerDisconnected addr \<Rightarrow>
        (case find_index (\<lambda>c. bc_peer c = addr) (bl_connections st) of
          None \<Rightarrow> (st, g)
        | Some i \<Rightarrow> (st\<lparr>bl_connections := swap_remove i (bl_connections st)\<rparr>, g))
    | GattWrite conn_id trans_id h offset need_rsp value \<Rightarrow>
        let st' =
          (if Some h = bl_rsp_cccd_handle st then
             if offset = 0 \<and> length value = 2 then
               (case find_index (\<lambda>c. bc_conn_id c = conn_id) (bl_connections st) of
                 None \<Rightarrow> st
               | Some i \<Rightarrow> st\<lparr>bl_connections := (bl_connections st)[i :=
                   (bl_connections st ! i)\<lparr>bc_subscribed := (value ! 0 \<noteq> 0 \<or> value ! 1 \<noteq> 0)\<rparr>]\<rparr>)
             else st
           else if Some h = bl_cmd_handle st then
             let txt = (case from_utf8 value of None \<Rightarrow> [] | Some t \<Rightarrow> t);
                 cmd = (case hl_push_str 256 [] (str_trim txt) of None \<Rightarrow> [] | Some c \<Rightarrow> c)
             in st\<lparr>bl_cmd_queue := vec_push CMD_QUEUE_SIZE cmd (bl_cmd_queue st)\<rparr>
           else st)
        in (st', if need_rsp then snd (B (GattOk gatt_if conn_id trans_id) g) else g)
    | OtherEvent \<Rightarrow> (st, g))"

definition poll_command :: "'a ble_state \<Rightarrow> string option \<times> 'a ble_state" where
  "poll_command st = (case bl_cmd_queue st of [] \<Rightarrow> (None, st) | c # cs \<Rightarrow> (Some c, st\<lparr>bl_cmd_queue := cs\<rparr>))"

definition send_response :: "'g ble_stack \<Rightarrow> string \<Rightarrow> 'a ble_state \<times> 'g \<Rightarrow> 'a ble_state \<times> 'g" where
  "send_response B msg = (\<lambda>(st, g).
    case (bl_gatt_if st, bl_rsp_handle st) of
      (Some gi, Some rh) \<Rightarrow>
        (st, fold (\<lambda>c g. snd (B (Notify gi (bc_conn_id c) rh (as_bytes msg)) g)) (filter bc_subscribed (bl_connections st)) g)
    | _ \<Rightarrow> (st, g))"

text \<open>The bounded buffers stay within their capacity, whatever the peers send.\<close>

definition ble_wf :: "'a ble_state \<Rightarrow> bool" where
  "ble_wf st \<longleftrightarrow> length (bl_connections st) \<le> MAX_CONNECTIONS \<and> length (bl_cmd_queue st) \<le> CMD_QUEUE_SIZE \<and>
    list_all (\<lambda>c. length c \<le> 256) (bl_cmd_queue st)"

lemma find_index_less: "find_index P xs = Some i \<Longrightarrow> i < length xs \<and> P (xs ! i)"
  by (induction xs arbitrary: i) (auto split: if_splits)

lemma ble_wf_default: "ble_wf ble_state_default"
  by (simp add: ble_wf_def ble_state_default_def)

lemma ble_wf_poll: "ble_wf st \<Longrightarrow> ble_wf (snd (poll_command st))"
  by (auto simp: ble_wf_def poll_command_def split: list.splits)

lemma ble_wf_event: "ble_wf st \<Longrightarrow> ble_wf (fst (on_gatts_event B gatt_if event (st, g)))"
  by (cases event)
    (auto simp: on_gatts_event_def ble_wf_def vec_push_def swap_remove_def Let_def hl_push_str_def split: option.splits if_splits)

text \<open>Commands come out in the order they were written, and only writes to the command characteristic add any.\<close>

lemma gatt_write_queue:
  assumes "bl_cmd_handle st = Some h" "bl_rsp_cccd_handle st \<noteq> Some h" "length (bl_cmd_queue st) < CMD_QUEUE_SIZE"
    "from_utf8 value = Some txt" "length (str_trim txt) \<le> 256"
  shows "bl_cmd_queue (fst (on_gatts_event B gatt_if (GattWrite conn_id trans_id h off need_rsp value) (st, g))) = bl_cmd_queue st @ [str_trim txt]"
  using assms by (auto simp: on_gatts_event_def vec_push_def hl_push_str_def Let_def)

end
