(* ===== verification/FwWifi.thy ===== *)
theory FwWifi
  imports FwConsole
begin

text \<open>
  The Wi-Fi manager (\<open>wifi.rs\<close>) over the driver's blocking calls, which are a parameter: each may fail with a text.
  The state is whether the mDNS responder is held, and the driver.
\<close>

datatype WifiError = SsidTooLong | PasswordTooLong | WifiEsp string

definition wifi_error_text :: "WifiError \<Rightarrow> string" where
  "wifi_error_text e = (case e of SsidTooLong \<Rightarrow> ''ssid too long'' | PasswordTooLong \<Rightarrow> ''password too long'' | WifiEsp t \<Rightarrow> t)"

datatype wifi_call =
    WfDisconnect | WfStop | WfSetConfiguration string string | WfStart | WfConnect | WfWaitNetifUp | WfIpInfo
  | MdnsTake | MdnsHostname | MdnsInstanceName | MdnsAddService u16

text \<open>\<open>wf_mdns\<close>: the firmware is built with the mDNS component.\<close>

record 'w wifi_driver =
  wf_mdns :: bool
  wf_is_connected :: "'w \<Rightarrow> (string, bool) result"
  wf_is_started :: "'w \<Rightarrow> (string, bool) result"
  wf_call :: "wifi_call \<Rightarrow> 'w \<Rightarrow> string option \<times> 'w"

type_synonym ('w, 'a) wifi = "(bool \<times> 'w, WifiError, 'a) prog"

definition wifi_do :: "'w wifi_driver \<Rightarrow> wifi_call \<Rightarrow> ('w, unit) wifi" where
  "wifi_do W c = (\<lambda>(mdns, w). case wf_call W c w of
      (None, w) \<Rightarrow> Some (Inr (), (mdns, w)) | (Some t, w) \<Rightarrow> Some (Inl (WifiEsp t), (mdns, w)))"

definition wifi_ask :: "('w \<Rightarrow> (string, bool) result) \<Rightarrow> ('w, bool) wifi" where
  "wifi_ask q = (\<lambda>(mdns, w). Some (map_err WifiEsp (q w), (mdns, w)))"

definition set_mdns :: "'w wifi_driver \<Rightarrow> bool \<Rightarrow> ('w, unit) wifi" where
  "set_mdns W b = (\<lambda>(mdns, w). Some (Inr (), (if wf_mdns W then b else mdns, w)))"

definition wifi_is_connected :: "'w wifi_driver \<Rightarrow> 'w \<Rightarrow> bool" where
  "wifi_is_connected W w = (case wf_is_connected W w of Inl _ \<Rightarrow> False | Inr b \<Rightarrow> b)"

definition copy_ssid :: "string \<Rightarrow> (WifiError, string) result" where
  "copy_ssid value = ok_or SsidTooLong (hl_push_str 32 [] value)"

definition copy_password :: "string \<Rightarrow> (WifiError, string) result" where
  "copy_password value = ok_or PasswordTooLong (hl_push_str 64 [] value)"

definition wifi_disconnect :: "'w wifi_driver \<Rightarrow> ('w, unit) wifi" where
  "wifi_disconnect W =
    bind_p (set_mdns W False) (\<lambda>_.
    bind_p (wifi_ask (wf_is_connected W)) (\<lambda>c.
    bind_p (if c then wifi_do W WfDisconnect else return_p ()) (\<lambda>_.
    bind_p (wifi_ask (wf_is_started W)) (\<lambda>s.
      if s then wifi_do W WfStop else return_p ()))))"

definition start_mdns :: "'w wifi_driver \<Rightarrow> ('w, unit) wifi" where
  "start_mdns W =
    bind_p (wifi_do W MdnsTake) (\<lambda>_.
    bind_p (wifi_do W MdnsHostname) (\<lambda>_.
    bind_p (wifi_do W MdnsInstanceName) (\<lambda>_. set_mdns W True)))"

definition wifi_connect :: "'w wifi_driver \<Rightarrow> string \<Rightarrow> string \<Rightarrow> ('w, unit) wifi" where
  "wifi_connect W ssid password =
    bind_p (set_mdns W False) (\<lambda>_.
    bind_p (wifi_ask (wf_is_connected W)) (\<lambda>c.
    bind_p (if c then wifi_do W WfDisconnect else return_p ()) (\<lambda>_.
    bind_p (wifi_ask (wf_is_started W)) (\<lambda>s.
    bind_p (if s then wifi_do W WfStop else return_p ()) (\<lambda>_.
    bind_p (lift_r (copy_ssid ssid)) (\<lambda>wifi_ssid.
    bind_p (lift_r (copy_password password)) (\<lambda>wifi_password.
    bind_p (wifi_do W (WfSetConfiguration wifi_ssid wifi_password)) (\<lambda>_.
    bind_p (wifi_do W WfStart) (\<lambda>_.
    bind_p (wifi_do W WfConnect) (\<lambda>_.
    bind_p (wifi_do W WfWaitNetifUp) (\<lambda>_.
    bind_p (if wf_mdns W then start_mdns W else return_p ()) (\<lambda>_.
      wifi_do W WfIpInfo))))))))))))"

definition advertise_http_service :: "'w wifi_driver \<Rightarrow> u16 \<Rightarrow> ('w, unit) wifi" where
  "advertise_http_service W port = (\<lambda>(mdns, w).
    if \<not> wf_mdns W \<or> \<not> mdns then Some (Inr (), (mdns, w)) else wifi_do W (MdnsAddService port) (mdns, w))"

text \<open>The console never hands the manager credentials that do not fit.\<close>

lemma wifi_args_fit:
  assumes "parse_wifi_command parts = Inr (CmSetWifi ssid password)"
  shows "copy_ssid ssid = Inr ssid" "copy_password password = Inr password"
  using assms
  by (auto simp: parse_wifi_command_def parser_inv copy_ssid_def copy_password_def hl_push_str_def
      split: list.splits if_splits)

text \<open>After a disconnect that succeeded, nothing is advertised any more.\<close>

lemma wifi_disconnect_silent:
  assumes "wifi_disconnect W (mdns, w) = Some (Inr (), (mdns', w'))" "wf_mdns W"
  shows "\<not> mdns' \<and> advertise_http_service W port (mdns', w') = Some (Inr (), (mdns', w'))"
  using assms
  by (auto simp: wifi_disconnect_def set_mdns_def wifi_ask_def wifi_do_def bind_p_def advertise_http_service_def map_err_def
      split: option.splits sum.splits prod.splits if_splits)

end
