(* ===== verification/FwMain.thy ===== *)
theory FwMain
  imports FwRest FwOta FwInput FwWifi
begin

text \<open>
  The main program of the M5 boards: \<open>firmware.rs\<close> with \<open>firmware/console_commands.rs\<close>,
  \<open>firmware/diagnostics_commands.rs\<close> and \<open>firmware/serial_console.rs\<close>. The service, the configuration and the job slot
  are the state shared with the REST server; the build's features and everything outside the repository (radio, update
  client, certificate generator, power rail) are the \<open>platform\<close>. Calls that only draw on the display are left out.
\<close>

section \<open>State\<close>

datatype LegacyOp = LgIdle | LgBurn | LgWipe

datatype power = PowerOn | Restarted | DeepSleep

record ('t, 'f, 'w) fw_main =
  fm_shared :: "('t, 'f) Esp32BoltyService rest_state"
  fm_serial :: "string list"
  fm_wifi :: "bool option"
  fm_rest :: bool
  fm_world :: 'w
  fm_button_mode :: byte
  fm_legacy_op :: LegacyOp
  fm_announced :: bool
  fm_buttons :: "(ButtonDebounce \<times> ButtonDebounce) option"
  fm_assembler :: LineAssembler
  fm_next_poll_at :: "64 word"
  fm_heartbeat_at :: "64 word"
  fm_nfc_ready :: bool
  fm_ticks :: nat
  fm_power :: power

text \<open>\<open>pf_read_ctr\<close> is the counter an SDM verification reports, \<open>pf_grove\<close> and \<open>pf_battery\<close> the power chip of the boards
  that have one, \<open>pf_str_debug\<close> the quoted form of a string, \<open>pf_clock\<close> and \<open>pf_pins\<close> the successive readings of the
  millisecond clock and of the button pins.\<close>

record ('w, 'x, 'v) platform =
  pf_wifi :: bool
  pf_rest :: bool
  pf_ota :: bool
  pf_stick :: bool
  pf_driver :: "'w wifi_driver"
  pf_rest_start :: "bytes \<Rightarrow> bytes \<Rightarrow> 'w \<Rightarrow> string option \<times> 'w"
  pf_invalid_state :: string
  pf_updater :: "('w, 'x) updater"
  pf_esp_text :: "'x \<Rightarrow> string"
  pf_grove :: "(bool option \<Rightarrow> 'w \<Rightarrow> (string, bool) result \<times> 'w) option"
  pf_gen_cert :: "'w \<Rightarrow> (string, bytes \<times> bytes) result \<times> 'w"
  pf_sha256 :: "bytes \<Rightarrow> bytes option"
  pf_reset_reason :: nat
  pf_read_ctr :: "'v \<Rightarrow> u32 option"
  pf_str_debug :: "string \<Rightarrow> string"
  pf_battery :: "(nat option \<times> bool) option"
  pf_clock :: "nat \<Rightarrow> 64 word"
  pf_pins :: "nat \<Rightarrow> bool \<times> bool"
  pf_build_epoch :: string

abbreviation fm_core :: "('t, 'f, 'w) fw_main \<Rightarrow> ('t, 'f) Esp32BoltyService fw_core" where
  "fm_core st \<equiv> rt_core (fm_shared st)"

abbreviation fm_service :: "('t, 'f, 'w) fw_main \<Rightarrow> ('t, 'f) Esp32BoltyService" where
  "fm_service st \<equiv> fc_service (fm_core st)"

abbreviation fm_config :: "('t, 'f, 'w) fw_main \<Rightarrow> BoltyConfig" where
  "fm_config st \<equiv> fc_config (fm_core st)"

definition put_core :: "('t, 'f) Esp32BoltyService fw_core \<Rightarrow> ('t, 'f, 'w) fw_main \<Rightarrow> ('t, 'f, 'w) fw_main" where
  "put_core c st = st\<lparr>fm_shared := (fm_shared st)\<lparr>rt_core := c\<rparr>\<rparr>"

definition put_service :: "('t, 'f) Esp32BoltyService \<Rightarrow> ('t, 'f, 'w) fw_main \<Rightarrow> ('t, 'f, 'w) fw_main" where
  "put_service s st = put_core ((fm_core st)\<lparr>fc_service := s\<rparr>) st"

definition put_config :: "BoltyConfig \<Rightarrow> ('t, 'f, 'w) fw_main \<Rightarrow> ('t, 'f, 'w) fw_main" where
  "put_config c st = put_core ((fm_core st)\<lparr>fc_config := c\<rparr>) st"

abbreviation fm_flash :: "('t, 'f, 'w) fw_main \<Rightarrow> 'f" where
  "fm_flash st \<equiv> es_flash (fm_service st)"

definition put_flash :: "'f \<Rightarrow> ('t, 'f, 'w) fw_main \<Rightarrow> ('t, 'f, 'w) fw_main" where
  "put_flash f st = put_service ((fm_service st)\<lparr>es_flash := f\<rparr>) st"

text \<open>A service operation, and what is done with its result.\<close>

definition on_service ::
    "('t, 'f, 'a) fw \<Rightarrow> ((WorkflowResult, 'a) result \<Rightarrow> ('t, 'f, 'w) fw_main \<Rightarrow> ('t, 'f, 'w) fw_main option) \<Rightarrow>
      ('t, 'f, 'w) fw_main \<Rightarrow> ('t, 'f, 'w) fw_main option" where
  "on_service m k st = (case m (fm_service st) of None \<Rightarrow> None | Some (r, s) \<Rightarrow> k r (put_service s st))"

section \<open>Serial console\<close>

text \<open>The output is the list of lines written.\<close>

definition serial_line :: "string \<Rightarrow> ('t, 'f, 'w) fw_main \<Rightarrow> ('t, 'f, 'w) fw_main" where
  "serial_line s st = st\<lparr>fm_serial := fm_serial st @ [s]\<rparr>"

definition serial_ok :: "string \<Rightarrow> ('t, 'f, 'w) fw_main \<Rightarrow> ('t, 'f, 'w) fw_main" where
  "serial_ok message = serial_line (snd (push_all 300 [] [''[OK] '', message]))"

definition serial_fail :: "string \<Rightarrow> ('t, 'f, 'w) fw_main \<Rightarrow> ('t, 'f, 'w) fw_main" where
  "serial_fail message = serial_line (snd (push_all 300 [] [''[FAIL] '', message]))"

definition card_state_label :: "CardState \<Rightarrow> string" where
  "card_state_label s = (case s of StateBlank \<Rightarrow> ''blank'' | StateProvisioned _ \<Rightarrow> ''provisioned'' | StateForeign \<Rightarrow> ''foreign'' | StateUnknown \<Rightarrow> ''unknown'')"

definition diagnose_state_label :: "DiagnoseState \<Rightarrow> string" where
  "diagnose_state_label s =
    (case s of DgBlank \<Rightarrow> ''BLANK'' | DgProvisioned \<Rightarrow> ''PROVISIONED'' | DgAuthDelay \<Rightarrow> ''AUTH_DELAY'' | DgInconsistent \<Rightarrow> ''INCONSISTENT'')"

text \<open>The identifier is cut to its recorded length; a length beyond the buffer panics. At most twelve bytes fit the line.\<close>

definition serial_card :: "CardAssessment \<Rightarrow> ('t, 'f, 'w) fw_main \<Rightarrow> ('t, 'f, 'w) fw_main option" where
  "serial_card a st =
    (let line = (\<lambda>uid. serial_line (snd (push_all 96 [] [''[CARD] uid='', uid, '' state='', card_state_label (ca_state a)])) st)
     in case ca_uid a of
       None \<Rightarrow> Some (line [])
     | Some raw_uid \<Rightarrow> if unat (ca_uid_len a) > length raw_uid then None
         else Some (line (push_uid_hex (take (unat (ca_uid_len a)) raw_uid))))"

section \<open>Results on the console\<close>

definition print_workflow_result :: "WorkflowResult \<Rightarrow> ('t, 'f, 'w) fw_main \<Rightarrow> ('t, 'f, 'w) fw_main" where
  "print_workflow_result result =
    (case result of
      WrSuccess \<Rightarrow> serial_ok ''success''
    | CardNotPresent \<Rightarrow> serial_fail ''card not present''
    | AuthFailed \<Rightarrow> serial_fail ''authentication failed''
    | AuthDelay \<Rightarrow>
        serial_line ''Ensure you are using the correct key.'' \<circ>
        serial_line ''Remove card from reader field for several seconds and retry.'' \<circ>
        serial_fail ''AUTH DELAY (0x91AD): Card authentication failure counter triggered.''
    | WipeRefused \<Rightarrow> serial_fail ''wipe refused''
    | WrError message \<Rightarrow> serial_fail message)"

definition print_command_result ::
    "Command \<Rightarrow> WorkflowResult \<Rightarrow> ('t, 'f, 'w) fw_main \<Rightarrow> ('t, 'f, 'w) fw_main option" where
  "print_command_result command result st =
    (if result \<noteq> WrSuccess then Some (print_workflow_result result st)
     else case command of
       CmCheck \<Rightarrow> map_option (serial_ok ''card is blank'') (serial_card (es_last_card (fm_service st)) st)
     | CmSetKeys _ \<Rightarrow> Some (fold serial_line
         [''[ADVANCED] Raw keys override the standard Bolt Card'',
          ''deterministic key derivation (boltcard.org spec).'',
          ''Prefer: '' @ [CHR 0x27] @ ''issuer <hex>'' @ [CHR 0x27] @ '' + '' @ [CHR 0x27] @ ''burn'' @ [CHR 0x27] @ '' for correct key derivation.'',
          ''       from CardKey = CMAC(IssuerKey, 2D003F75 || UID || ver)''] (serial_ok ''keys staged'' st))
     | CmSetIssuer _ \<Rightarrow> Some (serial_ok ''issuer staged'' st)
     | CmSetUrl _ \<Rightarrow> Some (serial_ok ''lnurl staged'' st)
     | CmBurn \<Rightarrow> Some (serial_ok ''burn complete'' st)
     | CmWipe \<Rightarrow> Some (serial_ok ''wipe complete'' st)
     | _ \<Rightarrow> Some (print_workflow_result result st))"

definition command_error_message :: "CommandError \<Rightarrow> string" where
  "command_error_message e =
    (case e of UnknownCommand \<Rightarrow> ''unknown command'' | InvalidArgs \<Rightarrow> ''invalid arguments'' | MissingArgs \<Rightarrow> ''missing arguments'')"

definition print_help :: "('w, 'x, 'v) platform \<Rightarrow> ('t, 'f, 'w) fw_main \<Rightarrow> ('t, 'f, 'w) fw_main" where
  "print_help pf =
    fold serial_line
      ([''Commands: help status uid i2cscan hwinfo keys <k0..k4> issuer [hex] url <lnurl> burn wipe inspect picc diagnose check crashlog hwtest force [on|off] grove [on|off]''] @
       (if pf_stick pf then [''Buttons: button-mode [simple|legacy]''] else []) @
       (if pf_wifi pf then [''WiFi: wifi <ssid> <password> | wifi off''] else []) @
       (if pf_rest pf then [''TLS: provision-cert''] else []) @
       (if pf_ota pf then [''OTA: ota <url> <sig> | provision-ota-key <hex64>''] else []))"

definition print_boot_banner :: "('w, 'x, 'v) platform \<Rightarrow> ('t, 'f, 'w) fw_main \<Rightarrow> ('t, 'f, 'w) fw_main" where
  "print_boot_banner pf = print_help pf \<circ> serial_line ''=== Bolty Ready ===''"

text \<open>Two hexadecimal digits as the formatter writes them: the padding zero is a piece of its own.\<close>

definition hex02_pieces :: "byte \<Rightarrow> string list" where
  "hex02_pieces b =
    (if b < 16 then [''0'', [HEX_UPPER ! unat b]] else [push_uid_hex [b]])"

text \<open>A list of bus addresses; every write that does not fit is dropped and the next one tried.\<close>

fun push_addresses :: "nat \<Rightarrow> string \<Rightarrow> bool \<Rightarrow> bytes \<Rightarrow> string \<Rightarrow> string" where
  "push_addresses cap sep first [] out = out"
| "push_addresses cap sep first (a # as) out =
    push_addresses cap sep False as
      (snd (push_all cap (if first then out else hl_push cap sep out) (''0x'' # hex02_pieces a)))"

definition print_i2c_scan :: "('t, 'f, 'w) fw_main \<Rightarrow> ('t, 'f, 'w) fw_main" where
  "print_i2c_scan st =
    (case i2c_scan (fm_service st) of (found, s) \<Rightarrow>
      let line = hl_push MAX_LINE_LEN ''i2cscan: found '' [];
          line = (if found = [] then hl_push MAX_LINE_LEN ''none'' line else push_addresses MAX_LINE_LEN '', '' True found line)
      in serial_ok line (put_service s st))"

definition print_hwinfo :: "('t, 'f, 'w) fw_main \<Rightarrow> ('t, 'f, 'w) fw_main" where
  "print_hwinfo st =
    (let hw = fm_service st;
         line1 = snd (push_all MAX_LINE_LEN [] [''display_init='', if es_display_init_ok hw then ''ok'' else ''FAIL'',
           '' i2c_baudrate='', dec_string (unat (es_i2c_baudrate hw)), ''Hz nfc_ready='', bool_str (ss_nfc_ready (es_status hw))]);
         line2 = hl_push MAX_LINE_LEN ''i2c_devices: '' [];
         line2 = (if es_last_i2c_scan hw = [] then hl_push MAX_LINE_LEN ''none (check cable, power, pull-ups)'' line2
           else push_addresses MAX_LINE_LEN '', '' True (es_last_i2c_scan hw) line2)
     in serial_ok line2 (serial_line line1 (serial_line ''=== Hardware Info ==='' st)))"

definition ndef_ascii :: "bytes \<Rightarrow> string" where
  "ndef_ascii bs =
    snd (push_all MAX_LINE_LEN [] (map (\<lambda>b. if 0x20 \<le> b \<and> b \<le> 0x7E then str_of_bytes [b] else ''.'') bs))"

definition print_picc :: "('t, 'e, 'f, 'v) fw_env \<Rightarrow> ('w, 'x, 'v) platform \<Rightarrow> ('t, 'f, 'w) fw_main \<Rightarrow> ('t, 'f, 'w) fw_main option" where
  "print_picc env pf = on_service (picc env) (\<lambda>r st.
    case r of
      Inl err \<Rightarrow> Some (print_workflow_result err st)
    | Inr res \<Rightarrow>
        let st = serial_ok (snd (push_all 96 [] [''uid='', push_uid_hex (si_uid (pc_inspect res))])) st;
            st = (case si_ndef_bytes (pc_inspect res) of
                Some bs \<Rightarrow> serial_line (snd (push_all MAX_LINE_LEN [] [''ndef='', ndef_ascii bs])) st
              | None \<Rightarrow> serial_line ''ndef=unavailable'' st);
            st = (case si_sdm_verification (pc_inspect res) of
                Some v \<Rightarrow> serial_line (snd (push_all 160 [] [''sdm=ok uid_match='',
                  bool_str (case pc_uid_match res of None \<Rightarrow> False | Some b \<Rightarrow> b), '' read_ctr='',
                  case pf_read_ctr pf v of Some n \<Rightarrow> dec_string (unat n) | None \<Rightarrow> ''none''])) st
              | None \<Rightarrow> serial_line ''sdm=unverified'' st);
            st = serial_line (snd (push_all 96 [] [''keys_loaded='', bool_str (pc_keys_loaded res), '' keys_confirmed='',
              bool_str (pc_keys_confirmed res)])) st
        in Some (serial_ok ''picc complete'' st))"

definition version_text :: "Version \<Rightarrow> string" where
  "version_text v =
    snd (push_all 96 [] [''version=hw '', dec_string (unat (vn_part1 v ! 3)), ''.'', dec_string (unat (vn_part1 v ! 4)),
      '' sw '', dec_string (unat (vn_part2 v ! 3)), ''.'', dec_string (unat (vn_part2 v ! 4))])"

definition print_diagnose :: "('t, 'e, 'f, 'v) fw_env \<Rightarrow> ('t, 'f, 'w) fw_main \<Rightarrow> ('t, 'f, 'w) fw_main option" where
  "print_diagnose env = on_service (diagnose env) (\<lambda>r st.
    case r of
      Inl err \<Rightarrow> Some (print_workflow_result err st)
    | Inr res \<Rightarrow>
        let st = serial_ok (snd (push_all 96 [] [''uid='', push_uid_hex (si_uid (dg_inspect res))])) st;
            st = (case si_version (dg_inspect res) of
                Some v \<Rightarrow> serial_line (version_text v) st
              | None \<Rightarrow> serial_line ''version=unavailable'' st);
            st = serial_line (snd (push_all 128 [] [''file_settings='', bool_str (si_file_settings (dg_inspect res) \<noteq> None),
              '' ndef='', bool_str (si_ndef_bytes (dg_inspect res) \<noteq> None), '' zero_key_attempted='',
              bool_str (dg_zero_key_attempted res), '' zero_key_auth_ok='', bool_str (dg_zero_key_auth_ok res)])) st;
            st = serial_line (snd (push_all 64 [] [''classification='', diagnose_state_label (dg_state res)])) st
        in Some (serial_ok ''diagnose complete'' st))"

definition status_line :: "ServiceStatus \<Rightarrow> string" where
  "status_line status =
    snd (push_all 320 [] [''nfc_ready='', bool_str (ss_nfc_ready status), '' uid='',
      (let uid = uid_hex_string status in if uid = [] then ''none'' else uid), '' lnurl='',
      case ss_lnurl status of None \<Rightarrow> ''none'' | Some l \<Rightarrow> l])"

definition print_status :: "('t, 'f, 'w) fw_main \<Rightarrow> ('t, 'f, 'w) fw_main" where
  "print_status st = serial_ok (status_line (es_status (fm_service st))) st"

definition print_uid :: "('t, 'f, 'w) fw_main \<Rightarrow> ('t, 'f, 'w) fw_main" where
  "print_uid st =
    (case ss_last_uid (es_status (fm_service st)) of
      Some uid \<Rightarrow> serial_ok (push_uid_hex uid) st
    | None \<Rightarrow> serial_fail ''no uid'' st)"

definition print_inspect :: "WorkflowResult \<Rightarrow> ('t, 'f, 'w) fw_main \<Rightarrow> ('t, 'f, 'w) fw_main option" where
  "print_inspect result st =
    (if result = WrSuccess then map_option (serial_ok ''inspect complete'') (serial_card (es_last_card (fm_service st)) st)
     else Some (print_workflow_result result st))"

section \<open>Console commands\<close>

definition on_wifi ::
    "('w, unit) wifi \<Rightarrow> bool \<Rightarrow> (string option \<Rightarrow> ('t, 'f, 'w) fw_main \<Rightarrow> ('t, 'f, 'w) fw_main option) \<Rightarrow>
      ('t, 'f, 'w) fw_main \<Rightarrow> ('t, 'f, 'w) fw_main option" where
  "on_wifi m mdns k st =
    (case m (mdns, fm_world st) of
      None \<Rightarrow> None
    | Some (r, (mdns, w)) \<Rightarrow>
        k (case r of Inr _ \<Rightarrow> None | Inl e \<Rightarrow> Some (snd (push_all 128 [] [wifi_error_text e])))
          (st\<lparr>fm_wifi := Some mdns, fm_world := w\<rparr>))"

definition REST_PORT :: u16 where
  "REST_PORT = 80"

text \<open>The server needs the stored certificate; a new server comes with a new rate limiter.\<close>

definition start_rest ::
    "('t, 'e, 'f, 'v) fw_env \<Rightarrow> ('w, 'x, 'v) platform \<Rightarrow> ('t, 'f, 'w) fw_main \<Rightarrow> string option \<times> ('t, 'f, 'w) fw_main" where
  "start_rest env pf st =
    (if fm_rest st then (None, st)
     else case load_cert_der (fe_nvs env) (fm_flash st) of
       None \<Rightarrow> (Some (snd (push_all 128 [] [''rest start failed: '', pf_invalid_state pf])), st)
     | Some (cert, key) \<Rightarrow>
         (case pf_rest_start pf cert key (fm_world st) of
           (None, w) \<Rightarrow> (None, serial_ok ''rest server started''
             (st\<lparr>fm_rest := True, fm_world := w, fm_shared := (fm_shared st)\<lparr>rt_last_write_us := 0, rt_rate_ok := True\<rparr>\<rparr>))
         | (Some e, w) \<Rightarrow> (Some (snd (push_all 128 [] [''rest start failed: '', e])), st\<lparr>fm_world := w\<rparr>)))"

definition wifi_command ::
    "('t, 'e, 'f, 'v) fw_env \<Rightarrow> ('w, 'x, 'v) platform \<Rightarrow> string \<Rightarrow> string \<Rightarrow> ('t, 'f, 'w) fw_main \<Rightarrow> ('t, 'f, 'w) fw_main option" where
  "wifi_command env pf ssid password st =
    (case fm_wifi st of
      None \<Rightarrow> Some (serial_fail ''wifi unavailable'' st)
    | Some mdns \<Rightarrow> on_wifi (wifi_connect (pf_driver pf) ssid password) mdns (\<lambda>e st.
        case e of
          Some message \<Rightarrow> Some (serial_fail message st)
        | None \<Rightarrow>
            let st = serial_ok ''wifi connected'' st
            in if \<not> pf_rest pf then Some st
               else case start_rest env pf st of
                 (Some message, st) \<Rightarrow> Some (serial_fail message st)
               | (None, st) \<Rightarrow>
                   (case fm_wifi st of
                     None \<Rightarrow> Some st
                   | Some mdns \<Rightarrow> on_wifi (advertise_http_service (pf_driver pf) REST_PORT) mdns (\<lambda>e st.
                       case e of None \<Rightarrow> Some (serial_ok ''mdns bolty.local active'' st) | Some message \<Rightarrow> Some (serial_fail message st)) st)) st)"

definition wifi_off_command :: "('w, 'x, 'v) platform \<Rightarrow> ('t, 'f, 'w) fw_main \<Rightarrow> ('t, 'f, 'w) fw_main option" where
  "wifi_off_command pf st =
    (case fm_wifi st of
      None \<Rightarrow> Some (serial_fail ''wifi unavailable'' st)
    | Some mdns \<Rightarrow> on_wifi (wifi_disconnect (pf_driver pf)) mdns (\<lambda>e st.
        case e of
          None \<Rightarrow> Some (serial_ok ''wifi disconnected'' (if pf_rest pf then st\<lparr>fm_rest := False\<rparr> else st))
        | Some message \<Rightarrow> Some (serial_fail message st)) st)"

text \<open>The texts of \<open>OtaError\<close>, each the pieces its \<open>Display\<close> writes.\<close>

definition ota_error_pieces :: "('x \<Rightarrow> string) \<Rightarrow> 'x OtaError \<Rightarrow> string list" where
  "ota_error_pieces esp e =
    (case e of
      OtaEsp err \<Rightarrow> [esp err]
    | OtaHttp msg \<Rightarrow> [''http: '', msg]
    | OtaInvalidStatus status \<Rightarrow> [''http status '', dec_string status]
    | OtaEmptyImage \<Rightarrow> [''empty firmware image'']
    | OtaSignatureUnprovisioned \<Rightarrow> [''OTA signing key not provisioned (run '' @ [CHR 0x27] @ ''provision-ota-key'' @ [CHR 0x27] @ '')'']
    | OtaSignatureInvalid \<Rightarrow> [''firmware signature verification FAILED''])"

definition ota_command ::
    "('t, 'e, 'f, 'v) fw_env \<Rightarrow> ('w, 'x, 'v) platform \<Rightarrow> string \<Rightarrow> string \<Rightarrow> ('t, 'f, 'w) fw_main \<Rightarrow> ('t, 'f, 'w) fw_main option" where
  "ota_command env pf url signature st =
    (case ota_update ((pf_updater pf)\<lparr>ou_pubkey := load_ota_pubkey (fe_nvs env) (fm_flash st)\<rparr>) url signature (fm_world st) of
      None \<Rightarrow> None
    | Some (Inr _, w) \<Rightarrow> Some ((serial_ok ''rebooting'' (st\<lparr>fm_world := w\<rparr>))\<lparr>fm_power := Restarted\<rparr>)
    | Some (Inl err, w) \<Rightarrow>
        Some (serial_fail (snd (push_all 128 [] (ota_error_pieces (pf_esp_text pf) err))) (st\<lparr>fm_world := w\<rparr>)))"

definition set_token :: "string option \<Rightarrow> ('t, 'f, 'w) fw_main \<Rightarrow> ('t, 'f, 'w) fw_main" where
  "set_token token st =
    (if \<not> rt_config_ok (fm_shared st) then serial_fail ''config unavailable'' st
     else serial_ok (if token = None then ''token cleared'' else ''token set'')
       (put_config ((fm_config st)\<lparr>rest_read_token := token, rest_write_token := token\<rparr>) st))"

text \<open>Commands that reach the card service.\<close>

definition service_command ::
    "('t, 'e, 'f, 'v) fw_env \<Rightarrow> ('w, 'x, 'v) platform \<Rightarrow> Command \<Rightarrow> ('t, 'f, 'w) fw_main \<Rightarrow> ('t, 'f, 'w) fw_main option" where
  "service_command env pf command st =
    (if \<not> rt_config_ok (fm_shared st) then Some (serial_fail ''config unavailable'' st)
     else if \<not> rt_service_ok (fm_shared st) then Some (serial_fail ''service unavailable'' st)
     else case command of
       CmI2cScan \<Rightarrow> Some (print_i2c_scan st)
     | CmPicc \<Rightarrow> print_picc env pf st
     | CmDiagnose \<Rightarrow> print_diagnose env st
     | CmHwInfo \<Rightarrow> Some (print_hwinfo st)
     | _ \<Rightarrow>
         (case dispatch_sync (esp32_service env) command (fm_core st) of
           None \<Rightarrow> None
         | Some (result, c) \<Rightarrow>
             let st = put_core c st
             in case command of
               CmHelp \<Rightarrow> Some (serial_ok ''help'' (print_help pf st))
             | CmStatus \<Rightarrow> Some (print_status st)
             | CmUid \<Rightarrow> Some (print_uid st)
             | CmInspect \<Rightarrow> print_inspect result st
             | _ \<Rightarrow> print_command_result command result st))"

definition handle_line ::
    "('t, 'e, 'f, 'v) fw_env \<Rightarrow> ('w, 'x, 'v) platform \<Rightarrow> string \<Rightarrow> ('t, 'f, 'w) fw_main \<Rightarrow> ('t, 'f, 'w) fw_main option" where
  "handle_line env pf line st =
    (case parse_command line of
      Inl err \<Rightarrow> Some (serial_fail (command_error_message err) st)
    | Inr command \<Rightarrow>
        (case command of
          CmSetWifi ssid password \<Rightarrow>
            if pf_wifi pf then wifi_command env pf ssid password st else Some (serial_fail ''wifi feature disabled'' st)
        | CmWifiOff \<Rightarrow> if pf_wifi pf then wifi_off_command pf st else Some (serial_fail ''wifi feature disabled'' st)
        | CmOta url signature \<Rightarrow>
            if \<not> pf_wifi pf then Some (serial_fail ''wifi feature disabled'' st)
            else if \<not> pf_ota pf then Some (serial_fail ''ota feature disabled'' st)
            else ota_command env pf url signature st
        | CmButtonMode \<Rightarrow>
            Some (if pf_stick pf
              then serial_ok (case get_button_mode (fm_button_mode st) of
                Simple \<Rightarrow> ''button mode: simple'' | Legacy \<Rightarrow> ''button mode: legacy'') st
              else serial_fail ''buttons not available on this board'' st)
        | CmButtonModeSet mode \<Rightarrow>
            Some (if pf_stick pf
              then serial_ok ''button mode set''
                (put_flash (snd (save_button_mode (fe_nvs env) (button_mode_as_str mode) (fm_flash st)))
                  (st\<lparr>fm_button_mode := set_button_mode mode\<rparr>))
              else serial_fail ''buttons not available on this board'' st)
        | CmSetToken token \<Rightarrow> Some (set_token token st)
        | _ \<Rightarrow> service_command env pf command st))"

section \<open>Commands outside the command grammar\<close>

definition reset_label :: "nat \<Rightarrow> string" where
  "reset_label r =
    (case map_of [(1, ''POWERON''), (3, ''SW_RESET''), (4, ''PANIC''), (5, ''INT_WDT''), (6, ''TASK_WDT''), (7, ''WDT''),
        (8, ''DEEPSLEEP''), (9, ''BROWNOUT'')] r of
      None \<Rightarrow> ''UNKNOWN'' | Some l \<Rightarrow> l)"

definition crash_label :: "byte \<Rightarrow> string" where
  "crash_label r =
    (case map_of [(4, ''PANIC''), (5, ''INT_WDT''), (6, ''TASK_WDT''), (7, ''WDT''), (9, ''BROWNOUT'')] r of
      None \<Rightarrow> ''UNKNOWN'' | Some l \<Rightarrow> l)"

definition run_crashlog :: "('t, 'e, 'f, 'v) fw_env \<Rightarrow> ('w, 'x, 'v) platform \<Rightarrow> ('t, 'f, 'w) fw_main \<Rightarrow> ('t, 'f, 'w) fw_main" where
  "run_crashlog env pf st =
    fold serial_line
      [''[CRASHLOG]'',
       ''  Boot count: '' @ dec_string (unat (load_boot_count (fe_nvs env) (fm_flash st))),
       ''  This boot reason: '' @ reset_label (pf_reset_reason pf),
       (case load_crash_info (fe_nvs env) (fm_flash st) of
         Some (reason, prev_boot) \<Rightarrow> ''  Last crash: '' @ crash_label reason @ '' on boot #'' @ dec_string (unat prev_boot)
       | None \<Rightarrow> ''  Last crash: none''),
       ''[CRASHLOG] END''] st"

text \<open>The fingerprint line; the separator is dropped where it no longer fits.\<close>

fun push_fingerprint :: "bool \<Rightarrow> bytes \<Rightarrow> string \<Rightarrow> string" where
  "push_fingerprint first [] out = out"
| "push_fingerprint first (b # bs) out =
    push_fingerprint False bs (snd (push_all 128 (if first then out else hl_push 128 '':'' out) (hex02_pieces b)))"

definition run_provision_cert ::
    "('t, 'e, 'f, 'v) fw_env \<Rightarrow> ('w, 'x, 'v) platform \<Rightarrow> ('t, 'f, 'w) fw_main \<Rightarrow> ('t, 'f, 'w) fw_main" where
  "run_provision_cert env pf st =
    (let st = serial_line ''[CERT] Generating RSA-2048 self-signed certificate...'' st
     in case pf_gen_cert pf (fm_world st) of
       (Inl e, w) \<Rightarrow> serial_fail (''[CERT] '' @ e) (st\<lparr>fm_world := w\<rparr>)
     | (Inr (cert_der, key_der), w) \<Rightarrow>
         let st = serial_line (''[CERT] Generated: cert='' @ dec_string (length cert_der) @ '' bytes, key='' @
               dec_string (length key_der) @ '' bytes'') (st\<lparr>fm_world := w\<rparr>)
         in case save_cert_der (fe_nvs env) cert_der key_der (fm_flash st) of
           (False, f) \<Rightarrow> serial_fail ''[CERT] Failed to store in NVS'' (put_flash f st)
         | (True, f) \<Rightarrow>
             (case pf_sha256 pf cert_der of
               None \<Rightarrow> serial_fail ''[CERT] SHA-256 computation failed'' (put_flash f st)
             | Some hash \<Rightarrow>
                 serial_line ''[CERT] Reconnect WiFi or reboot to start HTTPS server''
                   (serial_ok (''certificate provisioned '' @ EM_DASH @ '' REST API now available'')
                     (serial_line (push_fingerprint True hash (hl_push 128 (''[CERT] SHA-256 fingerprint:'' @ [CHR 0x0A] @ ''  '') []))
                       (put_flash f st)))))"

text \<open>The key text has even length, so every chunk has two characters.\<close>

fun decode_key_text :: "bytes \<Rightarrow> bytes option" where
  "decode_key_text (h # l # rest) =
    (case (decode_hex_nibble h, decode_hex_nibble l) of
      (Some h, Some l) \<Rightarrow> map_option ((#) (push_bit 4 h OR l)) (decode_key_text rest)
    | _ \<Rightarrow> None)"
| "decode_key_text _ = Some []"

definition run_provision_ota_key ::
    "('t, 'e, 'f, 'v) fw_env \<Rightarrow> string \<Rightarrow> ('t, 'f, 'w) fw_main \<Rightarrow> ('t, 'f, 'w) fw_main" where
  "run_provision_ota_key env key_hex st =
    (if length key_hex \<noteq> 64 then serial_fail ''expected 64-char hex Ed25519 public key'' st
     else case decode_key_text (as_bytes key_hex) of
       None \<Rightarrow> serial_fail ''invalid hex character in key'' st
     | Some key \<Rightarrow>
         (case save_ota_pubkey (fe_nvs env) key (fm_flash st) of
           (False, f) \<Rightarrow> serial_fail ''failed to store OTA key in NVS'' (put_flash f st)
         | (True, f) \<Rightarrow>
             serial_line ''[OTA] Signed firmware updates now require matching signature''
               (serial_ok ''Ed25519 OTA signing key provisioned'' (put_flash f st))))"

definition set_force ::
    "('t, 'e, 'f, 'v) fw_env \<Rightarrow> bool \<Rightarrow> ('t, 'f, 'w) fw_main \<Rightarrow> ('t, 'f, 'w) fw_main" where
  "set_force env on st =
    (let st = (if rt_config_ok (fm_shared st) then put_config ((fm_config st)\<lparr>force_unsafe := on\<rparr>) st else st);
         st = put_flash (save_force_flag (fe_nvs env) on (fm_flash st)) st
     in serial_line (if on then ''[OK] safety checks DISABLED (force=on)'' else ''[OK] safety checks enabled (force=off)'') st)"

definition force_status :: "('t, 'f, 'w) fw_main \<Rightarrow> ('t, 'f, 'w) fw_main" where
  "force_status st =
    (let on = (rt_config_ok (fm_shared st) \<and> force_unsafe (fm_config st))
     in serial_line (''[OK] force='' @ (if on then ''on'' else ''off'') @ '' '' @ EM_DASH @ '' safety checks '' @
       (if on then ''DISABLED'' else ''enabled'')) st)"

definition grove_command ::
    "('w, 'x, 'v) platform \<Rightarrow> bool option \<Rightarrow> ('t, 'f, 'w) fw_main \<Rightarrow> ('t, 'f, 'w) fw_main" where
  "grove_command pf on st =
    (case pf_grove pf of
      None \<Rightarrow> serial_fail ''grove: no grove power rail on this board'' st
    | Some grove \<Rightarrow>
        (case grove on (fm_world st) of
          (Inr boost, w) \<Rightarrow> serial_line (''[OK] grove 5V '' @
            (case on of None \<Rightarrow> ''status'' | Some True \<Rightarrow> ''on'' | Some False \<Rightarrow> ''off'') @ '' (boost='' @ bool_str boost @ '')'')
            (st\<lparr>fm_world := w\<rparr>)
        | (Inl e, w) \<Rightarrow> serial_fail e (st\<lparr>fm_world := w\<rparr>)))"

section \<open>Card polling\<close>

definition poll_card ::
    "('t, 'e, 'f, 'v) fw_env \<Rightarrow> ('t, 'f, 'w) fw_main \<Rightarrow> ('t, 'f, 'w) fw_main option" where
  "poll_card env st =
    (if \<not> rt_service_ok (fm_shared st) then Some st
     else if \<not> nfc_available (fm_service st) then Some (st\<lparr>fm_announced := False\<rparr>)
     else if fm_announced st then
       on_service (card_present env) (\<lambda>r st. Some (if r = Inr True then st else st\<lparr>fm_announced := False\<rparr>)) st
     else
       on_service (poll_safe env) (\<lambda>r st. case r of
           Inr (Some assessment) \<Rightarrow>
             if ca_present assessment then map_option (\<lambda>st. st\<lparr>fm_announced := True\<rparr>) (serial_card assessment st) else Some st
         | _ \<Rightarrow> Some (st\<lparr>fm_announced := False\<rparr>)) st)"

section \<open>Hardware test\<close>

definition millis :: "('w, 'x, 'v) platform \<Rightarrow> ('t, 'f, 'w) fw_main \<Rightarrow> 64 word \<times> ('t, 'f, 'w) fw_main" where
  "millis pf st = (pf_clock pf (fm_ticks st), st\<lparr>fm_ticks := fm_ticks st + 1\<rparr>)"

text \<open>Polling until the body has a result or the time is up.\<close>

partial_function (option) wait_for ::
    "('w, 'x, 'v) platform \<Rightarrow> 64 word \<Rightarrow> 64 word \<Rightarrow> (('t, 'f, 'w) fw_main \<Rightarrow> ('a option \<times> ('t, 'f, 'w) fw_main) option) \<Rightarrow>
      ('t, 'f, 'w) fw_main \<Rightarrow> ('a option \<times> ('t, 'f, 'w) fw_main) option" where
  "wait_for pf limit start body st =
    (case millis pf st of (now, st) \<Rightarrow>
      if saturating_diff now start < limit
      then Option.bind (body st) (\<lambda>(r, st). case r of Some a \<Rightarrow> Some (Some a, st) | None \<Rightarrow> wait_for pf limit start body st)
      else Some (None, st))"

definition wait_step ::
    "('w, 'x, 'v) platform \<Rightarrow> 64 word \<Rightarrow> (('t, 'f, 'w) fw_main \<Rightarrow> ('a option \<times> ('t, 'f, 'w) fw_main) option) \<Rightarrow>
      string \<Rightarrow> string \<Rightarrow> ('a \<Rightarrow> string) \<Rightarrow> nat \<times> ('t, 'f, 'w) fw_main \<Rightarrow> (nat \<times> ('t, 'f, 'w) fw_main) option" where
  "wait_step pf limit body name prompt pass_text = (\<lambda>(pass, st).
    case millis pf (serial_line (''[HWTEST] STEP '' @ name @ prompt) st) of (start, st) \<Rightarrow>
      (case wait_for pf limit start body st of
        None \<Rightarrow> None
      | Some (Some a, st) \<Rightarrow> Some (pass + 1, serial_line (''[HWTEST] STEP '' @ name @ '': PASS'' @ pass_text a) st)
      | Some (None, st) \<Rightarrow> Some (pass, serial_line (''[HWTEST] STEP '' @ name @ '': FAIL (timeout)'') st)))"

definition event_debug :: "ButtonEvent \<Rightarrow> string" where
  "event_debug e = (case e of NoEvent \<Rightarrow> ''None'' | Click \<Rightarrow> ''Click'' | LongPress \<Rightarrow> ''LongPress'')"

definition poll_buttons ::
    "('w, 'x, 'v) platform \<Rightarrow> 64 word \<Rightarrow> ButtonDebounce \<times> ButtonDebounce \<Rightarrow> ('t, 'f, 'w) fw_main \<Rightarrow>
      (ButtonEvent \<times> ButtonEvent) \<times> ('t, 'f, 'w) fw_main" where
  "poll_buttons pf now bs st =
    (case pf_pins pf (fm_ticks st) of (front, side) \<Rightarrow>
      case buttons_poll front side now bs of (events, bs) \<Rightarrow> (events, st\<lparr>fm_buttons := Some bs\<rparr>))"

definition button_test ::
    "('w, 'x, 'v) platform \<Rightarrow> bool \<Rightarrow> ('t, 'f, 'w) fw_main \<Rightarrow> (unit option \<times> ('t, 'f, 'w) fw_main) option" where
  "button_test pf front st =
    (case fm_buttons st of
      None \<Rightarrow> Some (None, st)
    | Some bs \<Rightarrow>
        (case millis pf st of (now, st) \<Rightarrow>
          case poll_buttons pf now bs st of ((fe, se), st) \<Rightarrow>
            let e = (if front then fe else se)
            in if e \<noteq> NoEvent then Some (Some (), serial_line (''[HWTEST]   event: '' @ event_debug e) st) else Some (None, st)))"

text \<open>The loops lock the service and panic on a poisoned lock.\<close>

definition tap_test ::
    "('t, 'e, 'f, 'v) fw_env \<Rightarrow> ('t, 'f, 'w) fw_main \<Rightarrow> (string option \<times> ('t, 'f, 'w) fw_main) option" where
  "tap_test env st =
    (if \<not> rt_service_ok (fm_shared st) then None
     else case poll_safe env (fm_service st) of
       None \<Rightarrow> None
     | Some (r, s) \<Rightarrow>
         let st = put_service s st
         in case r of
           Inr (Some a) \<Rightarrow>
             if \<not> ca_present a then Some (None, st)
             else (case ca_uid a of
               None \<Rightarrow> Some (Some [], st)
             | Some uid \<Rightarrow> if unat (ca_uid_len a) > length uid then None
                 else Some (Some (push_uid_hex (take (unat (ca_uid_len a)) uid)), st))
         | _ \<Rightarrow> Some (None, st))"

definition remove_test ::
    "('t, 'e, 'f, 'v) fw_env \<Rightarrow> ('t, 'f, 'w) fw_main \<Rightarrow> (unit option \<times> ('t, 'f, 'w) fw_main) option" where
  "remove_test env st =
    (if \<not> rt_service_ok (fm_shared st) then None
     else case card_present env (fm_service st) of
       None \<Rightarrow> None
     | Some (r, s) \<Rightarrow> Some (if r = Inr True then None else Some (), put_service s st))"

definition board_name :: "('w, 'x, 'v) platform \<Rightarrow> string" where
  "board_name pf = (if pf_stick pf then ''M5StickC Plus'' else ''M5Atom'')"

definition I2C_BAUDRATE_HZ :: nat where
  "I2C_BAUDRATE_HZ = 100000"

definition hwtest_report :: "('w, 'x, 'v) platform \<Rightarrow> ('t, 'f, 'w) fw_main \<Rightarrow> ('t, 'f, 'w) fw_main option" where
  "hwtest_report pf st =
    (if \<not> rt_service_ok (fm_shared st) then None
     else case i2c_scan (fm_service st) of (found, s) \<Rightarrow>
       Some (fold serial_line
         ([''[HWTEST] START'', ''[HWTEST] board='' @ board_name pf,
           ''[HWTEST] i2c_baudrate='' @ dec_string I2C_BAUDRATE_HZ @ ''Hz'',
           ''[HWTEST] i2c_devices='' @ str_trim (fold (\<lambda>a out. snd (push_all 128 out ([''0x''] @ hex02_pieces a @ ['' '']))) found []),
           ''[HWTEST] nfc='' @ (if nfc_available s then ''ok'' else ''missing''),
           ''[HWTEST] display='' @ (if es_display_init_ok s then ''ok'' else ''fail'')] @
          (case pf_battery pf of
            None \<Rightarrow> []
          | Some (mv, usb) \<Rightarrow> [''[HWTEST] battery='' @ (case mv of None \<Rightarrow> ''none'' | Some v \<Rightarrow> dec_string v) @ '' usb='' @
              (if usb then ''1'' else ''0'')]) @
          [''[HWTEST] button_mode='' @ button_mode_as_str (get_button_mode (fm_button_mode st))])
         (put_service s st)))"

definition run_hwtest ::
    "('t, 'e, 'f, 'v) fw_env \<Rightarrow> ('w, 'x, 'v) platform \<Rightarrow> ('t, 'f, 'w) fw_main \<Rightarrow> ('t, 'f, 'w) fw_main option" where
  "run_hwtest env pf st =
    Option.bind (hwtest_report pf st) (\<lambda>st.
    Option.bind
      (if fm_buttons st = None then Some (0, 0, serial_line ''[HWTEST] STEP buttons: SKIP (not initialized)'' st)
       else map_option (\<lambda>(pass, st). (2, pass, st))
         (Option.bind (wait_step pf 10000 (button_test pf True) ''front_button'' '': PRESS NOW (10s)'' (\<lambda>_. []) (0, st))
           (wait_step pf 10000 (button_test pf False) ''side_button'' '': PRESS NOW (10s)'' (\<lambda>_. [])))) (\<lambda>(total, pass, st).
    Option.bind (wait_step pf 15000 (tap_test env) ''card_tap'' '': TAP CARD NOW (15s)'' (\<lambda>uid. '' uid='' @ uid) (pass, st)) (\<lambda>(pass, st).
    Option.bind (wait_step pf 10000 (remove_test env) ''card_remove'' '': REMOVE CARD NOW (10s)'' (\<lambda>_. []) (pass, st)) (\<lambda>(pass, st).
      let total = total + 2;
          score = dec_string pass @ ''/'' @ dec_string total
      in Some (fold serial_line
        [if total = pass then ''[HWTEST] RESULT: ALL PASS ('' @ score @ '')'' else ''[HWTEST] RESULT: '' @ score @ '' PASS'',
         ''[HWTEST] END''] st)))))"

section \<open>Buttons\<close>

definition report_button_result :: "string \<Rightarrow> WorkflowResult \<Rightarrow> ('t, 'f, 'w) fw_main \<Rightarrow> ('t, 'f, 'w) fw_main" where
  "report_button_result action result =
    (case result of
      WrSuccess \<Rightarrow> serial_line (snd (push_all 32 [] [''[OK] '', action, '' complete (button)'']))
    | _ \<Rightarrow> serial_line (snd (push_all 64 [] ([''[FAIL] '', action] @
        (case result of
          CardNotPresent \<Rightarrow> ['': no card''] | AuthFailed \<Rightarrow> ['': auth failed''] | AuthDelay \<Rightarrow> ['': auth delay'']
        | WipeRefused \<Rightarrow> ['': refused''] | WrError e \<Rightarrow> ['': '', e] | WrSuccess \<Rightarrow> [])))))"

definition do_burn_button ::
    "('t, 'e, 'f, 'v) fw_env \<Rightarrow> ('t, 'f, 'w) fw_main \<Rightarrow> ('t, 'f, 'w) fw_main option" where
  "do_burn_button env st =
    (if \<not> rt_config_ok (fm_shared st) then Some (serial_fail ''config unavailable'' st)
     else if \<not> rt_service_ok (fm_shared st) then Some (serial_fail ''service unavailable'' st)
     else let config = fm_config st; url = (case lnurl config of None \<Rightarrow> [] | Some u \<Rightarrow> u)
     in if pending_issuer config = None \<and> pending_keys config = None then Some (serial_fail ''no issuer or keys'' st)
        else if url = [] then Some (serial_fail ''no lnurl configured'' st)
        else case outcome (service_burn env (pending_issuer config) (pending_keys config) url) (fm_service st) of
          None \<Rightarrow> None
        | Some (result, s) \<Rightarrow> Some (report_button_result ''burn'' result (put_service (sync_from (fe_nvs env) config s) st)))"

definition do_wipe_button ::
    "('t, 'e, 'f, 'v) fw_env \<Rightarrow> ('t, 'f, 'w) fw_main \<Rightarrow> ('t, 'f, 'w) fw_main option" where
  "do_wipe_button env st =
    (if \<not> rt_config_ok (fm_shared st) then Some (serial_fail ''config unavailable'' st)
     else if \<not> rt_service_ok (fm_shared st) then Some (serial_fail ''service unavailable'' st)
     else let config = fm_config st
     in if pending_issuer config = None \<and> pending_keys config = None then Some (serial_fail ''no issuer or keys'' st)
        else case outcome (service_wipe env (pending_issuer config) (pending_keys config)) (fm_service st) of
          None \<Rightarrow> None
        | Some (result, s) \<Rightarrow> Some (report_button_result ''wipe'' result (put_service s st)))"

definition do_smart_action ::
    "('t, 'e, 'f, 'v) fw_env \<Rightarrow> ('t, 'f, 'w) fw_main \<Rightarrow> ('t, 'f, 'w) fw_main option" where
  "do_smart_action env st =
    (if \<not> rt_service_ok (fm_shared st) then Some (serial_fail ''service unavailable'' st)
     else case ca_state (es_last_card (fm_service st)) of
       StateBlank \<Rightarrow> do_burn_button env st
     | StateProvisioned _ \<Rightarrow> do_wipe_button env st
     | _ \<Rightarrow> Some (serial_fail ''no card or unknown state'' st))"

definition show_button_status :: "('t, 'f, 'w) fw_main \<Rightarrow> ('t, 'f, 'w) fw_main option" where
  "show_button_status st =
    (if \<not> rt_service_ok (fm_shared st) then Some st
     else let status = es_status (fm_service st)
     in map_option (serial_line (snd (push_all 96 [] [''[INFO] nfc='', if ss_nfc_ready status then ''ok'' else ''--'', '' lnurl='',
           case ss_lnurl status of None \<Rightarrow> ''none'' | Some l \<Rightarrow> l])))
         (serial_card (es_last_card (fm_service st)) st))"

definition toggle_wifi_button ::
    "('w, 'x, 'v) platform \<Rightarrow> ('t, 'f, 'w) fw_main \<Rightarrow> ('t, 'f, 'w) fw_main option" where
  "toggle_wifi_button pf st =
    (if \<not> pf_wifi pf then Some (serial_fail ''wifi not enabled'' st)
     else case fm_wifi st of
       None \<Rightarrow> Some (serial_fail ''wifi unavailable'' st)
     | Some mdns \<Rightarrow>
         if wifi_is_connected (pf_driver pf) (fm_world st)
         then on_wifi (wifi_disconnect (pf_driver pf)) mdns (\<lambda>e st.
           Some (case e of None \<Rightarrow> serial_line ''[OK] wifi off (button)'' st | Some _ \<Rightarrow> serial_fail ''wifi disconnect failed'' st)) st
         else Some (serial_fail ''wifi not configured (use serial)'' st))"

definition enter_deep_sleep :: "('t, 'f, 'w) fw_main \<Rightarrow> ('t, 'f, 'w) fw_main" where
  "enter_deep_sleep st = st\<lparr>fm_power := DeepSleep\<rparr>"

definition next_legacy_op :: "LegacyOp \<Rightarrow> LegacyOp" where
  "next_legacy_op op = (case op of LgIdle \<Rightarrow> LgBurn | LgBurn \<Rightarrow> LgWipe | LgWipe \<Rightarrow> LgIdle)"

definition handle_button_events ::
    "('t, 'e, 'f, 'v) fw_env \<Rightarrow> ('w, 'x, 'v) platform \<Rightarrow> ButtonEvent \<Rightarrow> ButtonEvent \<Rightarrow> ('t, 'f, 'w) fw_main \<Rightarrow>
      ('t, 'f, 'w) fw_main option" where
  "handle_button_events env pf front side st =
    (case get_button_mode (fm_button_mode st) of
      Simple \<Rightarrow>
        Option.bind
          (case front of Click \<Rightarrow> do_smart_action env st | LongPress \<Rightarrow> toggle_wifi_button pf st | NoEvent \<Rightarrow> Some st) (\<lambda>st.
          case side of Click \<Rightarrow> show_button_status st | LongPress \<Rightarrow> Some (enter_deep_sleep st) | NoEvent \<Rightarrow> Some st)
    | Legacy \<Rightarrow>
        Option.bind
          (case front of
            Click \<Rightarrow>
              let op = next_legacy_op (fm_legacy_op st)
              in Some (serial_line (case op of LgIdle \<Rightarrow> ''mode: idle'' | LgBurn \<Rightarrow> ''mode: burn'' | LgWipe \<Rightarrow> ''mode: wipe'')
                (st\<lparr>fm_legacy_op := op\<rparr>))
          | LongPress \<Rightarrow> toggle_wifi_button pf st
          | NoEvent \<Rightarrow> Some st) (\<lambda>st.
          case side of
            Click \<Rightarrow>
              (case fm_legacy_op st of
                LgBurn \<Rightarrow> do_burn_button env st
              | LgWipe \<Rightarrow> do_wipe_button env st
              | LgIdle \<Rightarrow> Some (serial_fail ''no action (idle mode)'' st))
          | LongPress \<Rightarrow> Some (enter_deep_sleep st)
          | NoEvent \<Rightarrow> Some st))"

section \<open>BLE commands\<close>

definition bytes_debug :: "bytes \<Rightarrow> string" where
  "bytes_debug uid = ''['' @ concat (map (\<lambda>(i, b). (if i = 0 then [] else '', '') @ push_uid_hex [b]) (enumerate 0 uid)) @ '']''"

definition result_debug :: "(string \<Rightarrow> string) \<Rightarrow> WorkflowResult \<Rightarrow> string" where
  "result_debug q r =
    (case r of WrSuccess \<Rightarrow> ''Success'' | CardNotPresent \<Rightarrow> ''CardNotPresent'' | AuthFailed \<Rightarrow> ''AuthFailed''
    | AuthDelay \<Rightarrow> ''AuthDelay'' | WipeRefused \<Rightarrow> ''WipeRefused'' | WrError m \<Rightarrow> ''Error('' @ q m @ '')'')"

definition process_ble_command ::
    "'s BoltyService \<Rightarrow> (string \<Rightarrow> string) \<Rightarrow> string \<Rightarrow> 's rest_state \<Rightarrow> (string \<times> 's rest_state) option" where
  "process_ble_command S q cmd st =
    (if \<not> rt_service_ok st then Some (''[FAIL] service unavailable'', st)
     else case parse_command cmd of
       Inl _ \<Rightarrow> Some (''[FAIL] unknown command: '' @ cmd, st)
     | Inr command \<Rightarrow>
         let status = bs_get_status S (fc_service (rt_core st))
         in if command = CmStatus then
              Some (''[OK] nfc='' @ bool_str (ss_nfc_ready status) @ '' uid='' @
                (case ss_last_uid status of Some u \<Rightarrow> bytes_debug u | None \<Rightarrow> ''---''), st)
            else if command = CmUid then
              Some (''[OK] '' @ (case ss_last_uid status of Some u \<Rightarrow> bytes_debug u | None \<Rightarrow> ''no card''), st)
            else if command \<in> {CmInspect, CmDiagnose, CmPicc, CmCheck} then
              if \<not> rt_config_ok st then Some (''[FAIL] config unavailable'', st)
              else (case dispatch_command S command (rt_core st) of
                None \<Rightarrow> None
              | Some (result, c) \<Rightarrow>
                  Some (if result = WrSuccess then ''[OK] done'' else ''[FAIL] '' @ result_debug q result, st\<lparr>rt_core := c\<rparr>))
            else (case command of
                CmBurn \<Rightarrow> Some (''[FAIL] write commands blocked via BLE (issue #34)'', st)
              | CmWipe \<Rightarrow> Some (''[FAIL] write commands blocked via BLE (issue #34)'', st)
              | CmSetKeys _ \<Rightarrow> Some (''[FAIL] write commands blocked via BLE (issue #34)'', st)
              | CmSetIssuer _ \<Rightarrow> Some (''[FAIL] write commands blocked via BLE (issue #34)'', st)
              | CmSetUrl _ \<Rightarrow> Some (''[FAIL] write commands blocked via BLE (issue #34)'', st)
              | CmSetToken _ \<Rightarrow> Some (''[FAIL] write commands blocked via BLE (issue #34)'', st)
              | _ \<Rightarrow> Some (''[FAIL] command not available via BLE'', st)))"

text \<open>One pass over the queued commands.\<close>

function ble_drain ::
    "'s BoltyService \<Rightarrow> (string \<Rightarrow> string) \<Rightarrow> 'g ble_stack \<Rightarrow> 's rest_state \<Rightarrow> 'a ble_state \<times> 'g \<Rightarrow>
      ('s rest_state \<times> 'a ble_state \<times> 'g) option" where
  "ble_drain S q B st (bl, g) =
    (case bl_cmd_queue bl of
      [] \<Rightarrow> Some (st, (bl, g))
    | cmd # cmds \<Rightarrow>
        (case process_ble_command S q cmd st of
          None \<Rightarrow> None
        | Some (response, st) \<Rightarrow>
            ble_drain S q B st (bl\<lparr>bl_cmd_queue := cmds\<rparr>, snd (send_response B response (bl\<lparr>bl_cmd_queue := cmds\<rparr>, g)))))"
  by pat_completeness auto
termination
  by (relation "measure (\<lambda>(S, q, B, st, bl, g). length (bl_cmd_queue bl))") auto

declare ble_drain.simps [simp del]

section \<open>The main loop\<close>

definition console_line ::
    "('t, 'e, 'f, 'v) fw_env \<Rightarrow> ('w, 'x, 'v) platform \<Rightarrow> string \<Rightarrow> ('t, 'f, 'w) fw_main \<Rightarrow> ('t, 'f, 'w) fw_main option" where
  "console_line env pf line st =
    map_option (\<lambda>st. st\<lparr>fm_announced := False\<rparr>)
      (case parse_pre_dispatch_command line of
        Some PdCrashlog \<Rightarrow> Some (run_crashlog env pf st)
      | Some PdHwTest \<Rightarrow> run_hwtest env pf st
      | Some PdProvisionCert \<Rightarrow> Some (if pf_rest pf then run_provision_cert env pf st
          else serial_fail (''rest feature disabled '' @ EM_DASH @ '' cert not needed'') st)
      | Some (PdProvisionOtaKey key_hex) \<Rightarrow>
          Some (if pf_ota pf then run_provision_ota_key env key_hex st else serial_fail ''ota feature disabled'' st)
      | Some PdForceOn \<Rightarrow> Some (set_force env True st)
      | Some PdForceOff \<Rightarrow> Some (set_force env False st)
      | Some PdForceStatus \<Rightarrow> Some (force_status st)
      | Some PdGroveOn \<Rightarrow> Some (grove_command pf (Some True) st)
      | Some PdGroveOff \<Rightarrow> Some (grove_command pf (Some False) st)
      | Some PdGroveStatus \<Rightarrow> Some (grove_command pf None st)
      | None \<Rightarrow> handle_line env pf line st)"

text \<open>The bytes that wait on the serial line. A restart ends the program, so nothing is read after it.\<close>

fun console_bytes ::
    "('t, 'e, 'f, 'v) fw_env \<Rightarrow> ('w, 'x, 'v) platform \<Rightarrow> bytes \<Rightarrow> ('t, 'f, 'w) fw_main \<Rightarrow> ('t, 'f, 'w) fw_main option" where
  "console_bytes env pf [] st = Some st"
| "console_bytes env pf (b # bs) st =
    (if fm_power st \<noteq> PowerOn then Some st
     else case feed MAX_LINE_LEN (fm_assembler st) b of (ev, asm) \<Rightarrow>
       let st = st\<lparr>fm_assembler := asm\<rparr>
       in Option.bind
         (case ev of
           None \<Rightarrow> Some st
         | Some EvOverflow \<Rightarrow> Some (serial_fail ''command too long'' st)
         | Some (EvLine line) \<Rightarrow> console_line env pf line st) (console_bytes env pf bs))"

definition CARD_POLL_INTERVAL_MS :: "64 word" where
  "CARD_POLL_INTERVAL_MS = 500"

definition saturating_plus :: "64 word \<Rightarrow> 64 word \<Rightarrow> 64 word" where
  "saturating_plus a b = (if unat a + unat b < 2 ^ 64 then a + b else - 1)"

definition heartbeat :: "64 word \<Rightarrow> ('t, 'f, 'w) fw_main \<Rightarrow> ('t, 'f, 'w) fw_main" where
  "heartbeat now st =
    (if now \<ge> fm_heartbeat_at st
     then (serial_line (snd (push_all 48 [] [''[HB] alive t='', dec_string (unat now), ''ms nfc='',
         if fm_nfc_ready st then ''ok'' else ''DOWN''])) st)\<lparr>fm_heartbeat_at := saturating_plus now 10000\<rparr>
     else st)"

definition main_buttons ::
    "('t, 'e, 'f, 'v) fw_env \<Rightarrow> ('w, 'x, 'v) platform \<Rightarrow> 64 word \<Rightarrow> ('t, 'f, 'w) fw_main \<Rightarrow> ('t, 'f, 'w) fw_main option" where
  "main_buttons env pf now st =
    (case fm_buttons st of
      None \<Rightarrow> Some st
    | Some bs \<Rightarrow>
        (case poll_buttons pf now bs st of ((fe, se), st) \<Rightarrow>
          if fe \<noteq> NoEvent \<or> se \<noteq> NoEvent then handle_button_events env pf fe se st else Some st))"

text \<open>One pass of the loop; \<open>bs\<close> are the bytes received since the last one. The BLE commands are \<open>ble_drain\<close>.\<close>

definition main_iteration ::
    "('t, 'e, 'f, 'v) fw_env \<Rightarrow> ('w, 'x, 'v) platform \<Rightarrow> bytes \<Rightarrow> ('t, 'f, 'w) fw_main \<Rightarrow> ('t, 'f, 'w) fw_main option" where
  "main_iteration env pf bs st =
    Option.bind (console_bytes env pf bs st) (\<lambda>st.
      if fm_power st \<noteq> PowerOn then Some st
      else case millis pf st of (now, st) \<Rightarrow>
        Option.bind
          (if now \<ge> fm_next_poll_at st
           then map_option (\<lambda>st. st\<lparr>fm_next_poll_at := saturating_plus now CARD_POLL_INTERVAL_MS\<rparr>) (poll_card env st)
           else Some st) (\<lambda>st.
        Option.bind
          (if pf_rest pf then map_option (\<lambda>sh. st\<lparr>fm_shared := sh\<rparr>) (process_rest_job (esp32_service env) (fm_shared st)) else Some st)
          (\<lambda>st. main_buttons env pf now (heartbeat now st))))"

section \<open>Start-up\<close>

definition initial_config :: "'f nvs_api \<Rightarrow> 'f \<Rightarrow> BoltyConfig" where
  "initial_config N f = bolty_config_default\<lparr>lnurl := load_lnurl N f, force_unsafe := load_force_flag N f\<rparr>"

definition saved_button_mode :: "'f nvs_api \<Rightarrow> 'f \<Rightarrow> ButtonMode" where
  "saved_button_mode N f =
    (case Option.bind (load_button_mode N f) button_mode_from_str of None \<Rightarrow> Simple | Some m \<Rightarrow> m)"

definition abnormal_reset :: "nat \<Rightarrow> bool" where
  "abnormal_reset r = (r \<in> {4, 5, 6, 7, 9})"

text \<open>The counter saturates; the boot that ended badly is the one before this.\<close>

definition count_boot :: "'f nvs_api \<Rightarrow> nat \<Rightarrow> 'f \<Rightarrow> u32 \<times> 'f" where
  "count_boot N reason f =
    (let n = load_boot_count N f; count = (if n = - 1 then n else n + 1);
         f = save_boot_count N count f
     in (count, if abnormal_reset reason then save_crash_info N (of_nat reason) (if count = 0 then 0 else count - 1) f else f))"

definition boot_lines ::
    "('t, 'e, 'f, 'v) fw_env \<Rightarrow> ('w, 'x, 'v) platform \<Rightarrow> u32 \<Rightarrow> ('t, 'f, 'w) fw_main \<Rightarrow> ('t, 'f, 'w) fw_main" where
  "boot_lines env pf count st =
    (let s = fm_service st
     in fold serial_line
       ([''[BOOT] #'' @ dec_string (unat count) @ '' reason='' @ reset_label (pf_reset_reason pf),
         ''[BOOT] firmware=ota-test-v1'',
         ''[BOOT] built='' @ pf_build_epoch pf,
         snd (push_all 256 [] [''hw: board='', board_name pf, '' i2c='', dec_string I2C_BAUDRATE_HZ, ''Hz display='',
           if es_display_init_ok s then ''ok'' else ''FAIL'', '' nfc='', if fm_nfc_ready st then ''ok'' else ''missing'']),
         (let line = hl_push 128 ''hw: i2c_scan='' []
          in if es_last_i2c_scan s = [] then hl_push 128 ''none'' line
             else push_addresses 128 '','' True (es_last_i2c_scan s) line)] @
        (if pf_rest pf then [''hw: cert='' @ (if has_cert (fe_nvs env) (fm_flash st) then ''provisioned''
           else ''NOT_PROVISIONED (run '' @ [CHR 0x27] @ ''provision-cert'' @ [CHR 0x27] @ '')'')] else [])) st)"

text \<open>The state the loop starts from, after the bring-up of the hardware.\<close>

definition fw_start ::
    "('t, 'e, 'f, 'v) fw_env \<Rightarrow> ('w, 'x, 'v) platform \<Rightarrow> 't option \<Rightarrow> (byte \<Rightarrow> bool) option \<Rightarrow> bytes \<Rightarrow> bool \<Rightarrow> bool option \<Rightarrow>
      bool \<Rightarrow> 'w \<Rightarrow> 'f \<Rightarrow> ('t, 'f, 'w) fw_main" where
  "fw_start env pf xcvr raw_i2c scan display_ok wifi buttons_ok w f =
    (let config = initial_config (fe_nvs env) f;
         s = service_new (fe_nvs env) xcvr raw_i2c scan config display_ok (of_nat I2C_BAUDRATE_HZ) f;
         st = \<lparr>fm_shared = \<lparr>rt_core = \<lparr>fc_service = s, fc_config = config, fc_gate = snd (gate_arm gate_new)\<rparr>,
             rt_config_ok = True, rt_service_ok = True, rt_last_write_us = 0, rt_rate_ok = True, rt_job = job_slot_new,
             rt_job_ok = True, rt_ticks = 0\<rparr>,
           fm_serial = [], fm_wifi = (if pf_wifi pf then wifi else None), fm_rest = False, fm_world = w,
           fm_button_mode = 0, fm_legacy_op = LgIdle, fm_announced = False,
           fm_buttons = None, fm_assembler = assembler_new, fm_next_poll_at = 0, fm_heartbeat_at = 0,
           fm_nfc_ready = (xcvr \<noteq> None), fm_ticks = 0, fm_power = PowerOn\<rparr>
     in case millis pf st of (next_poll_at, st) \<Rightarrow>
        case millis pf st of (heartbeat_at, st) \<Rightarrow>
        case count_boot (fe_nvs env) (pf_reset_reason pf) (fm_flash st) of (count, f) \<Rightarrow>
          let st = put_flash f (st\<lparr>fm_next_poll_at := next_poll_at, fm_heartbeat_at := heartbeat_at\<rparr>);
              st = print_boot_banner pf (boot_lines env pf count st)
          in if pf_stick pf
             then st\<lparr>fm_buttons := (if buttons_ok then Some (debounce_new, debounce_new) else None),
               fm_button_mode := set_button_mode (saved_button_mode (fe_nvs env) (fm_flash st))\<rparr>
             else st)"

end
