(* ===== verification/Trace.thy ===== *)
theory Trace
  imports Workflows
begin

text \<open>
  What a program sends to the card. \<open>traced\<close> records every APDU a link transmits; \<open>sends tr P m\<close> says that a run of
  \<open>m\<close> only appends APDUs satisfying \<open>P\<close> to the trace \<open>tr\<close> reads from the state. The rules follow the
  program combinators, so a workflow is covered by the commands it is built from.
\<close>

definition traced :: "('t, 'e) link \<Rightarrow> ('t \<times> bytes list, 'e) link" where
  "traced E =
    \<lparr>lk_aes = lk_aes E,
     lk_transmit = (\<lambda>apdu (t, tr). case lk_transmit E apdu t of None \<Rightarrow> None | Some (r, t') \<Rightarrow> Some (r, (t', tr @ [apdu]))),
     lk_get_uid = (\<lambda>(t, tr). case lk_get_uid E t of None \<Rightarrow> None | Some (r, t') \<Rightarrow> Some (r, (t', tr))),
     lk_compat = lk_compat E\<rparr>"

definition sends :: "('s \<Rightarrow> bytes list) \<Rightarrow> (bytes \<Rightarrow> bool) \<Rightarrow> ('s, 'e, 'a) prog \<Rightarrow> bool" where
  "sends tr P m \<longleftrightarrow> (\<forall>s r s'. m s = Some (r, s') \<longrightarrow> (\<exists>new. tr s' = tr s @ new \<and> list_all P new))"

named_theorems sends_rules

lemma sendsI: "(\<And>s r s'. m s = Some (r, s') \<Longrightarrow> \<exists>new. tr s' = tr s @ new \<and> list_all P new) \<Longrightarrow> sends tr P m"
  by (simp add: sends_def)

lemma sendsD: "sends tr P m \<Longrightarrow> m s = Some (r, s') \<Longrightarrow> \<exists>new. tr s' = tr s @ new \<and> list_all P new"
  by (simp add: sends_def)

lemma sends_pure [sends_rules]: "sends tr P (return_p a)" "sends tr P (throw_p e)" "sends tr P (lift_r x)" "sends tr P panic_p"
  by (auto simp: sends_def)

lemma sends_bind [sends_rules]:
  assumes "sends tr P m" "\<And>a. sends tr P (f a)"
  shows "sends tr P (bind_p m f)"
proof (rule sendsI)
  fix s r s'
  assume "bind_p m f s = Some (r, s')"
  then obtain r1 s1 where 1: "m s = Some (r1, s1)"
    "case r1 of Inl e \<Rightarrow> s' = s1 | Inr a \<Rightarrow> f a s1 = Some (r, s')"
    by (auto simp: bind_p_def split: option.splits sum.splits)
  obtain n1 where n1: "tr s1 = tr s @ n1" "list_all P n1"
    using sendsD [OF assms(1) 1(1)] by blast
  show "\<exists>new. tr s' = tr s @ new \<and> list_all P new"
  proof (cases r1)
    case (Inr a)
    then show ?thesis
      using sendsD [OF assms(2)] 1(2) n1 by fastforce
  qed (use 1 n1 in auto)
qed

lemma sends_catch [sends_rules]:
  assumes "sends tr P m" "\<And>r. sends tr P (f r)"
  shows "sends tr P (catch_p m f)"
proof (rule sendsI)
  fix s r s'
  assume "catch_p m f s = Some (r, s')"
  then obtain r1 s1 where 1: "m s = Some (r1, s1)" "f r1 s1 = Some (r, s')"
    by (auto simp: catch_p_def split: option.splits)
  show "\<exists>new. tr s' = tr s @ new \<and> list_all P new"
    using sendsD [OF assms(1) 1(1)] sendsD [OF assms(2) 1(2)] by fastforce
qed

lemma sends_map_err [sends_rules]: "sends tr P m \<Longrightarrow> sends tr P (map_err_p g m)"
  by (auto simp: sends_def map_err_p_def split: option.splits)

lemma sends_ok [sends_rules]: "sends tr P m \<Longrightarrow> sends tr P (ok_p m)"
  unfolding ok_p_def by (intro sends_rules)

lemma sends_sess [sends_rules]: "sends tr P m \<Longrightarrow> sends tr P (sess m)"
  unfolding sess_def by (intro sends_rules)

lemma sends_on_link [sends_rules]: "sends tr P m \<Longrightarrow> sends (\<lambda>(t, s). tr t) P (on_link m)"
  by (fastforce simp: sends_def on_link_def split: option.splits prod.splits)

lemma sends_session [sends_rules]: "sends (\<lambda>(t, s). tr t) P session_get" "sends (\<lambda>(t, s). tr t) P (session_put x)"
  by (auto simp: sends_def session_get_def session_put_def)

lemma sends_own [sends_rules]: "sends (\<lambda>(t, s). tr t) P m \<Longrightarrow> sends tr P (own x m)"
  by (fastforce simp: sends_def own_def split: option.splits prod.splits)

lemma sends_if [sends_rules]: "(b \<Longrightarrow> sends tr P m) \<Longrightarrow> (\<not> b \<Longrightarrow> sends tr P n) \<Longrightarrow> sends tr P (if b then m else n)"
  by simp

lemma sends_case [sends_rules]:
  "sends tr P m \<Longrightarrow> (\<And>a. sends tr P (f a)) \<Longrightarrow> sends tr P (case x of None \<Rightarrow> m | Some a \<Rightarrow> f a)"
  "(\<And>a. sends tr P (g a)) \<Longrightarrow> (\<And>a. sends tr P (h a)) \<Longrightarrow> sends tr P (case y of Inl a \<Rightarrow> g a | Inr a \<Rightarrow> h a)"
  "(\<And>a b. sends tr P (k a b)) \<Longrightarrow> sends tr P (case z of (a, b) \<Rightarrow> k a b)"
  by (auto split: option.splits sum.splits prod.splits)

lemma sends_let [sends_rules]: "sends tr P (f v) \<Longrightarrow> sends tr P (let x = v in f x)"
  by simp

lemma sends_transmit [sends_rules]: "P apdu \<Longrightarrow> sends snd P (transmit_s (traced E) apdu)"
  by (auto simp: sends_def transmit_s_def map_err_p_def traced_def split: option.splits prod.splits)

section \<open>Commands that only read\<close>

text \<open>SELECT, READ BINARY, GetVersion, the next frame of an answer, GetFileSettings.\<close>

definition read_only_apdu :: "bytes \<Rightarrow> bool" where
  "read_only_apdu apdu = (2 \<le> length apdu \<and> apdu ! 1 \<in> {0xA4, 0xB0, 0x60, 0xAF, 0xF5})"

lemma sends_get_uid [sends_rules]: "sends snd P (get_selected_uid (traced E))"
  unfolding get_selected_uid_def
  by (intro sends_rules) (auto simp: sends_def traced_def split: option.splits prod.splits)

lemma sends_get_version [sends_rules]: "sends snd read_only_apdu (unauth_get_version (traced E))"
  unfolding unauth_get_version_def get_version_def drive_chain_def request_intermediate_part_def
  by (intro sends_rules; simp add: read_only_apdu_def)

lemma sends_select [sends_rules]:
  "sends (\<lambda>(t, s). snd t) read_only_apdu (select_ndef_application (traced E))"
  unfolding select_ndef_application_def select_ndef_application_cmd_def iso_select_df_by_name_def
  by (intro sends_rules; simp add: read_only_apdu_def)

lemma sends_select_file [sends_rules]: "sends (\<lambda>(t, s). snd t) read_only_apdu (select_file (traced E) file)"
  unfolding select_file_def iso_select_ef_by_fid_def
  by (intro sends_rules; simp add: read_only_apdu_def)

lemma sends_read_binary [sends_rules]: "sends snd read_only_apdu (iso_read_binary (traced E) short off n)"
  unfolding iso_read_binary_def by (intro sends_rules; simp add: read_only_apdu_def)

lemma sends_read_loop [sends_rules]: "sends snd read_only_apdu (iso_read_loop (traced E) off n acc)"
proof (induction "n - length acc" arbitrary: acc rule: less_induct)
  case less
  have "sends snd read_only_apdu (iso_read_loop (traced E) off n (acc @ d))"
    if "length acc < n" "\<not> length d < min (n - length acc) ISO_READ_BINARY_CHUNK" for d
    using that by (intro less) (auto simp: ISO_READ_BINARY_CHUNK_def)
  then show ?case
    by (subst iso_read_loop.simps) (intro sends_rules; simp)
qed

lemma sends_read_file [sends_rules]: "sends (\<lambda>(t, s). snd t) read_only_apdu (read_file_unauthenticated (traced E) file off n)"
  unfolding read_file_unauthenticated_def by (intro sends_rules)

lemma sends_get_settings [sends_rules]: "sends (\<lambda>(t, s). snd t) read_only_apdu (unauth_get_file_settings (traced E) file)"
  unfolding unauth_get_file_settings_def get_file_settings_def by (intro sends_rules; simp add: read_only_apdu_def)

lemma sends_safe_inspect: "sends snd read_only_apdu (safe_inspect (traced E) verify k1 k2)"
  unfolding safe_inspect_def inspect_mirroring_def by (intro sends_rules)

end
