(* ===== verification/FwTheorems.thy ===== *)
theory FwTheorems
  imports FwMain Trace
begin

text \<open>
  What the main program of the firmware does to a card: which commands the polling loop and a BLE peer can cause to be
  sent, and how the safety switch reaches the service. \<open>traced_env\<close> wraps the reader to record every APDU.
\<close>

section \<open>Tracing the service\<close>

definition traced_env :: "('t, 'e, 'f, 'v) fw_env \<Rightarrow> ('t \<times> bytes list, 'e, 'f, 'v) fw_env" where
  "traced_env env =
    \<lparr>fe_link = traced (fe_link env),
     fe_activate = (\<lambda>(t, tr). case fe_activate env t of None \<Rightarrow> None | Some (r, t) \<Rightarrow> Some (r, (t, tr))),
     fe_rng = fe_rng env, fe_cmac = fe_cmac env, fe_verify = fe_verify env, fe_verified_uid = fe_verified_uid env,
     fe_nvs = fe_nvs env, fe_debug = fe_debug env\<rparr>"

definition fw_trace :: "('t \<times> bytes list, 'f) Esp32BoltyService \<Rightarrow> bytes list" where
  "fw_trace s = (case es_transceiver s of None \<Rightarrow> [] | Some (t, tr) \<Rightarrow> tr)"

lemma traced_env_simps [simp]:
  "fe_link (traced_env env) = traced (fe_link env)" "fe_verify (traced_env env) = fe_verify env"
  "fe_nvs (traced_env env) = fe_nvs env"
  by (simp_all add: traced_env_def)

lemma sends_weaken: "sends tr P m \<Longrightarrow> (\<And>a. P a \<Longrightarrow> Q a) \<Longrightarrow> sends tr Q m"
  unfolding sends_def by (blast intro: list.pred_mono_strong)

lemma sends_over_card [sends_rules]: "sends snd P m \<Longrightarrow> sends fw_trace P (over_card m)"
  by (rule sendsI) (auto simp: over_card_def fw_trace_def split: option.splits prod.splits dest!: sendsD)

lemma sends_activate [sends_rules]: "sends fw_trace P (activate_transport (traced_env env))"
  by (rule sendsI)
    (auto simp: activate_transport_def fw_trace_def traced_env_def set_nfc_ready_def split: option.splits prod.splits sum.splits)

lemma sends_modify [sends_rules]: "(\<And>s. fw_trace (f s) = fw_trace s) \<Longrightarrow> sends fw_trace P (modify_fw f)"
  by (auto simp: sends_def modify_fw_def)

lemma sends_saw [sends_rules]: "sends fw_trace P (saw_card uid a)" "sends fw_trace P get_fw" "sends fw_trace P (fw_rnd_a env)"
  by (auto simp: sends_def saw_card_def modify_fw_def fw_trace_def get_fw_def fw_rnd_a_def)

lemma sends_poll: "sends fw_trace read_only_apdu (poll_safe (traced_env env))"
  unfolding poll_safe_def Let_def
  by (intro sends_rules) (simp add: sends_safe_inspect)

lemma activate_silent: "activate_transport (traced_env env) s = Some (r, s') \<Longrightarrow> fw_trace s' = fw_trace s"
  using sendsD [OF sends_activate [where P = "\<lambda>_. False"], of env s r s'] by (cases "fw_trace s") (auto simp: list_all_iff)

section \<open>Polling\<close>

lemma put_service_simps [simp]:
  "fm_service (put_service s st) = s" "fm_config (put_service s st) = fm_config st"
  "fm_announced (put_service s st) = fm_announced st" "fm_serial (put_service s st) = fm_serial st"
  by (simp_all add: put_service_def put_core_def)

lemma serial_card_same:
  "serial_card a st = Some st' \<Longrightarrow> fm_shared st' = fm_shared st"
  by (auto simp: serial_card_def Let_def serial_line_def split: option.splits if_splits)

text \<open>
  C17. A card that lies on the reader is never used up by polling: whatever the card answers, a poll only sends commands
  that select and read, no authentication among them, so it cannot raise the card's failure counter; once the card is
  announced a poll sends nothing at all; and it never changes the configuration.
\<close>
theorem poll_read_only:
  assumes "poll_card (traced_env env) st = Some st'"
  shows "\<exists>new. fw_trace (fm_service st') = fw_trace (fm_service st) @ new \<and> list_all read_only_apdu new \<and>
    (fm_announced st \<longrightarrow> new = []) \<and> fm_config st' = fm_config st"
proof (cases "fm_announced st \<or> \<not> rt_service_ok (fm_shared st) \<or> \<not> nfc_available (fm_service st)")
  case True
  then have "fw_trace (fm_service st') = fw_trace (fm_service st) \<and> fm_config st' = fm_config st"
    using assms
    by (auto simp: poll_card_def on_service_def card_present_def catch_p_def split: if_splits option.splits prod.splits
        dest!: activate_silent)
  then show ?thesis
    by simp
next
  case False
  then obtain r s where poll: "poll_safe (traced_env env) (fm_service st) = Some (r, s)"
    using assms by (auto simp: poll_card_def on_service_def split: option.splits)
  then have "fm_shared st' = fm_shared (put_service s st)"
    using assms False
    by (auto simp: poll_card_def on_service_def split: sum.splits option.splits if_splits dest!: serial_card_same)
  moreover obtain new where "fw_trace s = fw_trace (fm_service st) @ new" "list_all read_only_apdu new"
    using sendsD [OF sends_poll poll] by blast
  ultimately show ?thesis
    using False by (auto simp: put_service_def put_core_def)
qed

text \<open>A reader whose card does not answer, and the device waiting for a card.\<close>

definition deaf_env :: "(unit, unit, unit, unit) fw_env" where
  "deaf_env =
    \<lparr>fe_link = \<lparr>lk_aes = \<lparr>aes_enc = (\<lambda>k x. x), aes_dec = (\<lambda>k x. x), aes_mac = (\<lambda>k m. replicate 16 0)\<rparr>,
        lk_transmit = (\<lambda>_ t. Some (Inl (), t)),
       lk_get_uid = (\<lambda>t. Some (Inr [4, 1, 2, 3, 4, 5, 6], t)), lk_compat = False\<rparr>,
     fe_activate = (\<lambda>t. Some (Inr [4, 1, 2, 3, 4, 5, 6], t)), fe_rng = (\<lambda>_. replicate 16 0), fe_cmac = (\<lambda>_ _. replicate 16 0),
     fe_verify = (\<lambda>_ _ _ _. None), fe_verified_uid = (\<lambda>_. None),
     fe_nvs = \<lparr>nv_open = (\<lambda>_ _. False), nv_get = (\<lambda>_ _. None), nv_set = (\<lambda>_ _ f. (False, f)), nv_commit = (\<lambda>f. (False, f))\<rparr>,
     fe_debug = (\<lambda>_. [])\<rparr>"

definition waiting_service :: "(unit \<times> bytes list, unit) Esp32BoltyService" where
  "waiting_service =
    \<lparr>es_transceiver = Some ((), []), es_raw_i2c = None, es_last_i2c_scan = [], es_current_config = bolty_config_default,
     es_keys = None, es_authenticated_key0 = None, es_last_card = assessment_default,
     es_status = \<lparr>ss_last_uid = None, ss_nfc_ready = True, ss_lnurl = None\<rparr>, es_display_init_ok = False, es_i2c_baudrate = 100000,
     es_flash = (), es_rng = 0\<rparr>"

definition waiting_shared :: "(unit \<times> bytes list, unit) Esp32BoltyService rest_state" where
  "waiting_shared =
    \<lparr>rt_core = \<lparr>fc_service = waiting_service, fc_config = bolty_config_default, fc_gate = gate_new\<rparr>, rt_config_ok = True,
     rt_service_ok = True, rt_last_write_us = 0, rt_rate_ok = True, rt_job = job_slot_new, rt_job_ok = True, rt_ticks = 0\<rparr>"

definition waiting :: "(unit \<times> bytes list, unit, unit) fw_main" where
  "waiting =
    \<lparr>fm_shared = waiting_shared, fm_serial = [], fm_wifi = None, fm_rest = False, fm_world = (), fm_button_mode = 0,
     fm_legacy_op = LgIdle, fm_announced = False, fm_buttons = None, fm_assembler = assembler_new, fm_next_poll_at = 0,
     fm_heartbeat_at = 0, fm_nfc_ready = True, fm_ticks = 0, fm_power = PowerOn\<rparr>"

lemmas deaf_simps = own_def on_link_def bind_p_def sess_def map_err_p_def ok_p_def catch_p_def deaf_env_def traced_def transmit_s_def
  select_ndef_application_def select_ndef_application_cmd_def iso_select_df_by_name_def NDEF_APPLICATION_DF_NAME_def MAX_DF_NAME_LEN_def
  session_get_def session_new_def

lemma deaf_inspect: "\<exists>i tr. safe_inspect (traced (fe_link deaf_env)) verify None None ((), []) = Some (Inr i, ((), tr)) \<and>
   length tr = 3 \<and> si_uid i = [4, 1, 2, 3, 4, 5, 6] \<and> si_file_settings i = None"
  by (simp add: safe_inspect_def get_selected_uid_def unauth_get_version_def get_version_def drive_chain_def
      request_intermediate_part_def unauth_get_file_settings_def read_file_unauthenticated_def select_file_def inspect_mirroring_def
      uid_to_fixed_def deaf_simps)

lemma deaf_activate: "fe_activate (traced_env deaf_env) (t, tr) = Some (Inr [4, 1, 2, 3, 4, 5, 6], (t, tr))"
  by (simp add: traced_env_def deaf_env_def)

lemmas waiting_simps = waiting_def waiting_shared_def waiting_service_def fw_trace_def

theorem poll_read_only_witness:
  "\<exists>st' new. poll_card (traced_env deaf_env) waiting = Some st' \<and> fw_trace (fm_service st') = new \<and>
    length new = 3 \<and> list_all read_only_apdu new"
proof -
  obtain i tr where i: "safe_inspect (traced (fe_link deaf_env)) (fe_verify deaf_env) None None ((), []) = Some (Inr i, ((), tr))"
    "length tr = 3" "si_uid i = [4, 1, 2, 3, 4, 5, 6]" "si_file_settings i = None"
    using deaf_inspect by blast
  have "\<exists>st'. poll_card (traced_env deaf_env) waiting = Some st' \<and> fw_trace (fm_service st') = tr"
    using i
    by (simp add: poll_card_def waiting_simps nfc_available_def on_service_def poll_safe_def ok_p_def catch_p_def bind_p_def
        activate_transport_def deaf_activate copy_uid7_def lift_r_def map_err_p_def over_card_def saw_card_def modify_fw_def
        uid_storage_from_fixed_def serial_card_def Let_def serial_line_def put_service_def put_core_def)
  then obtain st' where st': "poll_card (traced_env deaf_env) waiting = Some st'" "fw_trace (fm_service st') = tr"
    by blast
  moreover have "fw_trace (fm_service waiting) = []"
    by (simp add: waiting_simps)
  ultimately show ?thesis
    using poll_read_only [OF st'(1)] i(2) by auto
qed

section \<open>BLE\<close>

text \<open>Besides the reads: the two halves of an authentication, and GetKeyVersion.\<close>

definition harmless_apdu :: "bytes \<Rightarrow> bool" where
  "harmless_apdu apdu = (read_only_apdu apdu \<or> (2 \<le> length apdu \<and> apdu ! 1 \<in> {0x71, 0x64}))"

lemma sends_auth_first [sends_rules]: "sends snd harmless_apdu (authenticate_ev2_first (traced E) key_no key rnd)"
  unfolding authenticate_ev2_first_def build_part2_apdu_def Let_def
  by (intro sends_rules; simp add: harmless_apdu_def read_only_apdu_def)

lemma sends_authenticate [sends_rules]: "sends snd harmless_apdu (authenticate_aes (traced E) s key_no key rnd)"
  unfolding authenticate_aes_def
  by (intro sends_rules) (auto intro: sends_weaken [OF sends_select] simp: harmless_apdu_def)

lemma sends_pairs [sends_rules]: "(\<And>a b. x = (a, b) \<Longrightarrow> sends tr P (f a b)) \<Longrightarrow> sends tr P (case x of (a, b) \<Rightarrow> f a b)"
  by (cases x) simp

lemma sends_get_key_version [sends_rules]: "sends snd harmless_apdu (auth_get_key_version (traced E) s key_no)"
  unfolding auth_get_key_version_def get_key_version_def send_mac_def compute_cmd_mac_def verify_response_mac_and_advance_def Let_def
  by (intro sends_rules; simp add: harmless_apdu_def)

lemma sends_read_versions [sends_rules]: "sends snd harmless_apdu (read_versions (traced E) kns s)"
  by (induction kns arbitrary: s) (simp_all, (intro sends_rules; simp)+)

lemma sends_check_versions [sends_rules]: "sends snd harmless_apdu (check_key_versions (traced E) key rnd)"
  unfolding check_key_versions_def by (intro sends_rules)

lemma sends_inspect_key [sends_rules]: "sends fw_trace harmless_apdu (inspect_with_key (traced_env env) key)"
  unfolding inspect_with_key_def Let_def by (intro sends_rules; simp add: fw_trace_def) (intro sends_rules)

lemma sends_inspect: "sends fw_trace harmless_apdu (service_inspect (traced_env env))"
  unfolding service_inspect_def by (intro sends_rules)

lemma sends_check_blank: "sends fw_trace harmless_apdu (service_check_blank (traced_env env))"
  unfolding service_check_blank_def by (intro sends_rules sends_inspect)

text \<open>What a command over BLE may do to the state it shares with console and REST server.\<close>

definition ble_step ::
    "('t \<times> bytes list, 'f) Esp32BoltyService rest_state \<Rightarrow> ('t \<times> bytes list, 'f) Esp32BoltyService rest_state \<Rightarrow> bool" where
  "ble_step st st' \<longleftrightarrow>
    (\<exists>new. fw_trace (fc_service (rt_core st')) = fw_trace (fc_service (rt_core st)) @ new \<and> list_all harmless_apdu new) \<and>
    fc_config (rt_core st') = fc_config (rt_core st) \<and> rt_job st' = rt_job st \<and> rt_last_write_us st' = rt_last_write_us st"

lemma ble_step_refl [simp]: "ble_step st st"
  by (simp add: ble_step_def)

lemma ble_step_trans: "ble_step a b \<Longrightarrow> ble_step b c \<Longrightarrow> ble_step a c"
  by (auto simp: ble_step_def)

lemma dispatch_read_step:
  assumes "dispatch_command (esp32_service (traced_env env)) cmd (rt_core st) = Some (result, c)"
    "cmd \<in> {CmInspect, CmDiagnose, CmPicc, CmCheck}"
  shows "ble_step st (st\<lparr>rt_core := c\<rparr>)"
proof -
  consider (idle) "c = rt_core st" | (inspect) "cmd = CmInspect" | (check) "cmd = CmCheck"
    using assms by (auto simp: dispatch_command_def)
  then show ?thesis
  proof cases
    case inspect
    then obtain r s where "service_inspect (traced_env env) (fc_service (rt_core st)) = Some (r, s)"
      "fc_service c = s" "fc_config c = fc_config (rt_core st)"
      using assms(1)
      by (auto simp: dispatch_command_def card_transaction_def esp32_service_def note_card_transaction_def
          split: option.splits sum.splits prod.splits if_splits)
    then show ?thesis
      using sendsD [OF sends_inspect] by (auto simp: ble_step_def)
  next
    case check
    then obtain r s where "service_check_blank (traced_env env) (fc_service (rt_core st)) = Some (r, s)"
      "fc_service c = s" "fc_config c = fc_config (rt_core st)"
      using assms(1)
      by (auto simp: dispatch_command_def card_transaction_def esp32_service_def note_card_transaction_def outcome_def
          split: option.splits sum.splits prod.splits if_splits)
    then show ?thesis
      using sendsD [OF sends_check_blank] by (auto simp: ble_step_def)
  qed simp
qed

lemma ble_command_step:
  assumes "process_ble_command (esp32_service (traced_env env)) q cmd st = Some (response, st')"
  shows "ble_step st st'"
proof (cases "rt_service_ok st \<and> rt_config_ok st")
  case ok: True
  show ?thesis
  proof (cases "parse_command cmd")
    case (Inr command)
    show ?thesis
    proof (cases "command \<in> {CmInspect, CmDiagnose, CmPicc, CmCheck}")
      case True
      moreover have "command \<noteq> CmStatus" "command \<noteq> CmUid"
        using True by auto
      ultimately obtain result c where
        "dispatch_command (esp32_service (traced_env env)) command (rt_core st) = Some (result, c)" "st' = st\<lparr>rt_core := c\<rparr>"
        using assms ok Inr by (simp add: process_ble_command_def Let_def split: option.splits prod.splits)
      then show ?thesis
        using True dispatch_read_step by blast
    next
      case False
      then have "st' = st"
        using assms ok Inr by (cases command) (simp_all add: process_ble_command_def Let_def)
      then show ?thesis
        by simp
    qed
  qed (use assms ok in \<open>simp add: process_ble_command_def\<close>)
next
  case False
  then have "st' = st"
    using assms
    by (cases "parse_command cmd"; cases "projr (parse_command cmd)") (auto simp: process_ble_command_def Let_def split: if_splits)
  then show ?thesis
    by simp
qed

text \<open>
  C8. A BLE peer cannot modify a card or the device: however many commands it queues, whatever they say and whatever the
  card answers, the card is only sent commands that read or authenticate (no key, settings or data is ever written), and
  the configuration with its staged keys and tokens, the job slot and the rate limiter stay as they are.
\<close>
theorem ble_never_writes:
  assumes "ble_drain (esp32_service (traced_env env)) q B st (bl, g) = Some (st', (bl', g'))"
  shows "(\<exists>new. fw_trace (fc_service (rt_core st')) = fw_trace (fc_service (rt_core st)) @ new \<and> list_all harmless_apdu new) \<and>
    fc_config (rt_core st') = fc_config (rt_core st) \<and> rt_job st' = rt_job st \<and> rt_last_write_us st' = rt_last_write_us st"
  using assms unfolding ble_step_def [symmetric]
proof (induction "bl_cmd_queue bl" arbitrary: bl g st)
  case Nil
  then show ?case
    by (subst (asm) ble_drain.simps) simp
next
  case (Cons cmd cmds)
  then obtain response st1 where 1: "process_ble_command (esp32_service (traced_env env)) q cmd st = Some (response, st1)"
    by (subst (asm) (2) ble_drain.simps) (auto split: option.splits list.splits)
  then have "ble_drain (esp32_service (traced_env env)) q B st1
      (bl\<lparr>bl_cmd_queue := cmds\<rparr>, snd (send_response B response (bl\<lparr>bl_cmd_queue := cmds\<rparr>, g))) = Some (st', (bl', g'))"
    using Cons.prems Cons.hyps(2) by (subst (asm) ble_drain.simps) (simp split: list.splits)
  then have "ble_step st1 st'"
    by (rule Cons.hyps(1) [rotated]) simp
  then show ?case
    using ble_command_step [OF 1] by (rule ble_step_trans [rotated])
qed

text \<open>A peer that asks for a write and for an inspection.\<close>

definition asked :: "unit ble_state" where
  "asked = ble_state_default\<lparr>bl_cmd_queue := [''burn'', ''inspect'']\<rparr>"

lemma asked_parsed: "parse_command ''burn'' = Inr CmBurn" "parse_command ''inspect'' = Inr CmInspect"
proof -
  have "str_trim ''burn'' = ''burn''" "str_trim ''inspect'' = ''inspect''"
    by (rule str_trim_ends; simp)+
  then show "parse_command ''burn'' = Inr CmBurn" "parse_command ''inspect'' = Inr CmInspect"
    by (simp_all add: parse_command_def PLAIN_COMMANDS_def eq_ignore_ascii_case_def ascii_lower_def split_ascii_whitespace.simps
        is_ascii_whitespace_def expect_no_args_def bind_r_def)
qed

lemma deaf_read: "\<exists>r c. dispatch_command (esp32_service (traced_env deaf_env)) CmInspect (rt_core waiting_shared) = Some (r, c)"
  by (simp add: dispatch_command_def esp32_service_def service_inspect_def inspect_with_key_def waiting_simps get_fw_def
      activate_transport_def traced_env_def copy_uid7_def lift_r_def fw_rnd_a_def over_card_def check_key_versions_def authenticate_aes_def
      card_transaction_def deaf_simps)

theorem ble_never_writes_witness:
  "\<exists>st' bl' g'. ble_drain (esp32_service (traced_env deaf_env)) id (\<lambda>_ g. (True, g)) waiting_shared (asked, ()) = Some (st', (bl', g')) \<and>
    list_all harmless_apdu (fw_trace (fc_service (rt_core st'))) \<and> rt_job st' = job_slot_new"
proof -
  let ?S = "esp32_service (traced_env deaf_env)"
  obtain r c where "dispatch_command ?S CmInspect (rt_core waiting_shared) = Some (r, c)"
    using deaf_read by blast
  then have "process_ble_command ?S id ''burn'' waiting_shared = Some (''[FAIL] write commands blocked via BLE (issue #34)'', waiting_shared)"
    "\<exists>response. process_ble_command ?S id ''inspect'' waiting_shared = Some (response, waiting_shared\<lparr>rt_core := c\<rparr>)"
    by (simp_all add: process_ble_command_def asked_parsed waiting_shared_def Let_def)
  then obtain st' bl' g' where run: "ble_drain ?S id (\<lambda>_ g. (True, g)) waiting_shared (asked, ()) = Some (st', (bl', g'))"
    by (auto simp: ble_drain.simps asked_def)
  moreover have "fw_trace (fc_service (rt_core waiting_shared)) = []" "rt_job waiting_shared = job_slot_new"
    by (simp_all add: waiting_simps)
  ultimately show ?thesis
    using ble_never_writes [OF run] by auto
qed

section \<open>The safety switch\<close>

text \<open>\<open>force\<close> changes the shared configuration and the flash, but not the copy the service acts on.\<close>

lemma force_not_synced:
  assumes "parse_pre_dispatch_command line = Some (if on then PdForceOn else PdForceOff)"
    and "console_line env pf line st = Some st'" "rt_config_ok (fm_shared st)"
  shows "force_unsafe (fm_config st') = on \<and>
    force_unsafe (es_current_config (fm_service st')) = force_unsafe (es_current_config (fm_service st))"
  using assms
  by (cases on) (auto simp: console_line_def set_force_def Let_def serial_line_def put_flash_def put_service_def
      put_config_def put_core_def)

text \<open>The copy follows with the next command that reaches the dispatcher, after that command has run.\<close>

lemma dispatch_syncs:
  assumes "dispatch_sync (esp32_service env) cmd c = Some (result, c')"
  shows "es_current_config (fc_service c') = fc_config c'"
  using assms
  by (auto simp: dispatch_sync_def esp32_service_def sync_from_def sync_config_def Let_def split: option.splits prod.splits if_splits)

section \<open>Start-up\<close>

lemma commit_if_get:
  assumes "nvs_ok N" "nv_set N k v f = (True, f')"
  shows "nv_get N k (commit_if N (True, f')) = Some v" "j \<noteq> k \<Longrightarrow> nv_get N j (commit_if N (True, f')) = nv_get N j f"
    "nv_open N w (commit_if N (True, f')) = nv_open N w f"
  using nvs_get_set [OF assms] nvs_get_commit [OF assms(1)] nvs_open_set [OF assms] nvs_open_commit [OF assms(1)]
  by (cases "nv_commit N f'"; simp add: commit_if_def)+

text \<open>A flash that accepts writes.\<close>

definition nvs_writable :: "'f nvs_api \<Rightarrow> bool" where
  "nvs_writable N \<longleftrightarrow> nvs_ok N \<and> (\<forall>w f. nv_open N w f) \<and> (\<forall>k v f. fst (nv_set N k v f))"

text \<open>Every boot is counted, without wrapping, and a boot that follows a crash records the reason and the boot it ended.\<close>

lemma count_boot_recorded:
  assumes "nvs_writable N" "count_boot N reason f = (count, f')"
  shows "load_boot_count N f' = count \<and> unat count = min (unat (load_boot_count N f) + 1) (2 ^ 32 - 1) \<and>
    (abnormal_reset reason \<longrightarrow> load_crash_info N f' = Some (of_nat reason, count - 1))"
proof -
  have ok: "nvs_ok N" "nv_open N w g" "fst (nv_set N k v g)" for w g k v
    using assms(1) by (simp_all add: nvs_writable_def)
  define n where "n = load_boot_count N f"
  have count: "count = (if n = - 1 then n else n + 1)"
    using assms(2) by (auto simp: count_boot_def n_def Let_def)
  have "count \<noteq> 0"
    using count by (auto simp: eq_neg_iff_add_eq_0)
  have "unat count = min (unat n + 1) (2 ^ 32 - 1)"
  proof (cases "n = - 1")
    case False
    then have "unat count = unat n + 1"
      using unatSuc [of n] \<open>count \<noteq> 0\<close> by (simp add: count add.commute)
    then show ?thesis
      using unsigned_less [of count, where 'a = nat] by simp
  qed (simp add: count unsigned_minus_1_eq_mask mask_eq_exp_minus_1)
  have set_ok: "\<exists>g'. nv_set N k v g = (True, g')" for k v g
    using ok(3) [of k v g] by (cases "nv_set N k v g") auto
  obtain f1 where 1: "nv_set N ''bootcnt'' (NvU32 count) f = (True, f1)"
    using set_ok by blast
  let ?f1 = "commit_if N (True, f1)"
  obtain f2 where f2: "nv_set N ''crashrsn'' (NvU8 (of_nat reason)) ?f1 = (True, f2)"
    using set_ok by blast
  then obtain f3 where 2: "nv_set N ''crashrsn'' (NvU8 (of_nat reason)) ?f1 = (True, f2)"
    "nv_set N ''crashboot'' (NvU32 (count - 1)) f2 = (True, f3)"
    using set_ok by blast
  have f': "f' = (if abnormal_reset reason then commit_if N (True, f3) else ?f1)"
    using assms(2) 1 2 ok(2) \<open>count \<noteq> 0\<close> count
    by (auto simp: count_boot_def save_boot_count_def save_crash_info_def Let_def n_def [symmetric])
  have g1: "nv_get N ''bootcnt'' ?f1 = Some (NvU32 count)"
    using commit_if_get [OF ok(1) 1] by simp
  have g3: "nv_get N ''bootcnt'' (commit_if N (True, f3)) = Some (NvU32 count)"
    "nv_get N ''crashrsn'' (commit_if N (True, f3)) = Some (NvU8 (of_nat reason))"
    "nv_get N ''crashboot'' (commit_if N (True, f3)) = Some (NvU32 (count - 1))"
    using commit_if_get [OF ok(1) 2(2)] nvs_get_set [OF ok(1) 2(1)] g1 by simp_all
  with \<open>unat count = _\<close> show ?thesis
    using f' g1 ok(2) by (simp add: load_boot_count_def load_crash_info_def n_def)
qed

section \<open>The hardware test ends\<close>

text \<open>A step of the hardware test that polls until a deadline returns as soon as the clock has passed it.\<close>

lemma wait_for_returns:
  assumes body: "\<And>st. \<exists>r st'. body st = Some (r, st') \<and> fm_ticks st \<le> fm_ticks st'"
    and clock: "\<And>k. n \<le> k \<Longrightarrow> limit \<le> saturating_diff (pf_clock pf k) start"
  shows "\<exists>r st'. wait_for pf limit start body st = Some (r, st')"
proof (induction "n - fm_ticks st" arbitrary: st rule: less_induct)
  case less
  let ?st = "st\<lparr>fm_ticks := fm_ticks st + 1\<rparr>"
  show ?case
  proof (cases "saturating_diff (pf_clock pf (fm_ticks st)) start < limit")
    case True
    then have "fm_ticks st < n"
      using clock [of "fm_ticks st"] by (meson leD not_le)
    obtain r st1 where 1: "body ?st = Some (r, st1)" "fm_ticks ?st \<le> fm_ticks st1"
      using body by blast
    then have "n - fm_ticks st1 < n - fm_ticks st"
      using \<open>fm_ticks st < n\<close> by simp
    then obtain r' st' where "wait_for pf limit start body st1 = Some (r', st')"
      using less by blast
    then show ?thesis
      using True 1(1) by (subst wait_for.simps) (simp add: millis_def split: option.splits)
  qed (subst wait_for.simps, simp add: millis_def)
qed

lemma button_test_total: "\<exists>r st'. button_test pf front st = Some (r, st') \<and> fm_ticks st \<le> fm_ticks st'"
  by (auto simp: button_test_def millis_def poll_buttons_def serial_line_def Let_def split: option.splits prod.splits)

end
