(* ===== verification/Spec2Isabelle.thy ===== *)
theory Spec2Isabelle
  imports Picc Assessment CliTheorems Readers FwRestTheorems FwLife FwTheorems
begin

text \<open>
  Verification library for the Bolt Card tooling.
\<close>

end
